(* ===== verification/Prelude.thy ===== *)
theory Prelude
  imports Main "HOL-Library.Sublist" "HOL-Library.Char_ord" "HOL-Library.List_Lexorder"
begin

text \<open>
  Shared vocabulary of the development: Go errors and results as values, and the functions of
  the Go packages \<^verbatim>\<open>strings\<close> and \<^verbatim>\<open>strconv\<close> that the controller calls, with the
  lemmas on them that the components share. A Go string is a byte sequence and is modelled by
  \<^typ>\<open>string\<close>, a list of eight-bit characters.
\<close>

named_theorems frame_simps "what an operation leaves unchanged"
named_theorems split_simps "splitting and joining of slash separated strings"

section \<open>Errors and results\<close>

text \<open>
  A Go error is a value that remembers how it was built. \<^verbatim>\<open>fmt.Errorf\<close> with the verbs
  \<^verbatim>\<open>%s\<close>, \<^verbatim>\<open>%v\<close> and \<^verbatim>\<open>%q\<close> formats an error argument to text, so the result does not
  unwrap to it; only the verb \<^verbatim>\<open>%w\<close> keeps the chain. The first form is \<open>Errorf\<close> and the
  second \<open>ErrorfW\<close>; the arguments are kept unrendered. \<open>PathError\<close> is \<^verbatim>\<open>*fs.PathError\<close> (and
  \<^verbatim>\<open>*os.LinkError\<close>), \<open>UrlError\<close> is the \<^verbatim>\<open>*url.Error\<close> of an HTTP client, and \<open>DownloadError\<close> is
  \<^verbatim>\<open>*downloadError\<close> of \<^verbatim>\<open>controllers/internal.go\<close>, which has no \<^verbatim>\<open>Unwrap\<close> method.
\<close>

datatype go_error =
    ErrNotExist
  | ErrExist
  | ErrNotDir
  | ErrIsDir
  | ErrIO string
  | DeadlineExceeded
  | ApiNotFound string
  | External string
  | ErrorText string
  | PathError go_error
  | UrlError go_error
  | Errorf string "fmt_arg list"
  | ErrorfW string "fmt_arg list" go_error
  | DownloadError go_error int
and fmt_arg =
    AStr string
  | AInt int
  | AErr go_error

text \<open>\<^verbatim>\<open>errors.Is\<close>: the error itself or an error of its \<^verbatim>\<open>Unwrap\<close> chain.\<close>

fun errors_Is :: "go_error \<Rightarrow> go_error \<Rightarrow> bool" where
  "errors_Is (PathError e) t = (PathError e = t \<or> errors_Is e t)"
| "errors_Is (UrlError e) t = (UrlError e = t \<or> errors_Is e t)"
| "errors_Is (ErrorfW f as e) t = (ErrorfW f as e = t \<or> errors_Is e t)"
| "errors_Is e t = (e = t)"

text \<open>
  A Go call returns a value, returns an error, or panics (a nil dereference, an index out of
  range). All three are values of the model.
\<close>

datatype 'a outcome = Ok 'a | Error go_error | Panic string

definition is_Ok :: "'a outcome \<Rightarrow> bool" where
  "is_Ok r \<longleftrightarrow> (case r of Ok _ \<Rightarrow> True | _ \<Rightarrow> False)"

definition is_Panic :: "'a outcome \<Rightarrow> bool" where
  "is_Panic r \<longleftrightarrow> (case r of Panic _ \<Rightarrow> True | _ \<Rightarrow> False)"

lemma is_Ok_simps [simp]: "is_Ok (Ok a)" "\<not> is_Ok (Error e)" "\<not> is_Ok (Panic m)"
  by (simp_all add: is_Ok_def)

lemma is_Panic_simps [simp]: "\<not> is_Panic (Ok a)" "\<not> is_Panic (Error e)" "is_Panic (Panic m)"
  by (simp_all add: is_Panic_def)

section \<open>Package strings\<close>

abbreviation HasPrefix :: "string \<Rightarrow> string \<Rightarrow> bool" where
  "HasPrefix s p \<equiv> prefix p s"

abbreviation HasSuffix :: "string \<Rightarrow> string \<Rightarrow> bool" where
  "HasSuffix s p \<equiv> suffix p s"

definition ContainsAny :: "string \<Rightarrow> string \<Rightarrow> bool" where
  "ContainsAny s chars = list_ex (\<lambda>c. c \<in> set chars) s"

lemma ContainsAny_iff [simp]: "ContainsAny s chars \<longleftrightarrow> set s \<inter> set chars \<noteq> {}"
  by (auto simp: ContainsAny_def list_ex_iff)

text \<open>\<^verbatim>\<open>strings.Split\<close> with a separator of one byte.\<close>

fun Split :: "string \<Rightarrow> char \<Rightarrow> string list" where
  "Split [] c = [[]]"
| "Split (x # xs) c =
     (if x = c then [] # Split xs c
      else (case Split xs c of [] \<Rightarrow> [[x]] | w # ws \<Rightarrow> (x # w) # ws))"

text \<open>\<^verbatim>\<open>strings.Join\<close> with a separator of one byte.\<close>

fun join_with :: "char \<Rightarrow> string list \<Rightarrow> string" where
  "join_with c [] = []"
| "join_with c [w] = w"
| "join_with c (w # ws) = w @ c # join_with c ws"

text \<open>\<^verbatim>\<open>strings.ReplaceAll\<close> of one byte by another.\<close>

definition ReplaceAll :: "string \<Rightarrow> char \<Rightarrow> char \<Rightarrow> string" where
  "ReplaceAll s old new = map (\<lambda>c. if c = old then new else c) s"

text \<open>\<^verbatim>\<open>strings.Replace\<close> with count 1 and a non-empty pattern: the leftmost occurrence.\<close>

fun Replace1 :: "string \<Rightarrow> string \<Rightarrow> string \<Rightarrow> string" where
  "Replace1 [] old new = (if old = [] then new else [])"
| "Replace1 (x # xs) old new =
     (if prefix old (x # xs) then new @ drop (length old) (x # xs)
      else x # Replace1 xs old new)"

text \<open>\<^verbatim>\<open>strings.Cut\<close> at one byte: the text after the separator, empty when there is none.\<close>

definition cut_after :: "string \<Rightarrow> char \<Rightarrow> string" where
  "cut_after s c = tl (dropWhile (\<lambda>x. x \<noteq> c) s)"

text \<open>Decimal rendering of a natural number.\<close>

fun itoa :: "nat \<Rightarrow> string" where
  "itoa n = (if n < 10 then [char_of (48 + n)] else itoa (n div 10) @ [char_of (48 + n mod 10)])"

declare itoa.simps [simp del]

section \<open>Lemmas on splitting and joining\<close>

lemma Split_not_Nil [simp]: "Split s c \<noteq> []"
  by (induction s) (auto split: list.splits)

lemma Split_append [split_simps]: "Split (a @ c # b) c = Split a c @ Split b c"
proof (induction a)
  case Nil
  then show ?case by simp
next
  case (Cons x a)
  then show ?case by (cases "Split a c") auto
qed

lemma Split_no_sep [simp]: "c \<notin> set w \<Longrightarrow> Split w c = [w]"
  by (induction w) auto

lemma Split_words_no_sep: "w \<in> set (Split s c) \<Longrightarrow> c \<notin> set w"
proof (induction s arbitrary: w)
  case Nil
  then show ?case by simp
next
  case (Cons x s)
  show ?case
  proof (cases "x = c")
    case True
    with Cons show ?thesis by auto
  next
    case False
    then show ?thesis using Cons by (cases "Split s c") auto
  qed
qed

lemma Split_join_with [split_simps]:
  "ws \<noteq> [] \<Longrightarrow> \<forall>w \<in> set ws. c \<notin> set w \<Longrightarrow> Split (join_with c ws) c = ws"
  by (induction c ws rule: join_with.induct) (auto simp: Split_append)

lemma join_with_Split [simp]: "join_with c (Split s c) = s"
proof (induction s)
  case Nil
  then show ?case by simp
next
  case (Cons x s)
  then show ?case
    by (cases "Split s c"; cases "tl (Split s c)") auto
qed

lemma join_with_Cons: "ws \<noteq> [] \<Longrightarrow> join_with c (w # ws) = w @ c # join_with c ws"
  by (cases ws) auto

lemma join_with_append [split_simps]:
  "us \<noteq> [] \<Longrightarrow> vs \<noteq> [] \<Longrightarrow> join_with c (us @ vs) = join_with c us @ c # join_with c vs"
  by (induction c us rule: join_with.induct) (auto simp: join_with_Cons)

lemma set_join_with: "set (join_with c ws) \<subseteq> insert c (\<Union> (set ` set ws))"
  by (induction c ws rule: join_with.induct) auto

lemma itoa_digits: "set (itoa n) \<subseteq> char_of ` {48 ..< 58 :: nat}"
proof (induction n rule: itoa.induct)
  case (1 n)
  show ?case
  proof (cases "n < 10")
    case True
    then show ?thesis by (subst itoa.simps) auto
  next
    case False
    with 1 have "set (itoa (n div 10)) \<subseteq> char_of ` {48 ..< 58 :: nat}" by simp
    with False show ?thesis by (subst itoa.simps) auto
  qed
qed

lemma itoa_not_Nil [simp]: "itoa n \<noteq> []"
  by (subst itoa.simps) simp

lemma itoa_no_sep [simp]: "CHR ''/'' \<notin> set (itoa n)" "CHR ''.'' \<notin> set (itoa n)"
proof -
  have slash: "CHR ''/'' \<notin> char_of ` {48 ..< 58 :: nat}"
    and dot: "CHR ''.'' \<notin> char_of ` {48 ..< 58 :: nat}"
    by (auto dest!: arg_cong [where f = "of_char :: char \<Rightarrow> nat"] simp: of_char_of)
  from slash itoa_digits [of n] show "CHR ''/'' \<notin> set (itoa n)" by blast
  from dot itoa_digits [of n] show "CHR ''.'' \<notin> set (itoa n)" by blast
qed

end
