(* ===== verification/Go_Path.thy ===== *)
theory Go_Path
  imports Prelude
begin

text \<open>
  The Go packages \<^verbatim>\<open>path\<close> and \<^verbatim>\<open>path/filepath\<close> (which agree on Unix): \<^verbatim>\<open>Clean\<close>, \<^verbatim>\<open>Join\<close>,
  \<^verbatim>\<open>Base\<close>, \<^verbatim>\<open>Dir\<close>, \<^verbatim>\<open>IsAbs\<close> and \<^verbatim>\<open>Rel\<close>, on strings, by way of the list of slash separated
  components, and the components to which the operating system resolves a path. The lemmas
  are those the controllers' path safety rests on: cleaning is idempotent, joining a relative
  name onto a clean directory only ever walks from that directory, and a clean path with a
  directory as textual prefix lies below it.
\<close>

section \<open>Cleaning\<close>

abbreviation slash :: char where
  "slash \<equiv> CHR ''/''"

definition IsAbs :: "string \<Rightarrow> bool" where
  "IsAbs p = prefix [slash] p"

text \<open>
  The loop of \<^verbatim>\<open>path.Clean\<close>: empty and \<^verbatim>\<open>.\<close> components are dropped, \<^verbatim>\<open>..\<close> removes the last
  kept component; at the root of a rooted path it is dropped, and a path that is not rooted
  keeps it when there is nothing left to remove. The accumulator is the output so far, last
  component first.
\<close>

fun clean_comps :: "bool \<Rightarrow> string list \<Rightarrow> string list \<Rightarrow> string list" where
  "clean_comps rooted out [] = rev out"
| "clean_comps rooted out (c # cs) =
     (if c = [] \<or> c = ''.'' then clean_comps rooted out cs
      else if c = ''..'' then
        (case out of
           [] \<Rightarrow> clean_comps rooted (if rooted then [] else [c]) cs
         | d # out' \<Rightarrow>
             if \<not> rooted \<and> d = ''..'' then clean_comps rooted (c # out) cs
             else clean_comps rooted out' cs)
      else clean_comps rooted (c # out) cs)"

definition render :: "bool \<Rightarrow> string list \<Rightarrow> string" where
  "render rooted cs =
     (if rooted then slash # join_with slash cs
      else if cs = [] then ''.'' else join_with slash cs)"

definition comps :: "string \<Rightarrow> string list" where
  "comps p = clean_comps (IsAbs p) [] (Split p slash)"

definition Clean :: "string \<Rightarrow> string" where
  "Clean p = (if p = [] then ''.'' else render (IsAbs p) (comps p))"

text \<open>\<^verbatim>\<open>path.Join\<close>: leading empty elements are ignored and no element at all gives the empty path.\<close>

definition Join :: "string list \<Rightarrow> string" where
  "Join es = (case dropWhile (\<lambda>e. e = []) es of [] \<Rightarrow> [] | fs \<Rightarrow> Clean (join_with slash fs))"

text \<open>\<^verbatim>\<open>path.Base\<close>: the last element after trailing slashes are removed.\<close>

definition strip_slashes :: "string \<Rightarrow> string" where
  "strip_slashes p = rev (dropWhile (\<lambda>c. c = slash) (rev p))"

definition Base :: "string \<Rightarrow> string" where
  "Base p =
     (if p = [] then ''.''
      else let q = strip_slashes p;
               b = rev (takeWhile (\<lambda>c. c \<noteq> slash) (rev q))
           in if b = [] then [slash] else b)"

text \<open>\<^verbatim>\<open>path.Dir\<close>: everything up to the last slash, cleaned.\<close>

definition path_Dir :: "string \<Rightarrow> string" where
  "path_Dir p = Clean (rev (dropWhile (\<lambda>c. c \<noteq> slash) (rev p)))"

text \<open>\<^verbatim>\<open>filepath.Rel\<close> on the components of the two cleaned paths.\<close>

fun rel_comps :: "string list \<Rightarrow> string list \<Rightarrow> string list option" where
  "rel_comps [] ts = Some ts"
| "rel_comps bs [] = (if ''..'' \<in> set bs then None else Some (replicate (length bs) ''..''))"
| "rel_comps (b # bs) (t # ts) =
     (if b = t then rel_comps bs ts
      else if ''..'' \<in> set (b # bs) then None
      else Some (replicate (length (b # bs)) ''..'' @ t # ts))"

definition Rel :: "string \<Rightarrow> string \<Rightarrow> string outcome" where
  "Rel base targ =
     (if IsAbs base \<noteq> IsAbs targ then Error (ErrorText ''Rel: can't make path relative'')
      else case rel_comps (comps base) (comps targ) of
             None \<Rightarrow> Error (ErrorText ''Rel: can't make path relative'')
           | Some [] \<Rightarrow> Ok ''.''
           | Some rs \<Rightarrow> Ok (join_with slash rs))"

text \<open>
  The components of the file a path names: relative to the working directory \<open>cwd\<close> unless it
  is absolute, with \<^verbatim>\<open>.\<close> and \<^verbatim>\<open>..\<close> followed. There are no symbolic links in the model.
\<close>

definition resolve :: "string list \<Rightarrow> string \<Rightarrow> string list" where
  "resolve cwd p = clean_comps True (if IsAbs p then [] else rev cwd) (Split p slash)"

section \<open>Clean component lists\<close>

text \<open>A proper component names a directory entry.\<close>

definition proper :: "string \<Rightarrow> bool" where
  "proper c \<longleftrightarrow> c \<noteq> [] \<and> c \<noteq> ''.'' \<and> c \<noteq> ''..'' \<and> slash \<notin> set c"

definition clean_list :: "bool \<Rightarrow> string list \<Rightarrow> bool" where
  "clean_list rooted cs \<longleftrightarrow>
     (\<exists>n ps. cs = replicate n ''..'' @ ps \<and> list_all proper ps \<and> (rooted \<longrightarrow> n = 0))"

lemma proper_dotdot [simp]: "\<not> proper ''..''" "\<not> proper ''.''" "\<not> proper []"
  by (simp_all add: proper_def)

lemma clean_listI: "list_all proper cs \<Longrightarrow> clean_list r cs"
  unfolding clean_list_def by (rule exI [of _ 0]) simp

lemma clean_list_rooted [simp]: "clean_list True cs \<longleftrightarrow> list_all proper cs"
  by (auto simp: clean_list_def)

lemma proper_no_slash: "proper c \<Longrightarrow> slash \<notin> set c"
  by (simp add: proper_def)

lemma clean_list_no_slash:
  assumes "clean_list r cs"
  shows "\<forall>w \<in> set cs. slash \<notin> set w"
proof
  fix w
  assume "w \<in> set cs"
  with assms have "w = ''..'' \<or> proper w"
    unfolding clean_list_def list_all_iff by (metis Un_iff in_set_replicate set_append)
  then show "slash \<notin> set w" by (auto simp: proper_no_slash)
qed

lemma clean_list_Nil [simp]: "clean_list r []"
  by (simp add: clean_listI)

lemma clean_list_snoc:
  assumes "clean_list r cs" and "proper c"
  shows "clean_list r (cs @ [c])"
proof -
  obtain n ps where "cs = replicate n ''..'' @ ps" "list_all proper ps" "r \<longrightarrow> n = 0"
    using assms(1) by (auto simp: clean_list_def)
  with assms(2) show ?thesis
    unfolding clean_list_def by (intro exI [of _ n] exI [of _ "ps @ [c]"]) simp
qed

lemma clean_list_snoc_dotdot:
  assumes "clean_list False (cs @ [''..''])"
  shows "clean_list False (cs @ [''..'', ''..''])"
proof -
  obtain n ps where eq: "cs @ [''..''] = replicate n ''..'' @ ps" and ps: "list_all proper ps"
    using assms by (auto simp: clean_list_def)
  have "ps = []"
  proof (cases ps rule: rev_cases)
    case (snoc qs q)
    with eq have "q = ''..''" by simp
    with snoc ps show ?thesis by simp
  qed simp
  with eq have "cs @ [''..'', ''..''] = replicate (Suc n) ''..''"
    by (simp add: replicate_append_same [symmetric])
  then show ?thesis unfolding clean_list_def by (metis append_Nil2 list.pred_inject(1))
qed

lemma clean_list_butlast:
  assumes "clean_list r (cs @ [c])"
  shows "clean_list r cs"
proof -
  obtain n ps where eq: "cs @ [c] = replicate n ''..'' @ ps" and ps: "list_all proper ps"
    and n: "r \<longrightarrow> n = 0"
    using assms by (auto simp: clean_list_def)
  show ?thesis
  proof (cases ps rule: rev_cases)
    case Nil
    with eq obtain m where m: "n = Suc m" "cs = replicate m ''..''"
      by (cases n) (auto simp: replicate_append_same [symmetric])
    with n show ?thesis unfolding clean_list_def by (intro exI [of _ m] exI [of _ "[]"]) simp
  next
    case (snoc qs q)
    with eq ps n show ?thesis by (auto simp: clean_list_def)
  qed
qed

lemma clean_comps_clean:
  assumes "clean_list r (rev out)" and "\<forall>w \<in> set cs. slash \<notin> set w"
  shows "clean_list r (clean_comps r out cs)"
  using assms
proof (induction r out cs rule: clean_comps.induct)
  case (1 r out)
  then show ?case by simp
next
  case (2 r out c cs)
  show ?case
  proof (cases "c = [] \<or> c = ''.''")
    case True
    with 2 show ?thesis by auto
  next
    case notdot: False
    show ?thesis
    proof (cases "c = ''..''")
      case False
      with notdot 2 have "proper c" by (simp add: proper_def)
      with 2 have "clean_list r (rev (c # out))" by (simp add: clean_list_snoc)
      with False notdot 2 show ?thesis by simp
    next
      case True
      show ?thesis
      proof (cases out)
        case Nil
        have "clean_list False [''..'']"
          unfolding clean_list_def by (intro exI [of _ 1] exI [of _ "[]"]) simp
        with Nil True 2 show ?thesis by (auto split: if_splits)
      next
        case (Cons d out')
        have "clean_list r (rev out' @ [d])" using "2.prems"(1) Cons by simp
        then have "clean_list r (rev out')"
          and "\<not> r \<Longrightarrow> d = ''..'' \<Longrightarrow> clean_list r (rev (c # out))"
          using Cons True clean_list_butlast clean_list_snoc_dotdot [of "rev out'"] by auto
        then show ?thesis using True Cons 2 by auto
      qed
    qed
  qed
qed

lemma clean_comps_append:
  "clean_comps r out (xs @ ys) = clean_comps r (rev (clean_comps r out xs)) ys"
  by (induction r out xs rule: clean_comps.induct) (auto split: list.splits)

lemma clean_comps_proper:
  "list_all proper cs \<Longrightarrow> clean_comps r out cs = rev out @ cs"
  by (induction cs arbitrary: out) (auto simp: proper_def)

lemma clean_comps_dotdots:
  "clean_comps False (replicate m ''..'') (replicate n ''..'') = replicate (m + n) ''..''"
proof (induction n arbitrary: m)
  case 0
  then show ?case by simp
next
  case (Suc n)
  then show ?case using Suc.IH [of "Suc m"] by (cases m) auto
qed

lemma clean_comps_id:
  assumes "clean_list r cs"
  shows "clean_comps r [] cs = cs"
proof -
  obtain n ps where cs: "cs = replicate n ''..'' @ ps" and ps: "list_all proper ps"
    and n: "r \<longrightarrow> n = 0"
    using assms by (auto simp: clean_list_def)
  show ?thesis
  proof (cases r)
    case True
    with cs ps n show ?thesis by (simp add: clean_comps_proper)
  next
    case False
    have "clean_comps False [] (replicate n ''..'') = replicate n ''..''"
      using clean_comps_dotdots [of 0 n] by simp
    with cs ps False show ?thesis by (simp add: clean_comps_append clean_comps_proper)
  qed
qed

lemma comps_clean: "clean_list (IsAbs p) (comps p)"
  unfolding comps_def by (rule clean_comps_clean) (auto dest: Split_words_no_sep)

section \<open>Clean, Join and Base\<close>

lemma join_with_head_not_slash:
  assumes "clean_list r cs" and "cs \<noteq> []"
  shows "\<not> IsAbs (join_with slash cs)"
proof -
  obtain c cs' where cs: "cs = c # cs'" using assms(2) by (cases cs) auto
  have "slash \<notin> set c" using clean_list_no_slash [OF assms(1)] cs by simp
  moreover have "c \<noteq> []"
  proof -
    obtain n ps where *: "cs = replicate n ''..'' @ ps" "list_all proper ps"
      using assms(1) by (auto simp: clean_list_def)
    then show ?thesis using cs by (cases n; cases ps) (auto simp: proper_def)
  qed
  ultimately show ?thesis using cs by (cases c; cases cs') (auto simp: IsAbs_def)
qed

lemma IsAbs_render: "clean_list r cs \<Longrightarrow> IsAbs (render r cs) = r"
  using join_with_head_not_slash by (cases r) (auto simp: render_def IsAbs_def)

lemma render_not_Nil [simp]: "clean_list r cs \<Longrightarrow> render r cs \<noteq> []"
proof -
  assume cl: "clean_list r cs"
  show ?thesis
  proof (cases "r \<or> cs = []")
    case False
    then obtain c cs' where cs: "cs = c # cs'" by (cases cs) auto
    obtain n ps where *: "cs = replicate n ''..'' @ ps" "list_all proper ps"
      using cl by (auto simp: clean_list_def)
    then have "c \<noteq> []" using cs by (cases n; cases ps) (auto simp: proper_def)
    with False cs show ?thesis by (cases cs') (auto simp: render_def)
  qed (auto simp: render_def)
qed

lemma comps_render: "clean_list r cs \<Longrightarrow> comps (render r cs) = cs"
proof -
  assume cl: "clean_list r cs"
  note abs = IsAbs_render [OF cl]
  have split: "cs \<noteq> [] \<Longrightarrow> Split (join_with slash cs) slash = cs"
    by (rule Split_join_with) (auto dest: clean_list_no_slash [OF cl, rule_format])
  show ?thesis
  proof (cases "cs = []")
    case True
    then show ?thesis by (auto simp: comps_def render_def)
  next
    case False
    have "clean_comps r [] (Split (render r cs) slash) = clean_comps r [] cs"
      using False split by (cases r) (auto simp: render_def)
    with abs show ?thesis by (simp add: comps_def clean_comps_id [OF cl])
  qed
qed

lemma Clean_not_Nil [simp]: "Clean p \<noteq> []"
  by (simp add: Clean_def comps_clean)

lemma IsAbs_Clean [simp]: "IsAbs (Clean p) = IsAbs p"
  using IsAbs_render [OF comps_clean [of p]] by (auto simp: Clean_def IsAbs_def)

lemma comps_Nil [simp]: "comps [] = []"
  by (simp add: comps_def)

lemma comps_Clean [simp]: "comps (Clean p) = comps p"
  using comps_render [OF comps_clean [of p]] by (auto simp: Clean_def comps_def)

lemma Clean_Clean [simp]: "Clean (Clean p) = Clean p"
  by (simp add: Clean_def [of "Clean p"]) (simp add: Clean_def render_def comps_def IsAbs_def)

lemma Clean_eq_render: "p \<noteq> [] \<Longrightarrow> Clean p = render (IsAbs p) (comps p)"
  by (simp add: Clean_def)

lemma Join_Cons: "d \<noteq> [] \<Longrightarrow> Join (d # es) = Clean (join_with slash (d # es))"
  by (simp add: Join_def)

lemma IsAbs_append: "d \<noteq> [] \<Longrightarrow> IsAbs (d @ x) = IsAbs d"
  by (cases d) (auto simp: IsAbs_def)

lemma IsAbs_join_with: "d \<noteq> [] \<Longrightarrow> IsAbs (join_with slash (d # es)) = IsAbs d"
  by (cases es) (auto simp: IsAbs_append)

lemma IsAbs_Join: "d \<noteq> [] \<Longrightarrow> IsAbs (Join (d # es)) = IsAbs d"
  by (simp add: Join_Cons IsAbs_join_with)

lemma comps_append:
  "d \<noteq> [] \<Longrightarrow> comps (d @ slash # x) = clean_comps (IsAbs d) (rev (comps d)) (Split x slash)"
  by (simp add: comps_def IsAbs_append Split_append clean_comps_append)

lemma comps_Join2:
  "d \<noteq> [] \<Longrightarrow> comps (Join [d, x]) = clean_comps (IsAbs d) (rev (comps d)) (Split x slash)"
  by (simp add: Join_Cons comps_append)

lemma comps_Join_proper:
  assumes "d \<noteq> []" and "list_all proper ps"
  shows "comps (Join (d # ps)) = comps d @ ps"
proof (cases "ps = []")
  case True
  with assms show ?thesis by (simp add: Join_Cons)
next
  case False
  have "Split (join_with slash ps) slash = ps"
    using assms(2) False by (intro Split_join_with) (auto simp: list_all_iff proper_def)
  with assms False show ?thesis
    by (simp add: Join_Cons join_with_Cons comps_append clean_comps_proper)
qed

lemma Join_proper:
  assumes "d \<noteq> []" and "list_all proper ps"
  shows "Join (d # ps) = render (IsAbs d) (comps d @ ps)"
proof -
  have "Join (d # ps) = Clean (Join (d # ps))"
    using assms(1) by (simp add: Join_Cons)
  also have "\<dots> = render (IsAbs d) (comps d @ ps)"
    using assms comps_Join_proper [OF assms]
    by (simp add: Clean_def IsAbs_Join) (simp add: Join_Cons)
  finally show ?thesis .
qed

lemma comps_proper: "proper c \<Longrightarrow> comps c = [c]"
  by (auto simp: comps_def proper_def)

lemma proper_not_abs: "proper c \<Longrightarrow> \<not> IsAbs c"
  by (cases c) (auto simp: proper_def IsAbs_def)

lemma Join_all_proper: "list_all proper (p # ps) \<Longrightarrow> Join (p # ps) = join_with slash (p # ps)"
  by (subst Join_proper) (auto simp: comps_proper proper_not_abs render_def proper_def)

lemma Base_no_slash: "p \<noteq> [] \<Longrightarrow> slash \<notin> set p \<Longrightarrow> Base p = p"
proof -
  assume p: "p \<noteq> []" "slash \<notin> set p"
  then have dw: "dropWhile (\<lambda>c. c = slash) (rev p) = rev p"
    by (cases p rule: rev_cases) auto
  have tw: "takeWhile (\<lambda>c. c \<noteq> slash) (rev p) = rev p"
    using p by (auto simp: takeWhile_eq_all_conv)
  show ?thesis
    using p(1) by (simp only: Base_def strip_slashes_def Let_def dw rev_rev_ident tw) simp
qed

lemma Base_range: "Base p = [slash] \<or> slash \<notin> set (Base p)"
  by (auto simp: Base_def Let_def dest: set_takeWhileD)

lemma Base_fixpoint: "p \<noteq> [] \<Longrightarrow> Base p = p \<longleftrightarrow> p = [slash] \<or> slash \<notin> set p"
  using Base_range [of p] Base_no_slash [of p] by (auto simp: Base_def strip_slashes_def)

section \<open>Resolution by the operating system\<close>

lemma clean_list_last:
  assumes "clean_list r (cs @ [c])" and "c \<noteq> ''..''"
  shows "proper c"
proof -
  obtain n ps where eq: "cs @ [c] = replicate n ''..'' @ ps" and ps: "list_all proper ps"
    using assms by (auto simp: clean_list_def)
  show ?thesis
  proof (cases ps rule: rev_cases)
    case Nil
    with eq have "c \<in> set (replicate n ''..'')"
      by (metis append_Nil2 in_set_conv_decomp)
    with assms(2) show ?thesis by simp
  qed (use eq ps in auto)
qed

text \<open>One component of \<^verbatim>\<open>path.Clean\<close>, seen from the operating system.\<close>

lemma clean_comps_step:
  assumes "clean_list False (rev out)" and "slash \<notin> set c"
  obtains out2 where "\<And>xs. clean_comps False out (c # xs) = clean_comps False out2 xs"
    and "clean_list False (rev out2)"
    and "\<And>acc. clean_comps True acc (rev out2) =
      clean_comps True (rev (clean_comps True acc (rev out))) [c]"
proof (cases "c = [] \<or> c = ''.''")
  case True
  then show ?thesis by (intro that [of out]) (use assms in auto)
next
  case notdot: False
  show ?thesis
  proof (cases "c = ''..''")
    case False
    with notdot assms have "proper c" by (simp add: proper_def)
    with assms have "clean_list False (rev (c # out))" by (simp add: clean_list_snoc)
    with False notdot show ?thesis
      by (intro that [of "c # out"]) (auto simp: clean_comps_append)
  next
    case True
    show ?thesis
    proof (cases out)
      case Nil
      have "clean_list False [''..'']"
        unfolding clean_list_def by (intro exI [of _ 1] exI [of _ "[]"]) simp
      with Nil True show ?thesis by (intro that [of "[''..'']"]) auto
    next
      case (Cons d out')
      show ?thesis
      proof (cases "d = ''..''")
        case dd: True
        have "clean_list False (rev (c # out))"
          using assms(1) Cons dd True clean_list_snoc_dotdot [of "rev out'"] by simp
        moreover have "clean_comps False out (c # xs) = clean_comps False (c # out) xs" for xs
          using Cons dd True by simp
        ultimately show ?thesis
          by (intro that [of "c # out"]) (simp_all only: rev.simps clean_comps_append)
      next
        case dn: False
        have "clean_list False (rev out')" and d: "proper d"
          using assms(1) Cons dn clean_list_butlast clean_list_last by auto
        with Cons dn True show ?thesis
          by (intro that [of out']) (auto simp: clean_comps_append clean_comps_proper)
      qed
    qed
  qed
qed

lemma clean_comps_twice:
  assumes "clean_list False (rev out)" and "\<forall>w \<in> set xs. slash \<notin> set w"
  shows "clean_comps True acc (clean_comps False out xs) =
    clean_comps True (rev (clean_comps True acc (rev out))) xs"
  using assms
proof (induction xs arbitrary: out)
  case Nil
  then show ?case by simp
next
  case (Cons c xs)
  obtain out2 where eq: "clean_comps False out (c # xs) = clean_comps False out2 xs"
    and cl: "clean_list False (rev out2)"
    and pop: "clean_comps True acc (rev out2) =
      clean_comps True (rev (clean_comps True acc (rev out))) [c]"
    using clean_comps_step [of out c] Cons.prems by (metis list.set_intros(1))
  have "clean_comps True acc (clean_comps False out (c # xs)) =
    clean_comps True (rev (clean_comps True acc (rev out2))) xs"
    using Cons.IH [OF cl] Cons.prems(2) eq by simp
  then show ?case
    unfolding pop by (simp only: clean_comps_append [of _ _ "[c]" xs, symmetric] append_Cons append_Nil)
qed

lemma resolve_Clean [simp]: "resolve cwd (Clean p) = resolve cwd p"
proof (cases "p = []")
  case True
  then show ?thesis by (simp add: resolve_def Clean_def IsAbs_def)
next
  case False
  have ns: "\<forall>w \<in> set (Split p slash). slash \<notin> set w"
    by (auto dest: Split_words_no_sep)
  have cl: "clean_list (IsAbs p) (comps p)" by (rule comps_clean)
  have split: "clean_comps True acc (Split (render (IsAbs p) (comps p)) slash) =
      clean_comps True acc (comps p)" for acc
  proof (cases "comps p = []")
    case True
    then show ?thesis by (auto simp: render_def)
  next
    case ne: False
    have "Split (join_with slash (comps p)) slash = comps p"
      using ne clean_list_no_slash [OF cl] by (intro Split_join_with) auto
    with ne show ?thesis by (auto simp: render_def)
  qed
  show ?thesis
  proof (cases "IsAbs p")
    case True
    have "clean_comps True [] (comps p) = comps p"
      using cl True by (simp add: clean_comps_proper)
    with True split False show ?thesis
      by (simp add: resolve_def) (simp add: Clean_def comps_def)
  next
    case rel: False
    have "clean_comps True (rev cwd) (comps p) =
        clean_comps True (rev (clean_comps True (rev cwd) (rev []))) (Split p slash)"
      using rel ns by (simp only: comps_def clean_comps_twice [of "[]"] clean_list_Nil rev.simps(1))
    with rel split False show ?thesis
      by (simp add: resolve_def) (simp add: Clean_def)
  qed
qed

lemma resolve_append:
  "d \<noteq> [] \<Longrightarrow> resolve cwd (d @ slash # x) = clean_comps True (rev (resolve cwd d)) (Split x slash)"
  by (simp add: resolve_def IsAbs_append Split_append clean_comps_append)

lemma resolve_Join2:
  "d \<noteq> [] \<Longrightarrow> resolve cwd (Join [d, x]) = clean_comps True (rev (resolve cwd d)) (Split x slash)"
  by (simp add: Join_Cons resolve_append)

lemma resolve_append_proper:
  "d \<noteq> [] \<Longrightarrow> proper x \<Longrightarrow> resolve cwd (d @ slash # x) = resolve cwd d @ [x]"
  using clean_comps_proper [of "[x]" True "rev (resolve cwd d)"]
  by (simp add: resolve_append proper_no_slash del: clean_comps.simps)

lemma resolve_Join_proper:
  assumes "d \<noteq> []" and "list_all proper ps"
  shows "resolve cwd (Join (d # ps)) = resolve cwd d @ ps"
proof (cases "ps = []")
  case True
  with assms show ?thesis by (simp add: Join_Cons)
next
  case False
  have "Split (join_with slash ps) slash = ps"
    using assms(2) False by (intro Split_join_with) (auto simp: list_all_iff proper_def)
  with assms False show ?thesis
    by (simp add: Join_Cons join_with_Cons resolve_append clean_comps_proper)
qed

lemma resolve_proper: "list_all proper cwd \<Longrightarrow> list_all proper (resolve cwd p)"
  unfolding resolve_def clean_list_rooted [symmetric]
  by (rule clean_comps_clean) (auto dest: Split_words_no_sep)

lemma path_Dir_append: "slash \<notin> set f \<Longrightarrow> path_Dir (d @ slash # f) = Clean (d @ [slash])"
  by (subst path_Dir_def, simp, subst dropWhile_append2) auto

lemma resolve_path_Dir:
  "d \<noteq> [] \<Longrightarrow> slash \<notin> set f \<Longrightarrow> resolve cwd (path_Dir (d @ slash # f)) = resolve cwd d"
  using resolve_append [of d cwd "[]"] by (simp add: path_Dir_append)

end
