(* ===== verification/Go_OS.thy ===== *)
theory Go_OS
  imports Go_Path
begin

text \<open>
  The part of the Go package \<^verbatim>\<open>os\<close> the controller uses, over an explicit file system: a finite
  table from resolved paths (component lists) to nodes. Every call may also fail for a reason
  outside the model (disk full, permission, quota); which calls do is decided by the fault
  oracle of the environment, so each theorem quantifies over all fault patterns. The locale
  \<open>confined\<close> is the interface between these calls and their clients: a call only touches the
  paths of its footprint.
\<close>

section \<open>File systems\<close>

text \<open>A node is a directory, or a regular file with its bytes, permission bits and mtime.\<close>

datatype node = Dir | File string nat int

type_synonym fs = "(string list \<times> node) list"

definition fs_get :: "fs \<Rightarrow> string list \<Rightarrow> node option" where
  "fs_get fs p = map_of fs p"

definition fs_put :: "string list \<Rightarrow> node \<Rightarrow> fs \<Rightarrow> fs" where
  "fs_put p n fs = (p, n) # filter (\<lambda>(q, _). q \<noteq> p) fs"

definition fs_del :: "string list \<Rightarrow> fs \<Rightarrow> fs" where
  "fs_del p fs = filter (\<lambda>(q, _). q \<noteq> p) fs"

definition fs_del_tree :: "string list \<Rightarrow> fs \<Rightarrow> fs" where
  "fs_del_tree p fs = filter (\<lambda>(q, _). \<not> prefix p q \<or> q = []) fs"

definition fs_move_tree :: "string list \<Rightarrow> string list \<Rightarrow> fs \<Rightarrow> fs" where
  "fs_move_tree a b fs =
     map (\<lambda>(q, n). (if prefix a q then b @ drop (length a) q else q, n)) fs"

definition is_File :: "node option \<Rightarrow> bool" where
  "is_File n = (case n of Some (File _ _ _) \<Rightarrow> True | _ \<Rightarrow> False)"

text \<open>The file system holds a root directory, and every entry is in a directory.\<close>

definition fs_wf :: "fs \<Rightarrow> bool" where
  "fs_wf fs \<longleftrightarrow>
     fs_get fs [] = Some Dir \<and>
     (\<forall>p n. fs_get fs p = Some n \<longrightarrow> p \<noteq> [] \<longrightarrow> fs_get fs (butlast p) = Some Dir)"

section \<open>The environment of file system calls\<close>

datatype fs_op =
  OpStat | OpOpen | OpRead | OpCreate | OpWrite | OpChtimes | OpMkdir | OpRename | OpRemoveAll

text \<open>
  \<open>temp_suffix\<close> is the random number of \<^verbatim>\<open>os.MkdirTemp\<close>, \<open>umask\<close> what the process mask leaves
  of requested permission bits, \<open>mtime\<close> the time stamped on a write. A fault carries the text
  of the system error and, for a write, the number of bytes transferred before it.
\<close>

record os_env =
  cwd :: "string list"
  TempDir :: string
  temp_suffix :: "fs \<Rightarrow> nat"
  umask :: "nat \<Rightarrow> nat"
  mtime :: "fs \<Rightarrow> int"
  io_fault :: "fs \<Rightarrow> fs_op \<Rightarrow> string \<Rightarrow> (string \<times> nat) option"

section \<open>Calls\<close>

definition missing :: "fs \<Rightarrow> string list \<Rightarrow> go_error" where
  "missing fs p =
     PathError (if list_ex (\<lambda>r. is_File (fs_get fs r)) (prefixes p) then ErrNotDir else ErrNotExist)"

definition os_lookup :: "fs_op \<Rightarrow> os_env \<Rightarrow> fs \<Rightarrow> string \<Rightarrow> node outcome" where
  "os_lookup opn e fs p =
     (case io_fault e fs opn p of
        Some (m, _) \<Rightarrow> Error (PathError (ErrIO m))
      | None \<Rightarrow> (case fs_get fs (resolve (cwd e) p) of
                  None \<Rightarrow> Error (missing fs (resolve (cwd e) p))
                | Some n \<Rightarrow> Ok n))"

abbreviation os_Stat :: "os_env \<Rightarrow> fs \<Rightarrow> string \<Rightarrow> node outcome" where
  "os_Stat \<equiv> os_lookup OpStat"

abbreviation os_Open :: "os_env \<Rightarrow> fs \<Rightarrow> string \<Rightarrow> node outcome" where
  "os_Open \<equiv> os_lookup OpOpen"

text \<open>Reading an opened node to its end (\<^verbatim>\<open>io.Copy\<close> from it, \<^verbatim>\<open>io.ReadAll\<close>).\<close>

definition read_node :: "os_env \<Rightarrow> fs \<Rightarrow> string \<Rightarrow> node \<Rightarrow> string outcome" where
  "read_node e fs p n =
     (case io_fault e fs OpRead p of
        Some (m, _) \<Rightarrow> Error (PathError (ErrIO m))
      | None \<Rightarrow> (case n of Dir \<Rightarrow> Error (PathError ErrIsDir) | File c _ _ \<Rightarrow> Ok c))"

definition os_ReadFile :: "os_env \<Rightarrow> fs \<Rightarrow> string \<Rightarrow> string outcome" where
  "os_ReadFile e fs p =
     (case os_Open e fs p of
        Ok n \<Rightarrow> read_node e fs p n
      | Error er \<Rightarrow> Error er
      | Panic m \<Rightarrow> Panic m)"

text \<open>\<^verbatim>\<open>os.OpenFile\<close> with \<^verbatim>\<open>O_CREATE|O_WRONLY|O_TRUNC\<close>, and \<^verbatim>\<open>os.Create\<close> (mode 0666).\<close>

definition os_OpenTrunc :: "nat \<Rightarrow> os_env \<Rightarrow> string \<Rightarrow> fs \<Rightarrow> unit outcome \<times> fs" where
  "os_OpenTrunc md e p fs =
     (let q = resolve (cwd e) p in
      case io_fault e fs OpCreate p of
        Some (m, _) \<Rightarrow> (Error (PathError (ErrIO m)), fs)
      | None \<Rightarrow>
          (case fs_get fs q of
             Some Dir \<Rightarrow> (Error (PathError ErrIsDir), fs)
           | Some (File _ md' _) \<Rightarrow> (Ok (), fs_put q (File [] md' (mtime e fs)) fs)
           | None \<Rightarrow>
               (if fs_get fs (butlast q) = Some Dir
                then (Ok (), fs_put q (File [] (umask e md) (mtime e fs)) fs)
                else (Error (missing fs (butlast q)), fs))))"

abbreviation os_Create :: "os_env \<Rightarrow> string \<Rightarrow> fs \<Rightarrow> unit outcome \<times> fs" where
  "os_Create \<equiv> os_OpenTrunc 438"

text \<open>Writing bytes to the just opened file; a fault leaves the bytes transferred so far.\<close>

definition os_Write :: "string \<Rightarrow> os_env \<Rightarrow> string \<Rightarrow> fs \<Rightarrow> unit outcome \<times> fs" where
  "os_Write content e p fs =
     (let q = resolve (cwd e) p;
          upd = (\<lambda>c. case fs_get fs q of
                       Some (File _ md _) \<Rightarrow> fs_put q (File c md (mtime e fs)) fs
                     | _ \<Rightarrow> fs)
      in case io_fault e fs OpWrite p of
           Some (m, k) \<Rightarrow> (Error (PathError (ErrIO m)), upd (take k content))
         | None \<Rightarrow> (Ok (), upd content))"

definition os_WriteFile :: "string \<Rightarrow> nat \<Rightarrow> os_env \<Rightarrow> string \<Rightarrow> fs \<Rightarrow> unit outcome \<times> fs" where
  "os_WriteFile content md e p fs =
     (case os_OpenTrunc md e p fs of
        (Ok _, fs') \<Rightarrow> os_Write content e p fs'
      | (r, fs') \<Rightarrow> (r, fs'))"

definition os_Chtimes :: "int \<Rightarrow> os_env \<Rightarrow> string \<Rightarrow> fs \<Rightarrow> unit outcome \<times> fs" where
  "os_Chtimes t e p fs =
     (let q = resolve (cwd e) p in
      case io_fault e fs OpChtimes p of
        Some (m, _) \<Rightarrow> (Error (PathError (ErrIO m)), fs)
      | None \<Rightarrow>
          (case fs_get fs q of
             None \<Rightarrow> (Error (missing fs q), fs)
           | Some Dir \<Rightarrow> (Ok (), fs)
           | Some (File c md _) \<Rightarrow> (Ok (), fs_put q (File c md t) fs)))"

definition os_Mkdir :: "os_env \<Rightarrow> string \<Rightarrow> fs \<Rightarrow> unit outcome \<times> fs" where
  "os_Mkdir e p fs =
     (let q = resolve (cwd e) p in
      case io_fault e fs OpMkdir p of
        Some (m, _) \<Rightarrow> (Error (PathError (ErrIO m)), fs)
      | None \<Rightarrow>
          (case fs_get fs q of
             Some _ \<Rightarrow> (Error (PathError ErrExist), fs)
           | None \<Rightarrow>
               (if fs_get fs (butlast q) = Some Dir then (Ok (), fs_put q Dir fs)
                else (Error (missing fs (butlast q)), fs))))"

fun mkdir_each :: "string list list \<Rightarrow> fs \<Rightarrow> unit outcome \<times> fs" where
  "mkdir_each [] fs = (Ok (), fs)"
| "mkdir_each (p # ps) fs =
     (case fs_get fs p of
        Some Dir \<Rightarrow> mkdir_each ps fs
      | Some (File _ _ _) \<Rightarrow> (Error (PathError ErrNotDir), fs)
      | None \<Rightarrow> mkdir_each ps (fs_put p Dir fs))"

definition os_MkdirAll :: "os_env \<Rightarrow> string \<Rightarrow> fs \<Rightarrow> unit outcome \<times> fs" where
  "os_MkdirAll e p fs =
     (case io_fault e fs OpMkdir p of
        Some (m, _) \<Rightarrow> (Error (PathError (ErrIO m)), fs)
      | None \<Rightarrow> mkdir_each (prefixes (resolve (cwd e) p)) fs)"

text \<open>
  \<^verbatim>\<open>os.Rename\<close>: a directory is never replaced, a file replaces a file in one step.
\<close>

definition os_Rename :: "os_env \<Rightarrow> string \<Rightarrow> string \<Rightarrow> fs \<Rightarrow> unit outcome \<times> fs" where
  "os_Rename e old new fs =
     (let a = resolve (cwd e) old; b = resolve (cwd e) new in
      case io_fault e fs OpRename new of
        Some (m, _) \<Rightarrow> (Error (PathError (ErrIO m)), fs)
      | None \<Rightarrow>
          (if fs_get fs b = Some Dir then (Error (PathError ErrExist), fs)
           else case fs_get fs a of
             None \<Rightarrow> (Error (missing fs a), fs)
           | Some n \<Rightarrow>
               (if fs_get fs (butlast b) \<noteq> Some Dir then (Error (missing fs (butlast b)), fs)
                else case n of
                  File _ _ _ \<Rightarrow> (Ok (), fs_put b n (fs_del a fs))
                | Dir \<Rightarrow>
                    (if is_File (fs_get fs b) then (Error (PathError ErrNotDir), fs)
                     else if prefix a b then (Error (PathError (ErrIO ''invalid argument'')), fs)
                     else (Ok (), fs_move_tree a b fs)))))"

definition os_RemoveAll :: "os_env \<Rightarrow> string \<Rightarrow> fs \<Rightarrow> unit outcome \<times> fs" where
  "os_RemoveAll e p fs =
     (case io_fault e fs OpRemoveAll p of
        Some (m, _) \<Rightarrow> (Error (PathError (ErrIO m)), fs)
      | None \<Rightarrow> (Ok (), fs_del_tree (resolve (cwd e) p) fs))"

text \<open>
  \<^verbatim>\<open>os.MkdirTemp\<close> with a pattern that ends in \<^verbatim>\<open>*\<close>, which a random number replaces. A name that
  is taken is an error: the retries of the library are part of the choice of the number.
\<close>

definition temp_name :: "string \<Rightarrow> os_env \<Rightarrow> string \<Rightarrow> fs \<Rightarrow> string" where
  "temp_name pat e dir fs =
     (if suffix [slash] dir then dir else dir @ [slash]) @ pat @ itoa (temp_suffix e fs)"

definition os_MkdirTemp :: "string \<Rightarrow> os_env \<Rightarrow> string \<Rightarrow> fs \<Rightarrow> string outcome \<times> fs" where
  "os_MkdirTemp pat e dir fs =
     (let p = temp_name pat e dir fs in
      case os_Mkdir e p fs of
        (Ok _, fs') \<Rightarrow> (Ok p, fs')
      | (Error er, fs') \<Rightarrow> (Error er, fs')
      | (Panic m, fs') \<Rightarrow> (Panic m, fs'))"

text \<open>
  What \<^verbatim>\<open>filepath.WalkDir\<close> visits below (and at) a path, as paths relative to it, in its order:
  each directory's entries by name, a directory before what it holds, which is the lexicographic
  order of component lists.
\<close>

definition walk_rels :: "fs \<Rightarrow> string list \<Rightarrow> string list list" where
  "walk_rels fs root =
     sort (remdups (map (drop (length root)) (filter (prefix root) (map fst fs))))"

section \<open>Table lemmas\<close>

lemma map_of_filter_neq: "q \<noteq> p \<Longrightarrow> map_of (filter (\<lambda>(r, _). r \<noteq> p) fs) q = map_of fs q"
  by (induction fs) auto

lemma fs_get_put [simp]: "fs_get (fs_put p n fs) q = (if q = p then Some n else fs_get fs q)"
  by (simp add: fs_get_def fs_put_def map_of_filter_neq)

lemma fs_get_del [simp]: "fs_get (fs_del p fs) q = (if q = p then None else fs_get fs q)"
proof (cases "q = p")
  case True
  have "map_of (filter (\<lambda>(r, _). r \<noteq> p) fs) p = None" by (induction fs) auto
  with True show ?thesis by (simp add: fs_get_def fs_del_def)
qed (simp add: fs_get_def fs_del_def map_of_filter_neq)

lemma fs_get_del_tree [simp]:
  "fs_get (fs_del_tree p fs) q = (if prefix p q \<and> q \<noteq> [] then None else fs_get fs q)"
  unfolding fs_get_def fs_del_tree_def by (induction fs) auto

lemma fs_get_move_tree_other:
  "\<not> prefix a q \<Longrightarrow> \<not> prefix b q \<Longrightarrow> fs_get (fs_move_tree a b fs) q = fs_get fs q"
  unfolding fs_get_def fs_move_tree_def by (induction fs) auto

lemma is_File_simps [simp]:
  "is_File (Some (File c m t))" "\<not> is_File (Some Dir)" "\<not> is_File None"
  by (simp_all add: is_File_def)

lemma fs_get_in_keys: "fs_get fs p = Some n \<Longrightarrow> p \<in> set (map fst fs)"
  by (metis fs_get_def image_eqI list.set_map map_of_SomeD fst_conv)

lemma fs_get_key: "p \<in> set (map fst fs) \<longleftrightarrow> fs_get fs p \<noteq> None"
  by (metis fs_get_def fs_get_in_keys list.set_map map_of_eq_None_iff not_None_eq)

lemma drop_append_prefix: "prefix a q \<Longrightarrow> q = a @ drop (length a) q"
  by (metis append_eq_conv_conj prefixE)

lemma set_walk_rels: "set (walk_rels fs root) = {r. fs_get fs (root @ r) \<noteq> None}"
proof -
  have "r \<in> set (walk_rels fs root) \<longleftrightarrow> root @ r \<in> set (map fst fs)" for r
  proof
    assume "r \<in> set (walk_rels fs root)"
    then obtain q where "q \<in> set (map fst fs)" "prefix root q" "r = drop (length root) q"
      by (auto simp: walk_rels_def)
    then show "root @ r \<in> set (map fst fs)" using drop_append_prefix by metis
  next
    assume "root @ r \<in> set (map fst fs)"
    then have "root @ r \<in> set (filter (prefix root) (map fst fs))" by simp
    then have "drop (length root) (root @ r) \<in> set (walk_rels fs root)"
      unfolding walk_rels_def set_sort set_remdups set_map [of "drop (length root)"] by (rule imageI)
    then show "r \<in> set (walk_rels fs root)" by simp
  qed
  then show ?thesis using fs_get_key by blast
qed

lemma walk_rels_eq:
  assumes "\<And>r. (fs_get fs (a @ r) \<noteq> None) = (fs_get fs' (b @ r) \<noteq> None)"
  shows "walk_rels fs a = walk_rels fs' b"
proof (rule sorted_distinct_set_unique)
  show "set (walk_rels fs a) = set (walk_rels fs' b)"
    using assms by (auto simp: set_walk_rels)
qed (simp_all add: walk_rels_def)

lemma fs_wf_dir_above:
  assumes "fs_wf fs" and "fs_get fs p = Some n" and "strict_prefix q p"
  shows "fs_get fs q = Some Dir"
  using assms(2,3)
proof (induction p arbitrary: n rule: rev_induct)
  case Nil
  then show ?case by simp
next
  case (snoc c p)
  from snoc.prems(1) assms(1) have dir: "fs_get fs p = Some Dir"
    by (auto simp: fs_wf_def dest: spec [of _ "p @ [c]"])
  show ?case
  proof (cases "q = p")
    case True
    with dir show ?thesis by simp
  next
    case False
    with snoc.prems(2) have "strict_prefix q p"
      by (auto simp: strict_prefix_def)
    with snoc.IH dir show ?thesis by blast
  qed
qed

lemma fs_wf_missing_below:
  assumes "fs_wf fs" and "fs_get fs q = None \<or> is_File (fs_get fs q)" and "strict_prefix q p"
  shows "fs_get fs p = None"
proof (rule ccontr)
  assume "fs_get fs p \<noteq> None"
  then obtain n where "fs_get fs p = Some n" by blast
  with assms have "fs_get fs q = Some Dir" by (blast intro: fs_wf_dir_above)
  with assms(2) show False by auto
qed

lemma fs_wf_put_file:
  assumes "fs_wf fs" and "fs_get fs (butlast p) = Some Dir" and "fs_get fs p \<noteq> Some Dir"
  shows "fs_wf (fs_put p (File c m t) fs)"
proof -
  have "p \<noteq> []" using assms by (auto simp: fs_wf_def)
  moreover have "butlast p \<noteq> p" using \<open>p \<noteq> []\<close>
    by (metis append_butlast_last_id not_Cons_self2 self_append_conv)
  moreover have "butlast q = p \<Longrightarrow> q \<noteq> [] \<Longrightarrow> fs_get fs q = None" for q
    using assms(1,3) unfolding fs_wf_def by (metis option.exhaust)
  ultimately show ?thesis using assms
    unfolding fs_wf_def fs_get_put by (metis option.distinct(1))
qed

lemma fs_wf_put_dir:
  assumes "fs_wf fs" and "fs_get fs (butlast p) = Some Dir"
  shows "fs_wf (fs_put p Dir fs)"
  using assms unfolding fs_wf_def fs_get_put by auto

lemma fs_wf_del_tree:
  assumes "fs_wf fs"
  shows "fs_wf (fs_del_tree p fs)"
  unfolding fs_wf_def
proof (intro conjI allI impI)
  show "fs_get (fs_del_tree p fs) [] = Some Dir" using assms by (simp add: fs_wf_def)
next
  fix q n
  assume q: "fs_get (fs_del_tree p fs) q = Some n" "q \<noteq> []"
  then have "\<not> prefix p q" "fs_get fs q = Some n" by (auto split: if_splits)
  moreover from this have "\<not> prefix p (butlast q)"
    by (metis prefix_order.trans prefixeq_butlast)
  ultimately show "fs_get (fs_del_tree p fs) (butlast q) = Some Dir"
    using assms q(2) by (simp add: fs_wf_def)
qed

lemma fs_wf_del_file:
  assumes "fs_wf fs" and "is_File (fs_get fs p)"
  shows "fs_wf (fs_del p fs)"
  unfolding fs_wf_def
proof (intro conjI allI impI)
  show "fs_get (fs_del p fs) [] = Some Dir" using assms by (auto simp: fs_wf_def)
next
  fix q n
  assume q: "fs_get (fs_del p fs) q = Some n" "q \<noteq> []"
  then have "fs_get fs (butlast q) = Some Dir"
    using assms(1) by (auto simp: fs_wf_def split: if_splits)
  with assms(2) show "fs_get (fs_del p fs) (butlast q) = Some Dir" by auto
qed

text \<open>Moving a directory to a free place: what was below it is now below the new place.\<close>

lemma fs_get_move_tree:
  assumes "fs_wf fs" and "fs_get fs b = None" and "\<not> prefix a b"
  shows "fs_get (fs_move_tree a b fs) q =
    (if prefix b q then fs_get fs (a @ drop (length b) q)
     else if prefix a q then None else fs_get fs q)"
proof -
  have none: "prefix b r \<Longrightarrow> fs_get fs r = None" for r
    using fs_wf_missing_below [OF assms(1), of b r] assms(2) by (cases "r = b") auto
  have no_key: "prefix b (fst x) \<Longrightarrow> x \<notin> set fs" for x
    using none [of "fst x"] fs_get_in_keys unfolding fs_get_def
    by (metis image_eqI list.set_map map_of_eq_None_iff)
  show ?thesis
  proof (cases "prefix b q")
    case True
    then obtain z where q: "q = b @ z" by (rule prefixE)
    have key: "((if prefix a r then b @ drop (length a) r else r) = b @ z) = (r = a @ z)"
      if "\<not> prefix b r" for r
      using that by (auto dest: drop_append_prefix)
    have "(\<And>x. x \<in> set xs \<Longrightarrow> \<not> prefix b (fst x)) \<Longrightarrow>
        map_of (fs_move_tree a b xs) (b @ z) = map_of xs (a @ z)" for xs
      unfolding fs_move_tree_def
    proof (induction xs)
      case (Cons x xs)
      then have "\<not> prefix b (fst x)" by simp
      with Cons key [of "fst x"] show ?case by (cases x) (auto split: if_splits)
    qed simp
    from this [of fs] no_key True q show ?thesis by (auto simp: fs_get_def)
  next
    case False
    then show ?thesis
      unfolding fs_get_def fs_move_tree_def by (induction fs) (auto split: if_splits)
  qed
qed

lemma fs_wf_move_tree:
  assumes wf: "fs_wf fs" and b: "fs_get fs b = None" and ab: "\<not> prefix a b"
    and par: "fs_get fs (butlast b) = Some Dir" and a: "fs_get fs a = Some Dir"
  shows "fs_wf (fs_move_tree a b fs)"
proof -
  note get = fs_get_move_tree [OF wf b ab]
  have bne: "b \<noteq> []" using wf b by (auto simp: fs_wf_def)
  have ane: "a \<noteq> []" using ab by auto
  show ?thesis unfolding fs_wf_def
  proof (intro conjI allI impI)
    show "fs_get (fs_move_tree a b fs) [] = Some Dir"
      using wf bne ane by (simp add: get fs_wf_def)
  next
    fix q n
    assume q: "fs_get (fs_move_tree a b fs) q = Some n" "q \<noteq> []"
    show "fs_get (fs_move_tree a b fs) (butlast q) = Some Dir"
    proof (cases "prefix b q")
      case True
      then obtain z where z: "q = b @ z" by (rule prefixE)
      show ?thesis
      proof (cases "z = []")
        case True
        have "\<not> prefix b (butlast b)" using bne
          by (metis append_butlast_last_id not_Cons_self2 prefix_order.antisym prefixeq_butlast self_append_conv)
        moreover have "\<not> prefix a (butlast b)" using ab by (metis prefix_order.trans prefixeq_butlast)
        ultimately show ?thesis using True z par by (simp add: get)
      next
        case False
        then have "butlast q = b @ butlast z" using z by (simp add: butlast_append)
        moreover have "fs_get fs (a @ butlast z) = Some Dir"
          using q True z wf False unfolding get fs_wf_def
          by (auto simp: butlast_append dest: spec [of _ "a @ z"])
        ultimately show ?thesis by (simp add: get)
      qed
    next
      case False
      then have nb: "\<not> prefix b (butlast q)" by (metis prefix_order.trans prefixeq_butlast)
      from q False have na: "\<not> prefix a q" and "fs_get fs q = Some n"
        by (auto simp: get split: if_splits)
      then have "fs_get fs (butlast q) = Some Dir" using wf q(2) by (simp add: fs_wf_def)
      moreover have "\<not> prefix a (butlast q)" using na by (metis prefix_order.trans prefixeq_butlast)
      ultimately show ?thesis using nb by (simp add: get)
    qed
  qed
qed

section \<open>Calls are confined\<close>

text \<open>
  The interface of a file system call to its clients: outside its footprint nothing changes,
  and the shape of the file system is kept.
\<close>

locale confined =
  fixes run :: "fs \<Rightarrow> 'a outcome \<times> fs"
    and region :: "string list \<Rightarrow> bool"
  assumes frame: "fs_wf fs \<Longrightarrow> \<not> region q \<Longrightarrow> fs_get (snd (run fs)) q = fs_get fs q"
    and keeps_wf: "fs_wf fs \<Longrightarrow> fs_wf (snd (run fs))"
begin

lemma outside_tree:
  "fs_wf fs \<Longrightarrow> (\<And>r. region r \<Longrightarrow> prefix d r) \<Longrightarrow> \<not> prefix d q \<Longrightarrow>
     fs_get (snd (run fs)) q = fs_get fs q"
  by (blast intro: frame)

lemma frame_result:
  "run fs = (r, fs') \<Longrightarrow> fs_wf fs \<Longrightarrow> \<not> region q \<Longrightarrow> fs_get fs' q = fs_get fs q"
  using frame [of fs q] by simp

lemma wf_result: "run fs = (r, fs') \<Longrightarrow> fs_wf fs \<Longrightarrow> fs_wf fs'"
  using keeps_wf [of fs] by simp

end

text \<open>
  The Go idiom \<^verbatim>\<open>x, err := f(); if err != nil { return err }; g(x)\<close>, over any state.
\<close>

definition and_then ::
  "('s \<Rightarrow> 'a outcome \<times> 's) \<Rightarrow> ('a \<Rightarrow> 's \<Rightarrow> 'b outcome \<times> 's) \<Rightarrow> 's \<Rightarrow> 'b outcome \<times> 's" where
  "and_then f g fs =
     (case f fs of
        (Ok x, fs') \<Rightarrow> g x fs'
      | (Error e, fs') \<Rightarrow> (Error e, fs')
      | (Panic m, fs') \<Rightarrow> (Panic m, fs'))"

lemma and_then_cases:
  assumes "and_then f g fs = (r, fs')"
  obtains (stop) r' where "f fs = (r', fs')" and "\<not> is_Ok r'" and "\<not> is_Ok r"
      and "is_Panic r \<longleftrightarrow> is_Panic r'"
    | (cont) x fs1 where "f fs = (Ok x, fs1)" and "g x fs1 = (r, fs')"
proof (cases "f fs")
  case (Pair r' fs1)
  with assms that show thesis by (cases r') (auto simp: and_then_def)
qed

text \<open>Code that never panics.\<close>

definition calm :: "('s \<Rightarrow> 'a outcome \<times> 's) \<Rightarrow> bool" where
  "calm f \<longleftrightarrow> (\<forall>s. \<not> is_Panic (fst (f s)))"

lemma calm_and_then: "calm f \<Longrightarrow> (\<And>x. calm (g x)) \<Longrightarrow> calm (and_then f g)"
proof -
  assume f: "calm f" and g: "\<And>x. calm (g x)"
  have "\<not> is_Panic (fst (and_then f g s))" for s
  proof (cases "f s")
    case (Pair r s')
    with f have "\<not> is_Panic r" by (metis calm_def fst_conv)
    with Pair g show ?thesis by (cases r) (auto simp: and_then_def calm_def)
  qed
  then show ?thesis by (simp add: calm_def)
qed

lemma calm_result: "calm f \<Longrightarrow> f s = (r, s') \<Longrightarrow> \<not> is_Panic r"
  unfolding calm_def by (metis fst_conv)

lemma os_lookup_no_panic: "os_lookup op e fs p \<noteq> Panic m"
  by (auto simp: os_lookup_def split: option.splits)

lemma read_node_no_panic: "read_node e fs p n \<noteq> Panic m"
  by (auto simp: read_node_def split: option.splits node.splits)

lemma os_calm [simp]:
  "calm (os_OpenTrunc md e p)" "calm (os_Write c e p)" "calm (os_Chtimes t e p)" "calm (os_Mkdir e p)"
  "calm (os_Rename e p p')" "calm (os_RemoveAll e p)"
  by (auto simp: calm_def os_OpenTrunc_def os_Write_def os_Chtimes_def os_Mkdir_def os_Rename_def
      os_RemoveAll_def Let_def split: option.splits node.splits)

lemma confined_and_then:
  assumes "confined f R" and "\<And>x. confined (g x) R"
  shows "confined (and_then f g) R"
proof
  fix q fs
  assume "fs_wf fs" and "\<not> R q"
  then have "fs_get (snd (f fs)) q = fs_get fs q" "fs_wf (snd (f fs))"
    "\<And>x fs. fs_wf fs \<Longrightarrow> fs_get (snd (g x fs)) q = fs_get fs q"
    using assms by (auto simp: confined_def)
  then show "fs_get (snd (and_then f g fs)) q = fs_get fs q"
    by (auto simp: and_then_def split: prod.splits outcome.splits)
next
  fix fs
  assume "fs_wf fs"
  then have "fs_wf (snd (f fs))" "\<And>x fs. fs_wf fs \<Longrightarrow> fs_wf (snd (g x fs))"
    using assms by (auto simp: confined_def)
  then show "fs_wf (snd (and_then f g fs))"
    by (auto simp: and_then_def split: prod.splits outcome.splits)
qed

lemma confined_weaken: "confined f R \<Longrightarrow> (\<And>q. R q \<Longrightarrow> S q) \<Longrightarrow> confined f S"
  by (auto simp: confined_def)

lemma confined_return: "confined (\<lambda>fs. (r fs, fs)) R"
  by (simp add: confined_def)

lemma fs_wf_file_in_dir:
  "fs_wf fs \<Longrightarrow> fs_get fs q = Some (File c m t) \<Longrightarrow> fs_get fs (butlast q) = Some Dir"
  by (cases "q = []") (auto simp: fs_wf_def)

interpretation open_trunc: confined "os_OpenTrunc md e p" "\<lambda>q. q = resolve (cwd e) p" for md e p
  by unfold_locales
    (auto simp: os_OpenTrunc_def Let_def fs_wf_file_in_dir intro!: fs_wf_put_file
      split: option.splits node.splits)

interpretation write_file: confined "os_Write c e p" "\<lambda>q. q = resolve (cwd e) p" for c e p
  by unfold_locales
    (auto simp: os_Write_def Let_def fs_wf_file_in_dir intro!: fs_wf_put_file
      split: option.splits node.splits)

interpretation chtimes: confined "os_Chtimes t e p" "\<lambda>q. q = resolve (cwd e) p" for t e p
  by unfold_locales
    (auto simp: os_Chtimes_def Let_def fs_wf_file_in_dir intro!: fs_wf_put_file
      split: option.splits node.splits)

interpretation mkdir: confined "os_Mkdir e p" "\<lambda>q. q = resolve (cwd e) p" for e p
  by unfold_locales
    (auto simp: os_Mkdir_def Let_def intro!: fs_wf_put_dir split: option.splits)

interpretation remove_all: confined "os_RemoveAll e p" "prefix (resolve (cwd e) p)" for e p
  by unfold_locales
    (auto simp: os_RemoveAll_def intro!: fs_wf_del_tree split: option.splits)

lemma fs_wf_rename_file:
  assumes "fs_wf fs" and "fs_get fs a = Some (File c m t)" and "fs_get fs (butlast b) = Some Dir"
    and "fs_get fs b \<noteq> Some Dir"
  shows "fs_wf (fs_put b (File c m t) (fs_del a fs))"
proof -
  have "fs_wf (fs_del a fs)" using assms by (intro fs_wf_del_file) auto
  moreover have "butlast b \<noteq> a" using assms by auto
  ultimately show ?thesis using assms by (intro fs_wf_put_file) auto
qed

interpretation rename: confined "os_Rename e old new"
  "\<lambda>q. prefix (resolve (cwd e) old) q \<or> prefix (resolve (cwd e) new) q" for e old new
  by unfold_locales
    (auto simp: os_Rename_def Let_def fs_get_move_tree_other is_File_def
      intro!: fs_wf_rename_file fs_wf_move_tree split: option.splits node.splits)

text \<open>\<^verbatim>\<open>os.MkdirAll\<close> only ever adds directories, and only on the way to its path.\<close>

lemma mkdir_each_keeps: "fs_get fs q \<noteq> None \<Longrightarrow> fs_get (snd (mkdir_each ps fs)) q = fs_get fs q"
  by (induction ps fs rule: mkdir_each.induct) (auto split: option.splits node.splits)

lemma mkdir_each_frame: "q \<notin> set ps \<Longrightarrow> fs_get (snd (mkdir_each ps fs)) q = fs_get fs q"
  by (induction ps fs rule: mkdir_each.induct) (auto split: option.splits node.splits)

lemma mkdir_each_wf:
  assumes "fs_wf fs" and "fs_get fs (butlast (hd ps)) = Some Dir \<or> ps = []"
    and "\<And>i. Suc i < length ps \<Longrightarrow> butlast (ps ! Suc i) = ps ! i"
  shows "fs_wf (snd (mkdir_each ps fs))"
  using assms
proof (induction ps fs rule: mkdir_each.induct)
  case (1 fs)
  then show ?case by simp
next
  case (2 p ps fs)
  have nxt: "ps = [] \<or> butlast (hd ps) = p"
    using "2.prems"(3) [of 0] by (cases ps) auto
  have tl: "\<And>i. Suc i < length ps \<Longrightarrow> butlast (ps ! Suc i) = ps ! i"
    using "2.prems"(3) [of "Suc _"] by simp
  show ?case
  proof (cases "fs_get fs p")
    case None
    have "fs_wf (fs_put p Dir fs)" using "2.prems" by (intro fs_wf_put_dir) auto
    moreover have "fs_get (fs_put p Dir fs) (butlast (hd ps)) = Some Dir \<or> ps = []"
      using nxt by auto
    ultimately show ?thesis using None tl "2.IH" by auto
  next
    case (Some n)
    have "fs_get fs (butlast (hd ps)) = Some Dir \<or> ps = []" if "n = Dir"
      using nxt Some that by auto
    with Some show ?thesis using "2.prems"(1) "2.IH" tl by (cases n) auto
  qed
qed

lemma nth_prefixes: "i \<le> length p \<Longrightarrow> prefixes p ! i = take i p"
  by (induction p arbitrary: i) (auto simp: nth_Cons' take_Cons')

lemma prefixes_step:
  assumes "Suc i < length (prefixes p)"
  shows "butlast (prefixes p ! Suc i) = prefixes p ! i"
  using assms by (auto simp: nth_prefixes butlast_take)

lemma os_MkdirAll_wf: "fs_wf fs \<Longrightarrow> fs_wf (snd (os_MkdirAll e p fs))"
proof -
  assume wf: "fs_wf fs"
  have "hd (prefixes q) = []" for q :: "string list" by (cases q) auto
  then have "fs_wf (snd (mkdir_each (prefixes q) fs))" for q
    using wf by (intro mkdir_each_wf) (auto simp: fs_wf_def prefixes_step)
  then show ?thesis using wf by (auto simp: os_MkdirAll_def split: option.splits)
qed

interpretation mkdir_all: confined "os_MkdirAll e p" "\<lambda>q. prefix q (resolve (cwd e) p)" for e p
  by unfold_locales
    (auto simp: os_MkdirAll_wf, auto simp: os_MkdirAll_def mkdir_each_frame split: option.splits)

lemma os_MkdirAll_keeps: "fs_get fs q \<noteq> None \<Longrightarrow> fs_get (snd (os_MkdirAll e p fs)) q = fs_get fs q"
  using mkdir_each_keeps by (auto simp: os_MkdirAll_def split: option.splits)

lemma os_MkdirAll_no_panic: "\<not> is_Panic (fst (os_MkdirAll e p fs))"
proof -
  have "\<not> is_Panic (fst (mkdir_each ps fs))" for ps
    by (induction ps fs rule: mkdir_each.induct) (auto split: option.splits node.splits)
  then show ?thesis by (auto simp: os_MkdirAll_def split: option.splits)
qed

lemma os_WriteFile_seq: "os_WriteFile c md e p = and_then (os_OpenTrunc md e p) (\<lambda>_. os_Write c e p)"
  by (rule ext) (auto simp: os_WriteFile_def and_then_def split: prod.splits outcome.splits)

lemma os_calm_all [simp]:
  "calm (os_MkdirAll e p)" "calm (os_WriteFile c md e p)" "calm (os_MkdirTemp pat e dir)"
proof -
  show "calm (os_MkdirAll e p)" by (simp add: calm_def os_MkdirAll_no_panic)
  show "calm (os_WriteFile c md e p)" unfolding os_WriteFile_seq by (simp add: calm_and_then)
  have "\<not> is_Panic (fst (os_MkdirTemp pat e dir fs))" for fs
  proof (cases "os_Mkdir e (temp_name pat e dir fs) fs")
    case (Pair r fs')
    with calm_result [OF os_calm(4)] show ?thesis
      by (cases r) (fastforce simp: os_MkdirTemp_def Let_def)+
  qed
  then show "calm (os_MkdirTemp pat e dir)" by (simp add: calm_def)
qed

lemma confined_WriteFile: "confined (os_WriteFile c md e p) (\<lambda>q. q = resolve (cwd e) p)"
  unfolding os_WriteFile_seq
  by (intro confined_and_then open_trunc.confined_axioms write_file.confined_axioms)

interpretation write_whole: confined "os_WriteFile c md e p" "\<lambda>q. q = resolve (cwd e) p" for c md e p
  by (rule confined_WriteFile)

section \<open>Calls that work inside a directory\<close>

text \<open>
  The second interface: a call whose path is in the directory \<open>d\<close> changes nothing outside of it
  and leaves \<open>d\<close> a directory. \<open>guard\<close> says for which directories the call promises this.
\<close>

definition below :: "string list \<Rightarrow> fs \<Rightarrow> fs \<Rightarrow> bool" where
  "below d fs fs' \<longleftrightarrow>
     fs_wf fs' \<and> fs_get fs' d = Some Dir \<and> (\<forall>q. \<not> prefix d q \<longrightarrow> fs_get fs' q = fs_get fs q)"

lemma below_trans: "below d a b \<Longrightarrow> below d b c \<Longrightarrow> below d a c"
  by (simp add: below_def)

lemma below_refl: "fs_wf fs \<Longrightarrow> fs_get fs d = Some Dir \<Longrightarrow> below d fs fs"
  by (simp add: below_def)

locale inside =
  fixes run :: "fs \<Rightarrow> 'a outcome \<times> fs"
    and guard :: "string list \<Rightarrow> bool"
  assumes stays: "guard d \<Longrightarrow> fs_wf fs \<Longrightarrow> fs_get fs d = Some Dir \<Longrightarrow> below d fs (snd (run fs))"
begin

lemma stays_result:
  "run fs = (r, fs') \<Longrightarrow> guard d \<Longrightarrow> fs_wf fs \<Longrightarrow> fs_get fs d = Some Dir \<Longrightarrow> below d fs fs'"
  using stays [of d fs] by simp

lemma stays_after:
  "run fs = (r, fs') \<Longrightarrow> guard d \<Longrightarrow> below d fs0 fs \<Longrightarrow> below d fs0 fs'"
  using stays_result [of fs r fs' d] by (auto intro: below_trans simp: below_def)

end

lemma inside_and_then:
  assumes "inside f P" and "\<And>x. inside (g x) P"
  shows "inside (and_then f g) P"
proof
  fix d fs
  assume d: "P d" "fs_wf fs" "fs_get fs d = Some Dir"
  then have f: "below d fs (snd (f fs))" using assms(1) by (auto simp: inside_def)
  then have g: "below d (snd (f fs)) (snd (g x (snd (f fs))))" for x
    using assms(2) d(1) by (auto simp: inside_def below_def)
  show "below d fs (snd (and_then f g fs))"
    using f g by (auto simp: and_then_def intro: below_trans split: prod.splits outcome.splits)
qed

lemma inside_weaken: "inside f P \<Longrightarrow> (\<And>d. Q d \<Longrightarrow> P d) \<Longrightarrow> inside f Q"
  by (simp add: inside_def)

lemma inside_return: "inside (\<lambda>fs. (r fs, fs)) P"
  by (simp add: inside_def below_refl)

lemma inside_snd: "inside f P \<Longrightarrow> inside (\<lambda>fs. (r fs, snd (f fs))) P"
  by (simp add: inside_def)

lemma confined_inside:
  assumes "confined f R" and "\<And>d q. P d \<Longrightarrow> R q \<Longrightarrow> prefix d q"
    and "\<And>d fs. P d \<Longrightarrow> fs_wf fs \<Longrightarrow> fs_get fs d = Some Dir \<Longrightarrow> fs_get (snd (f fs)) d = Some Dir"
  shows "inside f P"
  using assms unfolding inside_def confined_def below_def by blast

interpretation open_in: inside "os_OpenTrunc md e p" "\<lambda>d. prefix d (resolve (cwd e) p)" for md e p
  by (rule confined_inside [OF open_trunc.confined_axioms])
    (auto simp: os_OpenTrunc_def Let_def split: option.splits node.splits)

interpretation write_in: inside "os_Write c e p" "\<lambda>d. prefix d (resolve (cwd e) p)" for c e p
  by (rule confined_inside [OF write_file.confined_axioms])
    (auto simp: os_Write_def Let_def split: option.splits node.splits)

interpretation chtimes_in: inside "os_Chtimes t e p" "\<lambda>d. prefix d (resolve (cwd e) p)" for t e p
  by (rule confined_inside [OF chtimes.confined_axioms])
    (auto simp: os_Chtimes_def Let_def split: option.splits node.splits)

interpretation mkdir_in: inside "os_Mkdir e p" "\<lambda>d. prefix d (resolve (cwd e) p)" for e p
  by (rule confined_inside [OF mkdir.confined_axioms])
    (auto simp: os_Mkdir_def Let_def split: option.splits)

lemma MkdirAll_above:
  assumes "fs_wf fs" and "fs_get fs d = Some Dir" and "prefix d (resolve (cwd e) p)" and "\<not> prefix d q"
  shows "fs_get (snd (os_MkdirAll e p fs)) q = fs_get fs q"
proof (cases "prefix q (resolve (cwd e) p)")
  case True
  with assms(3,4) have "strict_prefix q d"
    by (metis prefix_order.dual_order.eq_iff prefix_same_cases strict_prefixI)
  with assms(1,2) have "fs_get fs q = Some Dir" by (blast intro: fs_wf_dir_above)
  then show ?thesis by (simp add: os_MkdirAll_keeps)
next
  case False
  with assms(1) show ?thesis by (rule mkdir_all.frame)
qed

interpretation mkdir_all_in: inside "os_MkdirAll e p" "\<lambda>d. prefix d (resolve (cwd e) p)" for e p
  by unfold_locales (simp add: below_def os_MkdirAll_wf os_MkdirAll_keeps MkdirAll_above)

interpretation write_whole_in: inside "os_WriteFile c md e p" "\<lambda>d. prefix d (resolve (cwd e) p)"
  for c md e p
  by (rule confined_inside [OF write_whole.confined_axioms])
    (auto simp: os_WriteFile_def os_OpenTrunc_def os_Write_def Let_def
      split: option.splits node.splits)

section \<open>Calls that publish into a directory\<close>

text \<open>
  The third interface: a call changes nothing outside the directory \<open>d\<close> but, where they are missing,
  creates the directories that lead to it.
\<close>

definition grows :: "string list \<Rightarrow> fs \<Rightarrow> fs \<Rightarrow> bool" where
  "grows d fs fs' \<longleftrightarrow>
     fs_wf fs' \<and>
     (\<forall>q. \<not> prefix d q \<longrightarrow> fs_get fs' q = fs_get fs q \<or>
        strict_prefix q d \<and> fs_get fs q = None \<and> fs_get fs' q = Some Dir)"

lemma grows_refl: "fs_wf fs \<Longrightarrow> grows d fs fs"
  by (simp add: grows_def)

lemma grows_wf: "grows d fs fs' \<Longrightarrow> fs_wf fs'"
  by (simp add: grows_def)

lemma grows_trans: "grows d a b \<Longrightarrow> grows d b c \<Longrightarrow> grows d a c"
  unfolding grows_def by (metis option.distinct(1))

lemma below_grows: "below d fs fs' \<Longrightarrow> grows d fs fs'"
  by (simp add: below_def grows_def)

locale publishing =
  fixes run :: "fs \<Rightarrow> 'a outcome \<times> fs"
    and guard :: "string list \<Rightarrow> bool"
  assumes grow: "guard d \<Longrightarrow> fs_wf fs \<Longrightarrow> grows d fs (snd (run fs))"
begin

lemma grow_result: "run fs = (r, fs') \<Longrightarrow> guard d \<Longrightarrow> fs_wf fs \<Longrightarrow> grows d fs fs'"
  using grow [of d fs] by simp

lemma grow_after: "run fs = (r, fs') \<Longrightarrow> guard d \<Longrightarrow> grows d fs0 fs \<Longrightarrow> grows d fs0 fs'"
  using grow_result [of fs r fs' d] by (meson grows_trans grows_wf)

end

lemma publishing_and_then:
  assumes "publishing f P" and "\<And>x. publishing (g x) P"
  shows "publishing (and_then f g) P"
proof
  fix d fs
  assume d: "P d" "fs_wf fs"
  then have f: "grows d fs (snd (f fs))" using assms(1) by (auto simp: publishing_def)
  then have g: "grows d (snd (f fs)) (snd (g x (snd (f fs))))" for x
    using assms(2) d(1) by (auto simp: publishing_def grows_def)
  show "grows d fs (snd (and_then f g fs))"
    using f g by (auto simp: and_then_def intro: grows_trans split: prod.splits outcome.splits)
qed

lemma publishing_return: "publishing (\<lambda>fs. (r fs, fs)) P"
  by (simp add: publishing_def grows_refl)

lemma confined_publishing:
  assumes "confined f R" and "\<And>d q. P d \<Longrightarrow> R q \<Longrightarrow> prefix d q"
  shows "publishing f P"
  using assms unfolding publishing_def confined_def grows_def by blast

lemma mkdir_each_adds:
  "fs_get (snd (mkdir_each ps fs)) q = fs_get fs q \<or>
     q \<in> set ps \<and> fs_get fs q = None \<and> fs_get (snd (mkdir_each ps fs)) q = Some Dir"
proof (induction ps fs rule: mkdir_each.induct)
  case (1 fs)
  then show ?case by simp
next
  case (2 p ps fs)
  then show ?case by (cases "fs_get fs p") (auto split: node.splits if_splits)
qed

interpretation mkdir_all_pub: publishing "os_MkdirAll e p" "\<lambda>d. d = resolve (cwd e) p" for e p
proof
  fix d fs
  assume d: "d = resolve (cwd e) p" and wf: "fs_wf fs"
  have "fs_get (snd (os_MkdirAll e p fs)) q = fs_get fs q \<or>
      prefix q d \<and> fs_get fs q = None \<and> fs_get (snd (os_MkdirAll e p fs)) q = Some Dir" for q
    using mkdir_each_adds [of "prefixes d" fs q] d
    by (auto simp: os_MkdirAll_def split: option.splits)
  then show "grows d fs (snd (os_MkdirAll e p fs))"
    using os_MkdirAll_wf [OF wf] unfolding grows_def
    by (metis prefix_order.order_refl strict_prefix_def)
qed

text \<open>A fault-free environment: no call fails for a reason outside the model.\<close>

definition fault_free :: "os_env \<Rightarrow> bool" where
  "fault_free e \<longleftrightarrow> (\<forall>fs op p. io_fault e fs op p = None)"

lemma fault_freeD [simp]: "fault_free e \<Longrightarrow> io_fault e fs op p = None"
  by (simp add: fault_free_def)

lemma mkdir_each_total:
  assumes "\<forall>p \<in> set ps. \<not> is_File (fs_get fs p)"
  shows "fst (mkdir_each ps fs) = Ok () \<and> (\<forall>p \<in> set ps. fs_get (snd (mkdir_each ps fs)) p = Some Dir)"
  using assms
proof (induction ps fs rule: mkdir_each.induct)
  case (1 fs)
  then show ?case by simp
next
  case (2 p ps fs)
  show ?case
  proof (cases "fs_get fs p")
    case None
    then have "fst (mkdir_each ps (fs_put p Dir fs)) = Ok () \<and>
        (\<forall>q \<in> set ps. fs_get (snd (mkdir_each ps (fs_put p Dir fs))) q = Some Dir)"
      using "2.prems" by (intro "2.IH"(1)) auto
    moreover have "fs_get (snd (mkdir_each ps (fs_put p Dir fs))) p = Some Dir"
      using mkdir_each_keeps [of "fs_put p Dir fs" p ps] by simp
    ultimately show ?thesis using None by simp
  next
    case (Some n)
    with 2 have "n = Dir" by (cases n) auto
    with Some 2 mkdir_each_keeps [of fs p ps] show ?thesis by auto
  qed
qed

lemma os_MkdirAll_total:
  assumes "fault_free e" and "\<forall>q. prefix q (resolve (cwd e) p) \<longrightarrow> \<not> is_File (fs_get fs q)"
  obtains fs' where "os_MkdirAll e p fs = (Ok (), fs')"
    and "fs_get fs' (resolve (cwd e) p) = Some Dir"
proof -
  obtain r fs' where run: "os_MkdirAll e p fs = (r, fs')" by fastforce
  have "mkdir_each (prefixes (resolve (cwd e) p)) fs = (r, fs')"
    using run assms(1) by (simp add: os_MkdirAll_def)
  with mkdir_each_total [of "prefixes (resolve (cwd e) p)" fs] assms(2)
  have "r = Ok ()" "fs_get fs' (resolve (cwd e) p) = Some Dir" by auto
  with run show thesis by (intro that) auto
qed

lemma mkdir_each_Ok:
  "mkdir_each ps fs = (Ok u, fs') \<Longrightarrow> \<forall>p \<in> set ps. fs_get fs' p = Some Dir"
proof (induction ps fs rule: mkdir_each.induct)
  case (1 fs)
  then show ?case by simp
next
  case (2 p ps fs)
  show ?case
  proof (cases "fs_get fs p")
    case None
    with 2 mkdir_each_keeps [of "fs_put p Dir fs" p ps] show ?thesis by auto
  next
    case (Some n)
    with 2 mkdir_each_keeps [of fs p ps] show ?thesis by (cases n) auto
  qed
qed

lemma os_MkdirAll_Ok: "os_MkdirAll e p fs = (Ok u, fs') \<Longrightarrow> fs_get fs' (resolve (cwd e) p) = Some Dir"
  using mkdir_each_Ok [of "prefixes (resolve (cwd e) p)" fs u fs']
  by (auto simp: os_MkdirAll_def split: option.splits)

definition can_create :: "os_env \<Rightarrow> bool" where
  "can_create e \<longleftrightarrow> (\<forall>fs p. io_fault e fs OpCreate p = None)"

section \<open>Success without faults\<close>

lemma os_Mkdir_total:
  assumes "fault_free e" and "fs_get fs (resolve (cwd e) p) = None"
    and "fs_get fs (butlast (resolve (cwd e) p)) = Some Dir"
  shows "os_Mkdir e p fs = (Ok (), fs_put (resolve (cwd e) p) Dir fs)"
  using assms by (simp add: os_Mkdir_def)

lemma os_Write_total:
  assumes "fault_free e" and "fs_get fs (resolve (cwd e) p) = Some (File c0 md mt)"
  shows "os_Write c e p fs = (Ok (), fs_put (resolve (cwd e) p) (File c md (mtime e fs)) fs)"
  using assms by (simp add: os_Write_def Let_def)

lemma os_Chtimes_total:
  assumes "fault_free e" and "fs_get fs (resolve (cwd e) p) = Some (File c md mt)"
  shows "os_Chtimes t e p fs = (Ok (), fs_put (resolve (cwd e) p) (File c md t) fs)"
  using assms by (simp add: os_Chtimes_def Let_def)

lemma os_Rename_total:
  assumes "fault_free e" and "fs_get fs (resolve (cwd e) a) = Some (File c md mt)"
    and "fs_get fs (butlast (resolve (cwd e) b)) = Some Dir" and "fs_get fs (resolve (cwd e) b) \<noteq> Some Dir"
  shows "os_Rename e a b fs = (Ok (), fs_put (resolve (cwd e) b) (File c md mt) (fs_del (resolve (cwd e) a) fs))"
  using assms by (simp add: os_Rename_def Let_def)

lemma os_OpenTrunc_total:
  assumes "fault_free e" and "fs_get fs (butlast (resolve (cwd e) p)) = Some Dir"
    and "fs_get fs (resolve (cwd e) p) \<noteq> Some Dir"
  obtains md where "os_OpenTrunc m e p fs =
    (Ok (), fs_put (resolve (cwd e) p) (File [] md (mtime e fs)) fs)"
proof (cases "fs_get fs (resolve (cwd e) p)")
  case None
  with assms that show ?thesis by (simp add: os_OpenTrunc_def Let_def)
next
  case (Some n)
  with assms that show ?thesis by (cases n) (simp_all add: os_OpenTrunc_def Let_def)
qed

lemma os_WriteFile_total:
  assumes "fault_free e" and "fs_get fs (butlast (resolve (cwd e) p)) = Some Dir"
    and "fs_get fs (resolve (cwd e) p) \<noteq> Some Dir"
  obtains md mt where "os_WriteFile c m e p fs = (Ok (), fs_put (resolve (cwd e) p) (File c md mt)
    (fs_put (resolve (cwd e) p) (File [] md (mtime e fs)) fs))"
proof -
  obtain md where "os_OpenTrunc m e p fs = (Ok (), fs_put (resolve (cwd e) p) (File [] md (mtime e fs)) fs)"
    using os_OpenTrunc_total [OF assms] by blast
  then show thesis
    using that assms(1) by (auto simp: os_WriteFile_def os_Write_def Let_def)
qed

end
