(* ===== verification/Go_Http.thy ===== *)
theory Go_Http
  imports Prelude
begin

text \<open>
  The HTTP client of the controller: \<^verbatim>\<open>sameHostRedirectPolicy\<close> of
  \<^verbatim>\<open>controllers/mavenartifact_controller.go\<close> and the redirect loop of Go's \<^verbatim>\<open>http.Client.Do\<close>,
  which calls it. What the network answers, and how a URL text is read, are functions of the
  environment, so the theorems hold for every server. The log \<open>sent\<close> records each request
  that leaves the process.
\<close>

section \<open>Messages\<close>

text \<open>A URL through what the code observes of it: scheme, host and its text.\<close>

record url =
  u_Scheme :: string
  u_Host :: string
  u_String :: string

record request =
  req_Method :: string
  req_URL :: url
  req_BasicAuth :: "(string \<times> string) option"

text \<open>
  A response: its status, its \<^verbatim>\<open>Location\<close> header (empty when absent), the bytes its body yields
  and the error that ends reading it, if any.
\<close>

record response =
  StatusCode :: int
  Location :: string
  Body :: string
  BodyErr :: "go_error option"

text \<open>\<^verbatim>\<open>http.Transport\<close>: the pool of trusted root certificates.\<close>

record transport =
  RootCAs :: "string list"

text \<open>
  \<open>send\<close> is one round trip, given the requests sent before; \<open>url_Parse\<close> is \<^verbatim>\<open>url.Parse\<close> and
  \<open>url_ParseRef\<close> resolves a \<^verbatim>\<open>Location\<close> against the URL of the request it answers (a parse
  error is its message).
\<close>

record http_env =
  send :: "request list \<Rightarrow> transport \<Rightarrow> request \<Rightarrow> go_error + response"
  url_Parse :: "string \<Rightarrow> string + url"
  url_ParseRef :: "url \<Rightarrow> string \<Rightarrow> string + url"

section \<open>Redirect policy and client\<close>

definition maxRedirects :: nat where
  "maxRedirects = 10"

definition sameHostRedirectPolicy :: "request \<Rightarrow> request list \<Rightarrow> unit outcome" where
  "sameHostRedirectPolicy req via =
     (if length via \<ge> maxRedirects
      then Error (Errorf ''stopped after %d redirects'' [AInt (int maxRedirects)])
      else case via of
             [] \<Rightarrow> Panic ''index out of range [0] with length 0''
           | v # _ \<Rightarrow>
               (let orig = req_URL v in
                if u_Scheme (req_URL req) \<noteq> u_Scheme orig \<or> u_Host (req_URL req) \<noteq> u_Host orig
                then Error (Errorf ''redirect from %q to %q crosses origin scheme/host, which is not allowed''
                              [AStr (u_String orig), AStr (u_String (req_URL req))])
                else Ok ()))"

text \<open>The statuses on which \<^verbatim>\<open>http.Client.Do\<close> follows the \<^verbatim>\<open>Location\<close> of a GET.\<close>

definition shouldRedirect :: "response \<Rightarrow> bool" where
  "shouldRedirect r \<longleftrightarrow> StatusCode r \<in> {301, 302, 303, 307, 308}"

text \<open>
  The loop of \<^verbatim>\<open>http.Client.Do\<close> for a GET with \<^verbatim>\<open>CheckRedirect: sameHostRedirectPolicy\<close>: send the
  request; on a redirect with a \<^verbatim>\<open>Location\<close>, build the next request from it, ask the policy
  with all requests so far, and go on. \<open>via\<close> holds the requests before \<open>req\<close>, oldest first.
\<close>

function client_loop ::
  "http_env \<Rightarrow> transport \<Rightarrow> request list \<Rightarrow> request list \<Rightarrow> request \<Rightarrow> response outcome \<times> request list" where
  "client_loop h tr sent via req =
     (case send h sent tr req of
        Inl e \<Rightarrow> (Error (UrlError e), sent @ [req])
      | Inr resp \<Rightarrow>
          (if \<not> shouldRedirect resp \<or> Location resp = [] then (Ok resp, sent @ [req])
           else case url_ParseRef h (req_URL req) (Location resp) of
             Inl msg \<Rightarrow>
               (Error (UrlError (Errorf ''failed to parse Location header %q: %v''
                  [AStr (Location resp), AStr msg])), sent @ [req])
           | Inr u \<Rightarrow>
               (let req' = req\<lparr>req_URL := u\<rparr>; via' = via @ [req] in
                case sameHostRedirectPolicy req' via' of
                  Error e \<Rightarrow> (Error (UrlError e), sent @ [req])
                | Panic m \<Rightarrow> (Panic m, sent @ [req])
                | Ok _ \<Rightarrow> client_loop h tr (sent @ [req]) via' req')))"
  by pat_completeness auto
termination
  by (relation "measure (\<lambda>(h, tr, sent, via, req). maxRedirects - length via)")
    (auto simp: sameHostRedirectPolicy_def split: if_splits)

declare client_loop.simps [simp del]

definition client_Do ::
  "http_env \<Rightarrow> transport \<Rightarrow> request list \<Rightarrow> request \<Rightarrow> response outcome \<times> request list" where
  "client_Do h tr sent req = client_loop h tr sent [] req"

section \<open>Properties\<close>

lemma policy_Ok:
  "sameHostRedirectPolicy req via = Ok () \<longleftrightarrow>
     via \<noteq> [] \<and> length via < maxRedirects \<and>
     u_Scheme (req_URL req) = u_Scheme (req_URL (hd via)) \<and>
     u_Host (req_URL req) = u_Host (req_URL (hd via))"
  by (cases via) (auto simp: sameHostRedirectPolicy_def Let_def)

definition same_origin :: "url \<Rightarrow> url \<Rightarrow> bool" where
  "same_origin u v \<longleftrightarrow> u_Scheme u = u_Scheme v \<and> u_Host u = u_Host v"

text \<open>What one run of the redirect loop appends to the log of requests.\<close>

lemma client_loop_sent:
  "\<exists>new. snd (client_loop h tr sent via req) = sent @ new \<and> new \<noteq> [] \<and>
     length via + length new \<le> max (length via + 1) maxRedirects \<and>
     (\<forall>r \<in> set new. req_BasicAuth r = req_BasicAuth req \<and> req_Method r = req_Method req \<and>
        same_origin (req_URL r) (req_URL (hd (via @ [req]))) \<or> r = req)"
proof (induction h tr sent via req rule: client_loop.induct)
  case (1 h tr sent via req)
  let ?stop = "snd (client_loop h tr sent via req) = sent @ [req]"
  have stop: ?case if ?stop
    using that by (intro exI [of _ "[req]"]) (auto simp: maxRedirects_def)
  show ?case
  proof (cases "send h sent tr req")
    case (Inl e)
    then show ?thesis by (intro stop) (simp add: client_loop.simps [of h tr sent via req])
  next
    case (Inr resp)
    show ?thesis
    proof (cases "\<not> shouldRedirect resp \<or> Location resp = []")
      case True
      with Inr show ?thesis by (intro stop) (simp add: client_loop.simps [of h tr sent via req])
    next
      case redir: False
      show ?thesis
      proof (cases "url_ParseRef h (req_URL req) (Location resp)")
        case (Inl m)
        with Inr redir show ?thesis
          by (intro stop) (simp add: client_loop.simps [of h tr sent via req])
      next
        case u: (Inr u)
        let ?req' = "req\<lparr>req_URL := u\<rparr>"
        let ?via' = "via @ [req]"
        show ?thesis
        proof (cases "sameHostRedirectPolicy ?req' ?via'")
          case (Ok x)
          then have pol: "length ?via' < maxRedirects"
              "same_origin u (req_URL (hd ?via'))"
            using policy_Ok [of ?req' ?via'] by (auto simp: same_origin_def)
          obtain new where new: "snd (client_loop h tr (sent @ [req]) ?via' ?req') = (sent @ [req]) @ new"
            "new \<noteq> []" "length ?via' + length new \<le> max (length ?via' + 1) maxRedirects"
            "\<forall>r \<in> set new. req_BasicAuth r = req_BasicAuth ?req' \<and> req_Method r = req_Method ?req' \<and>
               same_origin (req_URL r) (req_URL (hd (?via' @ [?req']))) \<or> r = ?req'"
            using "1.IH" [OF Inr redir u refl refl Ok] by blast
          have hd_eq: "hd (?via' @ [?req']) = hd ?via'" by (cases via) auto
          have "snd (client_loop h tr sent via req) = sent @ req # new"
            using new(1) Inr redir u Ok by (simp add: client_loop.simps [of h tr sent via req])
          moreover have "length via + length (req # new) \<le> max (length via + 1) maxRedirects"
            using new(3) pol(1) by simp
          moreover have "\<forall>r \<in> set (req # new). req_BasicAuth r = req_BasicAuth req \<and>
              req_Method r = req_Method req \<and> same_origin (req_URL r) (req_URL (hd ?via')) \<or> r = req"
            using new(4) pol(2) unfolding hd_eq by auto
          ultimately show ?thesis by blast
        next
          case (Error e)
          with Inr redir u show ?thesis
            by (intro stop) (simp add: client_loop.simps [of h tr sent via req])
        next
          case (Panic m)
          with Inr redir u show ?thesis
            by (intro stop) (simp add: client_loop.simps [of h tr sent via req])
        qed
      qed
    qed
  qed
qed

text \<open>The policy is never asked with an empty history, so the client does not panic.\<close>

lemma client_loop_no_panic: "\<not> is_Panic (fst (client_loop h tr sent via req))"
proof (induction h tr sent via req rule: client_loop.induct)
  case (1 h tr sent via req)
  have pol: "sameHostRedirectPolicy r (via @ [req]) \<noteq> Panic m" for r m
    by (cases via) (auto simp: sameHostRedirectPolicy_def Let_def)
  show ?case
    unfolding client_loop.simps [of h tr sent via req] Let_def
    using "1.IH" pol by (auto split: sum.splits outcome.splits)
qed

lemma client_Do_log:
  "\<exists>new. snd (client_Do h tr sent req) = sent @ new \<and> 1 \<le> length new \<and> length new \<le> maxRedirects \<and>
     (\<forall>r \<in> set new. same_origin (req_URL r) (req_URL req) \<and>
        req_BasicAuth r = req_BasicAuth req \<and> req_Method r = req_Method req) \<and>
     \<not> is_Panic (fst (client_Do h tr sent req))"
proof -
  obtain new where new: "snd (client_loop h tr sent [] req) = sent @ new" "new \<noteq> []"
    "length new \<le> max 1 maxRedirects"
    "\<forall>r \<in> set new. req_BasicAuth r = req_BasicAuth req \<and> req_Method r = req_Method req \<and>
       same_origin (req_URL r) (req_URL req) \<or> r = req"
    using client_loop_sent [of h tr sent "[]" req] by auto
  then have "1 \<le> length new" "length new \<le> maxRedirects"
    by (auto simp: maxRedirects_def Suc_le_eq)
  moreover have "\<forall>r \<in> set new. same_origin (req_URL r) (req_URL req) \<and>
      req_BasicAuth r = req_BasicAuth req \<and> req_Method r = req_Method req"
    using new(4) by (auto simp: same_origin_def)
  ultimately show ?thesis
    using new(1) client_loop_no_panic unfolding client_Do_def by blast
qed

text \<open>
  C11: one call of the client sends at most ten requests, and every one of them, redirects
  included, goes to the scheme and host of the URL it was asked for, with the same method and
  credentials, whatever the servers answer; and the call does not panic.
\<close>

theorem client_Do_pinned_to_origin:
  "\<exists>new. snd (client_Do h tr sent req) = sent @ new \<and> 1 \<le> length new \<and> length new \<le> maxRedirects \<and>
     (\<forall>r \<in> set new. same_origin (req_URL r) (req_URL req) \<and>
        req_BasicAuth r = req_BasicAuth req \<and> req_Method r = req_Method req) \<and>
     \<not> is_Panic (fst (client_Do h tr sent req))"
  by (rule client_Do_log)


text \<open>A repository that redirects every request to a different host.\<close>

definition hostile_http :: http_env where
  "hostile_http =
     \<lparr>send = (\<lambda>_ _ _. Inr \<lparr>StatusCode = 302, Location = ''http://169.254.169.254/'', Body = [],
         BodyErr = None\<rparr>),
      url_Parse = (\<lambda>s. Inr \<lparr>u_Scheme = ''https'', u_Host = ''repo'', u_String = s\<rparr>),
      url_ParseRef = (\<lambda>_ s. Inr \<lparr>u_Scheme = ''http'', u_Host = ''169.254.169.254'', u_String = s\<rparr>)\<rparr>"

theorem client_Do_pinned_to_origin_witness:
  "list_all (\<lambda>r. u_Host (req_URL r) = ''repo'')
     (snd (client_Do hostile_http \<lparr>RootCAs = []\<rparr> []
        \<lparr>req_Method = ''GET'', req_URL = \<lparr>u_Scheme = ''https'', u_Host = ''repo'', u_String = ''https://repo''\<rparr>,
         req_BasicAuth = None\<rparr>))"
  using client_Do_pinned_to_origin [of hostile_http "\<lparr>RootCAs = []\<rparr>" "[]"
      "\<lparr>req_Method = ''GET'', req_URL = \<lparr>u_Scheme = ''https'', u_Host = ''repo'', u_String = ''https://repo''\<rparr>,
         req_BasicAuth = None\<rparr>"]
  by (auto simp: list_all_iff same_origin_def)

end
