(* ===== verification/Maven_Metadata.thy ===== *)
theory Maven_Metadata
  imports Prelude
begin

text \<open>
  \<^verbatim>\<open>pkg/mavenmetadata/mavenmetadata.go\<close>: the unmarshaled \<^verbatim>\<open>maven-metadata.xml\<close> and the
  selection of a release, latest or snapshot version from it. The XML decoder of the Go
  library is the argument \<open>xml_Unmarshal\<close> of \<open>Parse\<close>: a decoding error is its message.
\<close>

section \<open>Data\<close>

record SnapshotVersion =
  sv_Extension :: string
  sv_Value :: string
  sv_Updated :: string

record SnapshotElement =
  se_Timestamp :: string
  se_BuildNumber :: string

record Versioning =
  Latest :: string
  Release :: string
  Versions :: "string list"
  LastUpdated :: string
  SnapshotVersions :: "SnapshotVersion list"
  Snapshot :: SnapshotElement

record MavenMetadata =
  mm_GroupID :: string
  mm_ArtifactID :: string
  mm_Version :: string
  mm_Versioning :: Versioning

section \<open>Operations\<close>

definition ReleaseVersion :: "MavenMetadata \<Rightarrow> string outcome" where
  "ReleaseVersion m =
     (if Release (mm_Versioning m) = []
      then Error (Errorf ''artifact metadata does not have a RELEASE version'' [])
      else Ok (Release (mm_Versioning m)))"

definition LatestVersion :: "MavenMetadata \<Rightarrow> string outcome" where
  "LatestVersion m =
     (if Latest (mm_Versioning m) = []
      then Error (Errorf ''artifact metadata does not have a LATEST version'' [])
      else Ok (Latest (mm_Versioning m)))"

text \<open>The value a timestamped snapshot of this metadata has: \<^verbatim>\<open>base-timestamp-buildNumber\<close>.\<close>

definition snapshot_tempvalue :: "MavenMetadata \<Rightarrow> string" where
  "snapshot_tempvalue m =
     Replace1 (mm_Version m) ''-SNAPSHOT'' [] @ ''-'' @
     se_Timestamp (Snapshot (mm_Versioning m)) @ ''-'' @
     se_BuildNumber (Snapshot (mm_Versioning m))"

text \<open>The loop over the snapshot versions: the last entry that matches is kept.\<close>

fun snapshot_loop ::
  "string \<Rightarrow> string \<Rightarrow> SnapshotVersion option \<Rightarrow> SnapshotVersion list \<Rightarrow> SnapshotVersion option" where
  "snapshot_loop filetype tempvalue sv [] = sv"
| "snapshot_loop filetype tempvalue sv (v # vs) =
     snapshot_loop filetype tempvalue
       (if sv_Extension v = filetype \<and> sv_Value v = tempvalue then Some v else sv) vs"

definition SnapshotResolvedVersion :: "MavenMetadata \<Rightarrow> string \<Rightarrow> string" where
  "SnapshotResolvedVersion m filetype =
     (case snapshot_loop filetype (snapshot_tempvalue m) None (SnapshotVersions (mm_Versioning m)) of
        None \<Rightarrow> mm_Version m
      | Some sv \<Rightarrow> sv_Value sv)"

text \<open>\<^verbatim>\<open>Parse\<close>: a nil slice (\<open>None\<close>) is refused before decoding.\<close>

definition Parse :: "(string \<Rightarrow> string + MavenMetadata) \<Rightarrow> string option \<Rightarrow> MavenMetadata outcome" where
  "Parse xml_Unmarshal input =
     (case input of
        None \<Rightarrow> Error (ErrorText ''nil input'')
      | Some bs \<Rightarrow> (case xml_Unmarshal bs of
                     Inl msg \<Rightarrow> Error (ErrorText msg)
                   | Inr metadata \<Rightarrow> Ok metadata))"

section \<open>Properties\<close>

lemma snapshot_loop_value:
  "snapshot_loop ft tv sv vs =
     (if \<exists>v \<in> set vs. sv_Extension v = ft \<and> sv_Value v = tv
      then Some (last (filter (\<lambda>v. sv_Extension v = ft \<and> sv_Value v = tv) vs))
      else sv)"
  by (induction vs arbitrary: sv) (auto simp: filter_empty_conv)

lemma ReleaseVersion_Ok: "ReleaseVersion m = Ok v \<longleftrightarrow> v = Release (mm_Versioning m) \<and> v \<noteq> []"
  by (auto simp: ReleaseVersion_def)

lemma LatestVersion_Ok: "LatestVersion m = Ok v \<longleftrightarrow> v = Latest (mm_Versioning m) \<and> v \<noteq> []"
  by (auto simp: LatestVersion_def)

text \<open>
  C28: a snapshot resolves to the timestamped version of the metadata exactly when the metadata
  lists a snapshot version with the requested file extension and that very value, wherever in
  the list it stands; otherwise it resolves to the version of the metadata itself.
\<close>

theorem SnapshotResolvedVersion_correct:
  "SnapshotResolvedVersion m filetype =
     (if \<exists>v \<in> set (SnapshotVersions (mm_Versioning m)).
           sv_Extension v = filetype \<and> sv_Value v = snapshot_tempvalue m
      then snapshot_tempvalue m else mm_Version m)"
proof (cases "\<exists>v \<in> set (SnapshotVersions (mm_Versioning m)).
    sv_Extension v = filetype \<and> sv_Value v = snapshot_tempvalue m")
  case True
  let ?P = "\<lambda>v. sv_Extension v = filetype \<and> sv_Value v = snapshot_tempvalue m"
  from True have "filter ?P (SnapshotVersions (mm_Versioning m)) \<noteq> []"
    by (auto simp: filter_empty_conv)
  then have "last (filter ?P (SnapshotVersions (mm_Versioning m))) \<in>
      set (filter ?P (SnapshotVersions (mm_Versioning m)))"
    by (rule last_in_set)
  with True show ?thesis
    by (auto simp: SnapshotResolvedVersion_def snapshot_loop_value)
qed (auto simp: SnapshotResolvedVersion_def snapshot_loop_value)

end
