(* ===== verification/Api_Types.thy ===== *)
theory Api_Types
  imports Go_Path
begin

text \<open>
  The API types of \<^verbatim>\<open>apis/source/v1alpha1\<close> and their status conditions. Durations and times are
  integers (nanoseconds; the zero \<^verbatim>\<open>metav1.Time\<close> is 0), an optional pointer is an \<open>option\<close>. The
  condition manager of the reconciler runtime is not part of this repository: its calls are the
  fields of \<open>condition_api\<close>, an argument of everything that uses them. A condition message is
  kept as the format and the arguments the code passes.
\<close>

section \<open>Artifact\<close>

definition Group :: string where
  "Group = ''source.apps.tanzu.vmware.com''"

record Artifact =
  a_Path :: string
  a_URL :: string
  a_Revision :: string
  a_Checksum :: string
  a_LastUpdateTime :: int

definition HasRevision :: "Artifact option \<Rightarrow> string \<Rightarrow> bool" where
  "HasRevision a revision = (case a of None \<Rightarrow> False | Some x \<Rightarrow> a_Revision x = revision)"

text \<open>\<open>ToLower\<close> is \<^verbatim>\<open>strings.ToLower\<close>.\<close>

definition ArtifactDir :: "(string \<Rightarrow> string) \<Rightarrow> string \<Rightarrow> string \<Rightarrow> string \<Rightarrow> string" where
  "ArtifactDir ToLower kind namespace nm = Join [ToLower kind, namespace, nm]"

definition ArtifactPath :: "(string \<Rightarrow> string) \<Rightarrow> string \<Rightarrow> string \<Rightarrow> string \<Rightarrow> string \<Rightarrow> string" where
  "ArtifactPath ToLower kind namespace nm filename =
     Join [ArtifactDir ToLower kind namespace nm, filename]"

section \<open>Conditions\<close>

record Condition =
  c_Type :: string
  c_Status :: string
  c_Reason :: string
  c_Message :: "string \<times> fmt_arg list"

text \<open>
  \<open>MarkTrue\<close>, \<open>MarkFalse\<close>: condition set, condition type, reason, message format, arguments.
\<close>

record condition_api =
  MarkTrue :: "string list \<Rightarrow> string \<Rightarrow> string \<Rightarrow> string \<Rightarrow> fmt_arg list \<Rightarrow> Condition list \<Rightarrow> Condition list"
  MarkFalse :: "string list \<Rightarrow> string \<Rightarrow> string \<Rightarrow> string \<Rightarrow> fmt_arg list \<Rightarrow> Condition list \<Rightarrow> Condition list"
  InitializeConditions :: "string list \<Rightarrow> Condition list \<Rightarrow> Condition list"
  GetCondition :: "string list \<Rightarrow> Condition list \<Rightarrow> string \<Rightarrow> Condition option"
  ConditionIsUnknown :: "Condition option \<Rightarrow> bool"

section \<open>Resources\<close>

record ObjectMeta =
  Namespace :: string
  Name :: string

record Repository =
  repo_URL :: string
  SecretRef :: string

record MavenArtifactType =
  GroupId :: string
  at_Version :: string
  ArtifactId :: string
  at_Type :: string
  Classifier :: string

record MavenArtifactSpec =
  ms_Artifact :: MavenArtifactType
  ms_Repository :: Repository
  ms_Interval :: int
  ms_Timeout :: "int option"

record MavenArtifactStatus =
  mst_Conditions :: "Condition list"
  mst_URL :: string
  mst_Artifact :: "Artifact option"

record MavenArtifact =
  ma_Meta :: ObjectMeta
  ma_Spec :: MavenArtifactSpec
  ma_Status :: MavenArtifactStatus

record ImageRepositorySpec =
  irs_Image :: string
  irs_Interval :: int
  irs_ImagePullSecrets :: "string list"
  irs_ServiceAccountName :: string

record ImageRepositoryStatus =
  irst_Conditions :: "Condition list"
  irst_URL :: string
  irst_Artifact :: "Artifact option"

record ImageRepository =
  ir_Meta :: ObjectMeta
  ir_Spec :: ImageRepositorySpec
  ir_Status :: ImageRepositoryStatus

section \<open>Lifecycle of MavenArtifact conditions\<close>

definition MavenArtifactConditionArtifactResolved :: string where
  "MavenArtifactConditionArtifactResolved = ''ArtifactVersionResolved''"

definition MavenArtifactConditionArtifactAvailable :: string where
  "MavenArtifactConditionArtifactAvailable = ''ArtifactAvailable''"

definition MavenArtifactCondSet :: "string list" where
  "MavenArtifactCondSet =
     [MavenArtifactConditionArtifactResolved, MavenArtifactConditionArtifactAvailable]"

definition ma_MarkTrue ::
  "condition_api \<Rightarrow> string \<Rightarrow> string \<Rightarrow> string \<Rightarrow> fmt_arg list \<Rightarrow> MavenArtifact \<Rightarrow> MavenArtifact" where
  "ma_MarkTrue api t reason msg args c =
     c\<lparr>ma_Status := (ma_Status c)\<lparr>mst_Conditions :=
        MarkTrue api MavenArtifactCondSet t reason msg args (mst_Conditions (ma_Status c))\<rparr>\<rparr>"

definition ma_MarkFalse ::
  "condition_api \<Rightarrow> string \<Rightarrow> string \<Rightarrow> string \<Rightarrow> fmt_arg list \<Rightarrow> MavenArtifact \<Rightarrow> MavenArtifact" where
  "ma_MarkFalse api t reason msg args c =
     c\<lparr>ma_Status := (ma_Status c)\<lparr>mst_Conditions :=
        MarkFalse api MavenArtifactCondSet t reason msg args (mst_Conditions (ma_Status c))\<rparr>\<rparr>"

definition ma_InitializeConditions :: "condition_api \<Rightarrow> MavenArtifactStatus \<Rightarrow> MavenArtifactStatus" where
  "ma_InitializeConditions api s =
     s\<lparr>mst_Conditions := InitializeConditions api MavenArtifactCondSet (mst_Conditions s)\<rparr>"

section \<open>Lifecycle of ImageRepository conditions\<close>

definition ImageRepositoryConditionImageResolved :: string where
  "ImageRepositoryConditionImageResolved = ''ImageResolved''"

definition ImageRepositoryConditionArtifactAvailable :: string where
  "ImageRepositoryConditionArtifactAvailable = ''ArtifactAvailable''"

definition imagerepositoryCondSet :: "string list" where
  "imagerepositoryCondSet =
     [ImageRepositoryConditionImageResolved, ImageRepositoryConditionArtifactAvailable]"

definition ir_MarkTrue ::
  "condition_api \<Rightarrow> string \<Rightarrow> string \<Rightarrow> string \<Rightarrow> fmt_arg list \<Rightarrow> ImageRepository \<Rightarrow> ImageRepository" where
  "ir_MarkTrue api t reason msg args c =
     c\<lparr>ir_Status := (ir_Status c)\<lparr>irst_Conditions :=
        MarkTrue api imagerepositoryCondSet t reason msg args (irst_Conditions (ir_Status c))\<rparr>\<rparr>"

definition ir_MarkFalse ::
  "condition_api \<Rightarrow> string \<Rightarrow> string \<Rightarrow> string \<Rightarrow> fmt_arg list \<Rightarrow> ImageRepository \<Rightarrow> ImageRepository" where
  "ir_MarkFalse api t reason msg args c =
     c\<lparr>ir_Status := (ir_Status c)\<lparr>irst_Conditions :=
        MarkFalse api imagerepositoryCondSet t reason msg args (irst_Conditions (ir_Status c))\<rparr>\<rparr>"

definition ir_ConditionIsUnknown :: "condition_api \<Rightarrow> string \<Rightarrow> ImageRepository \<Rightarrow> bool" where
  "ir_ConditionIsUnknown api t c =
     ConditionIsUnknown api
       (GetCondition api imagerepositoryCondSet (irst_Conditions (ir_Status c)) t)"

text \<open>Unlike its counterpart for MavenArtifact, this one forgets the previous conditions first.\<close>

definition ir_InitializeConditions :: "condition_api \<Rightarrow> ImageRepositoryStatus \<Rightarrow> ImageRepositoryStatus" where
  "ir_InitializeConditions api s =
     (let s' = s\<lparr>irst_Conditions := []\<rparr> in
      s'\<lparr>irst_Conditions := InitializeConditions api imagerepositoryCondSet (irst_Conditions s')\<rparr>)"

section \<open>Condition updates touch nothing else\<close>

lemma ma_Mark_frame [simp, frame_simps]:
  "ma_Meta (ma_MarkTrue api t r m as c) = ma_Meta c"
  "ma_Spec (ma_MarkTrue api t r m as c) = ma_Spec c"
  "mst_URL (ma_Status (ma_MarkTrue api t r m as c)) = mst_URL (ma_Status c)"
  "mst_Artifact (ma_Status (ma_MarkTrue api t r m as c)) = mst_Artifact (ma_Status c)"
  "ma_Meta (ma_MarkFalse api t r m as c) = ma_Meta c"
  "ma_Spec (ma_MarkFalse api t r m as c) = ma_Spec c"
  "mst_URL (ma_Status (ma_MarkFalse api t r m as c)) = mst_URL (ma_Status c)"
  "mst_Artifact (ma_Status (ma_MarkFalse api t r m as c)) = mst_Artifact (ma_Status c)"
  by (simp_all add: ma_MarkTrue_def ma_MarkFalse_def)

lemma ir_Mark_frame [simp, frame_simps]:
  "ir_Meta (ir_MarkTrue api t r m as c) = ir_Meta c"
  "ir_Spec (ir_MarkTrue api t r m as c) = ir_Spec c"
  "irst_URL (ir_Status (ir_MarkTrue api t r m as c)) = irst_URL (ir_Status c)"
  "irst_Artifact (ir_Status (ir_MarkTrue api t r m as c)) = irst_Artifact (ir_Status c)"
  "ir_Meta (ir_MarkFalse api t r m as c) = ir_Meta c"
  "ir_Spec (ir_MarkFalse api t r m as c) = ir_Spec c"
  "irst_URL (ir_Status (ir_MarkFalse api t r m as c)) = irst_URL (ir_Status c)"
  "irst_Artifact (ir_Status (ir_MarkFalse api t r m as c)) = irst_Artifact (ir_Status c)"
  by (simp_all add: ir_MarkTrue_def ir_MarkFalse_def)

section \<open>Artifact paths\<close>

lemma ArtifactPath_proper:
  assumes "list_all proper [ToLower kind, namespace, nm, filename]"
  shows "ArtifactPath ToLower kind namespace nm filename =
    join_with slash [ToLower kind, namespace, nm, filename]"
proof -
  let ?d = "Join [ToLower kind, namespace, nm]"
  have p: "proper (ToLower kind)" using assms by simp
  then have ne: "ToLower kind \<noteq> []" by (simp add: proper_def)
  have c: "comps ?d = [ToLower kind, namespace, nm]"
    using assms comps_Join_proper [OF ne, of "[namespace, nm]"] comps_proper [OF p] by simp
  have "?d \<noteq> []" using ne by (simp add: Join_Cons)
  moreover have "\<not> IsAbs ?d" using ne proper_not_abs [OF p] by (simp add: IsAbs_Join)
  ultimately show ?thesis
    using assms Join_proper [of ?d "[filename]"]
    by (simp add: ArtifactPath_def ArtifactDir_def c render_def)
qed

text \<open>
  C33: for a resource whose lower-cased kind, namespace and name and whose file name are proper
  path components, the artifact path is exactly \<^verbatim>\<open>kind/namespace/name/filename\<close>, and
  different resources or files never share a path.
\<close>

theorem ArtifactPath_injective:
  assumes "list_all proper [ToLower kind, namespace, nm, filename]"
    and "list_all proper [ToLower kind', namespace', nm', filename']"
  shows "ArtifactPath ToLower kind namespace nm filename =
      join_with slash [ToLower kind, namespace, nm, filename] \<and>
    (ArtifactPath ToLower kind namespace nm filename =
        ArtifactPath ToLower kind' namespace' nm' filename' \<longrightarrow>
      (ToLower kind, namespace, nm, filename) = (ToLower kind', namespace', nm', filename'))"
proof -
  have split: "Split (join_with slash ws) slash = ws" if "list_all proper ws" "ws \<noteq> []" for ws
    using that by (intro Split_join_with) (auto simp: list_all_iff proper_def)
  have "[ToLower kind, namespace, nm, filename] = [ToLower kind', namespace', nm', filename']"
    if "join_with slash [ToLower kind, namespace, nm, filename] =
        join_with slash [ToLower kind', namespace', nm', filename']"
    using split [OF assms(1) list.distinct(2)] split [OF assms(2) list.distinct(2)] that by metis
  then show ?thesis
    using ArtifactPath_proper [of ToLower kind namespace nm filename]
      ArtifactPath_proper [of ToLower kind' namespace' nm' filename'] assms
    by (simp only: list.inject prod.inject simp_thms) blast
qed

theorem ArtifactPath_injective_witness:
  "ArtifactPath id ''imagerepository'' ''dev'' ''app'' ''a.tar.gz'' =
     ''imagerepository/dev/app/a.tar.gz''"
  using ArtifactPath_injective [of id "''imagerepository''" "''dev''" "''app''" "''a.tar.gz''"
      "''imagerepository''" "''dev''" "''app''" "''a.tar.gz''"]
  by (simp add: proper_def)

end
