(* ===== verification/Environment.thy ===== *)
theory Environment
  imports Go_OS Go_Http Maven_Metadata Api_Types
begin

text \<open>
  What the controller finds around it: the reconciler runtime, the Kubernetes API, the image
  registry client and the codecs of the Go library. None of it is code of this repository, so it
  is one record of functions, \<open>env\<close>, an argument of the definitions that use it. The documented
  behaviour the code relies on is stated as the predicates \<open>stash_laws\<close>, \<open>condition_laws\<close>,
  \<open>set_laws\<close>, \<open>digest_laws\<close> and \<open>pull_laws\<close>, which are hypotheses of the theorems that need them; \<open>sample_env\<close> is a
  concrete environment in which they hold.
\<close>

section \<open>Data exchanged with the surroundings\<close>

text \<open>\<^verbatim>\<open>corev1.Secret\<close>: \<open>None\<close> is a nil \<^verbatim>\<open>Data\<close> map.\<close>

record Secret =
  sec_Name :: string
  sec_Data :: "(string \<rightharpoonup> string) option"

record ServiceAccount =
  sa_ImagePullSecrets :: "string list"

text \<open>The HTTP client of a reconcile; its redirect policy is part of \<open>client_loop\<close>.\<close>

record http_client =
  hc_Transport :: transport

record ArtifactDetails =
  ResolvedFileName :: string
  ArtifactVersion :: string
  ArtifactDownloadURL :: string

text \<open>The values the controllers put in the stash of a reconcile, by their Go type.\<close>

datatype stash_value =
    StashClient http_client
  | StashSecret Secret
  | StashDetails ArtifactDetails
  | StashTransport transport
  | StashSecrets "Secret list"
  | StashString string

type_synonym stash = "(string \<times> stash_value) list"

text \<open>
  An archive entry as \<^verbatim>\<open>archive/zip\<close> presents it: name, directory flag, permission bits, the
  error of opening it, its bytes, and the error that ends reading them.
\<close>

record zip_file =
  zf_Name :: string
  zf_IsDir :: bool
  zf_Mode :: nat
  zf_OpenErr :: "go_error option"
  zf_Content :: string
  zf_ReadErr :: "go_error option"

text \<open>A tar header with the fields \<^verbatim>\<open>createTarGz\<close> sets, and the bytes that follow it.\<close>

record tar_entry =
  th_Name :: string
  th_Mode :: nat
  th_ModTime :: int
  th_Uid :: nat
  th_Gid :: nat
  th_Uname :: string
  th_Gname :: string
  th_Content :: string

section \<open>The environment\<close>

text \<open>
  Reconciler runtime: \<open>StashValue\<close>, \<open>RetrieveValue\<close>, the condition manager, \<^verbatim>\<open>TrackAndGet\<close> of a secret
  and of a service account by namespace and name, \<open>IsNotFound\<close> on its errors, and \<open>set_List\<close>, the
  contents of a \<^verbatim>\<open>sets.String\<close> after inserting the given names. Registry: \<open>NewDigest\<close> (the digest
  text of a reference), \<open>NewTag\<close> (the tag's full name), \<open>NewFromPullSecrets\<close> (a keychain), \<open>Head\<close> (the
  digest a tag points to), \<open>NewBasicRegistry\<close>, and \<open>Pull\<close>, which unpacks an image below a directory.
  Go library: the XML codec, \<open>targz\<close> (a gzip-compressed tar file of entries;
  \<open>targz_aborted\<close> is what closing the writers after an error leaves), \<open>unzip\<close> (the
  directory of a zip file), the system certificate pool, the certificates of a PEM text, PEM
  encoding, and the clock.
\<close>

record env =
  os :: os_env
  http :: http_env
  cond :: condition_api
  StashValue :: "string \<Rightarrow> stash_value \<Rightarrow> stash \<Rightarrow> stash"
  RetrieveValue :: "string \<Rightarrow> stash \<Rightarrow> stash_value option"
  GetSecret :: "string \<Rightarrow> string \<Rightarrow> go_error + Secret"
  GetServiceAccount :: "string \<Rightarrow> string \<Rightarrow> go_error + ServiceAccount"
  IsNotFound :: "go_error \<Rightarrow> bool"
  set_List :: "string list \<Rightarrow> string list"
  NewDigest :: "string \<Rightarrow> go_error + string"
  NewTag :: "string \<Rightarrow> go_error + string"
  NewFromPullSecrets :: "Secret list \<Rightarrow> go_error + string"
  Head :: "string \<Rightarrow> transport option \<Rightarrow> string \<Rightarrow> go_error + string"
  NewBasicRegistry :: "string \<Rightarrow> transport option \<Rightarrow> go_error + string"
  Pull :: "string \<Rightarrow> string \<Rightarrow> string \<Rightarrow> fs \<Rightarrow> go_error option \<times> fs"
  xml_Unmarshal :: "string \<Rightarrow> string + MavenMetadata"
  xml_MarshalIndent :: "MavenMetadata \<Rightarrow> string + string"
  tar_WriteErr :: "tar_entry \<Rightarrow> string option"
  targz :: "tar_entry list \<Rightarrow> string"
  targz_aborted :: "tar_entry list \<Rightarrow> string"
  unzip :: "string \<Rightarrow> string + zip_file list"
  SystemCertPool :: "string + string list"
  pem_certs :: "string \<Rightarrow> string list"
  pem_encode :: "string \<Rightarrow> string"
  now :: int

section \<open>Documented behaviour\<close>

definition stash_laws :: "env \<Rightarrow> bool" where
  "stash_laws e \<longleftrightarrow>
     (\<forall>k v s. RetrieveValue e k (StashValue e k v s) = Some v) \<and>
     (\<forall>k k' v s. k \<noteq> k' \<longrightarrow> RetrieveValue e k' (StashValue e k v s) = RetrieveValue e k' s) \<and>
     (\<forall>k. RetrieveValue e k [] = None)"

definition find_condition :: "string \<Rightarrow> Condition list \<Rightarrow> Condition option" where
  "find_condition t cs = find (\<lambda>c. c_Type c = t) cs"

text \<open>
  Marking a condition of the set sets its status, reason and message, and leaves every other
  condition but the happy one, \<^verbatim>\<open>Ready\<close>, as it was; \<open>GetCondition\<close> finds a condition by type.
\<close>

definition condition_laws :: "condition_api \<Rightarrow> bool" where
  "condition_laws api \<longleftrightarrow>
     (\<forall>cset t r m as cs. t \<in> set cset \<longrightarrow>
        find_condition t (MarkTrue api cset t r m as cs) =
          Some \<lparr>c_Type = t, c_Status = ''True'', c_Reason = r, c_Message = (m, as)\<rparr>) \<and>
     (\<forall>cset t r m as cs. t \<in> set cset \<longrightarrow>
        find_condition t (MarkFalse api cset t r m as cs) =
          Some \<lparr>c_Type = t, c_Status = ''False'', c_Reason = r, c_Message = (m, as)\<rparr>) \<and>
     (\<forall>cset t t' r m as cs. t' \<noteq> t \<and> t' \<noteq> ''Ready'' \<longrightarrow>
        find_condition t' (MarkTrue api cset t r m as cs) = find_condition t' cs \<and>
        find_condition t' (MarkFalse api cset t r m as cs) = find_condition t' cs) \<and>
     (\<forall>cset cs t. GetCondition api cset cs t = find_condition t cs)"

definition set_laws :: "env \<Rightarrow> bool" where
  "set_laws e \<longleftrightarrow>
     (\<forall>xs. set (set_List e xs) = set xs \<and> sorted (set_List e xs) \<and> distinct (set_List e xs))"

text \<open>The digest of a reference is a SHA-256 in lower-case hexadecimal.\<close>

definition digest_laws :: "env \<Rightarrow> bool" where
  "digest_laws e \<longleftrightarrow>
     (\<forall>ref d. NewDigest e ref = Inr d \<longrightarrow>
        (\<exists>h. d = ''sha256:'' @ h \<and> length h = 64 \<and> set h \<subseteq> set ''0123456789abcdef''))"

text \<open>Pulling an image writes below the output directory only and keeps the file system's shape.\<close>

definition pull_laws :: "env \<Rightarrow> bool" where
  "pull_laws e \<longleftrightarrow>
     (\<forall>ref reg dir. confined (\<lambda>fs. case Pull e ref reg dir fs of
          (None, fs') \<Rightarrow> (Ok (), fs') | (Some er, fs') \<Rightarrow> (Error er, fs'))
        (prefix (resolve (cwd (os e)) dir)))"

section \<open>A concrete environment\<close>

definition sample_os :: os_env where
  "sample_os =
     \<lparr>cwd = [''srv''], TempDir = ''/tmp'', temp_suffix = (\<lambda>_. 7), umask = id, mtime = (\<lambda>_. 99),
      io_fault = (\<lambda>_ _ _. None)\<rparr>"

definition mark :: "string \<Rightarrow> string list \<Rightarrow> string \<Rightarrow> string \<Rightarrow> string \<Rightarrow> fmt_arg list \<Rightarrow>
    Condition list \<Rightarrow> Condition list" where
  "mark st cset t r m as cs =
     \<lparr>c_Type = t, c_Status = st, c_Reason = r, c_Message = (m, as)\<rparr> # filter (\<lambda>c. c_Type c \<noteq> t) cs"

definition sample_cond :: condition_api where
  "sample_cond =
     \<lparr>MarkTrue = mark ''True'', MarkFalse = mark ''False'',
      InitializeConditions = (\<lambda>cset cs. cs),
      GetCondition = (\<lambda>cset cs t. find_condition t cs),
      ConditionIsUnknown = (\<lambda>c. case c of None \<Rightarrow> True | Some x \<Rightarrow> c_Status x = ''Unknown'')\<rparr>"

definition sample_http_env :: http_env where
  "sample_http_env =
     \<lparr>send = (\<lambda>_ _ _. Inr \<lparr>StatusCode = 404, Location = [], Body = [], BodyErr = None\<rparr>),
      url_Parse = (\<lambda>s. Inr \<lparr>u_Scheme = ''https'', u_Host = ''repo'', u_String = s\<rparr>),
      url_ParseRef = (\<lambda>_ _. Inl ''unsupported'')\<rparr>"

definition sample_env :: env where
  "sample_env =
     \<lparr>os = sample_os, http = sample_http_env, cond = sample_cond,
      StashValue = (\<lambda>k v s. (k, v) # s), RetrieveValue = (\<lambda>k s. map_of s k),
      GetSecret = (\<lambda>_ _. Inl (ApiNotFound [])), GetServiceAccount = (\<lambda>_ _. Inr \<lparr>sa_ImagePullSecrets = []\<rparr>),
      IsNotFound = (\<lambda>e. e = ApiNotFound []), set_List = sort \<circ> remdups,
      NewDigest = (\<lambda>s. if CHR ''@'' \<in> set s then Inr (''sha256:'' @ replicate 64 (CHR ''a'')) else Inl (ErrorText ''no digest'')),
      NewTag = Inr, NewFromPullSecrets = (\<lambda>_. Inr []),
      Head = (\<lambda>_ _ _. Inr ''sha256:abc''), NewBasicRegistry = (\<lambda>_ _. Inr []),
      Pull = (\<lambda>_ _ _ fs. (None, fs)),
      xml_Unmarshal = (\<lambda>_. Inl ''EOF''), xml_MarshalIndent = (\<lambda>_. Inr []),
      tar_WriteErr = (\<lambda>_. None), targz = (\<lambda>es. concat (map th_Content es)),
      targz_aborted = (\<lambda>es. concat (map th_Content es)),
      unzip = (\<lambda>_. Inl ''zip: not a valid zip file''), SystemCertPool = Inr [],
      pem_certs = (\<lambda>s. [s]), pem_encode = id, now = 42\<rparr>"

lemma itoa_7: "itoa 7 = ''7''"
  by (subst itoa.simps) (simp add: char_of_eq_iff)

lemma find_filter_neq: "t' \<noteq> t \<Longrightarrow> find (\<lambda>c. c_Type c = t') (filter (\<lambda>c. c_Type c \<noteq> t) cs) =
    find (\<lambda>c. c_Type c = t') cs"
  by (induction cs) auto

lemma sample_condition_laws: "condition_laws sample_cond"
  by (auto simp: condition_laws_def sample_cond_def mark_def find_condition_def find_filter_neq)

lemma sample_stash_laws: "stash_laws sample_env"
  by (auto simp: stash_laws_def sample_env_def)

lemma sample_set_laws: "set_laws sample_env"
  by (auto simp: set_laws_def sample_env_def)

lemma sample_digest_laws: "digest_laws sample_env"
  by (auto simp: digest_laws_def sample_env_def)

lemma sample_pull_laws: "pull_laws sample_env"
  by (simp add: pull_laws_def sample_env_def confined_return)

end
