(* ===== verification/Reconciler.thy ===== *)
theory Reconciler
  imports Environment
begin

text \<open>
  The vocabulary of the reconciler runtime that both controllers are written in: the state one
  reconcile passes along, the \<^verbatim>\<open>SyncReconciler\<close> values, and their \<^verbatim>\<open>Sequence\<close>. The runtime is not
  part of this repository; how it runs a sequence is an argument of the theorems, with the
  documented behaviour as the predicate \<open>sequence_laws\<close>.
\<close>

section \<open>The state of a reconcile\<close>

text \<open>
  The resource (a pointer in Go, updated in place), the stash of the context, the file system, and
  the log of HTTP requests.
\<close>

record 'p rstate =
  parent :: 'p
  stashed :: stash
  disk :: fs
  sent :: "request list"

text \<open>A file system call within a reconcile.\<close>

definition on_disk :: "(fs \<Rightarrow> 'a outcome \<times> fs) \<Rightarrow> 'p rstate \<Rightarrow> 'a outcome \<times> 'p rstate" where
  "on_disk f s = (case f (disk s) of (r, fs') \<Rightarrow> (r, s\<lparr>disk := fs'\<rparr>))"

text \<open>An error of \<open>f\<close> is formatted into the returned one.\<close>

definition with_error :: "(go_error \<Rightarrow> go_error) \<Rightarrow> ('s \<Rightarrow> 'a outcome \<times> 's) \<Rightarrow> 's \<Rightarrow> 'a outcome \<times> 's" where
  "with_error w f s =
     (case f s of (Error er, s') \<Rightarrow> (Error (w er), s') | r \<Rightarrow> r)"

text \<open>
  Work in a fresh temporary directory, which a deferred call removes on every path; the error of
  removing it is dropped.
\<close>

definition with_temp_dir ::
  "env \<Rightarrow> string \<Rightarrow> (string \<Rightarrow> 'p rstate \<Rightarrow> unit outcome \<times> 'p rstate) \<Rightarrow> 'p rstate \<Rightarrow> unit outcome \<times> 'p rstate" where
  "with_temp_dir e pattern work =
     and_then (on_disk (os_MkdirTemp pattern (os e) (TempDir (os e)))) (\<lambda>dir s.
       case work dir s of
         (r, s') \<Rightarrow> (r, s'\<lparr>disk := snd (os_RemoveAll (os e) dir (disk s'))\<rparr>))"

section \<open>Sub-reconcilers\<close>

text \<open>\<^verbatim>\<open>SyncWithResult\<close> also returns the duration after which to reconcile again.\<close>

datatype 'p Sync =
    Sync "'p rstate \<Rightarrow> unit outcome \<times> 'p rstate"
  | SyncWithResult "'p rstate \<Rightarrow> int outcome \<times> 'p rstate"

record 'p SyncReconciler =
  sr_Name :: string
  sr_Sync :: "'p Sync"
  sr_Finalize :: "('p rstate \<Rightarrow> unit outcome \<times> 'p rstate) option"

record 'p ResourceReconciler =
  rr_Finalizer :: string
  rr_Sequence :: "'p SyncReconciler list"

definition run_sync :: "'p SyncReconciler \<Rightarrow> 'p rstate \<Rightarrow> int outcome \<times> 'p rstate" where
  "run_sync r =
     (case sr_Sync r of
        Sync f \<Rightarrow> and_then f (\<lambda>_ s. (Ok 0, s))
      | SyncWithResult f \<Rightarrow> f)"

text \<open>Of two requeue durations the shorter one counts; zero is none.\<close>

definition aggregate :: "int \<Rightarrow> int \<Rightarrow> int" where
  "aggregate a b = (if a = 0 then b else if b = 0 then a else min a b)"

text \<open>
  Documented behaviour of \<^verbatim>\<open>reconcilers.Sequence\<close>: its members run in order on the same resource
  and context, the first error ends it, and the results are aggregated.
\<close>

definition sequence_laws :: "('p SyncReconciler list \<Rightarrow> 'p rstate \<Rightarrow> int outcome \<times> 'p rstate) \<Rightarrow> bool" where
  "sequence_laws run \<longleftrightarrow>
     (\<forall>s. run [] s = (Ok 0, s)) \<and>
     (\<forall>r rs s. run (r # rs) s =
        and_then (run_sync r) (\<lambda>a. and_then (run rs) (\<lambda>b s. (Ok (aggregate a b), s))) s)"

text \<open>A sequence that does so.\<close>

fun run_sequence :: "'p SyncReconciler list \<Rightarrow> 'p rstate \<Rightarrow> int outcome \<times> 'p rstate" where
  "run_sequence [] s = (Ok 0, s)"
| "run_sequence (r # rs) s =
     (case run_sync r s of
        (Ok a, s') \<Rightarrow>
          (case run_sequence rs s' of
             (Ok b, s'') \<Rightarrow> (Ok (aggregate a b), s'')
           | (Error e, s'') \<Rightarrow> (Error e, s'')
           | (Panic m, s'') \<Rightarrow> (Panic m, s''))
      | (Error e, s') \<Rightarrow> (Error e, s')
      | (Panic m, s') \<Rightarrow> (Panic m, s'))"

lemma run_sequence_laws: "sequence_laws run_sequence"
  by (auto simp: sequence_laws_def and_then_def split: prod.splits outcome.splits)

text \<open>A member of a sequence ends it with an error or hands its state to the rest.\<close>

lemma aggregate_zero [simp]: "aggregate 0 b = b" "aggregate a 0 = a"
  by (simp_all add: aggregate_def)

lemma sequence_cases:
  assumes "sequence_laws run" and "sr_Sync x = Sync f" and "run (x # rs) s = (r, s')"
  obtains (stop) r1 where "f s = (r1, s')" and "\<not> is_Ok r1" and "\<not> is_Ok r" and "is_Panic r \<longleftrightarrow> is_Panic r1"
    | (cont) s1 where "f s = (Ok (), s1)" and "run rs s1 = (r, s')"
proof -
  obtain r1 s1 where f: "f s = (r1, s1)" by fastforce
  have "run (x # rs) s = and_then (run_sync x) (\<lambda>a. and_then (run rs) (\<lambda>b s. (Ok (aggregate a b), s))) s"
    using assms(1) by (simp add: sequence_laws_def)
  then have run: "and_then (run_sync x) (\<lambda>a. and_then (run rs) (\<lambda>b s. (Ok (aggregate a b), s))) s = (r, s')"
    using assms(3) by simp
  show thesis
  proof (cases r1)
    case (Ok u)
    have "and_then (run rs) (\<lambda>b s. (Ok (aggregate 0 b), s)) s1 = run rs s1"
      by (simp add: and_then_def split: prod.splits outcome.splits)
    then have "run rs s1 = (r, s')"
      using run f Ok by (simp add: run_sync_def assms(2) and_then_def)
    then show thesis using cont f Ok by simp
  next
    case (Error er)
    then show thesis using run f by (intro stop [of r1]) (auto simp: run_sync_def assms(2) and_then_def)
  next
    case (Panic m)
    then show thesis using run f by (intro stop [of r1]) (auto simp: run_sync_def assms(2) and_then_def)
  qed
qed

lemma sequence_last:
  assumes "sequence_laws run" and "sr_Sync x = SyncWithResult (\<lambda>s. (Ok (d s), s))"
  shows "run [x] s = (Ok (d s), s)"
  using assms by (simp add: sequence_laws_def run_sync_def and_then_def)

section \<open>Relations kept by steps\<close>

text \<open>
  The interface of one step of a reconcile to the code around it: from a state that satisfies
  \<open>pre\<close> it reaches only states in relation \<open>rel\<close> to it.
\<close>

locale sync_step =
  fixes run :: "'p rstate \<Rightarrow> 'a outcome \<times> 'p rstate"
    and rel :: "'p rstate \<Rightarrow> 'p rstate \<Rightarrow> bool"
  assumes keeps: "rel s (snd (run s))"
begin

lemma keeps_result: "run s = (r, s') \<Longrightarrow> rel s s'"
  using keeps [of s] by simp

end

lemma sync_step_and_then:
  assumes "sync_step f R" and "\<And>x. sync_step (g x) R"
    and trans: "\<And>a b c. R a b \<Longrightarrow> R b c \<Longrightarrow> R a c"
  shows "sync_step (and_then f g) R"
proof
  fix s
  have f: "R s (snd (f s))" using assms(1) by (simp add: sync_step_def)
  have g: "R t (snd (g x t))" for x t using assms(2) by (simp add: sync_step_def)
  show "R s (snd (and_then f g s))"
    using f g trans by (fastforce simp: and_then_def split: prod.splits outcome.splits)
qed

lemma on_disk_simps [simp]:
  "fst (on_disk f s) = fst (f (disk s))"
  "snd (on_disk f s) = s\<lparr>disk := snd (f (disk s))\<rparr>"
  by (simp_all add: on_disk_def split: prod.splits)

lemma on_disk_result: "on_disk f s = (r, s') \<longleftrightarrow> (\<exists>fs'. f (disk s) = (r, fs') \<and> s' = s\<lparr>disk := fs'\<rparr>)"
  by (auto simp: on_disk_def split: prod.splits)

lemma calm_on_disk [simp]: "calm f \<Longrightarrow> calm (on_disk f)"
  by (simp add: calm_def)

lemma calm_with_error [simp]: "calm f \<Longrightarrow> calm (with_error w f)"
  unfolding calm_def with_error_def by (auto split: prod.splits outcome.splits) (metis fst_conv is_Panic_simps(3))

lemma with_error_Ok: "with_error w f s = (Ok x, s') \<longleftrightarrow> f s = (Ok x, s')"
  by (auto simp: with_error_def split: prod.splits outcome.splits)

section \<open>Temporary directories\<close>

text \<open>
  Outside the temporary directory \<open>t\<close> and the directory \<open>d\<close> of the resource nothing changes, except
  that missing directories on the way to \<open>d\<close> are created.
\<close>

definition works :: "string list \<Rightarrow> string list \<Rightarrow> fs \<Rightarrow> fs \<Rightarrow> bool" where
  "works t d fs fs' \<longleftrightarrow>
     fs_wf fs' \<and>
     (\<forall>q. \<not> prefix t q \<longrightarrow> \<not> prefix d q \<longrightarrow>
        fs_get fs' q = fs_get fs q \<or> strict_prefix q d \<and> fs_get fs q = None \<and> fs_get fs' q = Some Dir)"

lemma works_refl: "fs_wf fs \<Longrightarrow> works t d fs fs"
  by (simp add: works_def)

lemma works_trans: "works t d a b \<Longrightarrow> works t d b c \<Longrightarrow> works t d a c"
  unfolding works_def by (metis option.distinct(1))

lemma below_works: "below t fs fs' \<Longrightarrow> works t d fs fs'"
  by (simp add: below_def works_def)

lemma grows_works: "grows d fs fs' \<Longrightarrow> works t d fs fs'"
  by (simp add: grows_def works_def)

definition temp_dir :: "env \<Rightarrow> string \<Rightarrow> fs \<Rightarrow> string list" where
  "temp_dir e pattern fs = resolve (cwd (os e)) (temp_name pattern (os e) (TempDir (os e)) fs)"

lemma os_Mkdir_Error: "os_Mkdir e p fs = (r, fs') \<Longrightarrow> \<not> is_Ok r \<Longrightarrow> fs' = fs \<and> \<not> is_Panic r"
  by (auto simp: os_Mkdir_def Let_def split: option.splits if_splits)

lemma with_temp_dir_cases:
  assumes "with_temp_dir e pattern work s = (r, s')"
  obtains (failed) er where "r = Error er" and "s' = s"
  | (ran) fs1 s2 where
      "os_Mkdir (os e) (temp_name pattern (os e) (TempDir (os e)) (disk s)) (disk s) = (Ok (), fs1)"
      "work (temp_name pattern (os e) (TempDir (os e)) (disk s)) (s\<lparr>disk := fs1\<rparr>) = (r, s2)"
      "s' = s2\<lparr>disk := snd (os_RemoveAll (os e) (temp_name pattern (os e) (TempDir (os e)) (disk s)) (disk s2))\<rparr>"
proof -
  let ?n = "temp_name pattern (os e) (TempDir (os e)) (disk s)"
  obtain r1 fs1 where mk: "os_Mkdir (os e) ?n (disk s) = (r1, fs1)" by fastforce
  show thesis
  proof (cases r1)
    case (Ok u)
    then have "os_MkdirTemp pattern (os e) (TempDir (os e)) (disk s) = (Ok ?n, fs1)"
      using mk by (simp add: os_MkdirTemp_def)
    moreover obtain r2 s2 where "work ?n (s\<lparr>disk := fs1\<rparr>) = (r2, s2)" by fastforce
    ultimately show thesis
      using assms Ok mk
      by (intro ran [of fs1 s2]) (auto simp: with_temp_dir_def and_then_def on_disk_def)
  next
    case (Error er)
    then show thesis
      using assms mk os_Mkdir_Error [OF mk]
      by (intro failed [of er]) (auto simp: with_temp_dir_def and_then_def on_disk_def os_MkdirTemp_def)
  next
    case (Panic m)
    then show thesis using os_Mkdir_Error [OF mk] by simp
  qed
qed

lemma os_Mkdir_fresh:
  assumes "fs_wf fs" and "os_Mkdir e p fs = (Ok (), fs')" and "prefix (resolve (cwd e) p) q"
  shows "fs_get fs q = None" and "q \<noteq> []"
proof -
  let ?t = "resolve (cwd e) p"
  have none: "fs_get fs ?t = None"
    using assms(2) by (auto simp: os_Mkdir_def Let_def split: option.splits)
  then show "fs_get fs q = None"
    using fs_wf_missing_below [OF assms(1), of ?t q] assms(3) by (cases "q = ?t") auto
  then show "q \<noteq> []" using assms(1) by (auto simp: fs_wf_def)
qed

text \<open>
  Work that stays in its temporary directory and in the directory of the resource does so also
  with the creation and removal of the former, which leaves nothing behind.
\<close>

lemma with_temp_dir_works:
  assumes wf: "fs_wf (disk s)" and run: "with_temp_dir e pattern work s = (r, s')"
    and work: "\<And>fs1 r s2. fs_wf fs1 \<Longrightarrow> fs_get fs1 (temp_dir e pattern (disk s)) = Some Dir \<Longrightarrow>
      work (temp_name pattern (os e) (TempDir (os e)) (disk s)) (s\<lparr>disk := fs1\<rparr>) = (r, s2) \<Longrightarrow>
      works (temp_dir e pattern (disk s)) d fs1 (disk s2)"
  shows "works (temp_dir e pattern (disk s)) d (disk s) (disk s')"
    and "(\<forall>fs p. io_fault (os e) fs OpRemoveAll p = None) \<Longrightarrow> prefix (temp_dir e pattern (disk s)) q \<Longrightarrow>
      fs_get (disk s') q = fs_get (disk s) q"
proof -
  let ?t = "temp_dir e pattern (disk s)"
  from run have "works ?t d (disk s) (disk s') \<and>
    ((\<forall>fs p. io_fault (os e) fs OpRemoveAll p = None) \<longrightarrow> prefix ?t q \<longrightarrow>
      fs_get (disk s') q = fs_get (disk s) q)"
  proof (cases rule: with_temp_dir_cases)
    case (failed er)
    with wf show ?thesis by (simp add: works_refl)
  next
    case (ran fs1 s2)
    have mk: "works ?t d (disk s) fs1" "fs_wf fs1" "fs_get fs1 ?t = Some Dir"
      using mkdir.wf_result [OF ran(1) wf] mkdir.frame_result [OF ran(1) wf]
        ran(1) by (auto simp: works_def temp_dir_def os_Mkdir_def Let_def split: option.splits if_splits)
    have w: "works ?t d fs1 (disk s2)" using work [OF mk(2,3) ran(2)] .
    have rm: "works ?t d (disk s2) (disk s')"
      using remove_all.frame [of "disk s2"] remove_all.keeps_wf [of "disk s2"] w ran(3)
      by (auto simp: works_def temp_dir_def)
    have "fs_get (disk s') q = fs_get (disk s) q"
      if "\<forall>fs p. io_fault (os e) fs OpRemoveAll p = None" "prefix ?t q"
      using that os_Mkdir_fresh [OF wf ran(1), of q] ran(3)
      by (simp add: os_RemoveAll_def temp_dir_def)
    with mk(1) w rm show ?thesis by (blast intro: works_trans)
  qed
  then show "works ?t d (disk s) (disk s')"
    "(\<forall>fs p. io_fault (os e) fs OpRemoveAll p = None) \<Longrightarrow> prefix ?t q \<Longrightarrow>
      fs_get (disk s') q = fs_get (disk s) q" by blast+
qed

end
