(* ===== verification/Transport.thy ===== *)
theory Transport
  imports Environment
begin

text \<open>
  \<^verbatim>\<open>controllers/transport.go\<close>: the HTTP transport of a reconcile, with the trusted root
  certificates of the system and the custom ones of the operator and of a secret. A pool is the
  list of its certificates without repetition.
\<close>

section \<open>Certificates\<close>

text \<open>\<open>Certificate\<close> holds the DER bytes of a parsed certificate, \<open>Raw\<close> PEM text.\<close>

record Cert =
  Path :: string
  Certificate :: "string option"
  Raw :: string

definition Cert_Bytes :: "env \<Rightarrow> fs \<Rightarrow> Cert \<Rightarrow> string outcome" where
  "Cert_Bytes e fs c =
     (if Path c \<noteq> [] then os_ReadFile (os e) fs (Path c)
      else case Certificate c of
        Some der \<Rightarrow> Ok (pem_encode e der)
      | None \<Rightarrow> Ok (Raw c))"

text \<open>
  \<^verbatim>\<open>AppendCertsFromPEM\<close>: adds the certificates the text holds and reports whether there was any; a
  certificate that is in the pool already is not added again.
\<close>

definition pool_add :: "string list \<Rightarrow> string \<Rightarrow> string list" where
  "pool_add pool c = (if c \<in> set pool then pool else pool @ [c])"

definition AppendCertsFromPEM :: "env \<Rightarrow> string \<Rightarrow> string list \<Rightarrow> bool \<times> string list" where
  "AppendCertsFromPEM e data pool = (pem_certs e data \<noteq> [], foldl pool_add pool (pem_certs e data))"

section \<open>The transport\<close>

text \<open>The loop of \<^verbatim>\<open>newTransport\<close> over the custom certificates.\<close>

fun append_certs :: "env \<Rightarrow> fs \<Rightarrow> Cert list \<Rightarrow> string list \<Rightarrow> string list outcome" where
  "append_certs e fs [] pool = Ok pool"
| "append_certs e fs (cert # certs) pool =
     (case Cert_Bytes e fs cert of
        Error er \<Rightarrow> Error er
      | Panic m \<Rightarrow> Panic m
      | Ok data \<Rightarrow>
          (if length data = 0 then append_certs e fs certs pool
           else case AppendCertsFromPEM e data pool of
             (ok, pool') \<Rightarrow>
               (if \<not> ok then Error (Errorf ''unable to load custom cert'' [])
                else append_certs e fs certs pool')))"

definition newTransport :: "env \<Rightarrow> fs \<Rightarrow> Cert list \<Rightarrow> transport outcome" where
  "newTransport e fs certs =
     (case SystemCertPool e of
        Inl msg \<Rightarrow> Error (ErrorText msg)
      | Inr pool \<Rightarrow>
          (case append_certs e fs certs pool of
             Error er \<Rightarrow> Error er
           | Panic m \<Rightarrow> Panic m
           | Ok pool' \<Rightarrow> Ok \<lparr>RootCAs = pool'\<rparr>))"

section \<open>Properties\<close>

text \<open>A certificate source is usable when it can be read and is empty or holds a certificate.\<close>

definition cert_usable :: "env \<Rightarrow> fs \<Rightarrow> Cert \<Rightarrow> bool" where
  "cert_usable e fs c \<longleftrightarrow>
     (case Cert_Bytes e fs c of Ok d \<Rightarrow> d = [] \<or> pem_certs e d \<noteq> [] | _ \<Rightarrow> False)"

definition cert_contents :: "env \<Rightarrow> fs \<Rightarrow> Cert \<Rightarrow> string list" where
  "cert_contents e fs c =
     (case Cert_Bytes e fs c of Ok d \<Rightarrow> (if d = [] then [] else pem_certs e d) | _ \<Rightarrow> [])"

lemma os_ReadFile_no_panic: "\<not> is_Panic (os_ReadFile e fs p)" "os_ReadFile e fs p \<noteq> Panic m"
  by (auto simp: os_ReadFile_def os_lookup_def read_node_def split: option.splits node.splits)

lemma Cert_Bytes_no_panic: "Cert_Bytes e fs c \<noteq> Panic m"
  by (auto simp: Cert_Bytes_def os_ReadFile_no_panic split: option.splits)

lemma set_pool_add_fold: "set (foldl pool_add pool cs) = set pool \<union> set cs"
  by (induction cs arbitrary: pool) (auto simp: pool_add_def)

lemma append_certs_usable:
  "list_all (cert_usable e fs) certs \<Longrightarrow>
     \<exists>pool'. append_certs e fs certs pool = Ok pool' \<and>
       set pool' = set pool \<union> (\<Union>c \<in> set certs. set (cert_contents e fs c))"
proof (induction certs arbitrary: pool)
  case Nil
  then show ?case by simp
next
  case (Cons c certs)
  then obtain d where d: "Cert_Bytes e fs c = Ok d" "d = [] \<or> pem_certs e d \<noteq> []"
    by (auto simp: cert_usable_def split: outcome.splits)
  let ?pool = "if d = [] then pool else foldl pool_add pool (pem_certs e d)"
  from Cons obtain pool' where p: "append_certs e fs certs ?pool = Ok pool'"
    "set pool' = set ?pool \<union> (\<Union>c \<in> set certs. set (cert_contents e fs c))"
    by fastforce
  have step: "append_certs e fs (c # certs) pool = append_certs e fs certs ?pool"
    using d by (auto simp: AppendCertsFromPEM_def)
  have "set ?pool = set pool \<union> set (cert_contents e fs c)"
    using d by (auto simp: cert_contents_def set_pool_add_fold)
  with p show ?case unfolding step by auto
qed

lemma append_certs_unusable:
  "\<not> list_all (cert_usable e fs) certs \<Longrightarrow> \<exists>er. append_certs e fs certs pool = Error er"
proof (induction certs arbitrary: pool)
  case Nil
  then show ?case by simp
next
  case (Cons c certs)
  show ?case
  proof (cases "cert_usable e fs c")
    case True
    with Cons.prems have "\<not> list_all (cert_usable e fs) certs" by simp
    note rest = Cons.IH [OF this]
    from True obtain d where "Cert_Bytes e fs c = Ok d" "d = [] \<or> pem_certs e d \<noteq> []"
      by (auto simp: cert_usable_def split: outcome.splits)
    with rest show ?thesis by (auto simp: AppendCertsFromPEM_def)
  next
    case False
    then show ?thesis
      using Cert_Bytes_no_panic
      by (auto simp: cert_usable_def AppendCertsFromPEM_def split: outcome.splits)
  qed
qed

lemma newTransport_no_panic: "newTransport e fs certs \<noteq> Panic m"
proof -
  have "append_certs e fs certs pool \<noteq> Panic m" for pool
    using append_certs_usable [of e fs certs pool] append_certs_unusable [of e fs certs pool]
    by (cases "list_all (cert_usable e fs) certs") auto
  then show ?thesis by (auto simp: newTransport_def split: sum.splits outcome.splits)
qed

text \<open>
  C34: the transport trusts exactly the system certificates and those of the configured sources.
  It is built if and only if the system pool loads and every source can be read and is empty or
  holds a certificate; otherwise the call returns an error.
\<close>

theorem newTransport_trusts:
  "case SystemCertPool e of
     Inl msg \<Rightarrow> newTransport e fs certs = Error (ErrorText msg)
   | Inr pool \<Rightarrow>
       (if list_all (cert_usable e fs) certs
        then \<exists>t. newTransport e fs certs = Ok t \<and>
               set (RootCAs t) = set pool \<union> (\<Union>c \<in> set certs. set (cert_contents e fs c))
        else \<exists>er. newTransport e fs certs = Error er)"
proof (cases "SystemCertPool e")
  case (Inl m)
  then show ?thesis by (simp add: newTransport_def)
next
  case (Inr pool)
  then show ?thesis
    using append_certs_usable [of e fs certs pool] append_certs_unusable [of e fs certs pool]
    by (auto simp: newTransport_def)
qed

end
