(* ===== verification/Sha1.thy ===== *)
theory Sha1
  imports Prelude "HOL-Library.Word"
begin

text \<open>
  The hash of Go's \<^verbatim>\<open>crypto/sha1\<close> on a byte string, and its \<^verbatim>\<open>%x\<close> rendering: what
  \<^verbatim>\<open>sha1Checksum\<close> computes. It is written out on 32-bit words so that checksums are values of
  the model and the length and alphabet of a rendered checksum, which becomes a file name, are
  theorems.
\<close>

unbundle bit_operations_syntax

section \<open>The compression function\<close>

definition rotl :: "nat \<Rightarrow> 32 word \<Rightarrow> 32 word" where
  "rotl n w = push_bit n w OR drop_bit (32 - n) w"

type_synonym sha1_state = "32 word \<times> 32 word \<times> 32 word \<times> 32 word \<times> 32 word"

definition sha1_init :: sha1_state where
  "sha1_init = (0x67452301, 0xEFCDAB89, 0x98BADCFE, 0x10325476, 0xC3D2E1F0)"

text \<open>The round function and constant of round \<open>i\<close>.\<close>

definition sha1_f :: "nat \<Rightarrow> 32 word \<Rightarrow> 32 word \<Rightarrow> 32 word \<Rightarrow> 32 word" where
  "sha1_f i b c d =
     (if i < 20 then (b AND c) OR (NOT b AND d)
      else if i < 40 then (b XOR c) XOR d
      else if i < 60 then ((b AND c) OR (b AND d)) OR (c AND d)
      else (b XOR c) XOR d)"

definition sha1_k :: "nat \<Rightarrow> 32 word" where
  "sha1_k i =
     (if i < 20 then 0x5A827999 else if i < 40 then 0x6ED9EBA1
      else if i < 60 then 0x8F1BBCDC else 0xCA62C1D6)"

text \<open>
  Rounds \<open>i\<close>, \<open>i + 1\<close>, ... with the sixteen message words in use; the schedule is extended by one
  word at each round.
\<close>

fun sha1_rounds :: "nat \<Rightarrow> nat \<Rightarrow> 32 word list \<Rightarrow> sha1_state \<Rightarrow> sha1_state" where
  "sha1_rounds 0 i ws st = st"
| "sha1_rounds (Suc n) i ws (a, b, c, d, h) =
     (let w = hd ws;
          t = rotl 5 a + sha1_f i b c d + h + sha1_k i + w;
          w' = rotl 1 (((ws ! 13 XOR ws ! 8) XOR ws ! 2) XOR w)
      in sha1_rounds n (Suc i) (tl ws @ [w']) (t, a, rotl 30 b, c, d))"

definition sha1_block :: "sha1_state \<Rightarrow> 32 word list \<Rightarrow> sha1_state" where
  "sha1_block st ws =
     (case (st, sha1_rounds 80 0 ws st) of
        ((a, b, c, d, h), (a', b', c', d', h')) \<Rightarrow> (a + a', b + b', c + c', d + d', h + h'))"

section \<open>Padding and output\<close>

fun be_words :: "int list \<Rightarrow> 32 word list" where
  "be_words (a # b # c # d # bs) =
     word_of_int (((a * 256 + b) * 256 + c) * 256 + d) # be_words bs"
| "be_words _ = []"

text \<open>The bytes of a number, most significant first, in a field of \<open>n\<close> bytes.\<close>

fun be_bytes :: "nat \<Rightarrow> int \<Rightarrow> int list" where
  "be_bytes 0 x = []"
| "be_bytes (Suc n) x = be_bytes n (x div 256) @ [x mod 256]"

definition sha1_pad :: "string \<Rightarrow> int list" where
  "sha1_pad s =
     (let n = length s; z = (119 - n mod 64) mod 64
      in map of_char s @ 128 # replicate z 0 @ be_bytes 8 (8 * int n))"

function sha1_blocks :: "32 word list \<Rightarrow> sha1_state \<Rightarrow> sha1_state" where
  "sha1_blocks ws st =
     (if ws = [] then st else sha1_blocks (drop 16 ws) (sha1_block st (take 16 ws)))"
  by pat_completeness auto
termination
  by (relation "measure (\<lambda>(ws, st). length ws)") auto

declare sha1_blocks.simps [simp del]

definition word_bytes :: "32 word \<Rightarrow> int list" where
  "word_bytes w = be_bytes 4 (uint w)"

definition sha1_sum :: "string \<Rightarrow> int list" where
  "sha1_sum s =
     (case sha1_blocks (be_words (sha1_pad s)) sha1_init of
        (a, b, c, d, h) \<Rightarrow> concat (map word_bytes [a, b, c, d, h]))"

definition hex_digit :: "int \<Rightarrow> char" where
  "hex_digit n = ''0123456789abcdef'' ! nat n"

text \<open>\<^verbatim>\<open>fmt.Sprintf("%x", sum)\<close>.\<close>

definition hex :: "int list \<Rightarrow> string" where
  "hex bs = concat (map (\<lambda>b. [hex_digit (b div 16), hex_digit (b mod 16)]) bs)"

definition sha1_hex :: "string \<Rightarrow> string" where
  "sha1_hex s = hex (sha1_sum s)"

section \<open>Shape of a rendered checksum\<close>

lemma length_be_bytes [simp]: "length (be_bytes n x) = n"
  by (induction n arbitrary: x) auto

lemma be_bytes_bound: "b \<in> set (be_bytes n x) \<Longrightarrow> 0 \<le> b \<and> b < 256"
  by (induction n arbitrary: x) auto

lemma length_hex [simp]: "length (hex bs) = 2 * length bs"
  by (induction bs) (auto simp: hex_def)

lemma length_sha1_sum [simp]: "length (sha1_sum s) = 20"
  by (simp add: sha1_sum_def word_bytes_def split: prod.splits)

lemma sha1_sum_bound: "b \<in> set (sha1_sum s) \<Longrightarrow> 0 \<le> b \<and> b < 256"
  by (auto simp: sha1_sum_def word_bytes_def be_bytes_bound split: prod.splits)

lemma length_sha1_hex [simp]: "length (sha1_hex s) = 40"
  by (simp add: sha1_hex_def)

lemma hex_digit_range: "0 \<le> n \<Longrightarrow> n < 16 \<Longrightarrow> hex_digit n \<in> set ''0123456789abcdef''"
  unfolding hex_digit_def by (rule nth_mem) simp

lemma hex_range:
  assumes "\<forall>b \<in> set bs. 0 \<le> b \<and> b < 256"
  shows "set (hex bs) \<subseteq> set ''0123456789abcdef''"
proof
  fix x
  assume "x \<in> set (hex bs)"
  then obtain b where b: "b \<in> set bs" and x: "x = hex_digit (b div 16) \<or> x = hex_digit (b mod 16)"
    by (auto simp: hex_def)
  from b assms have "0 \<le> b div 16" "b div 16 < 16" "0 \<le> b mod 16" "b mod 16 < 16" by auto
  with x show "x \<in> set ''0123456789abcdef''" by (metis hex_digit_range)
qed

lemma sha1_hex_range: "set (sha1_hex s) \<subseteq> set ''0123456789abcdef''"
  unfolding sha1_hex_def by (intro hex_range) (auto dest: sha1_sum_bound)

end
