(* ===== verification/Artifact_Files.thy ===== *)
theory Artifact_Files
  imports Environment Sha1
begin

text \<open>
  The file operations of the two controllers: checksum, tarball, copy and publish, archive
  extraction, archive detection and the download cache. They are the functions below the
  reconcilers in \<^verbatim>\<open>controllers/imagerepository_controller.go\<close> (\<^verbatim>\<open>createTarGz\<close>, \<^verbatim>\<open>sha1Checksum\<close>,
  \<^verbatim>\<open>copyFile\<close>, \<^verbatim>\<open>preserveArtifactLastUpdateTime\<close>) and in
  \<^verbatim>\<open>controllers/mavenartifact_controller.go\<close> (\<^verbatim>\<open>isArchive\<close>, \<^verbatim>\<open>copyCompressedFile\<close>,
  \<^verbatim>\<open>extractArchive\<close>, \<^verbatim>\<open>safeArchiveEntryPath\<close>, \<^verbatim>\<open>extractFile\<close>, \<^verbatim>\<open>retrieveChecksumFromFile\<close>).
\<close>

section \<open>Checksums and status\<close>

definition sha1Checksum :: "env \<Rightarrow> string \<Rightarrow> fs \<Rightarrow> string outcome \<times> fs" where
  "sha1Checksum e nm fs =
     (case os_Open (os e) fs nm of
        Error er \<Rightarrow> (Error er, fs)
      | Panic m \<Rightarrow> (Panic m, fs)
      | Ok artifactTgzFile \<Rightarrow>
          (case read_node (os e) fs nm artifactTgzFile of
             Error er \<Rightarrow> (Error er, fs)
           | Panic m \<Rightarrow> (Panic m, fs)
           | Ok content \<Rightarrow> (Ok (sha1_hex content), fs)))"

definition preserveArtifactLastUpdateTime :: "Artifact option \<Rightarrow> Artifact \<Rightarrow> Artifact" where
  "preserveArtifactLastUpdateTime current desired =
     (case current of
        None \<Rightarrow> desired
      | Some c \<Rightarrow>
          (let cc = c\<lparr>a_LastUpdateTime := 0\<rparr>; dc = desired\<lparr>a_LastUpdateTime := 0\<rparr>
           in if cc = dc then c else desired))"

section \<open>Tarballs\<close>

text \<open>The header \<^verbatim>\<open>createTarGz\<close> writes for a regular file, with its bytes.\<close>

definition tar_header :: "string \<Rightarrow> string \<Rightarrow> nat \<Rightarrow> int \<Rightarrow> tar_entry" where
  "tar_header nm content md mt =
     \<lparr>th_Name = nm, th_Mode = md, th_ModTime = mt, th_Uid = 0, th_Gid = 0, th_Uname = [], th_Gname = [],
      th_Content = content\<rparr>"

text \<open>
  The callback of \<^verbatim>\<open>filepath.WalkDir\<close> on the node at \<open>fp\<close>: an error that ends the walk, or the
  entry that was written, if any. A directory is skipped (listing it may fail), and so is a file
  whose \<^verbatim>\<open>Stat\<close> fails.
\<close>

definition walk_fn :: "env \<Rightarrow> fs \<Rightarrow> string \<Rightarrow> string \<Rightarrow> node \<Rightarrow> tar_entry option outcome" where
  "walk_fn e fs dir fp d =
     (case d of
        Dir \<Rightarrow>
          (case io_fault (os e) fs OpRead fp of
             Some (m, _) \<Rightarrow> Error (PathError (ErrIO m))
           | None \<Rightarrow> Ok None)
      | File content md mt \<Rightarrow>
          (case os_Open (os e) fs fp of
             Error er \<Rightarrow> Error er
           | Panic m \<Rightarrow> Panic m
           | Ok file \<Rightarrow>
               (case io_fault (os e) fs OpStat fp of
                  Some _ \<Rightarrow> Ok None
                | None \<Rightarrow>
                    (case Rel dir fp of
                       Error er \<Rightarrow> Error er
                     | Panic m \<Rightarrow> Panic m
                     | Ok nm \<Rightarrow>
                         (let header = tar_header nm content md mt in
                          case tar_WriteErr e header of
                            Some m \<Rightarrow> Error (External m)
                          | None \<Rightarrow>
                              (case read_node (os e) fs fp file of
                                 Error er \<Rightarrow> Error er
                               | Panic m \<Rightarrow> Panic m
                               | Ok _ \<Rightarrow> Ok (Some header)))))))"

fun walk_tar :: "env \<Rightarrow> fs \<Rightarrow> string \<Rightarrow> string list list \<Rightarrow> tar_entry list \<Rightarrow> unit outcome \<times> tar_entry list" where
  "walk_tar e fs dir [] acc = (Ok (), acc)"
| "walk_tar e fs dir (rel # rels) acc =
     (let fp = (if rel = [] then dir else Join (dir # rel)) in
      case fs_get fs (resolve (cwd (os e)) dir @ rel) of
        None \<Rightarrow> walk_tar e fs dir rels acc
      | Some d \<Rightarrow>
          (case walk_fn e fs dir fp d of
             Error er \<Rightarrow> (Error er, acc)
           | Panic m \<Rightarrow> (Panic m, acc)
           | Ok None \<Rightarrow> walk_tar e fs dir rels acc
           | Ok (Some entry) \<Rightarrow> walk_tar e fs dir rels (acc @ [entry])))"

text \<open>
  The writers are closed by \<^verbatim>\<open>defer\<close> on every path: that is when the compressed bytes reach the
  file, and the error of doing so is dropped.
\<close>

definition createTarGz :: "env \<Rightarrow> string \<Rightarrow> string \<Rightarrow> fs \<Rightarrow> unit outcome \<times> fs" where
  "createTarGz e dir nm fs =
     (case os_Create (os e) nm fs of
        (Error er, fs1) \<Rightarrow> (Error er, fs1)
      | (Panic m, fs1) \<Rightarrow> (Panic m, fs1)
      | (Ok _, fs1) \<Rightarrow>
          (let root = resolve (cwd (os e)) dir in
           if fs_get fs1 root = None
           then (Error (missing fs1 root), snd (os_Write (targz_aborted e []) (os e) nm fs1))
           else case walk_tar e fs1 dir (walk_rels fs1 root) [] of
             (Ok _, entries) \<Rightarrow> (Ok (), snd (os_Write (targz e entries) (os e) nm fs1))
           | (r, entries) \<Rightarrow> (r, snd (os_Write (targz_aborted e entries) (os e) nm fs1))))"

section \<open>Copy and publish\<close>

text \<open>\<^verbatim>\<open>io.Copy\<close> between two opened files.\<close>

definition io_Copy :: "env \<Rightarrow> string \<Rightarrow> string \<Rightarrow> fs \<Rightarrow> unit outcome \<times> fs" where
  "io_Copy e toFile fromFile fs =
     (case fs_get fs (resolve (cwd (os e)) fromFile) of
        None \<Rightarrow> (Error (missing fs (resolve (cwd (os e)) fromFile)), fs)
      | Some n \<Rightarrow>
          (case read_node (os e) fs fromFile n of
             Error er \<Rightarrow> (Error er, fs)
           | Panic m \<Rightarrow> (Panic m, fs)
           | Ok content \<Rightarrow> os_Write content (os e) toFile fs))"

definition open_from :: "env \<Rightarrow> string \<Rightarrow> fs \<Rightarrow> node outcome \<times> fs" where
  "open_from e from fs = (os_Open (os e) fs from, fs)"

text \<open>When the target cannot be created both functions return \<^verbatim>\<open>nil\<close>.\<close>

definition copyFile :: "env \<Rightarrow> string \<Rightarrow> string \<Rightarrow> fs \<Rightarrow> unit outcome \<times> fs" where
  "copyFile e from to =
     and_then (os_MkdirAll (os e) (path_Dir to)) (\<lambda>_.
     and_then (open_from e from) (\<lambda>_ fs.
       case os_Create (os e) to fs of
         (Error _, fs') \<Rightarrow> (Ok (), fs')
       | (Panic m, fs') \<Rightarrow> (Panic m, fs')
       | (Ok _, fs') \<Rightarrow> io_Copy e to from fs'))"

definition copyCompressedFile :: "env \<Rightarrow> string \<Rightarrow> string \<Rightarrow> fs \<Rightarrow> unit outcome \<times> fs" where
  "copyCompressedFile e from to =
     (let intermediateDestination = to @ ''.new'' in
      and_then (os_MkdirAll (os e) (path_Dir intermediateDestination)) (\<lambda>_.
      and_then (open_from e from) (\<lambda>_ fs.
        case os_Create (os e) intermediateDestination fs of
          (Error _, fs') \<Rightarrow> (Ok (), fs')
        | (Panic m, fs') \<Rightarrow> (Panic m, fs')
        | (Ok _, fs') \<Rightarrow>
            and_then (io_Copy e intermediateDestination from)
              (\<lambda>_. os_Rename (os e) intermediateDestination to) fs')))"

section \<open>Archives\<close>

text \<open>
  \<^verbatim>\<open>http.DetectContentType\<close> on the first 512 bytes, padded with zeros, answers
  \<^verbatim>\<open>application/zip\<close> exactly on the zip signature, except where the signature of an embedded
  font, which it tries first, matches as well: the bytes \<^verbatim>\<open>LP\<close> at offset 34.
\<close>

definition is_zip_type :: "string \<Rightarrow> bool" where
  "is_zip_type buffer \<longleftrightarrow>
     take 4 buffer = [CHR ''P'', CHR ''K'', CHR 0x03, CHR 0x04] \<and> take 2 (drop 34 buffer) \<noteq> ''LP''"

definition isArchive :: "env \<Rightarrow> fs \<Rightarrow> string \<Rightarrow> bool" where
  "isArchive e fs artifactFilePath =
     (case os_Open (os e) fs artifactFilePath of
        Ok n \<Rightarrow>
          (case read_node (os e) fs artifactFilePath n of
             Ok content \<Rightarrow> content \<noteq> [] \<and> is_zip_type (take 512 content)
           | _ \<Rightarrow> False)
      | _ \<Rightarrow> False)"

definition safeArchiveEntryPath :: "string \<Rightarrow> string \<Rightarrow> string outcome" where
  "safeArchiveEntryPath destDir nm =
     (if IsAbs nm then Error (Errorf ''archive entry %q has an absolute path'' [AStr nm])
      else let joined = Join [destDir, nm] in
        if joined \<noteq> destDir \<and> \<not> HasPrefix joined (destDir @ [slash])
        then Error (Errorf ''archive entry %q escapes destination directory %q'' [AStr nm, AStr destDir])
        else Ok joined)"

definition extractFile :: "env \<Rightarrow> zip_file \<Rightarrow> string \<Rightarrow> fs \<Rightarrow> unit outcome \<times> fs" where
  "extractFile e file filePath fs =
     (let stamp = (\<lambda>fs. (Ok (), snd (os_Chtimes 0 (os e) filePath fs))) in
      if zf_IsDir file then and_then (os_MkdirAll (os e) filePath) (\<lambda>_. stamp) fs
      else case zf_OpenErr file of
        Some er \<Rightarrow> (Error er, fs)
      | None \<Rightarrow>
          and_then (os_OpenTrunc (zf_Mode file) (os e) filePath) (\<lambda>_.
          and_then (os_Write (zf_Content file) (os e) filePath) (\<lambda>_ fs.
            case zf_ReadErr file of
              Some er \<Rightarrow> (Error er, fs)
            | None \<Rightarrow> stamp fs)) fs)"

fun extract_each :: "env \<Rightarrow> string \<Rightarrow> zip_file list \<Rightarrow> fs \<Rightarrow> unit outcome \<times> fs" where
  "extract_each e dest [] fs = (Ok (), fs)"
| "extract_each e dest (file # files) fs =
     (case safeArchiveEntryPath dest (zf_Name file) of
        Error er \<Rightarrow> (Error er, fs)
      | Panic m \<Rightarrow> (Panic m, fs)
      | Ok filePath \<Rightarrow>
          (case extractFile e file filePath fs of
             (Error er, fs') \<Rightarrow> (Error er, fs')
           | (Panic m, fs') \<Rightarrow> (Panic m, fs')
           | (Ok _, fs') \<Rightarrow> extract_each e dest files fs'))"

definition zip_OpenReader :: "env \<Rightarrow> string \<Rightarrow> fs \<Rightarrow> zip_file list outcome \<times> fs" where
  "zip_OpenReader e nm fs =
     (case os_ReadFile (os e) fs nm of
        Error er \<Rightarrow> (Error er, fs)
      | Panic m \<Rightarrow> (Panic m, fs)
      | Ok content \<Rightarrow>
          (case unzip e content of
             Inl msg \<Rightarrow> (Error (ErrorText msg), fs)
           | Inr files \<Rightarrow> (Ok files, fs)))"

definition extractArchive :: "env \<Rightarrow> string \<Rightarrow> string \<Rightarrow> fs \<Rightarrow> string outcome \<times> fs" where
  "extractArchive e parentDir pathToJarFile =
     and_then (zip_OpenReader e pathToJarFile) (\<lambda>files.
     let fileDestinationFolder = Join [parentDir, ''extracted-artifact''] in
     and_then (os_Mkdir (os e) fileDestinationFolder) (\<lambda>_.
     and_then (extract_each e fileDestinationFolder files) (\<lambda>_ fs.
       (Ok fileDestinationFolder, fs))))"

section \<open>The download cache\<close>

record artifactCache =
  ac_source :: string
  ac_checksum :: string

definition artifactCache_toString :: "artifactCache \<Rightarrow> string" where
  "artifactCache_toString ac = ac_source ac @ ''|'' @ ac_checksum ac"

definition retrieveChecksumFromFile :: "env \<Rightarrow> fs \<Rightarrow> string \<Rightarrow> artifactCache option outcome" where
  "retrieveChecksumFromFile e fs filename =
     (case os_ReadFile (os e) fs filename of
        Error er \<Rightarrow> (if errors_Is er ErrNotExist then Ok None else Error er)
      | Panic m \<Rightarrow> Panic m
      | Ok cache \<Rightarrow>
          (case Split cache (CHR ''|'') of
             s # c # _ \<Rightarrow> Ok (Some \<lparr>ac_source = s, ac_checksum = c\<rparr>)
           | _ \<Rightarrow> Panic ''index out of range [1] with length 1''))"

section \<open>Archive entries stay below the destination\<close>

lemma clean_list_tail:
  assumes "clean_list r (cs @ c # ss)" and "proper c"
  shows "list_all proper ss"
proof -
  obtain n ps where eq: "cs @ c # ss = replicate n ''..'' @ ps" and ps: "list_all proper ps"
    using assms(1) unfolding clean_list_def by blast
  have c: "c \<noteq> ''..''" using assms(2) by auto
  from eq obtain us where "cs @ us = replicate n ''..'' \<and> c # ss = us @ ps \<or>
      cs = replicate n ''..'' @ us \<and> us @ c # ss = ps"
    unfolding append_eq_append_conv2 by blast
  then show ?thesis
  proof
    assume a: "cs @ us = replicate n ''..'' \<and> c # ss = us @ ps"
    show ?thesis
    proof (cases us)
      case Nil
      with a ps show ?thesis by auto
    next
      case (Cons u us')
      with a have "c \<in> set (replicate n ''..'')" by (metis in_set_conv_decomp list.inject append_Cons)
      with c show ?thesis by (simp split: if_splits)
    qed
  next
    assume "cs = replicate n ''..'' @ us \<and> us @ c # ss = ps"
    with ps show ?thesis by auto
  qed
qed

text \<open>A destination as the controller builds it: a clean path that ends in a proper component.\<close>

definition dest_ok :: "string \<Rightarrow> bool" where
  "dest_ok d \<longleftrightarrow> d = Clean d \<and> (\<exists>cs c. comps d = cs @ [c] \<and> proper c)"

lemma dest_ok_not_Nil: "dest_ok d \<Longrightarrow> d \<noteq> []"
  by (auto simp: dest_ok_def)

lemma dest_ok_Join:
  assumes "d \<noteq> []" and "list_all proper ps" and "ps \<noteq> []"
  shows "dest_ok (Join (d # ps))"
proof -
  have "comps (Join (d # ps)) = (comps d @ butlast ps) @ [last ps]"
    using assms by (simp add: comps_Join_proper)
  moreover have "proper (last ps)" using assms(2,3) by (simp add: list_all_iff)
  moreover have "Join (d # ps) = Clean (Join (d # ps))" using assms(1) by (simp add: Join_Cons)
  ultimately show ?thesis unfolding dest_ok_def by blast
qed

lemma prefix_render_comps:
  assumes dest: "dest_ok d" and p: "p = Clean p" "IsAbs p = IsAbs d"
  shows "p = d \<or> HasPrefix p (d @ [slash]) \<longleftrightarrow> (\<exists>ps. list_all proper ps \<and> comps p = comps d @ ps)"
proof
  obtain cs c where D: "comps d = cs @ [c]" and c: "proper c" and d: "d = Clean d"
    using dest by (auto simp: dest_ok_def)
  have clD: "clean_list (IsAbs d) (comps d)" and clP: "clean_list (IsAbs d) (comps p)"
    using comps_clean [of d] comps_clean [of p] p(2) by simp_all
  have "p \<noteq> []" using p(1) Clean_not_Nil by metis
  then have rp: "p = render (IsAbs d) (comps p)"
    using trans [OF p(1) Clean_eq_render] p(2) by simp
  have rd: "d = render (IsAbs d) (comps d)"
    using trans [OF d Clean_eq_render] dest_ok_not_Nil [OF dest] by simp
  {
    assume "p = d \<or> HasPrefix p (d @ [slash])"
    then show "\<exists>ps. list_all proper ps \<and> comps p = comps d @ ps"
    proof
      assume "HasPrefix p (d @ [slash])"
      then obtain x where px: "p = d @ slash # x" by (auto simp: prefix_def)
      have ne: "comps p \<noteq> []"
      proof
        assume "comps p = []"
        then have "p = [slash] \<or> p = ''.''" using rp by (auto simp: render_def split: if_splits)
        with px dest_ok_not_Nil [OF dest] show False
          by (cases d) (auto simp: Cons_eq_append_conv)
      qed
      have "join_with slash (comps p) = join_with slash (comps d) @ slash # x"
        using px rp rd ne D by (cases "IsAbs d") (simp_all add: render_def)
      then have "comps p = comps d @ Split x slash"
        using clean_list_no_slash [OF clP] clean_list_no_slash [OF clD] ne D
        by (metis Split_append Split_join_with snoc_eq_iff_butlast)
      moreover from this have "list_all proper (Split x slash)"
        using clP clean_list_tail [of "IsAbs d" cs c "Split x slash"] D c by simp
      ultimately show ?thesis by blast
    qed auto
  }
  assume "\<exists>ps. list_all proper ps \<and> comps p = comps d @ ps"
  then obtain ps where ps: "list_all proper ps" "comps p = comps d @ ps" by blast
  show "p = d \<or> HasPrefix p (d @ [slash])"
  proof (cases "ps = []")
    case True
    with ps rp rd show ?thesis by simp
  next
    case False
    then have "join_with slash (comps p) = join_with slash (comps d) @ slash # join_with slash ps"
      using ps(2) D join_with_append [of "comps d" ps] by simp
    then have "p = d @ slash # join_with slash ps"
      using rp rd ps D by (cases "IsAbs d") (simp_all add: render_def)
    then show ?thesis by (simp add: prefix_def)
  qed
qed

lemma safeArchiveEntryPath_iff:
  assumes "dest_ok d"
  shows "safeArchiveEntryPath d nm = Ok p \<longleftrightarrow>
    \<not> IsAbs nm \<and> p = Join [d, nm] \<and> (\<exists>ps. list_all proper ps \<and> comps p = comps d @ ps)"
proof -
  have ne: "d \<noteq> []" using assms by (rule dest_ok_not_Nil)
  have "Join [d, nm] = Clean (Join [d, nm])" "IsAbs (Join [d, nm]) = IsAbs d"
    using ne by (simp_all add: Join_Cons IsAbs_append)
  from prefix_render_comps [OF assms this] show ?thesis
    by (auto simp: safeArchiveEntryPath_def Let_def)
qed

text \<open>An accepted path is the destination followed by proper components, also once resolved.\<close>

lemma safeArchiveEntryPath_below:
  assumes "dest_ok d" and "safeArchiveEntryPath d nm = Ok p"
  obtains ps where "list_all proper ps" and "resolve w p = resolve w d @ ps"
proof -
  have ne: "d \<noteq> []" using assms(1) by (rule dest_ok_not_Nil)
  from assms obtain ps where ps: "list_all proper ps" "comps p = comps d @ ps" "p = Join [d, nm]"
    by (auto simp: safeArchiveEntryPath_iff)
  have "p = Clean p" "IsAbs p = IsAbs d" using ps(3) ne by (simp_all add: Join_Cons IsAbs_append)
  then have "p = Join (d # ps)"
    using Join_proper [OF ne ps(1)] ps(2) Clean_eq_render [of p] Clean_not_Nil [of p] by simp
  then have "resolve w p = resolve w d @ ps" using ne ps(1) by (simp add: resolve_Join_proper)
  with ps(1) show ?thesis by (rule that)
qed

lemma safeArchiveEntryPath_no_panic: "safeArchiveEntryPath d nm \<noteq> Panic m"
  by (simp add: safeArchiveEntryPath_def Let_def)

section \<open>Extraction is confined\<close>

lemma extractFile_eq:
  "zf_IsDir f \<Longrightarrow> extractFile e f p =
     and_then (os_MkdirAll (os e) p) (\<lambda>_ fs. (Ok (), snd (os_Chtimes 0 (os e) p fs)))"
  "\<not> zf_IsDir f \<Longrightarrow> zf_OpenErr f = Some er \<Longrightarrow> extractFile e f p = (\<lambda>fs. (Error er, fs))"
  "\<not> zf_IsDir f \<Longrightarrow> zf_OpenErr f = None \<Longrightarrow> extractFile e f p =
     and_then (os_OpenTrunc (zf_Mode f) (os e) p) (\<lambda>_.
       and_then (os_Write (zf_Content f) (os e) p) (\<lambda>_ fs.
         case zf_ReadErr f of Some er \<Rightarrow> (Error er, fs) | None \<Rightarrow> (Ok (), snd (os_Chtimes 0 (os e) p fs))))"
  by (simp_all add: extractFile_def Let_def fun_eq_iff)

lemma extractFile_inside: "inside (extractFile e file p) (\<lambda>d. prefix d (resolve (cwd (os e)) p))"
proof -
  let ?P = "\<lambda>d. prefix d (resolve (cwd (os e)) p)"
  let ?stamp = "\<lambda>fs. (Ok (), snd (os_Chtimes 0 (os e) p fs))"
  have stamp: "inside ?stamp ?P" by (rule inside_snd [OF chtimes_in.inside_axioms])
  have last: "inside (\<lambda>fs. case zf_ReadErr file of Some er \<Rightarrow> (Error er, fs) | None \<Rightarrow> ?stamp fs) ?P"
    using stamp by (cases "zf_ReadErr file") (simp_all add: inside_return)
  show ?thesis
    by (cases "zf_IsDir file"; cases "zf_OpenErr file")
      (simp_all add: extractFile_eq inside_and_then mkdir_all_in.inside_axioms open_in.inside_axioms
        write_in.inside_axioms stamp last inside_return)
qed

interpretation extract_file_in: inside "extractFile e f p" "\<lambda>d. prefix d (resolve (cwd (os e)) p)"
  for e f p
  by (rule extractFile_inside)

interpretation extract_each_in: inside "extract_each e dest files"
  "\<lambda>d. dest_ok dest \<and> prefix d (resolve (cwd (os e)) dest)" for e dest files
proof
  fix d fs
  assume "dest_ok dest \<and> prefix d (resolve (cwd (os e)) dest)" "fs_wf fs" "fs_get fs d = Some Dir"
  then show "below d fs (snd (extract_each e dest files fs))"
  proof (induction files arbitrary: fs)
    case Nil
    then show ?case by (simp add: below_refl)
  next
    case (Cons f files)
    show ?case
    proof (cases "safeArchiveEntryPath dest (zf_Name f)")
      case (Ok p)
      then obtain ps where "resolve (cwd (os e)) p = resolve (cwd (os e)) dest @ ps"
        using Cons.prems safeArchiveEntryPath_below by metis
      then have "prefix d (resolve (cwd (os e)) p)" using Cons.prems by (simp add: prefix_prefix)
      then have b: "below d fs (snd (extractFile e f p fs))"
        using Cons.prems by (blast intro: extract_file_in.stays)
      then have "below d (snd (extractFile e f p fs))
          (snd (extract_each e dest files (snd (extractFile e f p fs))))"
        using Cons.prems(1) by (intro Cons.IH) (auto simp: below_def)
      with Ok b show ?thesis
        by (auto split: prod.splits outcome.splits intro: below_trans)
    qed (insert Cons.prems, simp_all add: below_refl)
  qed
qed

text \<open>Only the new directory \<^verbatim>\<open>extracted-artifact\<close> and what is below it may differ afterwards.\<close>

lemma proper_extracted: "proper ''extracted-artifact''"
  by (simp add: proper_def)

lemma zip_OpenReader_fs: "zip_OpenReader e nm fs = (r, fs') \<Longrightarrow> fs' = fs"
  by (auto simp: zip_OpenReader_def split: outcome.splits sum.splits)

lemma os_Mkdir_Ok: "os_Mkdir e p fs = (Ok u, fs') \<Longrightarrow> fs_get fs' (resolve (cwd e) p) = Some Dir"
  by (auto simp: os_Mkdir_def Let_def split: option.splits if_splits)

lemma extractArchive_changes:
  assumes wf: "fs_wf fs" and "parentDir \<noteq> []"
    and run: "extractArchive e parentDir jar fs = (r, fs')"
  shows "fs_wf fs' \<and>
    (\<forall>q. \<not> prefix (resolve (cwd (os e)) parentDir @ [''extracted-artifact'']) q \<longrightarrow>
       fs_get fs' q = fs_get fs q) \<and>
    (\<forall>p. r = Ok p \<longrightarrow> p = Join [parentDir, ''extracted-artifact''] \<and>
       fs_get fs' (resolve (cwd (os e)) p) = Some Dir)"
proof -
  let ?dest = "Join [parentDir, ''extracted-artifact'']"
  let ?d = "resolve (cwd (os e)) ?dest"
  have d: "?d = resolve (cwd (os e)) parentDir @ [''extracted-artifact'']"
    using assms(2) by (simp add: resolve_Join_proper proper_extracted)
  have ok: "dest_ok ?dest" using assms(2) by (simp add: dest_ok_Join proper_extracted)
  note fs_case = run [unfolded extractArchive_def Let_def]
  from fs_case show ?thesis
  proof (cases rule: and_then_cases)
    case (stop r')
    then show ?thesis using wf zip_OpenReader_fs [of e jar fs r' fs'] by auto
  next
    case (cont files fs0)
    then have fs0: "fs0 = fs" using zip_OpenReader_fs by blast
    from cont(2) [unfolded fs0] show ?thesis
    proof (cases rule: and_then_cases)
      case (stop r')
      then show ?thesis
        using mkdir.wf_result [OF stop(1) wf] mkdir.frame_result [OF stop(1) wf] d by auto
    next
      case mk: (cont u fs1)
      have fs1: "fs_wf fs1" "\<And>q. \<not> prefix ?d q \<Longrightarrow> fs_get fs1 q = fs_get fs q"
        using mkdir.wf_result [OF mk(1) wf] mkdir.frame_result [OF mk(1) wf] by auto
      have stay: "below ?d fs1 fs2" if "extract_each e ?dest files fs1 = (r2, fs2)" for r2 fs2
        using extract_each_in.stays_result [OF that _ fs1(1) os_Mkdir_Ok [OF mk(1)]] ok by simp
      from mk(2) show ?thesis
        by (cases rule: and_then_cases) (auto dest!: stay simp: below_def fs1(2) d [symmetric])
    qed
  qed
qed

interpretation extract_in: inside "extractArchive e parentDir jar"
  "\<lambda>d. parentDir \<noteq> [] \<and> prefix d (resolve (cwd (os e)) parentDir)" for e parentDir jar
proof
  fix d fs
  assume g: "parentDir \<noteq> [] \<and> prefix d (resolve (cwd (os e)) parentDir)" "fs_wf fs" "fs_get fs d = Some Dir"
  obtain r fs' where run: "extractArchive e parentDir jar fs = (r, fs')" by fastforce
  let ?x = "resolve (cwd (os e)) parentDir @ [''extracted-artifact'']"
  have "length d < length ?x" using g(1) by (auto dest: prefix_length_le)
  then have d: "\<not> prefix ?x d" by (auto dest: prefix_length_le)
  have q: "\<not> prefix d q \<Longrightarrow> \<not> prefix ?x q" for q
    using g(1) by (meson prefix_order.trans prefixI)
  show "below d fs (snd (extractArchive e parentDir jar fs))"
    using extractArchive_changes [OF g(2) _ run] g d q unfolding below_def run by auto
qed

text \<open>
  C8: whatever an archive holds, extracting it changes nothing outside of the new directory
  \<^verbatim>\<open>extracted-artifact\<close> of the given directory: no entry name, with \<^verbatim>\<open>..\<close> segments or absolute,
  makes it write elsewhere. The file system stays well formed, and on success the returned
  directory exists.
\<close>

theorem extractArchive_confined:
  assumes "fs_wf fs" and "parentDir \<noteq> []"
    and "extractArchive e parentDir jar fs = (r, fs')"
  shows "fs_wf fs' \<and>
    (\<forall>q. \<not> prefix (resolve (cwd (os e)) parentDir @ [''extracted-artifact'']) q \<longrightarrow>
       fs_get fs' q = fs_get fs q) \<and>
    (\<forall>p. r = Ok p \<longrightarrow> p = Join [parentDir, ''extracted-artifact''] \<and>
       fs_get fs' (resolve (cwd (os e)) p) = Some Dir)"
  using assms by (rule extractArchive_changes)

text \<open>An archive with an entry that tries to climb out of the destination.\<close>

definition slip_env :: env where
  "slip_env = sample_env\<lparr>unzip := (\<lambda>_. Inr
     [\<lparr>zf_Name = ''ok.txt'', zf_IsDir = False, zf_Mode = 420, zf_OpenErr = None, zf_Content = ''hi'', zf_ReadErr = None\<rparr>,
      \<lparr>zf_Name = ''../../etc/evil'', zf_IsDir = False, zf_Mode = 420, zf_OpenErr = None, zf_Content = ''x'', zf_ReadErr = None\<rparr>])\<rparr>"

definition slip_fs :: fs where
  "slip_fs = [([], Dir), ([''tmp''], Dir), ([''tmp'', ''a.jar''], File ''PK'' 420 0), ([''etc''], Dir)]"

lemma slip_fs_wf: "fs_wf slip_fs"
  by (auto simp: slip_fs_def fs_wf_def fs_get_def split: if_splits)

theorem extractArchive_confined_witness:
  "fs_get (snd (extractArchive slip_env ''/tmp'' ''/tmp/a.jar'' slip_fs)) [''etc'', ''evil''] = None"
  using extractArchive_confined [OF slip_fs_wf, of "''/tmp''" slip_env "''/tmp/a.jar''"
      "fst (extractArchive slip_env ''/tmp'' ''/tmp/a.jar'' slip_fs)"
      "snd (extractArchive slip_env ''/tmp'' ''/tmp/a.jar'' slip_fs)"]
  by (auto simp: slip_fs_def fs_get_def slip_env_def sample_env_def sample_os_def resolve_def IsAbs_def
      dest!: spec [of _ "[''etc'', ''evil'']"])

section \<open>What a tarball holds\<close>

definition rel_name :: "string list \<Rightarrow> string" where
  "rel_name r = (if r = [] then ''.'' else join_with slash r)"

text \<open>
  The specification of a tarball: one entry for each regular file of the tree, in the order of
  their relative paths, named by the relative path, without owner.
\<close>

definition tar_spec :: "fs \<Rightarrow> string list \<Rightarrow> tar_entry list" where
  "tar_spec fs root =
     concat (map (\<lambda>r. case fs_get fs (root @ r) of
                        Some (File c md mt) \<Rightarrow> [tar_header (rel_name r) c md mt]
                      | _ \<Rightarrow> []) (walk_rels fs root))"

definition proper_tree :: "fs \<Rightarrow> string list \<Rightarrow> bool" where
  "proper_tree fs root \<longleftrightarrow> (\<forall>r. fs_get fs (root @ r) \<noteq> None \<longrightarrow> list_all proper r)"

lemma rel_comps_append [simp]: "rel_comps bs (bs @ ts) = Some ts"
  by (induction bs) auto

lemma Rel_Join:
  assumes "d \<noteq> []" and "list_all proper r"
  shows "Rel d (if r = [] then d else Join (d # r)) = Ok (rel_name r)"
proof (cases "r = []")
  case True
  then show ?thesis using rel_comps_append [of "comps d" "[]"] by (simp add: Rel_def rel_name_def)
next
  case False
  with assms show ?thesis
    by (cases r) (simp_all add: Rel_def IsAbs_Join comps_Join_proper rel_name_def)
qed

lemma walk_fn_exact:
  assumes "fault_free (os e)" and "\<forall>h. tar_WriteErr e h = None" and "dir \<noteq> []"
    and "list_all proper r" and "fs_get fs (resolve (cwd (os e)) dir @ r) = Some n"
  shows "walk_fn e fs dir (if r = [] then dir else Join (dir # r)) n =
    Ok (case n of Dir \<Rightarrow> None | File c md mt \<Rightarrow> Some (tar_header (rel_name r) c md mt))"
proof -
  define fp where "fp = (if r = [] then dir else Join (dir # r))"
  have "resolve (cwd (os e)) fp = resolve (cwd (os e)) dir @ r" "Rel dir fp = Ok (rel_name r)"
    using assms(3,4) Rel_Join [OF assms(3,4)] by (simp_all add: fp_def resolve_Join_proper)
  then show ?thesis
    using assms(1,2,5) unfolding fp_def [symmetric]
    by (cases n) (simp_all add: walk_fn_def os_lookup_def read_node_def)
qed

lemma walk_tar_exact:
  assumes "fault_free (os e)" and "\<forall>h. tar_WriteErr e h = None" and "dir \<noteq> []"
    and "\<forall>r \<in> set rels. list_all proper r"
  shows "walk_tar e fs dir rels acc =
    (Ok (), acc @ concat (map (\<lambda>r. case fs_get fs (resolve (cwd (os e)) dir @ r) of
        Some (File c md mt) \<Rightarrow> [tar_header (rel_name r) c md mt] | _ \<Rightarrow> []) rels))"
  using assms(4)
proof (induction rels arbitrary: acc)
  case Nil
  then show ?case by simp
next
  case (Cons r rels)
  show ?case
  proof (cases "fs_get fs (resolve (cwd (os e)) dir @ r)")
    case None
    with Cons show ?thesis by simp
  next
    case (Some n)
    have "walk_fn e fs dir (if r = [] then dir else Join (dir # r)) n =
        Ok (case n of Dir \<Rightarrow> None | File c md mt \<Rightarrow> Some (tar_header (rel_name r) c md mt))"
      using assms(1-3) Cons.prems Some by (intro walk_fn_exact) auto
    with Some Cons show ?thesis by (cases n) (simp_all add: Let_def)
  qed
qed

lemma tar_spec_cong:
  assumes "\<And>r. fs_get fs (a @ r) = fs_get fs' (b @ r)"
  shows "tar_spec fs a = tar_spec fs' b"
  using walk_rels_eq [of fs a fs' b] assms by (simp add: tar_spec_def)

lemma createTarGz_content:
  assumes free: "fault_free (os e)" "\<forall>h. tar_WriteErr e h = None"
    and dir: "dir \<noteq> []" "fs_get fs (resolve (cwd (os e)) dir) \<noteq> None"
      "proper_tree fs (resolve (cwd (os e)) dir)"
    and nm: "fs_get fs (butlast (resolve (cwd (os e)) nm)) = Some Dir"
      "fs_get fs (resolve (cwd (os e)) nm) \<noteq> Some Dir"
      "\<not> prefix (resolve (cwd (os e)) dir) (resolve (cwd (os e)) nm)"
  shows "\<exists>fs' md mt. createTarGz e dir nm fs = (Ok (), fs') \<and>
    fs_get fs' (resolve (cwd (os e)) nm) =
      Some (File (targz e (tar_spec fs (resolve (cwd (os e)) dir))) md mt) \<and>
    (\<forall>q. q \<noteq> resolve (cwd (os e)) nm \<longrightarrow> fs_get fs' q = fs_get fs q)"
proof -
  let ?root = "resolve (cwd (os e)) dir"
  let ?nm = "resolve (cwd (os e)) nm"
  obtain fs1 md where cr: "os_Create (os e) nm fs = (Ok (), fs1)"
    and fs1: "fs1 = fs_put ?nm (File [] md (mtime (os e) fs)) fs"
    using os_OpenTrunc_total [OF free(1) nm(1,2)] by metis
  have same: "fs_get fs1 (?root @ r) = fs_get fs (?root @ r)" for r
    using nm(3) unfolding fs1 by (metis fs_get_put prefixI)
  then have spec: "tar_spec fs1 ?root = tar_spec fs ?root" by (rule tar_spec_cong)
  have root: "fs_get fs1 ?root \<noteq> None" using same [of "[]"] dir(2) by simp
  have rels: "\<forall>r \<in> set (walk_rels fs1 ?root). list_all proper r"
    using dir(3) same unfolding set_walk_rels proper_tree_def by simp
  have walk: "walk_tar e fs1 dir (walk_rels fs1 ?root) [] = (Ok (), tar_spec fs1 ?root)"
    using walk_tar_exact [OF free dir(1) rels, of fs1 "[]"] by (simp add: tar_spec_def)
  have "createTarGz e dir nm fs = (Ok (), snd (os_Write (targz e (tar_spec fs ?root)) (os e) nm fs1))"
    using root unfolding createTarGz_def cr Let_def by (simp add: walk spec)
  then show ?thesis using free(1) by (simp add: os_Write_def Let_def fs1)
qed

text \<open>
  C15: in an environment without faults \<^verbatim>\<open>createTarGz\<close> succeeds on every directory tree, and the
  file it writes is the compressed tar of exactly the regular files of the tree, in the order of
  their relative paths, each named by that path and without owner; no other file changes.
\<close>

theorem createTarGz_exact:
  assumes "fault_free (os e)" and "\<forall>h. tar_WriteErr e h = None"
    and "dir \<noteq> []" and "fs_get fs (resolve (cwd (os e)) dir) \<noteq> None"
    and "proper_tree fs (resolve (cwd (os e)) dir)"
    and "fs_get fs (butlast (resolve (cwd (os e)) nm)) = Some Dir"
    and "fs_get fs (resolve (cwd (os e)) nm) \<noteq> Some Dir"
    and "\<not> prefix (resolve (cwd (os e)) dir) (resolve (cwd (os e)) nm)"
  shows "\<exists>fs' md mt. createTarGz e dir nm fs = (Ok (), fs') \<and>
    fs_get fs' (resolve (cwd (os e)) nm) =
      Some (File (targz e (tar_spec fs (resolve (cwd (os e)) dir))) md mt) \<and>
    (\<forall>q. q \<noteq> resolve (cwd (os e)) nm \<longrightarrow> fs_get fs' q = fs_get fs q)"
  using assms by (rule createTarGz_content)

definition tree_fs :: fs where
  "tree_fs = [([], Dir), ([''t''], Dir), ([''t'', ''d''], Dir),
     ([''t'', ''d'', ''b''], File ''2'' 420 0), ([''t'', ''d'', ''a''], File ''1'' 420 0)]"

lemma sample_fault_free: "fault_free (os sample_env)"
  by (simp add: fault_free_def sample_env_def sample_os_def)

lemma fs_get_proper_tree:
  assumes "list_all (\<lambda>(q, _). list_all proper (drop (length root) q)) fs"
  shows "proper_tree fs root"
proof -
  have "list_all proper (drop (length root) q)" if "fs_get fs q \<noteq> None" for q
    using that assms fs_get_key [of q fs] by (auto simp: list_all_iff)
  then show ?thesis unfolding proper_tree_def by (metis append_eq_conv_conj)
qed

lemma sample_cwd [simp]: "cwd (os sample_env) = [''srv'']"
  by (simp add: sample_env_def sample_os_def)

theorem createTarGz_exact_witness:
  "\<exists>fs' md mt. createTarGz sample_env ''/t/d'' ''/t/x'' tree_fs = (Ok (), fs') \<and>
     fs_get fs' [''t'', ''x''] = Some (File ''12'' md mt)"
proof -
  have r: "resolve [''srv''] ''/t/d'' = [''t'', ''d'']" "resolve [''srv''] ''/t/x'' = [''t'', ''x'']"
    by (simp_all add: resolve_def IsAbs_def)
  have "walk_rels tree_fs [''t'', ''d''] = [[], [''a''], [''b'']]"
    by (simp add: walk_rels_def tree_fs_def)
  then have s: "targz sample_env (tar_spec tree_fs [''t'', ''d'']) = ''12''"
    by (simp add: tar_spec_def tree_fs_def fs_get_def tar_header_def sample_env_def)
  have pt: "proper_tree tree_fs [''t'', ''d'']"
    by (rule fs_get_proper_tree) (simp add: tree_fs_def proper_def)
  have "fs_get tree_fs [''t'', ''d''] \<noteq> None" "fs_get tree_fs [''t''] = Some Dir"
    "fs_get tree_fs [''t'', ''x''] \<noteq> Some Dir" by (simp_all add: tree_fs_def fs_get_def)
  moreover have "\<forall>h. tar_WriteErr sample_env h = None" by (simp add: sample_env_def)
  ultimately show ?thesis
    using createTarGz_exact [of sample_env "''/t/d''" tree_fs "''/t/x''"] sample_fault_free r s pt
    by (auto simp: r)
qed


definition moved_fs :: fs where
  "moved_fs = [([], Dir), ([''u''], Dir), ([''u'', ''a''], File ''1'' 420 0), ([''u'', ''b''], File ''2'' 420 0)]"


section \<open>Publishing\<close>

text \<open>The shape of the paths the controllers publish to: a directory and a proper file name.\<close>

definition file_in :: "string list \<Rightarrow> string \<Rightarrow> string list \<Rightarrow> string \<Rightarrow> bool" where
  "file_in w p d f \<longleftrightarrow> (\<exists>dir. p = dir @ slash # f \<and> dir \<noteq> [] \<and> proper f \<and> d = resolve w dir)"

lemma proper_append: "proper f \<Longrightarrow> slash \<notin> set s \<Longrightarrow> 2 < length s \<Longrightarrow> proper (f @ s)"
  by (auto simp: proper_def append_eq_Cons_conv)

lemma file_in_resolve: "file_in w p d f \<Longrightarrow> resolve w p = d @ [f]"
  by (auto simp: file_in_def resolve_append_proper)

lemma file_in_Dir: "file_in w p d f \<Longrightarrow> resolve w (path_Dir p) = d"
  by (auto simp: file_in_def resolve_path_Dir proper_no_slash)

lemma file_in_new: "file_in w p d f \<Longrightarrow> file_in w (p @ ''.new'') d (f @ ''.new'')"
  unfolding file_in_def by (auto intro!: proper_append)

lemma open_from_fs: "open_from e p fs = (r, fs') \<Longrightarrow> fs' = fs"
  by (auto simp: open_from_def)

lemma open_from_publishing: "publishing (open_from e p) P"
  unfolding open_from_def by (rule publishing_return)

interpretation io_copy: confined "io_Copy e b a" "\<lambda>q. q = resolve (cwd (os e)) b" for e b a
proof
  fix q fs
  show "fs_get (snd (io_Copy e b a fs)) q = fs_get fs q"
    if "fs_wf fs" "q \<noteq> resolve (cwd (os e)) b"
    using that write_file.frame [of fs q] by (auto simp: io_Copy_def split: option.splits outcome.splits)
  show "fs_wf fs \<Longrightarrow> fs_wf (snd (io_Copy e b a fs))"
    using write_file.keeps_wf by (auto simp: io_Copy_def split: option.splits outcome.splits)
qed

lemma create_or_nil_publishing:
  assumes "publishing (os_Create (os e) p) P" and "publishing g P"
  shows "publishing (\<lambda>fs. case os_Create (os e) p fs of
      (Error x, fs') \<Rightarrow> (Ok (), fs') | (Panic m, fs') \<Rightarrow> (Panic m, fs') | (Ok _, fs') \<Rightarrow> g fs') P"
proof
  fix d fs
  assume d: "P d" "fs_wf fs"
  let ?a = "snd (os_Create (os e) p fs)"
  have a: "grows d fs ?a" using assms(1) d by (simp add: publishing_def)
  then have "grows d fs (snd (g ?a))"
    using assms(2) d(1) grows_wf grows_trans unfolding publishing_def by blast
  with a show "grows d fs (snd (case os_Create (os e) p fs of
      (Error x, fs') \<Rightarrow> (Ok (), fs') | (Panic m, fs') \<Rightarrow> (Panic m, fs') | (Ok _, fs') \<Rightarrow> g fs'))"
    by (auto split: prod.splits outcome.splits)
qed

lemma into_publishing:
  assumes "confined f (\<lambda>q. q = resolve w p)"
  shows "publishing f (\<lambda>d. \<exists>n. file_in w p d n)"
  by (rule confined_publishing [OF assms]) (auto dest: file_in_resolve)

lemma rename_publishing:
  "publishing (os_Rename e (p @ ''.new'') p) (\<lambda>d. \<exists>n. file_in (cwd e) p d n)"
proof (rule confined_publishing [OF rename.confined_axioms])
  fix d q
  assume "\<exists>n. file_in (cwd e) p d n"
    and q: "prefix (resolve (cwd e) (p @ ''.new'')) q \<or> prefix (resolve (cwd e) p) q"
  then obtain n where "file_in (cwd e) p d n" by blast
  then have "resolve (cwd e) p = d @ [n]" "resolve (cwd e) (p @ ''.new'') = d @ [n @ ''.new'']"
    by (blast intro: file_in_resolve file_in_new)+
  with q show "prefix d q" by (metis append_prefixD)
qed

lemma publishing_weaken: "publishing f P \<Longrightarrow> (\<And>d. Q d \<Longrightarrow> P d) \<Longrightarrow> publishing f Q"
  by (simp add: publishing_def)

interpretation copy_file_pub: publishing "copyFile e a b" "\<lambda>d. \<exists>n. file_in (cwd (os e)) b d n"
  for e a b
  unfolding copyFile_def
  by (intro publishing_and_then create_or_nil_publishing open_from_publishing
      publishing_weaken [OF mkdir_all_pub.publishing_axioms]
      into_publishing [OF open_trunc.confined_axioms] into_publishing [OF io_copy.confined_axioms])
    (auto simp: file_in_Dir)

interpretation copy_compressed_pub: publishing "copyCompressedFile e a b"
  "\<lambda>d. \<exists>n. file_in (cwd (os e)) b d n" for e a b
proof -
  let ?P = "\<lambda>d. \<exists>n. file_in (cwd (os e)) b d n"
  have new: "\<exists>n. file_in (cwd (os e)) (b @ ''.new'') d n" if "?P d" for d
    using that file_in_new by blast
  have par: "d = resolve (cwd (os e)) (path_Dir (b @ ''.new''))" if "?P d" for d
    using that file_in_new file_in_Dir by blast
  show "publishing (copyCompressedFile e a b) ?P"
    unfolding copyCompressedFile_def Let_def
    by (intro publishing_and_then create_or_nil_publishing open_from_publishing rename_publishing
        publishing_weaken [OF mkdir_all_pub.publishing_axioms] par
        publishing_weaken [OF into_publishing [OF open_trunc.confined_axioms]]
        publishing_weaken [OF into_publishing [OF io_copy.confined_axioms]] new)
qed


text \<open>Reading and rewriting single files.\<close>

lemma os_Write_cases:
  assumes "os_Write c e p fs = (r, fs')" and "fs_get fs (resolve (cwd e) p) = Some (File c0 md mt)"
  shows "r = Ok () \<and> (\<exists>mt'. fs_get fs' (resolve (cwd e) p) = Some (File c md mt')) \<or> (\<exists>er. r = Error er)"
  using assms by (auto simp: os_Write_def Let_def split: option.splits)

lemma os_Create_cases:
  assumes "os_OpenTrunc m e p fs = (r, fs')"
  shows "r = Ok () \<and> (\<exists>md mt. fs_get fs' (resolve (cwd e) p) = Some (File [] md mt)) \<or>
    (\<exists>er. r = Error er) \<and> fs' = fs"
  using assms by (auto simp: os_OpenTrunc_def Let_def split: option.splits node.splits if_splits)

lemma os_Rename_cases:
  assumes "os_Rename e a b fs = (r, fs')" and "fs_get fs (resolve (cwd e) a) = Some (File c md mt)"
  shows "r = Ok () \<and> fs_get fs' (resolve (cwd e) b) = Some (File c md mt) \<or> (\<exists>er. r = Error er) \<and> fs' = fs"
  using assms by (auto simp: os_Rename_def Let_def split: option.splits if_splits)

text \<open>The end of a publication: fill the placeholder, then rename it.\<close>

lemma copy_rename_result:
  assumes wf: "fs_wf fs" and to: "file_in (cwd (os e)) to d f"
    and src: "fs_get fs (resolve (cwd (os e)) from) = Some (File c md mt)"
    and new: "fs_get fs (d @ [f @ ''.new'']) = Some (File c0 md0 mt0)"
    and run: "and_then (io_Copy e (to @ ''.new'') from) (\<lambda>_. os_Rename (os e) (to @ ''.new'') to) fs = (r, fs')"
  shows "\<not> is_Panic r \<and>
    (r = Ok () \<and> (\<exists>md mt. fs_get fs' (d @ [f]) = Some (File c md mt)) \<or>
     (\<exists>er. r = Error er) \<and> fs_get fs' (d @ [f]) = fs_get fs (d @ [f]))"
proof -
  have n: "resolve (cwd (os e)) (to @ ''.new'') = d @ [f @ ''.new'']" and t: "resolve (cwd (os e)) to = d @ [f]"
    using file_in_resolve [OF file_in_new [OF to]] file_in_resolve [OF to] by auto
  from run show ?thesis
  proof (cases rule: and_then_cases)
    case (stop r')
    have "\<not> is_Panic r'" using stop(1) src
      by (auto simp: io_Copy_def os_Write_def Let_def read_node_def split: option.splits)
    with stop show ?thesis
      using io_copy.frame_result [OF stop(1) wf, of "d @ [f]"] n by (cases r) auto
  next
    case (cont u fs1)
    have same: "fs_get fs1 (d @ [f]) = fs_get fs (d @ [f])"
      using io_copy.frame_result [OF cont(1) wf, of "d @ [f]"] n by simp
    have "os_Write c (os e) (to @ ''.new'') fs = (Ok u, fs1)"
      using cont(1) src by (auto simp: io_Copy_def read_node_def split: option.splits)
    with new n obtain md' mt' where
      "fs_get fs1 (resolve (cwd (os e)) (to @ ''.new'')) = Some (File c md' mt')"
      using os_Write_cases [of c "os e" "to @ ''.new''" fs "Ok u" fs1] by auto
    from os_Rename_cases [OF cont(2) this] show ?thesis using same t by auto
  qed
qed

text \<open>
  The whole sequence of \<^verbatim>\<open>copyCompressedFile\<close> seen at the published path: it keeps what was there or
  gets the complete new content in one step.
\<close>

lemma copyCompressedFile_result:
  assumes wf: "fs_wf fs" and to: "file_in (cwd (os e)) to d f"
    and src: "fs_get fs (resolve (cwd (os e)) from) = Some (File c md mt)"
      "resolve (cwd (os e)) from \<noteq> d @ [f @ ''.new'']"
    and run: "copyCompressedFile e from to fs = (r, fs')"
  shows "\<not> is_Panic r \<and>
    (r = Ok () \<and> (\<exists>md mt. fs_get fs' (d @ [f]) = Some (File c md mt)) \<or>
     fs_get fs' (d @ [f]) = fs_get fs (d @ [f]) \<and>
       (r = Ok () \<longrightarrow> \<not> is_Ok (fst (os_Create (os e) (to @ ''.new'')
          (snd (os_MkdirAll (os e) (path_Dir (to @ ''.new'')) fs))))))"
proof -
  let ?w = "cwd (os e)"
  let ?new = "to @ ''.new''"
  have new: "resolve ?w ?new = d @ [f @ ''.new'']" and tgt: "resolve ?w to = d @ [f]"
    and par: "resolve ?w (path_Dir ?new) = d"
    using file_in_resolve [OF file_in_new [OF to]] file_in_resolve [OF to] file_in_Dir [OF file_in_new [OF to]]
    by auto
  from run [unfolded copyCompressedFile_def Let_def] show ?thesis
  proof (cases rule: and_then_cases)
    case (stop r')
    have "fs_get fs' (d @ [f]) = fs_get fs (d @ [f])"
      using mkdir_all.frame_result [OF stop(1) wf, of "d @ [f]"] par by auto
    then show ?thesis using stop os_MkdirAll_no_panic [of "os e" "path_Dir ?new" fs] by auto
  next
    case mk: (cont u fs1)
    have wf1: "fs_wf fs1" using mkdir_all.wf_result [OF mk(1) wf] .
    have t1: "fs_get fs1 (d @ [f]) = fs_get fs (d @ [f])"
      using mkdir_all.frame_result [OF mk(1) wf, of "d @ [f]"] par by auto
    have s1: "fs_get fs1 (resolve ?w from) = Some (File c md mt)"
      using os_MkdirAll_keeps [of fs "resolve ?w from" "os e" "path_Dir ?new"] src(1) mk(1) by simp
    from mk(2) show ?thesis
    proof (cases rule: and_then_cases)
      case (stop r')
      have "\<not> is_Panic r'" "fs' = fs1"
        using stop(1) by (auto simp: open_from_def os_lookup_def split: option.splits)
      with stop t1 show ?thesis by auto
    next
      case op: (cont n fs2)
      then have fs2: "fs2 = fs1" using open_from_fs by blast
      obtain r3 fs3 where cr: "os_Create (os e) ?new fs1 = (r3, fs3)" by fastforce
      from os_Create_cases [OF cr] show ?thesis
      proof
        assume "(\<exists>er. r3 = Error er) \<and> fs3 = fs1"
        then show ?thesis using op(2) cr mk(1) t1 unfolding fs2 by auto
      next
        assume ok: "r3 = Ok () \<and> (\<exists>md mt. fs_get fs3 (resolve ?w ?new) = Some (File [] md mt))"
        have wf3: "fs_wf fs3" using open_trunc.wf_result [OF cr wf1] .
        have s3: "fs_get fs3 (resolve ?w from) = Some (File c md mt)"
          using open_trunc.frame_result [OF cr wf1] s1 src(2) new by simp
        have t3: "fs_get fs3 (d @ [f]) = fs_get fs (d @ [f])"
          using open_trunc.frame_result [OF cr wf1, of "d @ [f]"] t1 new by simp
        from op(2) cr ok fs2 have tail: "and_then (io_Copy e ?new from) (\<lambda>_. os_Rename (os e) ?new to) fs3 = (r, fs')"
          by simp
        from copy_rename_result [OF wf3 to s3 _ tail] ok new show ?thesis unfolding t3 by auto
      qed
    qed
  qed
qed


definition publish_fs :: fs where
  "publish_fs = [([], Dir), ([''tmp''], Dir), ([''tmp'', ''x''], File ''new'' 420 0)]"

lemma publish_fs_wf: "fs_wf publish_fs"
  by (auto simp: publish_fs_def fs_wf_def fs_get_def split: if_splits)

lemma publish_file_in: "file_in (cwd (os sample_env)) ''/root/a.tgz'' [''root''] ''a.tgz''"
  unfolding file_in_def
  by (rule exI [of _ "''/root''"]) (simp add: proper_def resolve_def IsAbs_def)


text \<open>
  The error of creating the placeholder is lost: \<^verbatim>\<open>copyCompressedFile\<close> then returns \<^verbatim>\<open>nil\<close>
  with the target as it was, so its caller goes on as if the artifact had been published.
\<close>

theorem copyCompressedFile_loses_error:
  assumes "fs_wf fs" and "file_in (cwd (os e)) to d f"
    and "os_MkdirAll (os e) (path_Dir (to @ ''.new'')) fs = (Ok (), fs1)"
    and "os_Open (os e) fs1 from = Ok n"
    and "os_Create (os e) (to @ ''.new'') fs1 = (Error er, fs2)"
  shows "copyCompressedFile e from to fs = (Ok (), fs2) \<and> fs_get fs2 (d @ [f]) = fs_get fs (d @ [f])"
proof -
  have "fs2 = fs1" using os_Create_cases [OF assms(5)] by auto
  moreover have "fs_get fs1 (d @ [f]) = fs_get fs (d @ [f])"
    using mkdir_all.frame_result [OF assms(3,1), of "d @ [f]"] file_in_Dir [OF file_in_new [OF assms(2)]]
    by auto
  ultimately show ?thesis
    using assms(3-5) by (simp add: copyCompressedFile_def Let_def and_then_def open_from_def)
qed

definition full_disk_env :: env where
  "full_disk_env = sample_env\<lparr>os := sample_os\<lparr>io_fault :=
     (\<lambda>_ op _. if op = OpCreate then Some (''no space left on device'', 0) else None)\<rparr>\<rparr>"

theorem copyCompressedFile_loses_error_witness:
  "fst (copyCompressedFile full_disk_env ''/tmp/x'' ''/root/a.tgz'' publish_fs) = Ok () \<and>
   fs_get (snd (copyCompressedFile full_disk_env ''/tmp/x'' ''/root/a.tgz'' publish_fs)) [''root'', ''a.tgz''] = None"
proof -
  let ?e = full_disk_env
  let ?fs1 = "fs_put [''root''] Dir publish_fs"
  have fi: "file_in (cwd (os ?e)) ''/root/a.tgz'' [''root''] ''a.tgz''"
    using publish_file_in by (simp add: full_disk_env_def sample_env_def)
  have dir: "resolve (cwd (os ?e)) (path_Dir (''/root/a.tgz'' @ ''.new'')) = [''root'']"
    by (rule file_in_Dir [OF file_in_new [OF fi]])
  have free: "io_fault (os ?e) fs op p = (if op = OpCreate then Some (''no space left on device'', 0) else None)"
    for fs op p by (simp add: full_disk_env_def)
  have mk: "os_MkdirAll (os ?e) (path_Dir (''/root/a.tgz'' @ ''.new'')) publish_fs = (Ok (), ?fs1)"
    unfolding os_MkdirAll_def dir by (simp add: free publish_fs_def fs_get_def)
  have op: "os_Open (os ?e) ?fs1 ''/tmp/x'' = Ok (File ''new'' 420 0)"
    by (simp add: os_lookup_def free resolve_def IsAbs_def) (simp add: publish_fs_def fs_get_def)
  have cr: "os_Create (os ?e) (''/root/a.tgz'' @ ''.new'') ?fs1 =
      (Error (PathError (ErrIO ''no space left on device'')), ?fs1)"
    by (simp add: os_OpenTrunc_def free)
  show ?thesis
    using copyCompressedFile_loses_error [OF publish_fs_wf fi mk op cr]
    by (simp add: publish_fs_def fs_get_def fs_put_def)
qed

section \<open>The cache\<close>

lemma Split_hd: "c \<in> set s \<Longrightarrow> hd (Split s c) \<noteq> s"
  using Split_words_no_sep [of "hd (Split s c)" s c] by (metis Split_not_Nil list.set_sel(1))

lemma cache_split_iff:
  "(case Split (artifactCache_toString ac) (CHR ''|'') of
      s # c # _ \<Rightarrow> Ok (Some \<lparr>ac_source = s, ac_checksum = c\<rparr>) | _ \<Rightarrow> Panic m) = Ok (Some ac) \<longleftrightarrow>
   CHR ''|'' \<notin> set (ac_source ac) \<and> CHR ''|'' \<notin> set (ac_checksum ac)"
proof -
  have sp: "Split (artifactCache_toString ac) (CHR ''|'') =
      Split (ac_source ac) (CHR ''|'') @ Split (ac_checksum ac) (CHR ''|'')"
    by (simp add: artifactCache_toString_def Split_append)
  show ?thesis
  proof (cases "CHR ''|'' \<in> set (ac_source ac)")
    case True
    then obtain s rest where s: "Split (ac_source ac) (CHR ''|'') = s # rest" "s \<noteq> ac_source ac"
      using Split_hd [OF True] by (cases "Split (ac_source ac) (CHR ''|'')") auto
    have "\<lparr>ac_source = s, ac_checksum = c\<rparr> \<noteq> ac" for c
      using s(2) by (metis artifactCache.select_convs(1))
    with True s(1) show ?thesis unfolding sp by (auto split: list.splits)
  next
    case False
    obtain c rest where c: "Split (ac_checksum ac) (CHR ''|'') = c # rest"
      by (cases "Split (ac_checksum ac) (CHR ''|'')") auto
    have "\<lparr>ac_source = ac_source ac, ac_checksum = c\<rparr> = ac \<longleftrightarrow> c = ac_checksum ac" by (cases ac) auto
    moreover have "c = ac_checksum ac \<longleftrightarrow> CHR ''|'' \<notin> set (ac_checksum ac)"
      using Split_hd [of "CHR ''|''" "ac_checksum ac"] Split_no_sep [of "CHR ''|''" "ac_checksum ac"] c by auto
    ultimately show ?thesis using False c unfolding sp by simp
  qed
qed

lemma os_WriteFile_Ok:
  assumes "os_WriteFile c md e p fs = (Ok u, fs')"
  shows "\<exists>md mt. fs_get fs' (resolve (cwd e) p) = Some (File c md mt)"
proof -
  obtain r fs1 where op: "os_OpenTrunc md e p fs = (r, fs1)" by fastforce
  with assms os_Create_cases [OF op] obtain md' mt' where
    f: "fs_get fs1 (resolve (cwd e) p) = Some (File [] md' mt')" and "r = Ok ()"
    by (auto simp: os_WriteFile_def)
  with assms op have "os_Write c e p fs1 = (Ok u, fs')" by (simp add: os_WriteFile_def)
  from os_Write_cases [OF this f] show ?thesis by auto
qed

text \<open>
  C31: the cache file round trips, that is, \<^verbatim>\<open>retrieveChecksumFromFile\<close> gives back exactly the source
  and checksum that were written, if and only if neither of them contains the separator. No file
  is no entry, and not an error.
\<close>

theorem cache_roundtrip:
  assumes "os_WriteFile (artifactCache_toString ac) md (os e) p fs = (Ok (), fs')"
    and "io_fault (os e) fs' OpOpen p = None" and "io_fault (os e) fs' OpRead p = None"
  shows "(retrieveChecksumFromFile e fs' p = Ok (Some ac) \<longleftrightarrow>
      CHR ''|'' \<notin> set (ac_source ac) \<and> CHR ''|'' \<notin> set (ac_checksum ac)) \<and>
    (os_ReadFile (os e) fs0 q = Error (PathError ErrNotExist) \<longrightarrow> retrieveChecksumFromFile e fs0 q = Ok None)"
proof -
  obtain md' mt' where "fs_get fs' (resolve (cwd (os e)) p) = Some (File (artifactCache_toString ac) md' mt')"
    using os_WriteFile_Ok [OF assms(1)] by blast
  then have "os_ReadFile (os e) fs' p = Ok (artifactCache_toString ac)"
    using assms(2,3) by (simp add: os_ReadFile_def os_lookup_def read_node_def)
  then show ?thesis using cache_split_iff by (simp add: retrieveChecksumFromFile_def)
qed

theorem cache_roundtrip_witness:
  "retrieveChecksumFromFile sample_env
     (snd (os_WriteFile (artifactCache_toString \<lparr>ac_source = ''u'', ac_checksum = ''c''\<rparr>) 511 (os sample_env) ''/f''
        [([], Dir)])) ''/f'' = Ok (Some \<lparr>ac_source = ''u'', ac_checksum = ''c''\<rparr>)"
proof -
  have w: "os_WriteFile s 511 (os sample_env) ''/f'' [([], Dir)] =
      (Ok (), snd (os_WriteFile s 511 (os sample_env) ''/f'' [([], Dir)]))" for s
    by (simp add: os_WriteFile_def os_OpenTrunc_def os_Write_def Let_def fault_freeD [OF sample_fault_free]
        resolve_def IsAbs_def fs_get_def fs_put_def)
  show ?thesis
    using cache_roundtrip [OF w, of "\<lparr>ac_source = ''u'', ac_checksum = ''c''\<rparr>"]
    by (simp add: fault_freeD [OF sample_fault_free])
qed

section \<open>Status of an unchanged artifact\<close>

text \<open>
  The artifact that goes to the status agrees with the new one in everything but the update
  time, and keeps the old update time exactly when there was an artifact that differs in nothing
  else; so the status of an unchanged artifact does not change.
\<close>

theorem preserveArtifactLastUpdateTime_correct:
  "(preserveArtifactLastUpdateTime cur new)\<lparr>a_LastUpdateTime := t\<rparr> = new\<lparr>a_LastUpdateTime := t\<rparr> \<and>
   a_LastUpdateTime (preserveArtifactLastUpdateTime cur new) =
     (case cur of
        Some c \<Rightarrow> (if c\<lparr>a_LastUpdateTime := t\<rparr> = new\<lparr>a_LastUpdateTime := t\<rparr> then a_LastUpdateTime c
                  else a_LastUpdateTime new)
      | None \<Rightarrow> a_LastUpdateTime new) \<and>
   preserveArtifactLastUpdateTime (Some (preserveArtifactLastUpdateTime cur new)) new =
     preserveArtifactLastUpdateTime cur new"
proof -
  have eq: "(c\<lparr>a_LastUpdateTime := a\<rparr> = new\<lparr>a_LastUpdateTime := a\<rparr>) =
      (c\<lparr>a_LastUpdateTime := b\<rparr> = new\<lparr>a_LastUpdateTime := b\<rparr>)" for c :: Artifact and a b
    by (cases c, cases new) simp
  show ?thesis
    using eq [where a = 0 and b = t]
    by (auto simp: preserveArtifactLastUpdateTime_def Let_def split: option.splits)
qed

section \<open>Frames and absence of panics\<close>

lemma sha1Checksum_fs: "snd (sha1Checksum e nm fs) = fs"
  by (auto simp: sha1Checksum_def split: outcome.splits)

lemma sha1Checksum_Ok:
  "sha1Checksum e nm fs = (Ok x, fs') \<Longrightarrow>
     fs' = fs \<and> (\<exists>c md mt. fs_get fs (resolve (cwd (os e)) nm) = Some (File c md mt) \<and> x = sha1_hex c)"
  by (auto simp: sha1Checksum_def os_lookup_def read_node_def split: outcome.splits option.splits node.splits)

lemma createTarGz_fs:
  assumes "os_Create (os e) nm fs = (r, fs1)"
  shows "snd (createTarGz e dir nm fs) = fs1 \<or> (\<exists>c. snd (createTarGz e dir nm fs) = snd (os_Write c (os e) nm fs1))"
  using assms by (auto simp: createTarGz_def Let_def split: prod.splits outcome.splits if_splits)

interpretation tar_in: inside "createTarGz e dir nm" "\<lambda>d. prefix d (resolve (cwd (os e)) nm)" for e dir nm
proof
  fix d fs
  assume d: "prefix d (resolve (cwd (os e)) nm)" "fs_wf fs" "fs_get fs d = Some Dir"
  obtain r fs1 where cr: "os_Create (os e) nm fs = (r, fs1)" by fastforce
  have op: "below d fs fs1" using cr d by (rule open_in.stays_result)
  have "below d fs1 (snd (os_Write c (os e) nm fs1))" for c
    using op d(1) by (intro write_in.stays) (auto simp: below_def)
  with createTarGz_fs [OF cr, of dir] op show "below d fs (snd (createTarGz e dir nm fs))"
    by (auto intro: below_trans)
qed

lemma walk_fn_no_panic: "walk_fn e fs dir fp d \<noteq> Panic m"
proof -
  have "Rel a b \<noteq> Panic k" for a b k by (auto simp: Rel_def split: option.splits list.splits)
  then show ?thesis
    by (auto simp: walk_fn_def Let_def os_lookup_no_panic read_node_no_panic
        split: node.splits option.splits outcome.splits)
qed

lemma files_calm [simp]:
  "calm (sha1Checksum e nm)" "calm (createTarGz e dir nm)" "calm (open_from e nm)" "calm (io_Copy e b a)"
  "calm (zip_OpenReader e nm)"
proof -
  have "\<not> is_Panic (fst (walk_tar e fs dir rels acc))" for fs rels acc
    by (induction rels arbitrary: acc)
      (auto simp: Let_def walk_fn_no_panic split: option.splits outcome.splits)
  then have walk: "walk_tar e fs dir rels acc \<noteq> (Panic m, x)" for fs rels acc m x
    by (metis fst_conv is_Panic_simps(3))
  show "calm (createTarGz e dir nm)"
    using calm_result [OF os_calm(1)] walk
    by (fastforce simp: calm_def createTarGz_def Let_def split: prod.splits outcome.splits)
  show "calm (sha1Checksum e nm)" "calm (open_from e nm)"
    using os_lookup_no_panic read_node_no_panic
    by (auto simp: calm_def sha1Checksum_def open_from_def is_Panic_def split: outcome.splits)
  show "calm (io_Copy e b a)"
    using os_calm(2) read_node_no_panic
    by (auto simp: calm_def io_Copy_def split: option.splits outcome.splits)
  show "calm (zip_OpenReader e nm)"
    using os_lookup_no_panic read_node_no_panic
    by (auto simp: calm_def zip_OpenReader_def os_ReadFile_def split: outcome.splits sum.splits)
qed

lemma calm_return: "(\<And>s. \<not> is_Panic (r s)) \<Longrightarrow> calm (\<lambda>s. (r s, f s))"
  by (simp add: calm_def)

lemma create_or_nil_calm:
  "calm g \<Longrightarrow> calm (\<lambda>fs. case os_Create (os e) p fs of
      (Error x, fs') \<Rightarrow> (Ok (), fs') | (Panic m, fs') \<Rightarrow> (Panic m, fs') | (Ok _, fs') \<Rightarrow> g fs')"
  using calm_result [OF os_calm(1)]
  by (fastforce simp: calm_def split: prod.splits outcome.splits)

lemma copy_calm [simp]: "calm (copyFile e a b)" "calm (copyCompressedFile e a b)"
  unfolding copyFile_def copyCompressedFile_def Let_def
  by (intro calm_and_then create_or_nil_calm; simp)+

lemma extract_calm [simp]: "calm (extractArchive e dir jar)"
proof -
  have "calm (extractFile e f p)" for f p
  proof -
    let ?stamp = "\<lambda>fs. (Ok (), snd (os_Chtimes 0 (os e) p fs))"
    have stamp: "calm ?stamp" by (simp add: calm_def)
    have last: "calm (\<lambda>fs. case zf_ReadErr f of Some er \<Rightarrow> (Error er, fs) | None \<Rightarrow> ?stamp fs)"
      by (cases "zf_ReadErr f") (simp_all add: calm_def)
    show ?thesis
      by (cases "zf_IsDir f"; cases "zf_OpenErr f")
        (simp_all add: extractFile_eq calm_and_then stamp last calm_return)
  qed
  then have one: "extractFile e f p fs \<noteq> (Panic m, x)" for f p fs m x
    using calm_result by (metis is_Panic_simps(3))
  have "calm (extract_each e dest files)" for dest files
    by (induction files)
      (auto simp: calm_def safeArchiveEntryPath_no_panic one split: outcome.splits prod.splits)
  then show ?thesis
    unfolding extractArchive_def Let_def by (intro calm_and_then) (simp_all add: calm_return)
qed

text \<open>When files can be created, a publication that returns \<^verbatim>\<open>nil\<close> has taken place.\<close>

lemma placeholder_created:
  assumes wf: "fs_wf fs" and to: "file_in (cwd (os e)) to d f"
    and free: "can_create (os e)" "fs_get fs (d @ [f @ ''.new'']) \<noteq> Some Dir"
    and mk: "os_MkdirAll (os e) (path_Dir (to @ ''.new'')) fs = (Ok u, fs1)"
  shows "is_Ok (fst (os_Create (os e) (to @ ''.new'') fs1))"
proof -
  have new: "resolve (cwd (os e)) (to @ ''.new'') = d @ [f @ ''.new'']"
    and par: "resolve (cwd (os e)) (path_Dir (to @ ''.new'')) = d"
    using file_in_resolve [OF file_in_new [OF to]] file_in_Dir [OF file_in_new [OF to]] by auto
  have dir: "fs_get fs1 d = Some Dir" using os_MkdirAll_Ok [OF mk] par by simp
  have "fs_get fs1 (d @ [f @ ''.new'']) \<noteq> Some Dir"
    using mkdir_all.frame_result [OF mk wf, of "d @ [f @ ''.new'']"] par free(2) by auto
  with dir free(1) new show ?thesis
    by (auto simp: os_OpenTrunc_def can_create_def Let_def split: option.splits node.splits)
qed

lemma copyCompressedFile_done:
  assumes wf: "fs_wf fs" and to: "file_in (cwd (os e)) to d f"
    and src: "fs_get fs (resolve (cwd (os e)) from) = Some (File c md mt)"
      "resolve (cwd (os e)) from \<noteq> d @ [f @ ''.new'']"
    and free: "can_create (os e)" "fs_get fs (d @ [f @ ''.new'']) \<noteq> Some Dir"
    and run: "copyCompressedFile e from to fs = (Ok (), fs')"
  shows "\<exists>md mt. fs_get fs' (d @ [f]) = Some (File c md mt)"
proof -
  from run [unfolded copyCompressedFile_def Let_def] obtain u fs1 where
    mk: "os_MkdirAll (os e) (path_Dir (to @ ''.new'')) fs = (Ok u, fs1)"
    by (cases rule: and_then_cases) auto
  with placeholder_created [OF wf to free mk] copyCompressedFile_result [OF wf to src run]
  show ?thesis by auto
qed

text \<open>
  Then the two publications, \<^verbatim>\<open>copyFile\<close> to a placeholder followed by a rename and
  \<^verbatim>\<open>copyCompressedFile\<close>, are the same function. They differ only where the placeholder cannot be
  created: the former goes on to rename what is there.
\<close>

lemma copyFile_rename_eq:
  assumes wf: "fs_wf fs" and to: "file_in (cwd (os e)) to d f"
    and free: "can_create (os e)" "fs_get fs (d @ [f @ ''.new'']) \<noteq> Some Dir"
  shows "and_then (copyFile e from (to @ ''.new'')) (\<lambda>_. os_Rename (os e) (to @ ''.new'') to) fs =
    copyCompressedFile e from to fs"
proof -
  obtain r1 fs1 where mk: "os_MkdirAll (os e) (path_Dir (to @ ''.new'')) fs = (r1, fs1)" by fastforce
  show ?thesis
  proof (cases r1)
    case (Ok u)
    with placeholder_created [OF wf to free] mk obtain fs2 where
      cr: "os_Create (os e) (to @ ''.new'') fs1 = (Ok (), fs2)"
      by (cases "os_Create (os e) (to @ ''.new'') fs1") (auto simp: is_Ok_def split: outcome.splits)
    show ?thesis
      unfolding copyFile_def copyCompressedFile_def Let_def and_then_def open_from_def mk Ok
      using cr by (auto split: prod.splits outcome.splits)
  qed (simp_all add: copyFile_def copyCompressedFile_def Let_def and_then_def mk)
qed

text \<open>Without faults a publication succeeds wherever directories can be and are made.\<close>

lemma copyCompressedFile_total:
  assumes free: "fault_free (os e)" and wf: "fs_wf fs" and to: "file_in (cwd (os e)) to d f"
    and src: "fs_get fs (resolve (cwd (os e)) from) = Some (File c md mt)"
      "resolve (cwd (os e)) from \<noteq> d @ [f @ ''.new'']"
    and dirs: "\<forall>q. prefix q d \<longrightarrow> \<not> is_File (fs_get fs q)"
    and tgt: "fs_get fs (d @ [f]) \<noteq> Some Dir" "fs_get fs (d @ [f @ ''.new'']) \<noteq> Some Dir"
  shows "\<exists>fs' md mt. copyCompressedFile e from to fs = (Ok (), fs') \<and> fs_wf fs' \<and>
    fs_get fs' d = Some Dir \<and> fs_get fs' (d @ [f]) = Some (File c md mt) \<and>
    (\<forall>q. q \<noteq> d @ [f] \<longrightarrow> q \<noteq> d @ [f @ ''.new''] \<longrightarrow> \<not> prefix q d \<longrightarrow> fs_get fs' q = fs_get fs q)"
proof -
  let ?w = "cwd (os e)"
  let ?new = "to @ ''.new''"
  have new: "resolve ?w ?new = d @ [f @ ''.new'']" and t: "resolve ?w to = d @ [f]"
    and par: "resolve ?w (path_Dir ?new) = d"
    using file_in_resolve [OF file_in_new [OF to]] file_in_resolve [OF to] file_in_Dir [OF file_in_new [OF to]]
    by auto
  obtain fs1 where mk: "os_MkdirAll (os e) (path_Dir ?new) fs = (Ok (), fs1)" and dir: "fs_get fs1 d = Some Dir"
    using os_MkdirAll_total [OF free, of "path_Dir ?new" fs] dirs unfolding par by blast
  have same: "fs_get fs1 q = fs_get fs q" if "\<not> prefix q d" for q
    using mkdir_all.frame_result [OF mk wf] that par by simp
  have src1: "fs_get fs1 (resolve ?w from) = Some (File c md mt)"
    using os_MkdirAll_keeps [of fs "resolve ?w from" "os e" "path_Dir ?new"] src(1) mk by simp
  obtain m where cr: "os_Create (os e) ?new fs1 = (Ok (), fs_put (d @ [f @ ''.new'']) (File [] m (mtime (os e) fs1)) fs1)"
    using os_OpenTrunc_total [OF free, of fs1 ?new] same tgt(2) dir unfolding new by auto
  let ?fs2 = "fs_put (d @ [f @ ''.new'']) (File [] m (mtime (os e) fs1)) fs1"
  have op: "open_from e from fs1 = (Ok (File c md mt), fs1)"
    using free src1 by (simp add: open_from_def os_lookup_def)
  have cp: "io_Copy e ?new from ?fs2 = (Ok (), fs_put (d @ [f @ ''.new'']) (File c m (mtime (os e) ?fs2)) ?fs2)"
    using os_Write_total [OF free, of ?fs2 ?new "[]" m] src src1 free new
    by (simp add: io_Copy_def read_node_def)
  let ?fs3 = "fs_put (d @ [f @ ''.new'']) (File c m (mtime (os e) ?fs2)) ?fs2"
  have rn: "os_Rename (os e) ?new to ?fs3 = (Ok (), fs_put (d @ [f]) (File c m (mtime (os e) ?fs2))
      (fs_del (d @ [f @ ''.new'']) ?fs3))"
    using os_Rename_total [OF free, of ?fs3 ?new c m _ to] new t dir same tgt(1) by auto
  let ?fs4 = "fs_put (d @ [f]) (File c m (mtime (os e) ?fs2)) (fs_del (d @ [f @ ''.new'']) ?fs3)"
  have run: "copyCompressedFile e from to fs = (Ok (), ?fs4)"
    using mk op cr cp rn by (simp add: copyCompressedFile_def Let_def and_then_def)
  moreover have "fs_wf ?fs4"
    using copy_compressed_pub.grow_result [OF run _ wf] to grows_wf by blast
  ultimately show ?thesis using dir same by auto
qed

end
