(* ===== verification/Image_Controller.thy ===== *)
theory Image_Controller
  imports Reconciler Transport Artifact_Files
begin

text \<open>
  The ImageRepository controller of \<^verbatim>\<open>controllers/imagerepository_controller.go\<close>: the
  sub-reconcilers in the order of the code, each \<^verbatim>\<open>Sync\<close> function a function on the state of a
  reconcile. Logging and the registration of watches are left out. \<open>root\<close> and \<open>host\<close> are
  \<^verbatim>\<open>httpRootDir\<close> and \<^verbatim>\<open>httpHost\<close>.
\<close>

type_synonym istate = "ImageRepository rstate"

section \<open>Stash accessors\<close>

definition HttpRoundTripperStashKey :: string where
  "HttpRoundTripperStashKey = Group @ ''/http-round-tripper''"

definition ImagePullSecretsStashKey :: string where
  "ImagePullSecretsStashKey = Group @ ''/image-pull-secrets''"

definition ImageRefStashKey :: string where
  "ImageRefStashKey = Group @ ''/image-ref''"

definition StashHttpRoundTripper :: "env \<Rightarrow> transport \<Rightarrow> stash \<Rightarrow> stash" where
  "StashHttpRoundTripper e t st = StashValue e HttpRoundTripperStashKey (StashTransport t) st"

definition RetrieveHttpRoundTripper :: "env \<Rightarrow> stash \<Rightarrow> transport option" where
  "RetrieveHttpRoundTripper e st =
     (case RetrieveValue e HttpRoundTripperStashKey st of
        Some (StashTransport t) \<Rightarrow> Some t | _ \<Rightarrow> None)"

definition StashImagePullSecrets :: "env \<Rightarrow> Secret list \<Rightarrow> stash \<Rightarrow> stash" where
  "StashImagePullSecrets e xs st = StashValue e ImagePullSecretsStashKey (StashSecrets xs) st"

text \<open>\<open>None\<close> is a nil slice; an empty slice that was stashed is not nil.\<close>

definition RetrieveImagePullSecrets :: "env \<Rightarrow> stash \<Rightarrow> Secret list option" where
  "RetrieveImagePullSecrets e st =
     (case RetrieveValue e ImagePullSecretsStashKey st of
        Some (StashSecrets xs) \<Rightarrow> Some xs | _ \<Rightarrow> None)"

definition StashImageRef :: "env \<Rightarrow> string \<Rightarrow> stash \<Rightarrow> stash" where
  "StashImageRef e ref st = StashValue e ImageRefStashKey (StashString ref) st"

definition RetrieveImageRef :: "env \<Rightarrow> stash \<Rightarrow> string" where
  "RetrieveImageRef e st =
     (case RetrieveValue e ImageRefStashKey st of
        Some (StashString x) \<Rightarrow> x | _ \<Rightarrow> [])"

section \<open>Transport and pull secrets\<close>

definition ImageRepositoryTransportSync :: "env \<Rightarrow> Cert list \<Rightarrow> istate \<Rightarrow> unit outcome \<times> istate" where
  "ImageRepositoryTransportSync e certs s =
     (case newTransport e (disk s) certs of
        Error er \<Rightarrow> (Error er, s)
      | Panic m \<Rightarrow> (Panic m, s)
      | Ok t \<Rightarrow> (Ok (), s\<lparr>stashed := StashHttpRoundTripper e t (stashed s)\<rparr>))"

text \<open>The loop over the names: all the secrets, or the first name that fails and its error.\<close>

fun lookup_pull_secrets :: "env \<Rightarrow> string \<Rightarrow> string list \<Rightarrow> (string \<times> go_error) + Secret list" where
  "lookup_pull_secrets e ns [] = Inr []"
| "lookup_pull_secrets e ns (n # names) =
     (case GetSecret e ns n of
        Inl err \<Rightarrow> Inl (n, err)
      | Inr secret \<Rightarrow>
          (case lookup_pull_secrets e ns names of
             Inl failed \<Rightarrow> Inl failed
           | Inr secrets \<Rightarrow> Inr (secret # secrets)))"

definition ImageRepositoryImagePullSecretsSync :: "env \<Rightarrow> istate \<Rightarrow> unit outcome \<times> istate" where
  "ImageRepositoryImagePullSecretsSync e s =
     (let ns = Namespace (ir_Meta (parent s));
          serviceAccountName =
            (if irs_ServiceAccountName (ir_Spec (parent s)) = [] then ''default''
             else irs_ServiceAccountName (ir_Spec (parent s)));
          missing = (\<lambda>reason msg nm. (Ok (), s\<lparr>parent :=
            ir_MarkFalse (cond e) ImageRepositoryConditionImageResolved reason msg [AStr nm, AStr ns] (parent s)\<rparr>))
      in case GetServiceAccount e ns serviceAccountName of
           Inl err \<Rightarrow>
             (if IsNotFound e err
              then missing ''ServiceAccountMissing'' ''ServiceAccount %q not found in namespace %q'' serviceAccountName
              else (Error err, s))
         | Inr serviceAccount \<Rightarrow>
             (case lookup_pull_secrets e ns
                     (set_List e (irs_ImagePullSecrets (ir_Spec (parent s)) @ sa_ImagePullSecrets serviceAccount)) of
                Inl (imagePullSecretName, err) \<Rightarrow>
                  (if IsNotFound e err
                   then missing ''SecretMissing'' ''Secret %q not found in namespace %q'' imagePullSecretName
                   else (Error err, s))
              | Inr imagePullSecrets \<Rightarrow>
                  (Ok (), s\<lparr>stashed := StashImagePullSecrets e imagePullSecrets (stashed s)\<rparr>)))"

section \<open>Digest\<close>

definition ImageRepositoryImageDigestSync :: "env \<Rightarrow> istate \<Rightarrow> unit outcome \<times> istate" where
  "ImageRepositoryImageDigestSync e s =
     (let img = irs_Image (ir_Spec (parent s));
          fail = (\<lambda>reason msg err. (Ok (), s\<lparr>parent :=
            ir_MarkFalse (cond e) ImageRepositoryConditionImageResolved reason msg [AStr img, AErr err] (parent s)\<rparr>))
      in case NewDigest e img of
           Inr _ \<Rightarrow> (Ok (), s\<lparr>stashed := StashImageRef e img (stashed s)\<rparr>)
         | Inl _ \<Rightarrow>
             (case RetrieveImagePullSecrets e (stashed s) of
                None \<Rightarrow> (Ok (), s)
              | Some pullSecrets \<Rightarrow>
                  (case NewFromPullSecrets e pullSecrets of
                     Inl err \<Rightarrow> (Error err, s)
                   | Inr keychain \<Rightarrow>
                       (case NewTag e img of
                          Inl err \<Rightarrow> fail ''MalformedRepository'' ''Image name %q failed validation: %s'' err
                        | Inr tag \<Rightarrow>
                            (case Head e tag (RetrieveHttpRoundTripper e (stashed s)) keychain of
                               Inl err \<Rightarrow>
                                 fail ''RemoteError'' ''Unable to resolve image with tag %q to a digest: %s'' err
                             | Inr digest \<Rightarrow>
                                 (Ok (), s\<lparr>stashed := StashImageRef e (tag @ ''@'' @ digest) (stashed s)\<rparr>))))))"

section \<open>Pull\<close>

definition image_tgz_filename :: "string \<Rightarrow> string" where
  "image_tgz_filename digestStr = cut_after digestStr (CHR '':'') @ ''.tar.gz''"

definition image_http_path :: "ImageRepository \<Rightarrow> string \<Rightarrow> string" where
  "image_http_path p artifactTgzFilename =
     ''imagerepository/'' @ Namespace (ir_Meta p) @ ''/'' @ Name (ir_Meta p) @ ''/'' @ artifactTgzFilename"

text \<open>Pulling the image below \<open>artifactDir\<close>: whether there is something to package.\<close>

definition pull_image :: "env \<Rightarrow> string \<Rightarrow> string \<Rightarrow> istate \<Rightarrow> bool outcome \<times> istate" where
  "pull_image e imageRef artifactDir s =
     (case RetrieveImagePullSecrets e (stashed s) of
        None \<Rightarrow> (Ok False, s)
      | Some pullSecrets \<Rightarrow>
          (case NewFromPullSecrets e pullSecrets of
             Inl err \<Rightarrow> (Error err, s)
           | Inr keychain \<Rightarrow>
               (case NewBasicRegistry e keychain (RetrieveHttpRoundTripper e (stashed s)) of
                  Inl err \<Rightarrow> (Error err, s)
                | Inr reg \<Rightarrow>
                    (case Pull e imageRef reg artifactDir (disk s) of
                       (Some err, fs') \<Rightarrow>
                         (Ok False, s\<lparr>disk := fs', parent := ir_MarkFalse (cond e)
                            ImageRepositoryConditionImageResolved ''RemoteError'' ''unable to pull image %q: %s''
                            [AStr (irs_Image (ir_Spec (parent s))), AErr err] (parent s)\<rparr>)
                     | (None, fs') \<Rightarrow>
                         (Ok True, s\<lparr>disk := fs', parent := ir_MarkTrue (cond e)
                            ImageRepositoryConditionImageResolved ''Resolved'' [] [] (parent s)\<rparr>)))))"

definition announce_image ::
  "env \<Rightarrow> string \<Rightarrow> string \<Rightarrow> string \<Rightarrow> string \<Rightarrow> istate \<Rightarrow> unit outcome \<times> istate" where
  "announce_image e imageRef httpPath httpUrl checksum s =
     (let p = parent s;
          a = preserveArtifactLastUpdateTime (irst_Artifact (ir_Status p))
                \<lparr>a_Path = httpPath, a_URL = httpUrl, a_Revision = imageRef,
                 a_Checksum = checksum, a_LastUpdateTime = now e\<rparr>;
          p' = p\<lparr>ir_Status := (ir_Status p)\<lparr>irst_Artifact := Some a, irst_URL := httpUrl\<rparr>\<rparr>
      in (Ok (), s\<lparr>parent := ir_MarkTrue (cond e) ImageRepositoryConditionArtifactAvailable ''Available'' [] [] p'\<rparr>))"

text \<open>The tarball of the pulled directory, and its checksum.\<close>

definition package_image :: "env \<Rightarrow> string \<Rightarrow> string \<Rightarrow> istate \<Rightarrow> string outcome \<times> istate" where
  "package_image e artifactDir artifactTgz =
     and_then (with_error (ErrorfW ''error creating tarball: %w'' []) (on_disk (createTarGz e artifactDir artifactTgz))) (\<lambda>_.
       on_disk (sha1Checksum e artifactTgz))"

text \<open>Copy it below the artifact root under a placeholder name, rename it, and update the status.\<close>

definition publish_image ::
  "env \<Rightarrow> string \<Rightarrow> string \<Rightarrow> string \<Rightarrow> string \<Rightarrow> string \<Rightarrow> string \<Rightarrow> istate \<Rightarrow> unit outcome \<times> istate" where
  "publish_image e root imageRef httpPath httpUrl artifactTgz checksum =
     and_then (on_disk (copyFile e artifactTgz (Join [root, httpPath @ ''.new'']))) (\<lambda>_.
     and_then (on_disk (os_Rename (os e) (Join [root, httpPath @ ''.new'']) (Join [root, httpPath]))) (\<lambda>_.
       announce_image e imageRef httpPath httpUrl checksum))"

text \<open>The work between the creation and the deferred removal of the temporary directory \<open>dir\<close>.\<close>

definition pull_in ::
  "env \<Rightarrow> string \<Rightarrow> string \<Rightarrow> string \<Rightarrow> string \<Rightarrow> string \<Rightarrow> string \<Rightarrow> istate \<Rightarrow> unit outcome \<times> istate" where
  "pull_in e root imageRef artifactTgzFilename httpPath httpUrl dir =
     (let artifactDir = Join [dir, ''artifact'']; artifactTgz = Join [dir, artifactTgzFilename] in
      and_then (pull_image e imageRef artifactDir) (\<lambda>pulled.
        if pulled
        then and_then (package_image e artifactDir artifactTgz)
               (publish_image e root imageRef httpPath httpUrl artifactTgz)
        else (\<lambda>s. (Ok (), s))))"

text \<open>
  The guard of the early return reads \<^verbatim>\<open>Status.Artifact.URL\<close> without a test for nil.
  Assigning the cleaned root back to \<^verbatim>\<open>httpRootDir\<close> has no effect on the paths, which \<^verbatim>\<open>path.Join\<close> cleans.
\<close>

definition ImageRepositoryPullImageSync :: "env \<Rightarrow> string \<Rightarrow> string \<Rightarrow> istate \<Rightarrow> unit outcome \<times> istate" where
  "ImageRepositoryPullImageSync e root host s =
     (let imageRef = RetrieveImageRef e (stashed s) in
      if imageRef = [] then (Ok (), s)
      else case NewDigest e imageRef of
        Inl err \<Rightarrow>
          (Ok (), s\<lparr>parent := ir_MarkFalse (cond e) ImageRepositoryConditionImageResolved ''MalformedDigest''
             ''Image reference %q is not a valid digest: %s'' [AStr imageRef, AErr err] (parent s)\<rparr>)
      | Inr digestStr \<Rightarrow>
          (let artifactTgzFilename = image_tgz_filename digestStr;
               httpPath = image_http_path (parent s) artifactTgzFilename;
               httpUrl = ''http://'' @ host @ ''/'' @ httpPath;
               pull = with_temp_dir e ''image.'' (pull_in e root imageRef artifactTgzFilename httpPath httpUrl) s
           in if is_Ok (os_Stat (os e) (disk s) (Join [root, httpPath])) \<and>
                 httpUrl = irst_URL (ir_Status (parent s))
              then (case irst_Artifact (ir_Status (parent s)) of
                      None \<Rightarrow> (Panic ''invalid memory address or nil pointer dereference'', s)
                    | Some a \<Rightarrow>
                        (if httpUrl = a_URL a
                         then (let p = (if ir_ConditionIsUnknown (cond e) ImageRepositoryConditionImageResolved (parent s)
                                 then ir_MarkTrue (cond e) ImageRepositoryConditionImageResolved ''Resolved'' [] [] (parent s)
                                 else parent s)
                               in (Ok (), s\<lparr>parent := ir_MarkTrue (cond e) ImageRepositoryConditionArtifactAvailable
                                             ''Available'' [] [] p\<rparr>))
                         else pull))
              else pull))"

definition ImageRepositoryPullImageFinalize :: "env \<Rightarrow> string \<Rightarrow> istate \<Rightarrow> unit outcome \<times> istate" where
  "ImageRepositoryPullImageFinalize e root s =
     on_disk (os_RemoveAll (os e)
       (Join [root, ''imagerepository'', Namespace (ir_Meta (parent s)), Name (ir_Meta (parent s))])) s"

section \<open>The reconciler\<close>

definition ImageRepositoryTransportSyncReconciler :: "env \<Rightarrow> Cert list \<Rightarrow> ImageRepository SyncReconciler" where
  "ImageRepositoryTransportSyncReconciler e certs =
     \<lparr>sr_Name = ''ImageRepositoryTransportSyncReconciler'', sr_Sync = Sync (ImageRepositoryTransportSync e certs),
      sr_Finalize = None\<rparr>"

definition ImageRepositoryImagePullSecretsSyncReconciler :: "env \<Rightarrow> ImageRepository SyncReconciler" where
  "ImageRepositoryImagePullSecretsSyncReconciler e =
     \<lparr>sr_Name = ''ImageRepositoryImagePullSecretsSyncReconciler'',
      sr_Sync = Sync (ImageRepositoryImagePullSecretsSync e), sr_Finalize = None\<rparr>"

definition ImageRepositoryImageDigestSyncReconciler :: "env \<Rightarrow> ImageRepository SyncReconciler" where
  "ImageRepositoryImageDigestSyncReconciler e =
     \<lparr>sr_Name = ''ImageRepositoryImageDigestSyncReconciler'',
      sr_Sync = Sync (ImageRepositoryImageDigestSync e), sr_Finalize = None\<rparr>"

definition ImageRepositoryPullImageSyncReconciler :: "env \<Rightarrow> string \<Rightarrow> string \<Rightarrow> ImageRepository SyncReconciler" where
  "ImageRepositoryPullImageSyncReconciler e root host =
     \<lparr>sr_Name = ''ImageRepositoryPullImageSyncReconciler'',
      sr_Sync = Sync (ImageRepositoryPullImageSync e root host),
      sr_Finalize = Some (ImageRepositoryPullImageFinalize e root)\<rparr>"

definition ImageRepositoryIntervalReconciler :: "ImageRepository SyncReconciler" where
  "ImageRepositoryIntervalReconciler =
     \<lparr>sr_Name = ''ImageRepositoryIntervalReconciler'',
      sr_Sync = SyncWithResult (\<lambda>s. (Ok (irs_Interval (ir_Spec (parent s))), s)), sr_Finalize = None\<rparr>"

definition ImageRepositoryReconciler :: "env \<Rightarrow> string \<Rightarrow> string \<Rightarrow> Cert list \<Rightarrow> ImageRepository ResourceReconciler" where
  "ImageRepositoryReconciler e root host certs =
     \<lparr>rr_Finalizer = Group @ ''/finalizer'',
      rr_Sequence =
        [ImageRepositoryTransportSyncReconciler e certs,
         ImageRepositoryImagePullSecretsSyncReconciler e,
         ImageRepositoryImageDigestSyncReconciler e,
         ImageRepositoryPullImageSyncReconciler e root host,
         ImageRepositoryIntervalReconciler]\<rparr>"

end
