(* ===== verification/Publishing.thy ===== *)
theory Publishing
  imports Reconciler Artifact_Files
begin

text \<open>
  What the two controllers share when they publish: the paths of a temporary directory, the
  directory of a resource below the artifact root, and what it means that the artifact announced
  in a status is available there.
\<close>

section \<open>Paths of the temporary directory\<close>

text \<open>The paths below the temporary directory.\<close>

lemma temp_paths:
  assumes "dir \<noteq> []" and "proper a"
  shows "resolve w (Join [dir, a]) = resolve w dir @ [a]" and "Join [dir, a] \<noteq> []"
    and "proper b \<Longrightarrow> resolve w (Join [Join [dir, a], b]) = resolve w dir @ [a, b]"
proof -
  show r: "resolve w (Join [dir, a]) = resolve w dir @ [a]" and ne: "Join [dir, a] \<noteq> []"
    using resolve_Join_proper [OF assms(1), of "[a]"] assms by (simp_all add: Join_Cons)
  show "proper b \<Longrightarrow> resolve w (Join [Join [dir, a], b]) = resolve w dir @ [a, b]"
    using resolve_Join_proper [OF ne, of "[b]"] r by simp
qed

lemma proper_names [simp]: "proper ''artifact''" "proper ''artifactTgz''" "proper ''mavenartifact''"
    "proper ''imagerepository''"
  by (simp_all add: proper_def)

lemma temp_name_not_Nil: "temp_name p e d fs \<noteq> []"
  by (simp add: temp_name_def)

lemma checksum_on_disk:
  assumes "on_disk (sha1Checksum e p) s = (Ok x, s')"
  shows "s' = s \<and> (\<exists>c md mt. fs_get (disk s) (resolve (cwd (os e)) p) = Some (File c md mt) \<and> x = sha1_hex c)"
  using assms by (auto simp: on_disk_result dest!: sha1Checksum_Ok)

section \<open>The directory of a resource\<close>

text \<open>The directory of a resource below the artifact root, by kind, namespace and name.\<close>

definition resource_dir :: "env \<Rightarrow> string \<Rightarrow> string \<Rightarrow> ObjectMeta \<Rightarrow> string list" where
  "resource_dir e root kind meta = resolve (cwd (os e)) root @ [kind, Namespace meta, Name meta]"

definition names_ok :: "ObjectMeta \<Rightarrow> bool" where
  "names_ok meta \<longleftrightarrow> proper (Namespace meta) \<and> proper (Name meta)"

lemma render_snoc:
  "cs \<noteq> [] \<Longrightarrow> render r (cs @ [f]) = render r cs @ slash # f"
  using join_with_append [of cs "[f]" slash] by (auto simp: render_def)

lemma file_in_Join:
  assumes "root \<noteq> []" and "list_all proper ps" and "ps \<noteq> []" and "proper f"
  shows "file_in w (Join (root # ps @ [f])) (resolve w root @ ps) f"
proof -
  have "Join (root # ps @ [f]) = Join (root # ps) @ slash # f"
    using assms Join_proper [of root "ps @ [f]"] Join_proper [of root ps]
      render_snoc [of "comps root @ ps" "IsAbs root" f] by simp
  moreover have "Join (root # ps) \<noteq> []" using assms(1) by (simp add: Join_Cons)
  ultimately show ?thesis
    unfolding file_in_def using assms resolve_Join_proper [of root ps w] by metis
qed

lemma Join_join: "root \<noteq> [] \<Longrightarrow> xs \<noteq> [] \<Longrightarrow> Join [root, join_with slash xs] = Join (root # xs)"
  by (cases xs) (simp_all add: Join_Cons)

lemma preserve_fields:
  "a_Path (preserveArtifactLastUpdateTime cur a) = a_Path a"
  "a_URL (preserveArtifactLastUpdateTime cur a) = a_URL a"
  "a_Revision (preserveArtifactLastUpdateTime cur a) = a_Revision a"
  "a_Checksum (preserveArtifactLastUpdateTime cur a) = a_Checksum a"
proof -
  let ?r = "preserveArtifactLastUpdateTime cur a"
  have same: "x\<lparr>a_LastUpdateTime := 0\<rparr> = a\<lparr>a_LastUpdateTime := 0\<rparr> \<Longrightarrow>
      a_Path x = a_Path a \<and> a_URL x = a_URL a \<and> a_Revision x = a_Revision a \<and> a_Checksum x = a_Checksum a"
    for x :: Artifact by (cases x, cases a) simp
  have "?r = a \<or> ?r\<lparr>a_LastUpdateTime := 0\<rparr> = a\<lparr>a_LastUpdateTime := 0\<rparr>"
    by (simp add: preserveArtifactLastUpdateTime_def Let_def split: option.split)
  with same [of ?r] have "a_Path ?r = a_Path a \<and> a_URL ?r = a_URL a \<and> a_Revision ?r = a_Revision a \<and>
      a_Checksum ?r = a_Checksum a" by metis
  then show "a_Path ?r = a_Path a" "a_URL ?r = a_URL a" "a_Revision ?r = a_Revision a"
    "a_Checksum ?r = a_Checksum a" by blast+
qed

section \<open>Availability\<close>

text \<open>The names of published files: plain text, one path component, with the suffix of a tarball.\<close>

definition plain :: "string \<Rightarrow> bool" where
  "plain s \<longleftrightarrow> (\<forall>c \<in> set s. 0 < (of_char c :: nat) \<and> (of_char c :: nat) < 128)"

definition tarball_name :: "string \<Rightarrow> bool" where
  "tarball_name nm \<longleftrightarrow> proper nm \<and> plain nm \<and> suffix ''.tar.gz'' nm"

lemma plain_append [simp]: "plain (a @ b) \<longleftrightarrow> plain a \<and> plain b"
  by (auto simp: plain_def)

lemma plain_Cons [simp]: "plain (c # s) \<longleftrightarrow> 0 < (of_char c :: nat) \<and> (of_char c :: nat) < 128 \<and> plain s"
  by (auto simp: plain_def)

lemma plain_Nil [simp]: "plain []"
  by (simp add: plain_def)

lemma hex_tarball_name:
  assumes "set h \<subseteq> set ''0123456789abcdef''" and "h \<noteq> []"
  shows "tarball_name (h @ ''.tar.gz'')"
proof -
  have "slash \<notin> set h" "CHR ''.'' \<notin> set h" using assms(1) by auto
  then have "proper (h @ ''.tar.gz'')" using assms(2) by (auto simp: proper_def append_eq_Cons_conv)
  moreover have "plain ''0123456789abcdef''" by simp
  then have "plain h" using assms(1) unfolding plain_def by blast
  ultimately show ?thesis by (simp add: tarball_name_def suffix_def)
qed

lemma sha1_tarball_name: "tarball_name (sha1_hex c @ ''.tar.gz'')"
proof (rule hex_tarball_name [OF sha1_hex_range])
  show "sha1_hex c \<noteq> []" by (metis length_sha1_hex list.size(3) zero_neq_numeral)
qed

lemma sha1_name_proper: "proper (sha1_hex c @ ''.tar.gz'')"
  using sha1_tarball_name by (simp add: tarball_name_def)

text \<open>What the status announces is on disk, under the announced path and with the announced checksum.\<close>

definition available :: "env \<Rightarrow> string \<Rightarrow> string \<Rightarrow> ObjectMeta \<Rightarrow> Artifact \<Rightarrow> fs \<Rightarrow> bool" where
  "available e root kind meta a fs \<longleftrightarrow>
     (\<exists>nm c md mt. tarball_name nm \<and> a_Path a = join_with slash [kind, Namespace meta, Name meta, nm] \<and>
        fs_get fs (resource_dir e root kind meta @ [nm]) = Some (File c md mt) \<and> a_Checksum a = sha1_hex c)"

lemma not_below_parallel: "T \<parallel> D \<Longrightarrow> \<not> prefix T (D @ x)"
  using parallel_append [of T D "[]" x] by (auto simp: parallel_def)

lemma above_parallel: "T \<parallel> D \<Longrightarrow> prefix q D \<Longrightarrow> \<not> prefix T q"
  by (metis parallel_def prefix_order.trans)

section \<open>Success without faults\<close>

lemma sha1Checksum_total:
  assumes "fault_free (os e)" and "fs_get fs (resolve (cwd (os e)) p) = Some (File c md mt)"
  shows "sha1Checksum e p fs = (Ok (sha1_hex c), fs)"
  using assms by (simp add: sha1Checksum_def os_lookup_def read_node_def)

text \<open>
  A disk on which a resource can be published: the temporary directory \<open>t\<close> can be made, and no file
  is in the way of the resource's directory \<open>d\<close>, and no directory where files are put.
\<close>

definition disk_ready :: "fs \<Rightarrow> string list \<Rightarrow> string list \<Rightarrow> bool" where
  "disk_ready fs t d \<longleftrightarrow>
     fs_wf fs \<and> t \<parallel> d \<and> fs_get fs t = None \<and> fs_get fs (butlast t) = Some Dir \<and>
     (\<forall>q. prefix q d \<longrightarrow> \<not> is_File (fs_get fs q)) \<and> (\<forall>n. fs_get fs (d @ [n]) \<noteq> Some Dir)"

end
