(* ===== verification/Image_Sync.thy ===== *)
theory Image_Sync
  imports Image_Controller Publishing
begin

text \<open>
  Properties of the ImageRepository controller: what pulling an image may change, that what the
  status announces is on disk, when the code can panic, and the invariant of the status that
  excludes it.
\<close>

section \<open>Work in the temporary directory\<close>

definition keeps_image :: "istate \<Rightarrow> istate \<Rightarrow> bool" where
  "keeps_image s s' \<longleftrightarrow>
     ir_Meta (parent s') = ir_Meta (parent s) \<and> ir_Spec (parent s') = ir_Spec (parent s) \<and>
     irst_URL (ir_Status (parent s')) = irst_URL (ir_Status (parent s)) \<and>
     irst_Artifact (ir_Status (parent s')) = irst_Artifact (ir_Status (parent s)) \<and>
     stashed s' = stashed s \<and> sent s' = sent s"

definition image_step :: "string list \<Rightarrow> istate \<Rightarrow> istate \<Rightarrow> bool" where
  "image_step d s s' \<longleftrightarrow>
     keeps_image s s' \<and>
     (fs_wf (disk s) \<longrightarrow> fs_get (disk s) d = Some Dir \<longrightarrow> below d (disk s) (disk s'))"

lemma keeps_image_refl [simp]: "keeps_image s s"
  by (simp add: keeps_image_def)

lemma keeps_image_trans: "keeps_image a b \<Longrightarrow> keeps_image b c \<Longrightarrow> keeps_image a c"
  by (simp add: keeps_image_def)

lemma image_step_refl [simp]: "image_step d s s"
  by (simp add: image_step_def below_refl)

lemma image_step_trans:
  assumes "image_step d a b" and "image_step d b c"
  shows "image_step d a c"
proof -
  have "below d (disk a) (disk c)" if "fs_wf (disk a)" "fs_get (disk a) d = Some Dir"
    using assms that below_trans by (auto simp: image_step_def below_def)
  with assms keeps_image_trans show ?thesis by (auto simp: image_step_def)
qed

lemmas image_and_then = sync_step_and_then [where R = "image_step d" for d, OF _ _ image_step_trans]

lemma image_on_disk:
  assumes "inside f P" and "P d"
  shows "sync_step (on_disk f) (image_step d)"
  using assms by unfold_locales (simp add: image_step_def keeps_image_def inside_def)

lemma image_return: "sync_step (\<lambda>s. (r s, s)) (image_step d)"
  by unfold_locales simp

lemma image_with_error: "sync_step f R \<Longrightarrow> sync_step (with_error w f) R"
  unfolding sync_step_def with_error_def
  by (auto split: prod.splits outcome.splits) (metis snd_conv)+

lemma image_read: "sync_step (on_disk (sha1Checksum e' p)) (image_step d)"
  by unfold_locales
    (auto simp: image_step_def keeps_image_def sha1Checksum_def below_refl split: outcome.splits)

text \<open>Pulling writes below the directory \<^verbatim>\<open>artifact\<close> of the temporary directory.\<close>

lemma Pull_below:
  assumes laws: "pull_laws e" and p: "resolve (cwd (os e)) p = d @ x" "x \<noteq> []"
    and fs: "fs_wf fs" "fs_get fs d = Some Dir" and run: "Pull e ref reg p fs = (r, fs')"
  shows "below d fs fs'"
proof -
  let ?f = "\<lambda>fs. case Pull e ref reg p fs of
      (None, fs') \<Rightarrow> (Ok (), fs') | (Some er, fs') \<Rightarrow> (Error er, fs')"
  have c: "confined ?f (prefix (resolve (cwd (os e)) p))" using laws by (simp add: pull_laws_def)
  have "snd (?f fs) = fs'" using run by (auto split: option.split)
  moreover have "\<not> prefix (d @ x) q" if "\<not> prefix d q" for q using that append_prefixD by blast
  moreover have "\<not> prefix (d @ x) d" using p(2) by simp
  ultimately show ?thesis
    using confined.keeps_wf [OF c fs(1)] confined.frame [OF c fs(1)] p(1) fs(2)
    unfolding below_def by metis
qed

lemma pull_image_step:
  assumes "pull_laws e" and "resolve (cwd (os e)) a = d @ x" and "x \<noteq> []"
  shows "sync_step (pull_image e ref a) (image_step d)"
proof
  fix s
  show "image_step d s (snd (pull_image e ref a s))"
    using Pull_below [OF assms]
    by (auto simp: pull_image_def image_step_def keeps_image_def below_refl
        split: option.splits sum.splits prod.splits)
qed

lemma package_image_step:
  assumes "prefix d (resolve (cwd (os e)) tgz)"
  shows "sync_step (package_image e a tgz) (image_step d)"
  unfolding package_image_def
  by (intro image_and_then image_with_error image_read image_on_disk [OF tar_in.inside_axioms] assms)

lemma package_image_Ok:
  assumes "package_image e a tgz s = (Ok ck, s')"
  shows "\<exists>c md mt. fs_get (disk s') (resolve (cwd (os e)) tgz) = Some (File c md mt) \<and> ck = sha1_hex c"
  using assms unfolding package_image_def
  by (cases rule: and_then_cases) (auto dest!: checksum_on_disk)

section \<open>Publishing\<close>

lemma digest_tarball_name:
  assumes "digest_laws e" and "NewDigest e ref = Inr d"
  shows "tarball_name (image_tgz_filename d)"
proof -
  obtain h where h: "d = ''sha256:'' @ h" "length h = 64" "set h \<subseteq> set ''0123456789abcdef''"
    using assms unfolding digest_laws_def by blast
  then have "image_tgz_filename d = h @ ''.tar.gz''" "h \<noteq> []"
    by (auto simp: image_tgz_filename_def cut_after_def)
  then show ?thesis using hex_tarball_name [OF h(3)] by simp
qed

lemma digest_filename_proper:
  assumes "digest_laws e" and "NewDigest e ref = Inr d"
  shows "proper (image_tgz_filename d)"
  using digest_tarball_name [OF assms] by (simp add: tarball_name_def)

lemma image_http_path_eq:
  "image_http_path p f = join_with slash [''imagerepository'', Namespace (ir_Meta p), Name (ir_Meta p), f]"
  by (simp add: image_http_path_def)

abbreviation image_dir :: "env \<Rightarrow> string \<Rightarrow> istate \<Rightarrow> string list" where
  "image_dir e root s \<equiv> resource_dir e root ''imagerepository'' (ir_Meta (parent s))"

lemma image_file_in:
  assumes "root \<noteq> []" and "names_ok (ir_Meta p)" and "proper f"
  shows "file_in (cwd (os e)) (Join [root, image_http_path p f])
    (resource_dir e root ''imagerepository'' (ir_Meta p)) f"
  using assms file_in_Join [of root "[''imagerepository'', Namespace (ir_Meta p), Name (ir_Meta p)]" f "cwd (os e)"]
    Join_join [of root "[''imagerepository'', Namespace (ir_Meta p), Name (ir_Meta p), f]"]
  unfolding resource_dir_def image_http_path_eq by (simp add: names_ok_def)

text \<open>The placeholder is the published path with a suffix.\<close>

lemma image_placeholder:
  assumes "root \<noteq> []" and "names_ok (ir_Meta p)" and "proper f"
  shows "Join [root, image_http_path p f @ ''.new''] = Join [root, image_http_path p f] @ ''.new''"
proof -
  let ?ps = "[''imagerepository'', Namespace (ir_Meta p), Name (ir_Meta p)]"
  have J: "Join [root, image_http_path p g] = Join (root # ?ps) @ slash # g" if "proper g" for g
    using assms that Join_proper [of root "?ps @ [g]"] Join_proper [of root ?ps]
      render_snoc [of "comps root @ ?ps" "IsAbs root" g] Join_join [of root "?ps @ [g]"]
    by (simp add: names_ok_def image_http_path_eq)
  have "image_http_path p f @ ''.new'' = image_http_path p (f @ ''.new'')" by (simp add: image_http_path_def)
  moreover have "proper (f @ ''.new'')" using assms(3) by (rule proper_append) simp_all
  ultimately show ?thesis using J [OF assms(3)] J [of "f @ ''.new''"] by simp
qed

text \<open>What publishing does on every path.\<close>

lemma publish_image_frame:
  assumes root: "root \<noteq> []" and names: "names_ok (ir_Meta (parent s))" and nm: "proper nm"
    and wf: "fs_wf (disk s)"
    and run: "publish_image e root ref (image_http_path (parent s) nm) url tgz ck s = (r, s')"
  shows "ir_Meta (parent s') = ir_Meta (parent s) \<and> ir_Spec (parent s') = ir_Spec (parent s) \<and>
    stashed s' = stashed s \<and> sent s' = sent s \<and> \<not> is_Panic r \<and>
    grows (image_dir e root s) (disk s) (disk s') \<and>
    (keeps_image s s' \<or> r = Ok () \<and>
      (\<exists>a. irst_Artifact (ir_Status (parent s')) = Some a \<and> irst_URL (ir_Status (parent s')) = url \<and>
        a_URL a = url \<and> a_Path a = image_http_path (parent s) nm \<and> a_Revision a = ref \<and> a_Checksum a = ck))"
proof -
  let ?D = "image_dir e root s"
  let ?p = "Join [root, image_http_path (parent s) nm]"
  note to = image_file_in [OF root names nm, of e]
  note run' = run [unfolded publish_image_def image_placeholder [OF root names nm]]
  have cp: "grows ?D (disk s) fs1" if "copyFile e tgz (?p @ ''.new'') (disk s) = (r1, fs1)" for r1 fs1
    using copy_file_pub.grow_result [OF that _ wf] file_in_new [OF to] by blast
  have rn: "grows ?D fs1 fs2" if "os_Rename (os e) (?p @ ''.new'') ?p fs1 = (r2, fs2)" "fs_wf fs1" for r2 fs1 fs2
    using publishing.grow_result [OF rename_publishing that(1) _ that(2)] to by blast
  from run' show ?thesis
  proof (cases rule: and_then_cases)
    case (stop r')
    then show ?thesis
      using cp calm_result [OF copy_calm(1)] by (fastforce simp: on_disk_result keeps_image_def)
  next
    case (cont u s1)
    then obtain fs1 where s1: "s1 = s\<lparr>disk := fs1\<rparr>" "grows ?D (disk s) fs1"
      using cp by (auto simp: on_disk_result)
    from cont(2) show ?thesis
    proof (cases rule: and_then_cases)
      case (stop r')
      then obtain fs2 where w: "os_Rename (os e) (?p @ ''.new'') ?p fs1 = (r', fs2)" "s' = s\<lparr>disk := fs2\<rparr>"
        using s1(1) by (auto simp: on_disk_result)
      have "\<not> is_Panic r'" using calm_result [OF os_calm(5) w(1)] .
      then show ?thesis
        using stop w(2) grows_trans [OF s1(2) rn [OF w(1) grows_wf [OF s1(2)]]]
        by (simp add: keeps_image_def)
    next
      case (cont v s2)
      then obtain fs2 where "s2 = s1\<lparr>disk := fs2\<rparr>" "grows ?D fs1 fs2"
        using rn s1 grows_wf by (fastforce simp: on_disk_result)
      with cont(2) s1 show ?thesis
        by (auto simp: announce_image_def Let_def preserve_fields intro: grows_trans)
    qed
  qed
qed

text \<open>A publication that returns \<^verbatim>\<open>nil\<close> puts the tarball in place.\<close>

lemma publish_image_result:
  assumes root: "root \<noteq> []" and names: "names_ok (ir_Meta (parent s))" and nm: "proper nm"
    and wf: "fs_wf (disk s)" and D: "D = image_dir e root s"
    and src: "fs_get (disk s) (resolve (cwd (os e)) tgz) = Some (File c md mt)"
      "resolve (cwd (os e)) tgz \<noteq> D @ [nm @ ''.new'']"
    and free: "can_create (os e)" "fs_get (disk s) (D @ [nm @ ''.new'']) \<noteq> Some Dir"
    and run: "publish_image e root ref (image_http_path (parent s) nm) url tgz ck s = (Ok (), s')"
  shows "\<exists>md mt. fs_get (disk s') (D @ [nm]) = Some (File c md mt)"
proof -
  let ?p = "Join [root, image_http_path (parent s) nm]"
  note to = image_file_in [OF root names nm, of e, folded D]
  from run [unfolded publish_image_def image_placeholder [OF root names nm]]
  obtain s1 fs2 where cp: "on_disk (copyFile e tgz (?p @ ''.new'')) s = (Ok (), s1)"
    and rn: "os_Rename (os e) (?p @ ''.new'') ?p (disk s1) = (Ok (), fs2)" and d: "disk s' = fs2"
  proof (cases rule: and_then_cases)
    case (cont u s1)
    from cont(2) show thesis
    proof (cases rule: and_then_cases)
      case (cont v s2)
      then show thesis
        using that \<open>on_disk _ s = (Ok u, s1)\<close> by (auto simp: announce_image_def Let_def on_disk_result)
    qed simp
  qed simp
  from cp obtain fs1 where "copyFile e tgz (?p @ ''.new'') (disk s) = (Ok (), fs1)" "disk s1 = fs1"
    by (auto simp: on_disk_result)
  with rn have "copyCompressedFile e tgz ?p (disk s) = (Ok (), fs2)"
    unfolding copyFile_rename_eq [OF wf to free, symmetric] by (simp add: and_then_def)
  from copyCompressedFile_done [OF wf to src free this] d show ?thesis by simp
qed

section \<open>The pull as a whole\<close>

lemma pull_in_cases:
  assumes dir: "dir \<noteq> []" and laws: "pull_laws e" and nm: "proper nm"
    and run: "pull_in e root ref nm path url dir s = (r, s')"
  obtains (unpublished) "image_step (resolve (cwd (os e)) dir) s s'" "\<not> is_Panic r"
  | (publish) s1 tgz c md mt where
      "image_step (resolve (cwd (os e)) dir) s s1" "resolve (cwd (os e)) tgz = resolve (cwd (os e)) dir @ [nm]"
      "fs_get (disk s1) (resolve (cwd (os e)) tgz) = Some (File c md mt)"
      "publish_image e root ref path url tgz (sha1_hex c) s1 = (r, s')"
proof -
  let ?T = "resolve (cwd (os e)) dir"
  let ?a = "Join [dir, ''artifact'']"
  let ?tgz = "Join [dir, nm]"
  have ra: "resolve (cwd (os e)) ?a = ?T @ [''artifact'']" and rt: "resolve (cwd (os e)) ?tgz = ?T @ [nm]"
    using temp_paths(1) [OF dir] nm by simp_all
  have p: "sync_step (pull_image e ref ?a) (image_step ?T)" by (rule pull_image_step [OF laws ra]) simp
  have k: "sync_step (package_image e ?a ?tgz) (image_step ?T)" by (rule package_image_step) (simp add: rt)
  have calm: "calm (package_image e ?a ?tgz)"
    unfolding package_image_def by (intro calm_and_then calm_with_error calm_on_disk) simp_all
  note run' = run [unfolded pull_in_def Let_def]
  from run' show thesis
  proof (cases rule: and_then_cases)
    case (stop r')
    have "\<not> is_Panic r'"
      using stop(1) by (auto simp: pull_image_def split: option.splits sum.splits prod.splits)
    with stop sync_step.keeps_result [OF p stop(1)] show thesis by (intro unpublished) auto
  next
    case (cont pulled s1)
    have t1: "image_step ?T s s1" by (rule sync_step.keeps_result [OF p cont(1)])
    show thesis
    proof (cases pulled)
      case True
      with cont(2) have "and_then (package_image e ?a ?tgz) (publish_image e root ref path url ?tgz) s1 = (r, s')"
        by simp
      then show thesis
      proof (cases rule: and_then_cases)
        case (stop r')
        then show thesis
          using sync_step.keeps_result [OF k stop(1)] t1 calm_result [OF calm stop(1)]
          by (intro unpublished) (auto intro: image_step_trans)
      next
        case (cont ck s2)
        with sync_step.keeps_result [OF k cont(1)] t1 package_image_Ok [OF cont(1)] rt show thesis
          by (auto intro: image_step_trans publish)
      qed
    next
      case False
      with cont(2) t1 show thesis by (intro unpublished) auto
    qed
  qed
qed

text \<open>
  How the resource changes: its metadata and spec, the stash and the log stay, and the URL and
  artifact of its status stay or are those of the image that was pulled.
\<close>

definition image_update :: "string \<Rightarrow> string \<Rightarrow> string \<Rightarrow> istate \<Rightarrow> istate \<Rightarrow> bool" where
  "image_update ref path url s s' \<longleftrightarrow>
     ir_Meta (parent s') = ir_Meta (parent s) \<and> ir_Spec (parent s') = ir_Spec (parent s) \<and>
     stashed s' = stashed s \<and> sent s' = sent s \<and>
     (keeps_image s s' \<or>
      (\<exists>a. irst_Artifact (ir_Status (parent s')) = Some a \<and> irst_URL (ir_Status (parent s')) = url \<and>
         a_URL a = url \<and> a_Path a = path \<and> a_Revision a = ref))"

lemma keeps_image_update: "keeps_image s s' \<Longrightarrow> image_update ref path url s s'"
  by (simp add: image_update_def) (simp add: keeps_image_def)

lemma image_update_after:
  "keeps_image a b \<Longrightarrow> image_update ref path url b c \<Longrightarrow> image_update ref path url a c"
  by (auto simp: image_update_def keeps_image_def)

lemma pull_in_frame:
  assumes dir: "dir \<noteq> []" and laws: "pull_laws e" and nm: "proper nm" and root: "root \<noteq> []"
    and names: "names_ok (ir_Meta (parent s))"
    and wf: "fs_wf (disk s)" "fs_get (disk s) (resolve (cwd (os e)) dir) = Some Dir"
    and run: "pull_in e root ref nm (image_http_path (parent s) nm) url dir s = (r, s')"
  shows "image_update ref (image_http_path (parent s) nm) url s s' \<and> \<not> is_Panic r \<and>
    works (resolve (cwd (os e)) dir) (image_dir e root s) (disk s) (disk s') \<and>
    (keeps_image s s' \<or> r = Ok ())"
proof (cases rule: pull_in_cases [OF dir laws nm run])
  case 1
  then have "below (resolve (cwd (os e)) dir) (disk s) (disk s')" using wf by (simp add: image_step_def)
  with 1 show ?thesis by (simp add: keeps_image_update image_step_def below_works)
next
  case (2 s1 tgz c md mt)
  have b: "below (resolve (cwd (os e)) dir) (disk s) (disk s1)" and k: "keeps_image s s1"
    using 2(1) wf by (simp_all add: image_step_def)
  have m: "ir_Meta (parent s1) = ir_Meta (parent s)" using k by (simp add: keeps_image_def)
  then have path: "image_http_path (parent s) nm = image_http_path (parent s1) nm"
    by (simp add: image_http_path_def)
  note f = publish_image_frame [OF root _ nm _ 2(4) [unfolded path]]
  have "fs_wf (disk s1)" using b by (simp add: below_def)
  with f names m have f': "ir_Meta (parent s') = ir_Meta (parent s1) \<and> ir_Spec (parent s') = ir_Spec (parent s1) \<and>
    stashed s' = stashed s1 \<and> sent s' = sent s1 \<and> \<not> is_Panic r \<and>
    grows (image_dir e root s) (disk s1) (disk s') \<and>
    (keeps_image s1 s' \<or> r = Ok () \<and>
      (\<exists>a. irst_Artifact (ir_Status (parent s')) = Some a \<and> irst_URL (ir_Status (parent s')) = url \<and>
        a_URL a = url \<and> a_Path a = image_http_path (parent s1) nm \<and> a_Revision a = ref \<and> a_Checksum a = sha1_hex c))"
    by simp
  then have "image_update ref (image_http_path (parent s) nm) url s1 s'"
    unfolding path by (auto simp: image_update_def)
  then show ?thesis
    using f' k image_update_after keeps_image_trans works_trans [OF below_works [OF b] grows_works] by blast
qed

text \<open>
  The paths of the \<^verbatim>\<open>Sync\<close> function: it leaves before the temporary directory, with a panic only
  where the status has the URL of an existing artifact and no artifact, or it works there.
\<close>

lemma pull_sync_cases:
  assumes run: "ImageRepositoryPullImageSync e root host s = (r, s')"
  obtains (early) "keeps_image s s'" and "disk s' = disk s" and "r = Ok ()"
  | (nil) "s' = s" and "irst_Artifact (ir_Status (parent s)) = None" and "irst_URL (ir_Status (parent s)) \<noteq> []"
  | (work) ref d where "NewDigest e ref = Inr d" and
      "with_temp_dir e ''image.'' (pull_in e root ref (image_tgz_filename d)
         (image_http_path (parent s) (image_tgz_filename d))
         (''http://'' @ host @ ''/'' @ image_http_path (parent s) (image_tgz_filename d))) s = (r, s')"
      and "ref = RetrieveImageRef e (stashed s)" and "ref \<noteq> []"
proof -
  let ?ref = "RetrieveImageRef e (stashed s)"
  show thesis
  proof (cases "?ref = []")
    case True
    with run show thesis by (intro early) (auto simp: ImageRepositoryPullImageSync_def)
  next
    case ref: False
    show thesis
    proof (cases "NewDigest e ?ref")
      case (Inl err)
      with run ref show thesis
        by (intro early) (auto simp: ImageRepositoryPullImageSync_def keeps_image_def Let_def)
    next
      case (Inr d)
      let ?f = "image_tgz_filename d"
      let ?p = "image_http_path (parent s) ?f"
      let ?u = "''http://'' @ host @ ''/'' @ ?p"
      consider (skip) a where "?u = irst_URL (ir_Status (parent s))" "irst_Artifact (ir_Status (parent s)) = Some a"
          "?u = a_URL a" "is_Ok (os_Stat (os e) (disk s) (Join [root, ?p]))"
        | (nil) "?u = irst_URL (ir_Status (parent s))" "irst_Artifact (ir_Status (parent s)) = None"
          "is_Ok (os_Stat (os e) (disk s) (Join [root, ?p]))"
        | (pull) "with_temp_dir e ''image.'' (pull_in e root ?ref ?f ?p ?u) s = (r, s')"
        using run ref Inr
        unfolding ImageRepositoryPullImageSync_def Let_def
        by (auto split: if_splits option.splits)
      then show thesis
      proof cases
        case skip
        with run ref Inr show thesis
          by (intro early) (auto simp: ImageRepositoryPullImageSync_def Let_def keeps_image_def)
      next
        case nil
        have "?u \<noteq> []" by simp
        with nil run ref Inr show thesis
          by (intro that(2)) (auto simp: ImageRepositoryPullImageSync_def Let_def)
      next
        case pull
        from work [OF Inr pull refl ref] show thesis .
      qed
    qed
  qed
qed

section \<open>Properties of the pull reconciler\<close>

abbreviation image_temp :: "env \<Rightarrow> fs \<Rightarrow> string list" where
  "image_temp e fs \<equiv> temp_dir e ''image.'' fs"

text \<open>The invariant of the status: a URL comes with an artifact that has it.\<close>

definition image_status_ok :: "ImageRepository \<Rightarrow> bool" where
  "image_status_ok p \<longleftrightarrow>
     (case irst_Artifact (ir_Status p) of
        None \<Rightarrow> irst_URL (ir_Status p) = [] | Some a \<Rightarrow> irst_URL (ir_Status p) = a_URL a)"

lemma keeps_image_status: "keeps_image s s' \<Longrightarrow> image_status_ok (parent s') = image_status_ok (parent s)"
  by (auto simp: image_status_ok_def keeps_image_def split: option.splits)

lemma pull_sync_frame:
  assumes laws: "pull_laws e" "digest_laws e" and wf: "fs_wf (disk s)" and root: "root \<noteq> []"
    and names: "names_ok (ir_Meta (parent s))"
    and run: "ImageRepositoryPullImageSync e root host s = (r, s')"
  shows "(\<exists>ref path url. image_update ref path url s s') \<and>
    works (image_temp e (disk s)) (image_dir e root s) (disk s) (disk s') \<and>
    ((\<forall>fs p. io_fault (os e) fs OpRemoveAll p = None) \<longrightarrow>
      (\<forall>q. prefix (image_temp e (disk s)) q \<longrightarrow> fs_get (disk s') q = fs_get (disk s) q)) \<and>
    (image_status_ok (parent s) \<longrightarrow> image_status_ok (parent s') \<and> \<not> is_Panic r)"
proof (cases rule: pull_sync_cases [OF run])
  case 1
  then show ?thesis using wf keeps_image_status by (auto simp: works_refl keeps_image_update)
next
  case 2
  then show ?thesis using wf by (auto simp: works_refl image_status_ok_def keeps_image_update)
next
  case (3 ref d)
  let ?f = "image_tgz_filename d"
  let ?p = "image_http_path (parent s) ?f"
  let ?u = "''http://'' @ host @ ''/'' @ ?p"
  let ?dir = "temp_name ''image.'' (os e) (TempDir (os e)) (disk s)"
  note nm = digest_filename_proper [OF laws(2) 3(1)]
  have step: "image_update ref ?p ?u (s\<lparr>disk := fs1\<rparr>) s2 \<and> \<not> is_Panic r2 \<and>
      works (image_temp e (disk s)) (image_dir e root s) fs1 (disk s2)"
    if "fs_wf fs1" "fs_get fs1 (image_temp e (disk s)) = Some Dir"
      "pull_in e root ref ?f ?p ?u ?dir (s\<lparr>disk := fs1\<rparr>) = (r2, s2)" for fs1 r2 s2
    using pull_in_frame [OF temp_name_not_Nil laws(1) nm root, of "s\<lparr>disk := fs1\<rparr>"] that names
    by (simp add: temp_dir_def)
  have w: "works (image_temp e (disk s)) (image_dir e root s) (disk s) (disk s')"
    using with_temp_dir_works(1) [OF wf 3(2), of "image_dir e root s"] step by blast
  have c: "fs_get (disk s') q = fs_get (disk s) q"
    if "\<forall>fs p. io_fault (os e) fs OpRemoveAll p = None" "prefix (image_temp e (disk s)) q" for q
    using with_temp_dir_works(2) [OF wf 3(2), of "image_dir e root s" q] step that by blast
  have u: "image_update ref ?p ?u s s' \<and> \<not> is_Panic r"
  proof (cases rule: with_temp_dir_cases [OF 3(2)])
    case (1 er)
    then show ?thesis by (simp add: keeps_image_update)
  next
    case r: (2 fs1 s2)
    have "fs_wf fs1" "fs_get fs1 (image_temp e (disk s)) = Some Dir"
      using r(1) mkdir.wf_result [OF r(1)] wf os_Mkdir_Ok [OF r(1)] by (simp_all add: temp_dir_def)
    with step r(2) have "image_update ref ?p ?u (s\<lparr>disk := fs1\<rparr>) s2 \<and> \<not> is_Panic r" by blast
    with r(3) show ?thesis by (auto simp: image_update_def keeps_image_def)
  qed
  then have "image_status_ok (parent s')" if "image_status_ok (parent s)"
    using that keeps_image_status by (auto simp: image_update_def image_status_ok_def)
  with u w c show ?thesis by blast
qed

text \<open>
  C13: one run of the pull reconciler, whatever the registry answers, whatever the image holds and
  whatever calls fail, changes the file system only in its temporary directory, which is gone
  afterwards unless its removal fails, and in the directory of its own resource, apart from creating
  missing parents of the latter. The metadata, spec, stash and log stay.
\<close>

theorem pull_sync_confined:
  assumes "pull_laws e" "digest_laws e" and "fs_wf (disk s)" and "root \<noteq> []"
    and "names_ok (ir_Meta (parent s))" and "ImageRepositoryPullImageSync e root host s = (r, s')"
  shows "works (image_temp e (disk s)) (image_dir e root s) (disk s) (disk s') \<and>
    ((\<forall>fs p. io_fault (os e) fs OpRemoveAll p = None) \<longrightarrow>
      (\<forall>q. prefix (image_temp e (disk s)) q \<longrightarrow> fs_get (disk s') q = fs_get (disk s) q)) \<and>
    (\<exists>ref path url. image_update ref path url s s')"
  using pull_sync_frame [OF assms] by blast

text \<open>
  C17: the invariant of the status, that a URL comes with an artifact that has it, is kept by every
  run of the pull reconciler and excludes its one panic, the read of the URL of a nil artifact.
\<close>

theorem pull_sync_status_invariant:
  assumes "pull_laws e" "digest_laws e" and "fs_wf (disk s)" and "root \<noteq> []"
    and "names_ok (ir_Meta (parent s))" and "ImageRepositoryPullImageSync e root host s = (r, s')"
    and "image_status_ok (parent s)"
  shows "image_status_ok (parent s') \<and> \<not> is_Panic r"
  using pull_sync_frame [OF assms(1-6)] assms(7) by blast

text \<open>The invariant is needed: without an artifact the read panics.\<close>

lemma pull_sync_nil_artifact:
  assumes "NewDigest e (RetrieveImageRef e (stashed s)) = Inr d" and "RetrieveImageRef e (stashed s) \<noteq> []"
    and "irst_URL (ir_Status (parent s)) = ''http://'' @ host @ ''/'' @ image_http_path (parent s) (image_tgz_filename d)"
    and "is_Ok (os_Stat (os e) (disk s) (Join [root, image_http_path (parent s) (image_tgz_filename d)]))"
    and "irst_Artifact (ir_Status (parent s)) = None"
  shows "is_Panic (fst (ImageRepositoryPullImageSync e root host s))"
  using assms by (simp add: ImageRepositoryPullImageSync_def Let_def)

lemma pull_sync_announced:
  assumes laws: "pull_laws e" "digest_laws e" and wf: "fs_wf (disk s)" and root: "root \<noteq> []"
    and names: "names_ok (ir_Meta (parent s))"
    and par: "image_temp e (disk s) \<parallel> image_dir e root s"
    and free: "can_create (os e)" "\<forall>n. fs_get (disk s) (image_dir e root s @ [n @ ''.new'']) \<noteq> Some Dir"
    and run: "ImageRepositoryPullImageSync e root host s = (Ok (), s')"
  shows "keeps_image s s' \<or>
    (\<exists>a. irst_Artifact (ir_Status (parent s')) = Some a \<and> irst_URL (ir_Status (parent s')) = a_URL a \<and>
       a_URL a = ''http://'' @ host @ ''/'' @ a_Path a \<and>
       available e root ''imagerepository'' (ir_Meta (parent s)) a (disk s') \<and>
       (\<exists>d c md mt. NewDigest e (RetrieveImageRef e (stashed s)) = Inr d \<and> RetrieveImageRef e (stashed s) \<noteq> [] \<and>
          a_Path a = image_http_path (parent s) (image_tgz_filename d) \<and>
          fs_get (disk s') (image_dir e root s @ [image_tgz_filename d]) = Some (File c md mt)))"
proof (cases rule: pull_sync_cases [OF run])
  case (3 ref d)
  let ?f = "image_tgz_filename d"
  let ?p = "image_http_path (parent s) ?f"
  let ?u = "''http://'' @ host @ ''/'' @ ?p"
  let ?T = "image_temp e (disk s)"
  let ?D = "image_dir e root s"
  let ?dir = "temp_name ''image.'' (os e) (TempDir (os e)) (disk s)"
  note nm = digest_filename_proper [OF laws(2) 3(1)]
  from 3(2) show ?thesis
  proof (cases rule: with_temp_dir_cases)
    case (ran fs1 s2)
    let ?s1 = "s\<lparr>disk := fs1\<rparr>"
    have T: "resolve (cwd (os e)) ?dir = ?T" by (simp add: temp_dir_def)
    have fs1: "fs_wf fs1" "fs_get fs1 ?T = Some Dir"
      using ran(1) mkdir.wf_result [OF ran(1)] wf os_Mkdir_Ok [OF ran(1)] by (simp_all add: temp_dir_def)
    have last: "fs_get (disk s') q = fs_get (disk s2) q" if "\<not> prefix ?T q" "fs_wf (disk s2)" for q
      using ran(3) remove_all.frame [OF that(2)] that(1) by (simp add: temp_dir_def)
    show ?thesis
    proof (cases rule: pull_in_cases [OF temp_name_not_Nil laws(1) nm ran(2)])
      case 1
      with ran(3) show ?thesis by (simp add: image_step_def keeps_image_def)
    next
      case publish: (2 s3 tgz c md mt)
      have k: "keeps_image ?s1 s3" and b: "below ?T fs1 (disk s3)"
        using publish(1) fs1 by (simp_all add: image_step_def temp_dir_def)
      have m: "ir_Meta (parent s3) = ir_Meta (parent s)" using k by (simp add: keeps_image_def)
      then have path: "?p = image_http_path (parent s3) ?f" by (simp add: image_http_path_def)
      have wf3: "fs_wf (disk s3)" using b by (simp add: below_def)
      have new: "fs_get (disk s3) (?D @ [n @ ''.new'']) \<noteq> Some Dir" for n
      proof -
        have "fs_get (disk s3) (?D @ [n @ ''.new'']) = fs_get fs1 (?D @ [n @ ''.new''])"
          using b not_below_parallel [OF par] unfolding below_def by blast
        also have "?D @ [n @ ''.new''] \<noteq> ?T" using not_below_parallel [OF par] by (metis prefix_order.refl)
        then have "fs_get fs1 (?D @ [n @ ''.new'']) = fs_get (disk s) (?D @ [n @ ''.new''])"
          using mkdir.frame_result [OF ran(1)] wf by (simp add: temp_dir_def)
        finally show ?thesis using free(2) by simp
      qed
      have tgz: "resolve (cwd (os e)) tgz \<noteq> ?D @ [?f @ ''.new'']"
        using publish(2) T not_below_parallel [OF par, of "[?f @ ''.new'']"] by (metis prefixI)
      have D: "?D = image_dir e root s3" using m by simp
      note names3 = names [folded m]
      have fr: "fs_wf (disk s2) \<and> (keeps_image s3 s2 \<or>
          (\<exists>a. irst_Artifact (ir_Status (parent s2)) = Some a \<and> irst_URL (ir_Status (parent s2)) = ?u \<and>
            a_URL a = ?u \<and> a_Path a = image_http_path (parent s3) ?f \<and> a_Checksum a = sha1_hex c))"
        using publish_image_frame [OF root names3 nm wf3 publish(4) [unfolded path]]
        by (auto simp: path grows_def)
      obtain md' mt' where "fs_get (disk s2) (?D @ [?f]) = Some (File c md' mt')"
        using publish_image_result [OF root names3 nm wf3 D publish(3) tgz free(1) new publish(4) [unfolded path]]
        by blast
      then have there: "fs_get (disk s') (?D @ [?f]) = Some (File c md' mt')"
        using last [OF not_below_parallel [OF par]] fr by metis
      show ?thesis
      proof (cases "keeps_image s3 s2")
        case True
        with k ran(3) show ?thesis by (simp add: keeps_image_def)
      next
        case False
        with fr obtain a where a: "irst_Artifact (ir_Status (parent s2)) = Some a"
          "irst_URL (ir_Status (parent s2)) = ?u" "a_URL a = ?u" "a_Path a = ?p" "a_Checksum a = sha1_hex c"
          unfolding path by blast
        have "parent s' = parent s2" using ran(3) by simp
        moreover have "available e root ''imagerepository'' (ir_Meta (parent s)) a (disk s')"
          unfolding available_def using digest_tarball_name [OF laws(2) 3(1)] a(4) [unfolded image_http_path_eq] there a(5) by blast
        ultimately show ?thesis using a there 3(1) [unfolded 3(3)] 3(4) [unfolded 3(3)] by metis
      qed
    qed
  qed simp
qed simp_all

lemma pull_sync_result:
  assumes laws: "pull_laws e" "digest_laws e" and wf: "fs_wf (disk s)" and root: "root \<noteq> []"
    and names: "names_ok (ir_Meta (parent s))"
    and par: "image_temp e (disk s) \<parallel> image_dir e root s"
    and free: "can_create (os e)" "\<forall>n. fs_get (disk s) (image_dir e root s @ [n @ ''.new'']) \<noteq> Some Dir"
    and run: "ImageRepositoryPullImageSync e root host s = (Ok (), s')"
  shows "keeps_image s s' \<or>
    (\<exists>a. irst_Artifact (ir_Status (parent s')) = Some a \<and> irst_URL (ir_Status (parent s')) = a_URL a \<and>
       a_URL a = ''http://'' @ host @ ''/'' @ a_Path a \<and>
       available e root ''imagerepository'' (ir_Meta (parent s)) a (disk s'))"
  using pull_sync_announced [OF assms] by blast

text \<open>
  When the pull reconciler returns without an error, the URL and artifact of the status are as
  before, or the status announces an artifact that is there: at the announced path below the
  artifact root there is a file whose SHA-1 is the announced checksum, and its URL is that path on
  the artifact host. This is for an environment that can create files.
\<close>

theorem pull_sync_publishes:
  assumes "pull_laws e" "digest_laws e" and "fs_wf (disk s)" and "root \<noteq> []"
    and "names_ok (ir_Meta (parent s))" and "image_temp e (disk s) \<parallel> image_dir e root s"
    and "can_create (os e)" "\<forall>n. fs_get (disk s) (image_dir e root s @ [n @ ''.new'']) \<noteq> Some Dir"
    and "ImageRepositoryPullImageSync e root host s = (Ok (), s')"
  shows "keeps_image s s' \<or>
    (\<exists>a. irst_Artifact (ir_Status (parent s')) = Some a \<and> irst_URL (ir_Status (parent s')) = a_URL a \<and>
       a_URL a = ''http://'' @ host @ ''/'' @ a_Path a \<and>
       available e root ''imagerepository'' (ir_Meta (parent s)) a (disk s'))"
  using assms by (rule pull_sync_result)

end
