(* ===== verification/Api_Webhook.thy ===== *)
theory Api_Webhook
  imports Api_Types Go_Http
begin

text \<open>
  The admission webhook of MavenArtifact: \<^verbatim>\<open>mavenartifact_defaults.go\<close> and
  \<^verbatim>\<open>mavenartifact_validation.go\<close>. The locale \<open>field_validator\<close> is the contract the validators of
  nested structures share: no error exactly on a valid value, and every error located below the
  path the validator was given. The functions of \<^verbatim>\<open>k8s.io/apimachinery\<close> the code calls,
  \<^verbatim>\<open>NameIsDNSLabel\<close> and \<^verbatim>\<open>ErrorList.ToAggregate\<close>, and \<^verbatim>\<open>url.Parse\<close> are arguments.
\<close>

section \<open>Field errors\<close>

text \<open>\<^verbatim>\<open>field.Required\<close> and \<^verbatim>\<open>field.Invalid\<close>: path, bad value, detail (format and arguments).\<close>

datatype field_error =
    Required "string list" string
  | Invalid "string list" fmt_arg "string \<times> fmt_arg list"

fun fe_path :: "field_error \<Rightarrow> string list" where
  "fe_path (Required p _) = p"
| "fe_path (Invalid p _ _) = p"

section \<open>Defaulting\<close>

definition MavenArtifactType_Default :: "MavenArtifactType \<Rightarrow> MavenArtifactType" where
  "MavenArtifactType_Default s = (if at_Type s = [] then s\<lparr>at_Type := ''jar''\<rparr> else s)"

definition Repository_Default :: "Repository \<Rightarrow> Repository" where
  "Repository_Default s = s"

definition MavenArtifactSpec_Default :: "MavenArtifactSpec \<Rightarrow> MavenArtifactSpec" where
  "MavenArtifactSpec_Default s =
     (let s1 = s\<lparr>ms_Artifact := MavenArtifactType_Default (ms_Artifact s)\<rparr>;
          s2 = s1\<lparr>ms_Repository := Repository_Default (ms_Repository s1)\<rparr>
      in if ms_Timeout s2 = None then s2\<lparr>ms_Timeout := Some (ms_Interval s2)\<rparr> else s2)"

definition MavenArtifactDefaulter_Default :: "MavenArtifact \<Rightarrow> MavenArtifact" where
  "MavenArtifactDefaulter_Default obj = obj\<lparr>ma_Spec := MavenArtifactSpec_Default (ma_Spec obj)\<rparr>"

section \<open>Validation\<close>

definition containsPathTraversal :: "string \<Rightarrow> bool" where
  "containsPathTraversal v \<longleftrightarrow> v = ''..'' \<or> ContainsAny v (''/'' @ [CHR 0x5C])"

definition traversal_detail :: "string \<times> fmt_arg list" where
  "traversal_detail = (''must not contain path separators or \"..\"'', [])"

definition MavenArtifactType_validate :: "string list \<Rightarrow> MavenArtifactType \<Rightarrow> field_error list" where
  "MavenArtifactType_validate fldPath s =
     (if GroupId s = [] then [Required (fldPath @ [''groupId'']) []]
      else if containsPathTraversal (GroupId s)
      then [Invalid (fldPath @ [''groupId'']) (AStr (GroupId s)) traversal_detail]
      else []) @
     (if ArtifactId s = [] then [Required (fldPath @ [''artifactId'']) []]
      else if containsPathTraversal (ArtifactId s)
      then [Invalid (fldPath @ [''artifactId'']) (AStr (ArtifactId s)) traversal_detail]
      else []) @
     (if at_Version s = [] then [Required (fldPath @ [''version'']) []]
      else if HasPrefix (at_Version s) ''['' \<or> HasPrefix (at_Version s) ''(''
      then [Invalid (fldPath @ [''version'']) (AStr (at_Version s)) ([], [])]
      else if containsPathTraversal (at_Version s)
      then [Invalid (fldPath @ [''version'']) (AStr (at_Version s)) traversal_detail]
      else []) @
     (if at_Type s \<noteq> [] \<and> containsPathTraversal (at_Type s)
      then [Invalid (fldPath @ [''type'']) (AStr (at_Type s)) traversal_detail]
      else []) @
     (if Classifier s \<noteq> [] \<and> containsPathTraversal (Classifier s)
      then [Invalid (fldPath @ [''classifier'']) (AStr (Classifier s)) traversal_detail]
      else [])"

definition Repository_validate ::
  "http_env \<Rightarrow> (string \<Rightarrow> bool \<Rightarrow> string list) \<Rightarrow> string list \<Rightarrow> Repository \<Rightarrow> field_error list" where
  "Repository_validate h NameIsDNSLabel fldPath s =
     (if repo_URL s = [] then [Required (fldPath @ [''url'']) []]
      else case url_Parse h (repo_URL s) of
        Inl err \<Rightarrow> [Invalid (fldPath @ [''url'']) (AStr (repo_URL s)) ([], [])]
      | Inr u \<Rightarrow>
          (if u_Scheme u \<noteq> ''https''
           then [Invalid (fldPath @ [''url'']) (AStr (repo_URL s))
                  (''Scheme \"https\" is required; scheme %q is not allowed in repository URL %q'',
                   [AStr (u_Scheme u), AStr (repo_URL s)])]
           else [])) @
     (if SecretRef s \<noteq> [] \<and> length (NameIsDNSLabel (SecretRef s) False) \<noteq> 0
      then [Invalid (fldPath @ [''secretRef'', ''name'']) (AStr (SecretRef s)) ([], [])]
      else [])"

definition MavenArtifactSpec_validate ::
  "http_env \<Rightarrow> (string \<Rightarrow> bool \<Rightarrow> string list) \<Rightarrow> string list \<Rightarrow> MavenArtifactSpec \<Rightarrow> field_error list" where
  "MavenArtifactSpec_validate h NameIsDNSLabel fldPath s =
     MavenArtifactType_validate (fldPath @ [''artifact'']) (ms_Artifact s) @
     Repository_validate h NameIsDNSLabel (fldPath @ [''repository'']) (ms_Repository s) @
     (if ms_Interval s \<le> 0
      then [Invalid (fldPath @ [''interval'']) (AInt (ms_Interval s)) ([], [])] else []) @
     (case ms_Timeout s of
        None \<Rightarrow> []
      | Some d \<Rightarrow>
          (if d \<le> 0 then [Invalid (fldPath @ [''timeout'']) (AInt d) ([], [])] else []))"

definition MavenArtifact_validate ::
  "http_env \<Rightarrow> (string \<Rightarrow> bool \<Rightarrow> string list) \<Rightarrow> MavenArtifact \<Rightarrow> field_error list" where
  "MavenArtifact_validate h NameIsDNSLabel c =
     MavenArtifactSpec_validate h NameIsDNSLabel [''spec''] (ma_Spec c)"

text \<open>The three admission hooks; \<open>ToAggregate\<close> gives nil (\<open>None\<close>) or an error.\<close>

definition ValidateCreate ::
  "http_env \<Rightarrow> (string \<Rightarrow> bool \<Rightarrow> string list) \<Rightarrow> (field_error list \<Rightarrow> go_error option) \<Rightarrow>
   MavenArtifact \<Rightarrow> go_error option" where
  "ValidateCreate h NameIsDNSLabel ToAggregate obj =
     ToAggregate (MavenArtifact_validate h NameIsDNSLabel obj)"

definition ValidateUpdate ::
  "http_env \<Rightarrow> (string \<Rightarrow> bool \<Rightarrow> string list) \<Rightarrow> (field_error list \<Rightarrow> go_error option) \<Rightarrow>
   MavenArtifact \<Rightarrow> MavenArtifact \<Rightarrow> go_error option" where
  "ValidateUpdate h NameIsDNSLabel ToAggregate old obj =
     ToAggregate (MavenArtifact_validate h NameIsDNSLabel obj)"

definition ValidateDelete :: "MavenArtifact \<Rightarrow> go_error option" where
  "ValidateDelete obj = None"

section \<open>What is valid\<close>

text \<open>A coordinate: no separator of either kind, and not the parent directory.\<close>

definition coordinate_ok :: "string \<Rightarrow> bool" where
  "coordinate_ok v \<longleftrightarrow> v \<noteq> ''..'' \<and> slash \<notin> set v \<and> CHR 0x5C \<notin> set v"

definition artifact_ok :: "MavenArtifactType \<Rightarrow> bool" where
  "artifact_ok s \<longleftrightarrow>
     GroupId s \<noteq> [] \<and> coordinate_ok (GroupId s) \<and>
     ArtifactId s \<noteq> [] \<and> coordinate_ok (ArtifactId s) \<and>
     at_Version s \<noteq> [] \<and> hd (at_Version s) \<notin> {CHR ''['', CHR ''(''} \<and> coordinate_ok (at_Version s) \<and>
     coordinate_ok (at_Type s) \<and> coordinate_ok (Classifier s)"

definition repository_ok :: "http_env \<Rightarrow> (string \<Rightarrow> bool \<Rightarrow> string list) \<Rightarrow> Repository \<Rightarrow> bool" where
  "repository_ok h NameIsDNSLabel s \<longleftrightarrow>
     repo_URL s \<noteq> [] \<and>
     (case url_Parse h (repo_URL s) of Inl _ \<Rightarrow> False | Inr u \<Rightarrow> u_Scheme u = ''https'') \<and>
     (SecretRef s \<noteq> [] \<longrightarrow> NameIsDNSLabel (SecretRef s) False = [])"

definition spec_ok :: "http_env \<Rightarrow> (string \<Rightarrow> bool \<Rightarrow> string list) \<Rightarrow> MavenArtifactSpec \<Rightarrow> bool" where
  "spec_ok h NameIsDNSLabel s \<longleftrightarrow>
     artifact_ok (ms_Artifact s) \<and> repository_ok h NameIsDNSLabel (ms_Repository s) \<and>
     0 < ms_Interval s \<and> (\<forall>d. ms_Timeout s = Some d \<longrightarrow> 0 < d)"

section \<open>The validator contract\<close>

lemma strict_prefix_append_iff [simp]: "strict_prefix p (p @ q) \<longleftrightarrow> q \<noteq> []"
  by (auto simp: strict_prefix_def)

locale field_validator =
  fixes validate :: "string list \<Rightarrow> 'a \<Rightarrow> field_error list"
    and ok :: "'a \<Rightarrow> bool"
  assumes validate_iff: "validate p x = [] \<longleftrightarrow> ok x"
    and validate_path: "fe \<in> set (validate p x) \<Longrightarrow> strict_prefix p (fe_path fe)"
begin

lemma rejects: "\<not> ok x \<Longrightarrow> \<exists>fe. fe \<in> set (validate p x) \<and> strict_prefix p (fe_path fe)"
  using validate_iff validate_path by (metis list.set_intros(1) neq_Nil_conv)

text \<open>A nested validator reports below the child field it was called on.\<close>

lemma child_path: "fe \<in> set (validate (p @ [c]) x) \<Longrightarrow> strict_prefix p (fe_path fe)"
  using validate_path [of fe "p @ [c]" x] by (auto simp: strict_prefix_def dest: append_prefixD)

end

lemma containsPathTraversal_iff: "containsPathTraversal v \<longleftrightarrow> \<not> coordinate_ok v"
  by (auto simp: containsPathTraversal_def coordinate_ok_def)

lemma coordinate_ok_Nil [simp]: "coordinate_ok []"
  by (simp add: coordinate_ok_def)

lemma prefix_single: "prefix [c] s \<longleftrightarrow> s \<noteq> [] \<and> hd s = c"
  by (cases s) auto

lemmas validate_simps = containsPathTraversal_iff prefix_single traversal_detail_def

interpretation artifact_validator: field_validator MavenArtifactType_validate artifact_ok
  by unfold_locales
    (auto simp: MavenArtifactType_validate_def artifact_ok_def validate_simps split: if_splits)

interpretation repository_validator: field_validator "Repository_validate h dns" "repository_ok h dns"
  for h dns
  by unfold_locales
    (auto simp: Repository_validate_def repository_ok_def split: if_splits sum.splits)

interpretation spec_validator: field_validator "MavenArtifactSpec_validate h dns" "spec_ok h dns"
  for h dns
  by unfold_locales
    (auto simp: MavenArtifactSpec_validate_def spec_ok_def artifact_validator.validate_iff
        repository_validator.validate_iff artifact_validator.child_path
        repository_validator.child_path split: if_splits option.splits)

section \<open>Properties\<close>

text \<open>
  C14: the webhook admits a MavenArtifact, on create and on update, exactly when its coordinates
  are present and free of path separators and of the parent directory, its version is no range,
  its repository URL parses and is https, its secret name is a DNS label, and its interval and
  timeout are positive. The hypothesis is the documented behaviour of \<^verbatim>\<open>ToAggregate\<close>: nil for an
  empty list of errors and only for it.
\<close>

theorem ValidateCreate_iff_valid:
  assumes "\<And>es. ToAggregate es = None \<longleftrightarrow> es = []"
  shows "(ValidateCreate h dns ToAggregate obj = None \<longleftrightarrow> spec_ok h dns (ma_Spec obj)) \<and>
    (ValidateUpdate h dns ToAggregate old obj = None \<longleftrightarrow> spec_ok h dns (ma_Spec obj))"
  using assms spec_validator.validate_iff
  by (simp add: ValidateCreate_def ValidateUpdate_def MavenArtifact_validate_def)

text \<open>A concrete environment and resource, on which the properties below are applied.\<close>

definition sample_http :: http_env where
  "sample_http =
     \<lparr>send = (\<lambda>_ _ _. Inr \<lparr>StatusCode = 404, Location = [], Body = [], BodyErr = None\<rparr>),
      url_Parse = (\<lambda>s. Inr \<lparr>u_Scheme = ''https'', u_Host = ''repo'', u_String = s\<rparr>),
      url_ParseRef = (\<lambda>_ _. Inl ''unsupported'')\<rparr>"

definition sample_aggregate :: "field_error list \<Rightarrow> go_error option" where
  "sample_aggregate es = (if es = [] then None else Some (External ''invalid''))"

definition sample_maven :: MavenArtifact where
  "sample_maven =
     \<lparr>ma_Meta = \<lparr>Namespace = ''dev'', Name = ''app''\<rparr>,
      ma_Spec =
        \<lparr>ms_Artifact = \<lparr>GroupId = ''org.acme'', at_Version = ''1.0'', ArtifactId = ''app'',
                        at_Type = [], Classifier = []\<rparr>,
         ms_Repository = \<lparr>repo_URL = ''https://repo/m2'', SecretRef = []\<rparr>,
         ms_Interval = 5, ms_Timeout = None\<rparr>,
      ma_Status = \<lparr>mst_Conditions = [], mst_URL = [], mst_Artifact = None\<rparr>\<rparr>"

theorem ValidateCreate_iff_valid_witness:
  "ValidateCreate sample_http (\<lambda>_ _. []) sample_aggregate sample_maven = None"
  using ValidateCreate_iff_valid [of sample_aggregate sample_http "\<lambda>_ _. []" sample_maven]
  by (simp add: sample_aggregate_def spec_ok_def artifact_ok_def repository_ok_def coordinate_ok_def
      sample_maven_def sample_http_def)

text \<open>
  Defaulting is idempotent, keeps every field the user set, and fills the others: the type
  becomes \<^verbatim>\<open>jar\<close> and the timeout the interval. It never turns a valid resource into an invalid
  one, and a defaulted resource that is valid has a positive timeout and a type, which the
  reconciler relies on.
\<close>

theorem Default_correct:
  fixes obj :: MavenArtifact
  defines "d \<equiv> MavenArtifactDefaulter_Default obj"
  shows "MavenArtifactDefaulter_Default d = d \<and>
    ma_Meta d = ma_Meta obj \<and> ma_Status d = ma_Status obj \<and>
    ms_Repository (ma_Spec d) = ms_Repository (ma_Spec obj) \<and>
    ms_Interval (ma_Spec d) = ms_Interval (ma_Spec obj) \<and>
    ms_Timeout (ma_Spec d) =
      (case ms_Timeout (ma_Spec obj) of None \<Rightarrow> Some (ms_Interval (ma_Spec obj)) | Some t \<Rightarrow> Some t) \<and>
    ms_Artifact (ma_Spec d) =
      (if at_Type (ms_Artifact (ma_Spec obj)) = []
       then (ms_Artifact (ma_Spec obj))\<lparr>at_Type := ''jar''\<rparr> else ms_Artifact (ma_Spec obj)) \<and>
    (spec_ok h dns (ma_Spec d) \<longleftrightarrow> spec_ok h dns (ma_Spec obj)) \<and>
    (spec_ok h dns (ma_Spec d) \<longrightarrow>
      at_Type (ms_Artifact (ma_Spec d)) \<noteq> [] \<and> (\<exists>t > 0. ms_Timeout (ma_Spec d) = Some t))"
proof -
  have ok: "spec_ok h dns (ma_Spec d) \<longleftrightarrow> spec_ok h dns (ma_Spec obj)"
    unfolding d_def spec_ok_def artifact_ok_def MavenArtifactDefaulter_Default_def
      MavenArtifactSpec_Default_def MavenArtifactType_Default_def Repository_Default_def Let_def
    by (cases "ms_Timeout (ma_Spec obj)") (auto simp: coordinate_ok_def)
  show ?thesis
    unfolding ok unfolding d_def spec_ok_def MavenArtifactDefaulter_Default_def
      MavenArtifactSpec_Default_def MavenArtifactType_Default_def Repository_Default_def Let_def
    by (cases "ms_Timeout (ma_Spec obj)") auto
qed

theorem Default_correct_witness:
  "\<exists>t > 0. ms_Timeout (ma_Spec (MavenArtifactDefaulter_Default sample_maven)) = Some t"
  using Default_correct [of sample_maven sample_http "\<lambda>_ _. []"]
  by (simp add: spec_ok_def artifact_ok_def repository_ok_def coordinate_ok_def
      sample_maven_def sample_http_def)

end
