(* ===== verification/Maven_Resolver.thy ===== *)
theory Maven_Resolver
  imports Environment Api_Webhook
begin

text \<open>
  The resolution of Maven coordinates: \<^verbatim>\<open>MavenResolver\<close> of \<^verbatim>\<open>controllers/internal.go\<close> and the
  download functions of \<^verbatim>\<open>controllers/mavenartifact_controller.go\<close> it calls. The locale
  \<open>version_processor\<close> is the contract the four \<^verbatim>\<open>process...Version\<close> methods share with \<^verbatim>\<open>Resolve\<close>:
  a resolved artifact has a single-segment file name, and its download URL ends in that name.
\<close>

section \<open>Stash accessors\<close>

definition MavenArtifactVersionStashKey :: string where
  "MavenArtifactVersionStashKey = Group @ ''/artifact-version''"

definition MavenArtifactAuthSecretStashKey :: string where
  "MavenArtifactAuthSecretStashKey = Group @ ''/auth-secret''"

definition MavenArtifactHttpClientKey :: string where
  "MavenArtifactHttpClientKey = Group @ ''/http-client''"

definition stashHttpClient :: "env \<Rightarrow> http_client \<Rightarrow> stash \<Rightarrow> stash" where
  "stashHttpClient e c st = StashValue e MavenArtifactHttpClientKey (StashClient c) st"

definition retrieveHttpClient :: "env \<Rightarrow> stash \<Rightarrow> http_client option" where
  "retrieveHttpClient e st =
     (case RetrieveValue e MavenArtifactHttpClientKey st of
        Some (StashClient c) \<Rightarrow> Some c | _ \<Rightarrow> None)"

definition stashAuthSecret :: "env \<Rightarrow> Secret \<Rightarrow> stash \<Rightarrow> stash" where
  "stashAuthSecret e s st = StashValue e MavenArtifactAuthSecretStashKey (StashSecret s) st"

definition retrieveAuthSecret :: "env \<Rightarrow> stash \<Rightarrow> Secret option" where
  "retrieveAuthSecret e st =
     (case RetrieveValue e MavenArtifactAuthSecretStashKey st of
        Some (StashSecret s) \<Rightarrow> Some s | _ \<Rightarrow> None)"

definition stashArtifactVersion :: "env \<Rightarrow> ArtifactDetails \<Rightarrow> stash \<Rightarrow> stash" where
  "stashArtifactVersion e d st = StashValue e MavenArtifactVersionStashKey (StashDetails d) st"

definition retrieveArtifactVersion :: "env \<Rightarrow> stash \<Rightarrow> ArtifactDetails option" where
  "retrieveArtifactVersion e st =
     (case RetrieveValue e MavenArtifactVersionStashKey st of
        Some (StashDetails d) \<Rightarrow> Some d | _ \<Rightarrow> None)"

section \<open>Requests and downloads\<close>

text \<open>A missing key of the secret's data is the empty string; without a secret both are empty.\<close>

definition basicAuthCredentialsFromSecret :: "env \<Rightarrow> stash \<Rightarrow> string \<times> string" where
  "basicAuthCredentialsFromSecret e st =
     (case retrieveAuthSecret e st of
        None \<Rightarrow> ([], [])
      | Some s \<Rightarrow>
          (let get = (\<lambda>k. case sec_Data s of None \<Rightarrow> [] | Some m \<Rightarrow> (case m k of None \<Rightarrow> [] | Some v \<Rightarrow> v))
           in (get ''username'', get ''password'')))"

definition buildRequestObject ::
  "env \<Rightarrow> string \<Rightarrow> string \<Rightarrow> (string \<times> string) option \<Rightarrow> request outcome" where
  "buildRequestObject e requestType url authOpts =
     (case url_Parse (http e) url of
        Inl msg \<Rightarrow> Error (UrlError (ErrorText msg))
      | Inr u \<Rightarrow> Ok \<lparr>req_Method = requestType, req_URL = u, req_BasicAuth = authOpts\<rparr>)"

text \<open>\<^verbatim>\<open>download\<close>: the bytes at a URL, and the log of requests.\<close>

definition download ::
  "env \<Rightarrow> stash \<Rightarrow> string \<Rightarrow> http_client \<Rightarrow> request list \<Rightarrow> string outcome \<times> request list" where
  "download e st url client sent =
     (case buildRequestObject e ''GET'' url (Some (basicAuthCredentialsFromSecret e st)) of
        Error er \<Rightarrow> (Error (Errorf ''Error %q while parsing request URL %q'' [AErr er, AStr url]), sent)
      | Panic m \<Rightarrow> (Panic m, sent)
      | Ok req \<Rightarrow>
          (case client_Do (http e) (hc_Transport client) sent req of
             (Error er, sent') \<Rightarrow> (Error (Errorf ''%s download error %s'' [AStr url, AErr er]), sent')
           | (Panic m, sent') \<Rightarrow> (Panic m, sent')
           | (Ok resp, sent') \<Rightarrow>
               (if StatusCode resp < 200 \<or> StatusCode resp \<ge> 300
                then (Error (DownloadError (Errorf ''Error received HTTP status %v getting %q''
                        [AInt (StatusCode resp), AStr url]) (StatusCode resp)), sent')
                else case BodyErr resp of
                  Some er \<Rightarrow>
                    (Error (DownloadError (Errorf ''Error downloading file data from URL %q: %q''
                        [AStr url, AErr er]) (StatusCode resp)), sent')
                | None \<Rightarrow> (Ok (Body resp), sent'))))"

definition downloadMetadata ::
  "env \<Rightarrow> stash \<Rightarrow> http_client \<Rightarrow> string \<Rightarrow> request list \<Rightarrow> MavenMetadata outcome \<times> request list" where
  "downloadMetadata e st client url sent =
     (case download e st url client sent of
        (Error er, sent') \<Rightarrow> (Error er, sent')
      | (Panic m, sent') \<Rightarrow> (Panic m, sent')
      | (Ok meta, sent') \<Rightarrow>
          (case Parse (xml_Unmarshal e) (Some meta) of
             Error er \<Rightarrow> (Error (Errorf ''Error %q while parsing XML data at %q'' [AErr er, AStr url]), sent')
           | Panic m \<Rightarrow> (Panic m, sent')
           | Ok parsedData \<Rightarrow> (Ok parsedData, sent')))"

definition downloadChecksum ::
  "env \<Rightarrow> stash \<Rightarrow> http_client \<Rightarrow> string \<Rightarrow> request list \<Rightarrow> string outcome \<times> request list" where
  "downloadChecksum e st client url sent = download e st (url @ ''.'' @ ''sha1'') client sent"

section \<open>The resolver\<close>

definition sanitizeFilename :: "string \<Rightarrow> string outcome" where
  "sanitizeFilename nm =
     (if nm = [] \<or> nm = ''.'' \<or> nm = ''..'' \<or> nm \<noteq> Base nm
      then Error (Errorf ''resolved filename %q is not a valid filename'' [AStr nm])
      else Ok nm)"

record MavenResolver =
  mr_Artifact :: MavenArtifactType
  RepositoryURL :: string
  RequestPath :: string
  ResolvedVersion :: string
  ResolvedFilename :: string
  DownloadURL :: string
  MetaXML :: string

text \<open>The file name of an artifact: \<^verbatim>\<open>id-version[-classifier].type\<close>, as all four methods build it.\<close>

definition artifact_filename :: "MavenArtifactType \<Rightarrow> string \<Rightarrow> string" where
  "artifact_filename a v =
     (if length (Classifier a) > 0
      then ArtifactId a @ ''-'' @ v @ ''-'' @ Classifier a @ ''.'' @ at_Type a
      else ArtifactId a @ ''-'' @ v @ ''.'' @ at_Type a)"

text \<open>The common tail of the methods: set the file name and the URL, then check the name.\<close>

definition set_resolved :: "MavenResolver \<Rightarrow> string \<Rightarrow> unit outcome \<times> MavenResolver" where
  "set_resolved r urlVersion =
     (let r1 = r\<lparr>ResolvedFilename := artifact_filename (mr_Artifact r) (ResolvedVersion r)\<rparr>;
          r2 = r1\<lparr>DownloadURL := RepositoryURL r1 @ ''/'' @ RequestPath r1 @ ''/'' @ urlVersion @ ''/'' @
                    ResolvedFilename r1\<rparr>
      in case sanitizeFilename (ResolvedFilename r2) of
           Error er \<Rightarrow> (Error (ErrorfW ''resolved artifact filename is invalid: %w'' [] er), r2)
         | Panic m \<Rightarrow> (Panic m, r2)
         | Ok _ \<Rightarrow> (Ok (), r2))"

text \<open>\<^verbatim>\<open>metadataURL\<close> of the release and latest methods, and of the snapshot method.\<close>

definition metadataURL :: "MavenResolver \<Rightarrow> string" where
  "metadataURL r = RepositoryURL r @ ''/'' @ RequestPath r @ ''/'' @ ''maven-metadata.xml''"

definition snapshotMetadataURL :: "MavenResolver \<Rightarrow> string" where
  "snapshotMetadataURL r =
     RepositoryURL r @ ''/'' @ RequestPath r @ ''/'' @ at_Version (mr_Artifact r) @ ''/'' @
     ''maven-metadata.xml''"

definition processFixedVersion :: "MavenResolver \<Rightarrow> unit outcome \<times> MavenResolver" where
  "processFixedVersion r =
     (let r1 = r\<lparr>ResolvedVersion := at_Version (mr_Artifact r)\<rparr>
      in set_resolved r1 (ResolvedVersion r1))"

definition processSnapshotVersion ::
  "env \<Rightarrow> stash \<Rightarrow> http_client \<Rightarrow> MavenResolver \<Rightarrow> request list \<Rightarrow>
   unit outcome \<times> MavenResolver \<times> request list" where
  "processSnapshotVersion e st client r sent =
     (case downloadMetadata e st client (snapshotMetadataURL r) sent of
        (Error er, sent') \<Rightarrow> (Error er, r, sent')
      | (Panic m, sent') \<Rightarrow> (Panic m, r, sent')
      | (Ok metadata, sent') \<Rightarrow>
          (let v = (if length (SnapshotVersions (mm_Versioning metadata)) > 0
                    then SnapshotResolvedVersion metadata (at_Type (mr_Artifact r))
                    else at_Version (mr_Artifact r));
               r1 = r\<lparr>ResolvedVersion := v\<rparr>;
               (res, r2) = set_resolved r1 (at_Version (mr_Artifact r1))
           in (res, r2, sent')))"

definition processLatestVersion ::
  "env \<Rightarrow> stash \<Rightarrow> http_client \<Rightarrow> MavenResolver \<Rightarrow> request list \<Rightarrow>
   unit outcome \<times> MavenResolver \<times> request list" where
  "processLatestVersion e st client r sent =
     (case downloadMetadata e st client (metadataURL r) sent of
        (Error er, sent') \<Rightarrow> (Error er, r, sent')
      | (Panic m, sent') \<Rightarrow> (Panic m, r, sent')
      | (Ok metadata, sent') \<Rightarrow>
          (case LatestVersion metadata of
             Error er \<Rightarrow> (Error er, r, sent')
           | Panic m \<Rightarrow> (Panic m, r, sent')
           | Ok lv \<Rightarrow>
               (case xml_MarshalIndent e metadata of
                  Inl msg \<Rightarrow> (Error (ErrorText msg), r, sent')
                | Inr metaxml \<Rightarrow>
                    (let r1 = r\<lparr>MetaXML := metaxml\<rparr>;
                         r2 = r1\<lparr>mr_Artifact := (mr_Artifact r1)\<lparr>at_Version := lv\<rparr>\<rparr>
                     in if HasSuffix lv ''-SNAPSHOT'' then processSnapshotVersion e st client r2 sent'
                        else let r3 = r2\<lparr>ResolvedVersion := lv\<rparr>;
                                 (res, r4) = set_resolved r3 (ResolvedVersion r3)
                             in (res, r4, sent')))))"

definition processReleaseVersion ::
  "env \<Rightarrow> stash \<Rightarrow> http_client \<Rightarrow> MavenResolver \<Rightarrow> request list \<Rightarrow>
   unit outcome \<times> MavenResolver \<times> request list" where
  "processReleaseVersion e st client r sent =
     (case downloadMetadata e st client (metadataURL r) sent of
        (Error er, sent') \<Rightarrow> (Error er, r, sent')
      | (Panic m, sent') \<Rightarrow> (Panic m, r, sent')
      | (Ok metadata, sent') \<Rightarrow>
          (case ReleaseVersion metadata of
             Error er \<Rightarrow> (Error er, r, sent')
           | Panic m \<Rightarrow> (Panic m, r, sent')
           | Ok rv \<Rightarrow>
               (let r1 = r\<lparr>mr_Artifact := (mr_Artifact r)\<lparr>at_Version := rv\<rparr>, ResolvedVersion := rv\<rparr>;
                    (res, r2) = set_resolved r1 (ResolvedVersion r1)
                in (res, r2, sent'))))"

definition Resolve ::
  "env \<Rightarrow> stash \<Rightarrow> http_client \<Rightarrow> MavenResolver \<Rightarrow> request list \<Rightarrow>
   unit outcome \<times> MavenResolver \<times> request list" where
  "Resolve e st client r sent =
     (let v = at_Version (mr_Artifact r) in
      if HasPrefix v ''['' \<or> HasPrefix v ''(''
      then (Error (Errorf ''Invalid version %q; ranges are not supported'' [AStr v]), r, sent)
      else if v = ''RELEASE'' then processReleaseVersion e st client r sent
      else if v = ''LATEST'' then processLatestVersion e st client r sent
      else if HasSuffix v ''-SNAPSHOT'' then processSnapshotVersion e st client r sent
      else (let (res, r') = processFixedVersion r in (res, r', sent)))"

section \<open>Lemmas on downloads\<close>

definition creds_log :: "env \<Rightarrow> stash \<Rightarrow> request list \<Rightarrow> request list \<Rightarrow> bool" where
  "creds_log e st sent sent' \<longleftrightarrow>
     (\<exists>new. sent' = sent @ new \<and>
        (\<forall>r \<in> set new. req_Method r = ''GET'' \<and>
           req_BasicAuth r = Some (basicAuthCredentialsFromSecret e st)))"

lemma creds_log_refl [simp]: "creds_log e st sent sent"
  by (simp add: creds_log_def)

lemma creds_log_trans: "creds_log e st a b \<Longrightarrow> creds_log e st b c \<Longrightarrow> creds_log e st a c"
  by (auto simp: creds_log_def)

lemma client_Do_creds_log:
  assumes "buildRequestObject e ''GET'' url (Some (basicAuthCredentialsFromSecret e st)) = Ok req"
    and "client_Do (http e) tr sent req = (res, sent')"
  shows "creds_log e st sent sent' \<and> \<not> is_Panic res"
proof -
  have "req_Method req = ''GET''" "req_BasicAuth req = Some (basicAuthCredentialsFromSecret e st)"
    using assms(1) by (auto simp: buildRequestObject_def split: sum.splits)
  then show ?thesis
    using client_Do_log [of "http e" tr sent req] assms(2) by (auto simp: creds_log_def)
qed

text \<open>What \<^verbatim>\<open>download\<close> promises its callers on every branch.\<close>

lemma download_result:
  assumes "download e st url client sent = (res, sent')"
  shows "creds_log e st sent sent'" and "\<not> is_Panic res"
    and "res = Error er \<Longrightarrow> \<not> errors_Is er DeadlineExceeded"
proof -
  have build: "\<not> is_Panic (buildRequestObject e ''GET'' url a)" for a
    by (auto simp: buildRequestObject_def split: sum.splits)
  show "creds_log e st sent sent'"
    using assms client_Do_creds_log [of e url st]
    by (auto simp: download_def split: outcome.splits prod.splits if_splits option.splits)
  show "\<not> is_Panic res"
    using assms client_Do_creds_log [of e url st]
      build [of "Some (basicAuthCredentialsFromSecret e st)"]
    by (fastforce simp: download_def split: outcome.splits prod.splits if_splits option.splits)
  show "res = Error er \<Longrightarrow> \<not> errors_Is er DeadlineExceeded"
    using assms
    by (auto simp: download_def split: outcome.splits prod.splits if_splits option.splits)
qed

lemma Parse_no_panic: "Parse x i \<noteq> Panic m" "\<not> is_Panic (Parse x i)"
  by (auto simp: Parse_def split: option.splits sum.splits)

lemma downloadMetadata_result:
  assumes "downloadMetadata e st client url sent = (res, sent')"
  shows "creds_log e st sent sent'" and "\<not> is_Panic res"
    and "res = Error er \<Longrightarrow> \<not> errors_Is er DeadlineExceeded"
proof -
  obtain res1 sent1 where d: "download e st url client sent = (res1, sent1)" by fastforce
  note r = download_result [OF d]
  show "creds_log e st sent sent'"
    using assms d r(1) by (auto simp: downloadMetadata_def split: outcome.splits)
  show "\<not> is_Panic res"
    using assms d r(2)
    by (auto simp: downloadMetadata_def Parse_no_panic split: outcome.splits)
  show "\<not> errors_Is er DeadlineExceeded" if "res = Error er"
    using assms d r(3) that by (auto simp: downloadMetadata_def split: outcome.splits)
qed

section \<open>Lemmas on file names\<close>

lemma sanitizeFilename_iff:
  "sanitizeFilename nm = Ok x \<longleftrightarrow> x = nm \<and> (proper nm \<or> nm = ''/'')"
proof (cases "nm = []")
  case True
  then show ?thesis by (simp add: sanitizeFilename_def)
next
  case False
  then show ?thesis using Base_fixpoint [OF False]
    by (auto simp: sanitizeFilename_def proper_def)
qed

lemma artifact_filename_set:
  "set (artifact_filename a v) \<subseteq>
     set (ArtifactId a) \<union> set v \<union> set (Classifier a) \<union> set (at_Type a) \<union> {CHR ''-'', CHR ''.''}"
  by (auto simp: artifact_filename_def)

lemma artifact_filename_dash: "CHR ''-'' \<in> set (artifact_filename a v)"
  by (simp add: artifact_filename_def)

lemma artifact_filename_proper_iff:
  "proper (artifact_filename a v) \<longleftrightarrow> slash \<notin> set (artifact_filename a v)"
  using artifact_filename_dash [of a v] by (auto simp: proper_def)

lemma sanitize_artifact_filename:
  "sanitizeFilename (artifact_filename a v) =
     (if slash \<in> set (artifact_filename a v)
      then Error (Errorf ''resolved filename %q is not a valid filename'' [AStr (artifact_filename a v)])
      else Ok (artifact_filename a v))"
proof (cases "slash \<in> set (artifact_filename a v)")
  case True
  have "artifact_filename a v \<noteq> ''/''" "artifact_filename a v \<noteq> []"
    using artifact_filename_dash [of a v] by auto
  with True have "Base (artifact_filename a v) \<noteq> artifact_filename a v"
    by (simp add: Base_fixpoint)
  with True show ?thesis by (auto simp: sanitizeFilename_def)
next
  case False
  with artifact_filename_proper_iff show ?thesis by (simp add: sanitizeFilename_iff)
qed

section \<open>The contract of version processors\<close>

text \<open>
  A resolver is resolved when its file name is a single path segment built from the artifact's
  coordinates, and its download URL is \<^verbatim>\<open>repository/path/version/filename\<close>.
\<close>

definition resolved_ok :: "MavenResolver \<Rightarrow> bool" where
  "resolved_ok r \<longleftrightarrow>
     proper (ResolvedFilename r) \<and>
     ResolvedFilename r = artifact_filename (mr_Artifact r) (ResolvedVersion r) \<and>
     DownloadURL r = RepositoryURL r @ ''/'' @ RequestPath r @ ''/'' @ at_Version (mr_Artifact r) @
       ''/'' @ ResolvedFilename r"

text \<open>The coordinates no processor changes: all but the version.\<close>

definition same_coordinates :: "MavenResolver \<Rightarrow> MavenResolver \<Rightarrow> bool" where
  "same_coordinates r r' \<longleftrightarrow>
     mr_Artifact r' = (mr_Artifact r)\<lparr>at_Version := at_Version (mr_Artifact r')\<rparr> \<and>
     RepositoryURL r' = RepositoryURL r \<and> RequestPath r' = RequestPath r"

lemma resolved_ok_proper: "resolved_ok r \<Longrightarrow> proper (ResolvedFilename r)"
  unfolding resolved_ok_def by (rule conjunct1)

locale version_processor =
  fixes run :: "MavenResolver \<Rightarrow> request list \<Rightarrow> unit outcome \<times> MavenResolver \<times> request list"
    and extends :: "request list \<Rightarrow> request list \<Rightarrow> bool"
  assumes resolved: "run r sent = (Ok (), r', sent') \<Longrightarrow> resolved_ok r'"
    and coordinates: "run r sent = (res, r', sent') \<Longrightarrow> same_coordinates r r'"
    and log_kept: "run r sent = (res, r', sent') \<Longrightarrow> extends sent sent'"
    and no_panic: "\<not> is_Panic (fst (run r sent))"
    and no_deadline: "fst (run r sent) = Error er \<Longrightarrow> \<not> errors_Is er DeadlineExceeded"
begin

text \<open>Joined onto any directory, the resolved file name is an entry of that directory.\<close>

lemma filename_in_dir:
  assumes "run r sent = (Ok (), r', sent')" and "d \<noteq> []"
  shows "resolve c (Join [d, ResolvedFilename r']) = resolve c d @ [ResolvedFilename r']"
  using resolve_Join_proper [OF assms(2), of "[ResolvedFilename r']"] resolved [OF assms(1)]
  by (simp add: resolved_ok_proper)

lemma url_ends_in_filename:
  "run r sent = (Ok (), r', sent') \<Longrightarrow> suffix (''/'' @ ResolvedFilename r') (DownloadURL r')"
  using resolved [of r sent r' sent'] unfolding resolved_ok_def suffix_def by (metis append_assoc)

end

lemma set_resolved_result:
  assumes "set_resolved r u = (res, r')"
  shows "res = Ok () \<Longrightarrow> u = at_Version (mr_Artifact r) \<Longrightarrow> resolved_ok r'"
    and "same_coordinates r r'" and "\<not> is_Panic res"
    and "res = Error er \<Longrightarrow> \<not> errors_Is er DeadlineExceeded"
  using assms
  by (auto simp: set_resolved_def resolved_ok_def same_coordinates_def sanitize_artifact_filename
      artifact_filename_proper_iff split: if_splits)

lemma same_coordinates_update:
  "same_coordinates (r\<lparr>mr_Artifact := (mr_Artifact r)\<lparr>at_Version := v\<rparr>, ResolvedVersion := w\<rparr>) r' \<Longrightarrow>
     same_coordinates r r'"
  "same_coordinates (r\<lparr>ResolvedVersion := w\<rparr>) r' \<Longrightarrow> same_coordinates r r'"
  "same_coordinates (r\<lparr>MetaXML := x, mr_Artifact := (mr_Artifact r)\<lparr>at_Version := v\<rparr>\<rparr>) r' \<Longrightarrow>
     same_coordinates r r'"
  "same_coordinates (r\<lparr>MetaXML := x, mr_Artifact := (mr_Artifact r)\<lparr>at_Version := v\<rparr>,
     ResolvedVersion := w\<rparr>) r' \<Longrightarrow> same_coordinates r r'"
  by (auto simp: same_coordinates_def)

lemma same_coordinates_refl [simp]: "same_coordinates r r"
  by (simp add: same_coordinates_def)

interpretation fixed: version_processor
  "\<lambda>r sent. let (res, r') = processFixedVersion r in (res, r', sent)" "\<lambda>a b. b = a"
proof unfold_locales
  fix r r' :: MavenResolver and sent sent' :: "request list" and res :: "unit outcome" and er
  let ?run = "\<lambda>r sent :: request list. let (res, r') = processFixedVersion r in (res, r', sent)"
  obtain res1 r1 where s: "processFixedVersion r = (res1, r1)" by fastforce
  note sr = set_resolved_result [OF s [unfolded processFixedVersion_def Let_def]]
  show "?run r sent = (Ok (), r', sent') \<Longrightarrow> resolved_ok r'" using s sr(1) by simp
  show "?run r sent = (res, r', sent') \<Longrightarrow> same_coordinates r r'"
    using s sr(2) same_coordinates_update(2) by auto
  show "?run r sent = (res, r', sent') \<Longrightarrow> sent' = sent" using s by simp
  show "\<not> is_Panic (fst (?run r sent))" using s sr(3) by simp
  show "fst (?run r sent) = Error er \<Longrightarrow> \<not> errors_Is er DeadlineExceeded" using s sr(4) by simp
qed

text \<open>The same contract, as one predicate on a run of a processor that downloads metadata.\<close>

definition processed ::
  "env \<Rightarrow> stash \<Rightarrow> MavenResolver \<Rightarrow> request list \<Rightarrow> unit outcome \<times> MavenResolver \<times> request list \<Rightarrow> bool" where
  "processed e st r sent out =
     (case out of (res, r', sent') \<Rightarrow>
        (res = Ok () \<longrightarrow> resolved_ok r') \<and> same_coordinates r r' \<and> creds_log e st sent sent' \<and>
        \<not> is_Panic res \<and> (\<forall>er. res = Error er \<longrightarrow> \<not> errors_Is er DeadlineExceeded))"

lemma processed_weaken:
  "processed e st r1 sent1 out \<Longrightarrow> creds_log e st sent sent1 \<Longrightarrow>
   (\<And>r'. same_coordinates r1 r' \<Longrightarrow> same_coordinates r r') \<Longrightarrow> processed e st r sent out"
  by (auto simp: processed_def intro: creds_log_trans split: prod.splits)

lemma processed_error:
  "creds_log e st sent sent' \<Longrightarrow> \<not> errors_Is er DeadlineExceeded \<Longrightarrow> processed e st r sent (Error er, r, sent')"
  by (simp add: processed_def)

lemma processed_set_resolved:
  assumes "u = at_Version (mr_Artifact r1)" and "creds_log e st sent sent'"
    and "\<And>r'. same_coordinates r1 r' \<Longrightarrow> same_coordinates r r'"
  shows "processed e st r sent (case set_resolved r1 u of (res, r') \<Rightarrow> (res, r', sent'))"
proof -
  obtain res r' where s: "set_resolved r1 u = (res, r')" by fastforce
  from set_resolved_result [OF s] assms s show ?thesis by (auto simp: processed_def)
qed

text \<open>A processor that fails or panics where the metadata download does.\<close>

lemma processed_metadata:
  assumes "\<And>metadata sent'. downloadMetadata e st client url sent = (Ok metadata, sent') \<Longrightarrow>
      creds_log e st sent sent' \<Longrightarrow> processed e st r sent out"
    and "\<And>er sent'. downloadMetadata e st client url sent = (Error er, sent') \<Longrightarrow> out = (Error er, r, sent')"
  shows "processed e st r sent out"
proof -
  obtain res sent' where d: "downloadMetadata e st client url sent = (res, sent')" by fastforce
  from downloadMetadata_result [OF d] assms d show ?thesis
    by (cases res) (auto intro: processed_error)
qed

lemma processSnapshotVersion_processed: "processed e st r sent (processSnapshotVersion e st client r sent)"
  by (rule processed_metadata [where client = client and url = "snapshotMetadataURL r"])
    (auto simp: processSnapshotVersion_def Let_def intro!: processed_set_resolved
      intro: same_coordinates_update)

lemma LatestVersion_result: "\<not> is_Panic (LatestVersion m)"
  "LatestVersion m = Error er \<Longrightarrow> \<not> errors_Is er DeadlineExceeded"
  by (auto simp: LatestVersion_def split: if_splits)

lemma ReleaseVersion_result: "\<not> is_Panic (ReleaseVersion m)"
  "ReleaseVersion m = Error er \<Longrightarrow> \<not> errors_Is er DeadlineExceeded"
  by (auto simp: ReleaseVersion_def split: if_splits)

lemma processLatestVersion_processed: "processed e st r sent (processLatestVersion e st client r sent)"
proof (rule processed_metadata [where client = client and url = "metadataURL r"])
  fix metadata sent'
  assume d: "downloadMetadata e st client (metadataURL r) sent = (Ok metadata, sent')"
    and log: "creds_log e st sent sent'"
  show "processed e st r sent (processLatestVersion e st client r sent)"
  proof (cases "LatestVersion metadata")
    case (Ok lv)
    have "processed e st r sent (processSnapshotVersion e st client
        (r\<lparr>MetaXML := x, mr_Artifact := (mr_Artifact r)\<lparr>at_Version := lv\<rparr>\<rparr>) sent')" for x
      using processSnapshotVersion_processed log
      by (rule processed_weaken) (rule same_coordinates_update)
    with Ok log show ?thesis
      by (auto simp: processLatestVersion_def d Let_def intro!: processed_error processed_set_resolved
          intro: same_coordinates_update split: sum.splits)
  qed (use log LatestVersion_result [of metadata] in
      \<open>auto simp: processLatestVersion_def d intro!: processed_error\<close>)
qed (simp add: processLatestVersion_def)

lemma processReleaseVersion_processed: "processed e st r sent (processReleaseVersion e st client r sent)"
proof (rule processed_metadata [where client = client and url = "metadataURL r"])
  fix metadata sent'
  assume d: "downloadMetadata e st client (metadataURL r) sent = (Ok metadata, sent')"
    and log: "creds_log e st sent sent'"
  show "processed e st r sent (processReleaseVersion e st client r sent)"
    using log ReleaseVersion_result [of metadata]
    by (cases "ReleaseVersion metadata")
      (auto simp: processReleaseVersion_def d Let_def intro!: processed_error processed_set_resolved
        intro: same_coordinates_update)
qed (simp add: processReleaseVersion_def)

lemma Resolve_processed: "processed e st r sent (Resolve e st client r sent)"
proof -
  have "processed e st r sent (let (res, r') = processFixedVersion r in (res, r', sent))"
    unfolding processFixedVersion_def Let_def
    by (rule processed_set_resolved) (auto intro: same_coordinates_update)
  then show ?thesis
    unfolding Resolve_def
    by (simp add: Let_def processReleaseVersion_processed processLatestVersion_processed
        processSnapshotVersion_processed processed_error)
qed

lemma version_processorI:
  assumes "\<And>r sent. processed e st r sent (run r sent)"
  shows "version_processor run (creds_log e st)"
proof
  fix r r' :: MavenResolver and sent sent' :: "request list" and res :: "unit outcome" and er
  note h = assms [of r sent, unfolded processed_def]
  show "run r sent = (Ok (), r', sent') \<Longrightarrow> resolved_ok r'" using h by simp
  show "run r sent = (res, r', sent') \<Longrightarrow> same_coordinates r r'" using h by simp
  show "run r sent = (res, r', sent') \<Longrightarrow> creds_log e st sent sent'" using h by simp
  show "\<not> is_Panic (fst (run r sent))" using h by (cases "run r sent") simp
  show "fst (run r sent) = Error er \<Longrightarrow> \<not> errors_Is er DeadlineExceeded"
    using h by (cases "run r sent") simp
qed

interpretation snapshot: version_processor "processSnapshotVersion e st client" "creds_log e st"
  for e st client
  by (rule version_processorI, rule processSnapshotVersion_processed)

interpretation latest: version_processor "processLatestVersion e st client" "creds_log e st"
  for e st client
  by (rule version_processorI, rule processLatestVersion_processed)

interpretation release: version_processor "processReleaseVersion e st client" "creds_log e st"
  for e st client
  by (rule version_processorI, rule processReleaseVersion_processed)

interpretation resolver: version_processor "Resolve e st client" "creds_log e st" for e st client
  by (rule version_processorI, rule Resolve_processed)

section \<open>Properties\<close>

text \<open>
  C10: whatever the remote metadata says, a successful resolution yields a file name that is one
  path segment (not empty, not \<^verbatim>\<open>.\<close> or \<^verbatim>\<open>..\<close>, without a slash), built from the coordinates of the
  resource, so that joined onto any directory it names an entry of that directory; and the
  download URL is repository, request path, version and that file name. A resolution never
  panics, changes no coordinate but the version, and sends only GET requests with the
  credentials of the resource's secret.
\<close>

theorem Resolve_safe:
  assumes "Resolve e st client r sent = (res, r', sent')"
  shows "(res = Ok () \<longrightarrow>
      proper (ResolvedFilename r') \<and>
      ResolvedFilename r' = artifact_filename (mr_Artifact r') (ResolvedVersion r') \<and>
      DownloadURL r' = RepositoryURL r @ ''/'' @ RequestPath r @ ''/'' @
        at_Version (mr_Artifact r') @ ''/'' @ ResolvedFilename r' \<and>
      (\<forall>cwd d. d \<noteq> [] \<longrightarrow>
        resolve cwd (Join [d, ResolvedFilename r']) = resolve cwd d @ [ResolvedFilename r'])) \<and>
    \<not> is_Panic res \<and>
    mr_Artifact r' = (mr_Artifact r)\<lparr>at_Version := at_Version (mr_Artifact r')\<rparr> \<and>
    creds_log e st sent sent'"
proof -
  have coord: "same_coordinates r r'" and log: "creds_log e st sent sent'" and np: "\<not> is_Panic res"
    using resolver.coordinates resolver.log_kept resolver.no_panic [of e st client r sent] assms by auto
  have "resolved_ok r'" "\<forall>cwd d. d \<noteq> [] \<longrightarrow>
      resolve cwd (Join [d, ResolvedFilename r']) = resolve cwd d @ [ResolvedFilename r']"
    if "res = Ok ()"
    using assms that resolver.resolved resolver.filename_in_dir by auto
  with coord log np show ?thesis
    unfolding same_coordinates_def resolved_ok_def by metis
qed

definition sample_client :: http_client where
  "sample_client = \<lparr>hc_Transport = \<lparr>RootCAs = []\<rparr>\<rparr>"

definition sample_resolver :: MavenResolver where
  "sample_resolver =
     \<lparr>mr_Artifact = \<lparr>GroupId = ''org'', at_Version = ''1.0'', ArtifactId = ''app'', at_Type = ''jar'',
                     Classifier = []\<rparr>,
      RepositoryURL = ''https://repo'', RequestPath = ''org/app'', ResolvedVersion = [],
      ResolvedFilename = [], DownloadURL = [], MetaXML = []\<rparr>"

lemma sample_Resolve:
  "Resolve e st client sample_resolver sent =
     (Ok (), sample_resolver\<lparr>ResolvedVersion := ''1.0'', ResolvedFilename := ''app-1.0.jar'',
        DownloadURL := ''https://repo/org/app/1.0/app-1.0.jar''\<rparr>, sent)"
  by (simp add: Resolve_def sample_resolver_def processFixedVersion_def set_resolved_def
      sanitize_artifact_filename suffix_def Let_def) (simp add: artifact_filename_def)

theorem Resolve_safe_witness:
  "proper ''app-1.0.jar'' \<and>
   resolve [''srv''] (Join [''/tmp/x'', ''app-1.0.jar'']) = resolve [''srv''] ''/tmp/x'' @ [''app-1.0.jar'']"
  using Resolve_safe [OF sample_Resolve [of sample_env "[]" sample_client "[]"]]
  by (simp add: sample_resolver_def artifact_filename_def)

text \<open>
  C26: a pinned version of an admitted resource always resolves, without asking the repository:
  to itself, with the file name made of its coordinates.
\<close>

theorem Resolve_pinned:
  assumes "artifact_ok (mr_Artifact r)"
    and "at_Version (mr_Artifact r) \<notin> {''RELEASE'', ''LATEST''}"
    and "\<not> HasSuffix (at_Version (mr_Artifact r)) ''-SNAPSHOT''"
  shows "Resolve e st client r sent =
    (Ok (), r\<lparr>ResolvedVersion := at_Version (mr_Artifact r),
       ResolvedFilename := artifact_filename (mr_Artifact r) (at_Version (mr_Artifact r)),
       DownloadURL := RepositoryURL r @ ''/'' @ RequestPath r @ ''/'' @ at_Version (mr_Artifact r) @ ''/'' @
         artifact_filename (mr_Artifact r) (at_Version (mr_Artifact r))\<rparr>, sent)"
proof -
  have "slash \<notin> set (artifact_filename (mr_Artifact r) (at_Version (mr_Artifact r)))"
    using assms(1) artifact_filename_set [of "mr_Artifact r"]
    by (fastforce simp: artifact_ok_def coordinate_ok_def)
  then show ?thesis
    using assms
    by (simp add: Resolve_def Let_def prefix_single artifact_ok_def processFixedVersion_def
        set_resolved_def sanitize_artifact_filename)
qed

theorem Resolve_pinned_witness:
  "fst (Resolve sample_env [] sample_client sample_resolver []) = Ok ()"
  using Resolve_pinned [of sample_resolver sample_env "[]" sample_client "[]"]
  by (simp add: artifact_ok_def coordinate_ok_def sample_resolver_def suffix_def)

end
