(* ===== verification/Maven_Controller.thy ===== *)
theory Maven_Controller
  imports Reconciler Transport Maven_Resolver Artifact_Files
begin

text \<open>
  The MavenArtifact controller of \<^verbatim>\<open>controllers/mavenartifact_controller.go\<close>: the sub-reconcilers in
  the order of the code, each \<^verbatim>\<open>Sync\<close> function a function on the state of a reconcile. Logging is
  left out. \<open>root\<close> and \<open>host\<close> are \<^verbatim>\<open>httpRootDir\<close> and \<^verbatim>\<open>httpHost\<close>.
\<close>

type_synonym mstate = "MavenArtifact rstate"

section \<open>Secrets\<close>

text \<open>The end of the function: \<open>data\<close> is the data of the secret, if there is one.\<close>

definition stash_client :: "env \<Rightarrow> Cert list \<Rightarrow> (string \<rightharpoonup> string) option \<Rightarrow> mstate \<Rightarrow> unit outcome \<times> mstate" where
  "stash_client e certs data s =
     (let reconcileCerts =
        (case data of
           None \<Rightarrow> certs
         | Some m \<Rightarrow> certs @ [\<lparr>Path = [], Certificate = None,
                               Raw = (case m ''caFile'' of None \<Rightarrow> [] | Some b \<Rightarrow> b)\<rparr>])
      in case newTransport e (disk s) reconcileCerts of
           Error er \<Rightarrow> (Error er, s)
         | Panic m \<Rightarrow> (Panic m, s)
         | Ok t \<Rightarrow> (Ok (), s\<lparr>stashed := stashHttpClient e \<lparr>hc_Transport = t\<rparr> (stashed s)\<rparr>))"

definition MavenArtifactSecretsSync :: "env \<Rightarrow> Cert list \<Rightarrow> mstate \<Rightarrow> unit outcome \<times> mstate" where
  "MavenArtifactSecretsSync e certs s =
     (let authSecretRefName = SecretRef (ms_Repository (ma_Spec (parent s)));
          ns = Namespace (ma_Meta (parent s))
      in if authSecretRefName \<noteq> [] then
           (case GetSecret e ns authSecretRefName of
              Inl err \<Rightarrow>
                (if IsNotFound e err
                 then (Ok (), s\<lparr>parent := ma_MarkFalse (cond e) MavenArtifactConditionArtifactResolved
                         ''SecretMissing'' ''Secret %q not found in namespace %q''
                         [AStr authSecretRefName, AStr ns] (parent s)\<rparr>)
                 else (Error err, s))
            | Inr authSecret \<Rightarrow>
                stash_client e certs (sec_Data authSecret)
                  (s\<lparr>stashed := stashAuthSecret e authSecret (stashed s)\<rparr>))
         else stash_client e certs None s)"

section \<open>Errors of a download\<close>

text \<open>
  The three places that handle the error of a download do it alike: a timeout sets the condition;
  an HTTP error is returned, for a retry and with the condition untouched, when its status is 429
  or at least 500, and otherwise sets the condition by status; any other error sets the condition.
  The messages are the arguments.
\<close>

record download_messages =
  dm_Type :: string
  dm_Timeout :: "string \<times> fmt_arg list"
  dm_Reason :: string
  dm_Unauthorized :: "string \<times> fmt_arg list"
  dm_NotFound :: "string \<times> fmt_arg list"
  dm_Http :: "string \<times> fmt_arg list"
  dm_OtherReason :: string
  dm_Other :: "string \<times> fmt_arg list"

definition handle_download_error ::
  "env \<Rightarrow> download_messages \<Rightarrow> go_error \<Rightarrow> mstate \<Rightarrow> unit outcome \<times> mstate" where
  "handle_download_error e dm err s =
     (let mark = (\<lambda>reason (m, as). (Ok (), s\<lparr>parent := ma_MarkFalse (cond e) (dm_Type dm) reason m as (parent s)\<rparr>)) in
      if errors_Is err DeadlineExceeded then mark ''Timeout'' (dm_Timeout dm)
      else case err of
        DownloadError inner code \<Rightarrow>
          (if code = 429 then (Error inner, s)
           else if code \<ge> 500 then (Error inner, s)
           else if code = 401 then mark (dm_Reason dm) (dm_Unauthorized dm)
           else if code = 404 then mark (dm_Reason dm) (dm_NotFound dm)
           else mark (dm_Reason dm) (dm_Http dm))
      | _ \<Rightarrow> mark (dm_OtherReason dm) (dm_Other dm))"

section \<open>Version\<close>

definition version_messages :: "MavenArtifact \<Rightarrow> go_error \<Rightarrow> download_messages" where
  "version_messages p err =
     (let groupId = AStr (GroupId (ms_Artifact (ma_Spec p)));
          artifactId = AStr (ArtifactId (ms_Artifact (ma_Spec p)));
          url = AStr (repo_URL (ms_Repository (ma_Spec p)))
      in \<lparr>dm_Type = MavenArtifactConditionArtifactResolved,
          dm_Timeout = (''Request timeout error downloading Maven artifact metadata \"%v:%v\" from repository URL %q: %v'',
             [groupId, artifactId, url, AErr err]),
          dm_Reason = ''RemoteError'',
          dm_Unauthorized = (''Unauthorized credentials (HTTP 401) error downloading artifact metadata \"%v:%v\" from repository URL %q. Check the credentials provided in the Secret.'',
             [groupId, artifactId, url]),
          dm_NotFound = (''Maven metadata file not found (HTTP 404) for artifact \"%v:%v\" from repository URL %q.'',
             [groupId, artifactId, url]),
          dm_Http = (''Error downloading Maven artifact metadata \"%v:%v\" from repository URL %q: %v'',
             [groupId, artifactId, url, AErr err]),
          dm_OtherReason = ''VersionError'',
          dm_Other = (''%s'', [AErr err])\<rparr>)"

definition resolve_version ::
  "env \<Rightarrow> http_client \<Rightarrow> url \<Rightarrow> mstate \<Rightarrow> unit outcome \<times> mstate" where
  "resolve_version e client repoURL s =
     (let a = ms_Artifact (ma_Spec (parent s));
          mr = \<lparr>mr_Artifact = a, RepositoryURL = u_String repoURL,
                RequestPath = ReplaceAll (GroupId a) (CHR ''.'') (CHR ''/'') @ ''/'' @ ArtifactId a,
                ResolvedVersion = [], ResolvedFilename = [], DownloadURL = [], MetaXML = []\<rparr>
      in case Resolve e (stashed s) client mr (sent s) of
           (Panic m, _, sent') \<Rightarrow> (Panic m, s\<lparr>sent := sent'\<rparr>)
         | (Error err, _, sent') \<Rightarrow>
             handle_download_error e (version_messages (parent s) err) err (s\<lparr>sent := sent'\<rparr>)
         | (Ok _, mr', sent') \<Rightarrow>
             (let artifactDetails = \<lparr>ResolvedFileName = ResolvedFilename mr',
                    ArtifactVersion = at_Version (mr_Artifact mr'), ArtifactDownloadURL = DownloadURL mr'\<rparr>
              in (Ok (), s\<lparr>parent := ma_MarkTrue (cond e) MavenArtifactConditionArtifactResolved ''Resolved''
                            ''Resolved version %q for artifact %q''
                            [AStr (ArtifactVersion artifactDetails), AStr (DownloadURL mr')] (parent s),
                          stashed := stashArtifactVersion e artifactDetails (stashed s),
                          sent := sent'\<rparr>)))"

definition MavenArtifactVersionSync :: "env \<Rightarrow> mstate \<Rightarrow> unit outcome \<times> mstate" where
  "MavenArtifactVersionSync e s =
     (case retrieveHttpClient e (stashed s) of
        None \<Rightarrow> (Ok (), s)
      | Some client \<Rightarrow>
          (case ms_Timeout (ma_Spec (parent s)) of
             None \<Rightarrow> (Panic ''invalid memory address or nil pointer dereference'', s)
           | Some timeout \<Rightarrow>
               (let repoSpecURL = repo_URL (ms_Repository (ma_Spec (parent s)));
                    fail = (\<lambda>m as. (Ok (), s\<lparr>parent := ma_MarkFalse (cond e) MavenArtifactConditionArtifactResolved
                              ''ConfigurationError'' m as (parent s)\<rparr>))
                in case url_Parse (http e) repoSpecURL of
                     Inl msg \<Rightarrow> fail ''Error parsing repository URL %q: %v'' [AStr repoSpecURL, AStr msg]
                   | Inr repoURL \<Rightarrow>
                       (if u_Scheme repoURL \<noteq> ''https''
                        then fail ''The only supported scheme is \"https\"; scheme %q is not supported in repository URL %q''
                               [AStr (u_Scheme repoURL), AStr repoSpecURL]
                        else resolve_version e client repoURL s))))"

section \<open>Download\<close>

text \<open>\<^verbatim>\<open>io.Copy\<close> of a response body to an opened file.\<close>

definition io_Copy_body :: "env \<Rightarrow> string \<Rightarrow> response \<Rightarrow> fs \<Rightarrow> unit outcome \<times> fs" where
  "io_Copy_body e out resp =
     and_then (os_Write (Body resp) (os e) out) (\<lambda>_ fs.
       case BodyErr resp of None \<Rightarrow> (Ok (), fs) | Some er \<Rightarrow> (Error er, fs))"

definition fetch :: "env \<Rightarrow> string \<Rightarrow> http_client \<Rightarrow> mstate \<Rightarrow> response outcome \<times> mstate" where
  "fetch e url client s =
     (case buildRequestObject e ''GET'' url (Some (basicAuthCredentialsFromSecret e (stashed s))) of
        Error er \<Rightarrow> (Error (Errorf ''Error %q while request parsing URL %q'' [AErr er, AStr url]), s)
      | Panic m \<Rightarrow> (Panic m, s)
      | Ok request \<Rightarrow>
          (case client_Do (http e) (hc_Transport client) (sent s) request of
             (Error er, sent') \<Rightarrow> (Error (Errorf ''%s download error %s'' [AStr url, AErr er]), s\<lparr>sent := sent'\<rparr>)
           | (Panic m, sent') \<Rightarrow> (Panic m, s\<lparr>sent := sent'\<rparr>)
           | (Ok resp, sent') \<Rightarrow>
               (if StatusCode resp < 200 \<or> StatusCode resp \<ge> 300
                then (Error (DownloadError (Errorf ''Error received HTTP status %v getting %q''
                        [AInt (StatusCode resp), AStr url]) (StatusCode resp)), s\<lparr>sent := sent'\<rparr>)
                else (Ok resp, s\<lparr>sent := sent'\<rparr>))))"

definition downloadArtifact ::
  "env \<Rightarrow> string \<Rightarrow> string \<Rightarrow> string \<Rightarrow> string \<Rightarrow> http_client \<Rightarrow> mstate \<Rightarrow> string outcome \<times> mstate" where
  "downloadArtifact e url dir fileName checksum client =
     (let artifactDir = Join [dir, ''artifact'']; out = Join [artifactDir, fileName] in
      and_then (on_disk (os_Mkdir (os e) artifactDir)) (\<lambda>_.
      and_then (with_error (\<lambda>er. Errorf ''Error creating local Maven artifact file %s %s'' [AStr fileName, AErr er])
                 (on_disk (os_Create (os e) out))) (\<lambda>_.
      and_then (fetch e url client) (\<lambda>resp.
      and_then (with_error (\<lambda>er. Errorf ''Error downloading Maven artifact file data %q: %q'' [AStr out, AErr er])
                 (on_disk (io_Copy_body e out resp))) (\<lambda>_.
      and_then (on_disk (\<lambda>fs. (Ok (), snd (os_Chtimes 0 (os e) out fs)))) (\<lambda>_.
      and_then (with_error (\<lambda>er. Errorf ''Error creating checksum value for Maven artifact file %q: %q'' [AStr out, AErr er])
                 (on_disk (sha1Checksum e out))) (\<lambda>fileChecksum s.
        if fileChecksum \<noteq> checksum
        then (Error (Errorf ''Checksum (%v) of downloaded Maven artifact file %q does not match expected remote checksum (%v). This file may have been tampered with in transit!''
                [AStr fileChecksum, AStr checksum, AStr out]), s)
        else (Ok artifactDir, s))))))))"

definition checksum_messages :: "ArtifactDetails \<Rightarrow> go_error \<Rightarrow> download_messages" where
  "checksum_messages info err =
     (let url = AStr (ArtifactDownloadURL info) in
      \<lparr>dm_Type = MavenArtifactConditionArtifactAvailable,
       dm_Timeout = (''Request timeout error downloading Maven artifact checksum file %q: %s'',
          [AStr (ArtifactDownloadURL info @ ''.'' @ ''sha1''), AErr err]),
       dm_Reason = ''RemoteError'',
       dm_Unauthorized = (''Unauthorized credentials (HTTP 401) error downloading Maven artifact checksum from URL \"%v.sha1\". Check the credentials provided in the Secret.'', [url]),
       dm_NotFound = (''Maven artifact checksum file not found (HTTP 404) at URL \"%v.sha1\".'', [url]),
       dm_Http = (''Error downloading Maven artifact checksum from URL \"%v.sha1\": %v'', [url, AErr err]),
       dm_OtherReason = ''RemoteError'',
       dm_Other = (''%s'', [AErr err])\<rparr>)"

definition artifact_messages :: "MavenArtifact \<Rightarrow> ArtifactDetails \<Rightarrow> go_error \<Rightarrow> download_messages" where
  "artifact_messages p info err =
     (let url = AStr (ArtifactDownloadURL info);
          artifactId = AStr (ArtifactId (ms_Artifact (ma_Spec p))) in
      \<lparr>dm_Type = MavenArtifactConditionArtifactAvailable,
       dm_Timeout = (''Request timeout error downloading Maven artifact file %q: %s'', [artifactId, AErr err]),
       dm_Reason = ''DownloadError'',
       dm_Unauthorized = (''Unauthorized credentials (HTTP 401) error downloading Maven artifact file from URL %q. Check the credentials provided in the Secret.'', [url]),
       dm_NotFound = (''Maven artifact file not found (HTTP 404) at URL %q.'', [url]),
       dm_Http = (''Error downloading Maven artifact file from URL %q: %v'',
          [url, (case err of DownloadError inner _ \<Rightarrow> AErr inner | _ \<Rightarrow> AErr err)]),
       dm_OtherReason = ''DownloadError'',
       dm_Other = (''Error downloading Maven artifact file %q: %s'', [artifactId, AErr err])\<rparr>)"

text \<open>Where an archive was downloaded, its contents are packaged instead of the file.\<close>

definition unpack :: "env \<Rightarrow> ArtifactDetails \<Rightarrow> string \<Rightarrow> string \<Rightarrow> mstate \<Rightarrow> string option outcome \<times> mstate" where
  "unpack e info dir artifactDir s =
     (let artifactFilePath = Join [artifactDir, ResolvedFileName info] in
      if isArchive e (disk s) artifactFilePath
      then (case on_disk (extractArchive e dir artifactFilePath) s of
              (Error er, s') \<Rightarrow>
                (Ok None, s'\<lparr>parent := ma_MarkFalse (cond e) MavenArtifactConditionArtifactAvailable ''FileError''
                            ''Failed to extract Maven artifact file %q'' [AStr (ResolvedFileName info)] (parent s')\<rparr>)
            | (Panic m, s') \<Rightarrow> (Panic m, s')
            | (Ok extracted, s') \<Rightarrow> (Ok (Some extracted), s'))
      else (Ok (Some artifactDir), s))"

definition make_tarball ::
  "env \<Rightarrow> string \<Rightarrow> string \<Rightarrow> string \<Rightarrow> mstate \<Rightarrow> (string \<times> string \<times> string) option outcome \<times> mstate" where
  "make_tarball e dir artifactTgzFilename artifactDir =
     (let artifactTgzDir = Join [dir, ''artifactTgz''];
          artifactTgz = Join [artifactTgzDir, artifactTgzFilename] in
      and_then (on_disk (os_Mkdir (os e) artifactTgzDir)) (\<lambda>_.
      and_then (with_error (ErrorfW ''Error creating tar file for Maven artifact file %q: %w''
                  [AStr artifactTgzFilename])
                (on_disk (createTarGz e artifactDir artifactTgz))) (\<lambda>_.
      and_then (on_disk (sha1Checksum e artifactTgz)) (\<lambda>checksum s.
        (Ok (Some (artifactTgzFilename, artifactTgz, checksum)), s)))))"

text \<open>
  From the downloaded file to the tarball: its file name, its path and its checksum, or \<open>None\<close> when
  the condition says why there is none.
\<close>

definition package_artifact ::
  "env \<Rightarrow> ArtifactDetails \<Rightarrow> string \<Rightarrow> string \<Rightarrow> mstate \<Rightarrow> (string \<times> string \<times> string) option outcome \<times> mstate" where
  "package_artifact e info dir artifactDir =
     and_then (on_disk (sha1Checksum e (Join [artifactDir, ResolvedFileName info]))) (\<lambda>sum.
     and_then (unpack e info dir artifactDir) (\<lambda>unpacked.
       case unpacked of
         None \<Rightarrow> (\<lambda>s. (Ok None, s))
       | Some artifactDir' \<Rightarrow> make_tarball e dir (sum @ ''.tar.gz'') artifactDir'))"

definition cache_file :: "string \<Rightarrow> MavenArtifact \<Rightarrow> ArtifactDetails \<Rightarrow> string" where
  "cache_file root p info =
     Join [root, ''mavenartifact'', Namespace (ma_Meta p), Name (ma_Meta p)] @ ''/'' @
     ResolvedFileName info @ ''.'' @ ''sha1''"

definition maven_http_path :: "MavenArtifact \<Rightarrow> string \<Rightarrow> string" where
  "maven_http_path p artifactTgzFilename =
     Join [''mavenartifact'', Namespace (ma_Meta p), Name (ma_Meta p), artifactTgzFilename]"

text \<open>The update of the status once everything is in place.\<close>

definition announce_artifact ::
  "env \<Rightarrow> ArtifactDetails \<Rightarrow> string \<Rightarrow> string \<Rightarrow> string \<Rightarrow> mstate \<Rightarrow> unit outcome \<times> mstate" where
  "announce_artifact e info httpPath httpUrl checksum s =
     (let p = parent s;
          a = preserveArtifactLastUpdateTime (mst_Artifact (ma_Status p))
                \<lparr>a_Path = httpPath, a_URL = httpUrl, a_Revision = ResolvedFileName info,
                 a_Checksum = checksum, a_LastUpdateTime = now e\<rparr>;
          p' = p\<lparr>ma_Status := (ma_Status p)\<lparr>mst_Artifact := Some a, mst_URL := httpUrl\<rparr>\<rparr>
      in (Ok (), s\<lparr>parent := ma_MarkTrue (cond e) MavenArtifactConditionArtifactAvailable ''Available'' [] [] p'\<rparr>))"

definition publish_artifact ::
  "env \<Rightarrow> string \<Rightarrow> string \<Rightarrow> ArtifactDetails \<Rightarrow> string \<Rightarrow> string \<times> string \<times> string \<Rightarrow> mstate \<Rightarrow> unit outcome \<times> mstate" where
  "publish_artifact e root host info remoteChecksum pkg s =
     (case pkg of
        (artifactTgzFilename, artifactTgz, checksum) \<Rightarrow>
          (let httpPath = maven_http_path (parent s) artifactTgzFilename;
               httpUrl = ''http://'' @ Join [host, httpPath];
               cacheData = \<lparr>ac_source = ArtifactDownloadURL info, ac_checksum = remoteChecksum\<rparr> in
           and_then (on_disk (copyCompressedFile e artifactTgz (Join [root, httpPath]))) (\<lambda>_.
           and_then (on_disk (os_WriteFile (artifactCache_toString cacheData) 511 (os e)
                       (cache_file root (parent s) info))) (\<lambda>_.
             announce_artifact e info httpPath httpUrl checksum)) s))"

text \<open>The work between the creation and the deferred removal of the temporary directory \<open>dir\<close>.\<close>

definition download_in ::
  "env \<Rightarrow> string \<Rightarrow> string \<Rightarrow> ArtifactDetails \<Rightarrow> http_client \<Rightarrow> string \<Rightarrow> string \<Rightarrow> mstate \<Rightarrow> unit outcome \<times> mstate" where
  "download_in e root host info client remoteChecksum dir s =
     (case downloadArtifact e (ArtifactDownloadURL info) dir (ResolvedFileName info) remoteChecksum client s of
        (Panic m, s') \<Rightarrow> (Panic m, s')
      | (Error err, s') \<Rightarrow> handle_download_error e (artifact_messages (parent s') info err) err s'
      | (Ok artifactDir, s') \<Rightarrow>
          and_then (package_artifact e info dir artifactDir) (\<lambda>pkg.
            case pkg of
              None \<Rightarrow> (\<lambda>s. (Ok (), s))
            | Some p \<Rightarrow> publish_artifact e root host info remoteChecksum p) s')"

text \<open>
  Assigning the cleaned root back to \<^verbatim>\<open>httpRootDir\<close>, which the function does for a relative one,
  has no effect on the paths: each of them is built by \<^verbatim>\<open>path.Join\<close>, which cleans.
\<close>

definition MavenArtifactDownloadSync :: "env \<Rightarrow> string \<Rightarrow> string \<Rightarrow> mstate \<Rightarrow> unit outcome \<times> mstate" where
  "MavenArtifactDownloadSync e root host s =
     (case retrieveArtifactVersion e (stashed s) of
        None \<Rightarrow> (Ok (), s)
      | Some artifactInfo \<Rightarrow>
          (case retrieveHttpClient e (stashed s) of
             None \<Rightarrow> (Ok (), s)
           | Some client \<Rightarrow>
               (case ms_Timeout (ma_Spec (parent s)) of
                  None \<Rightarrow> (Panic ''invalid memory address or nil pointer dereference'', s)
                | Some timeout \<Rightarrow>
                    (case downloadChecksum e (stashed s) client (ArtifactDownloadURL artifactInfo) (sent s) of
                       (Panic m, sent') \<Rightarrow> (Panic m, s\<lparr>sent := sent'\<rparr>)
                     | (Error err, sent') \<Rightarrow>
                         handle_download_error e (checksum_messages artifactInfo err) err (s\<lparr>sent := sent'\<rparr>)
                     | (Ok remoteChecksum, sent') \<Rightarrow>
                         (let s1 = s\<lparr>sent := sent'\<rparr> in
                          case retrieveChecksumFromFile e (disk s1) (cache_file root (parent s1) artifactInfo) of
                            Panic m \<Rightarrow> (Panic m, s1)
                          | Error err \<Rightarrow> (Error err, s1)
                          | Ok cache \<Rightarrow>
                              (if cache = Some \<lparr>ac_source = ArtifactDownloadURL artifactInfo,
                                                ac_checksum = remoteChecksum\<rparr> \<and>
                                  mst_Artifact (ma_Status (parent s1)) \<noteq> None
                               then (Ok (), s1)
                               else with_temp_dir e ''maven-artifact.''
                                      (download_in e root host artifactInfo client remoteChecksum) s1))))))"

definition MavenArtifactDownloadFinalize :: "env \<Rightarrow> string \<Rightarrow> mstate \<Rightarrow> unit outcome \<times> mstate" where
  "MavenArtifactDownloadFinalize e root s =
     on_disk (os_RemoveAll (os e)
       (Join [root, ''mavenartifact'', Namespace (ma_Meta (parent s)), Name (ma_Meta (parent s))])) s"

section \<open>The reconciler\<close>

definition MavenArtifactSecretsSyncReconciler :: "env \<Rightarrow> Cert list \<Rightarrow> MavenArtifact SyncReconciler" where
  "MavenArtifactSecretsSyncReconciler e certs =
     \<lparr>sr_Name = ''MavenArtifactSecretsSyncReconciler'', sr_Sync = Sync (MavenArtifactSecretsSync e certs),
      sr_Finalize = None\<rparr>"

definition MavenArtifactVersionSyncReconciler :: "env \<Rightarrow> MavenArtifact SyncReconciler" where
  "MavenArtifactVersionSyncReconciler e =
     \<lparr>sr_Name = ''MavenArtifactVersionSyncReconciler'', sr_Sync = Sync (MavenArtifactVersionSync e),
      sr_Finalize = None\<rparr>"

definition MavenArtifactDownloadSyncReconciler :: "env \<Rightarrow> string \<Rightarrow> string \<Rightarrow> MavenArtifact SyncReconciler" where
  "MavenArtifactDownloadSyncReconciler e root host =
     \<lparr>sr_Name = ''MavenArtifactDownloadSyncReconciler'', sr_Sync = Sync (MavenArtifactDownloadSync e root host),
      sr_Finalize = Some (MavenArtifactDownloadFinalize e root)\<rparr>"

definition MavenArtifactIntervalReconciler :: "MavenArtifact SyncReconciler" where
  "MavenArtifactIntervalReconciler =
     \<lparr>sr_Name = ''MavenArtifactIntervalReconciler'',
      sr_Sync = SyncWithResult (\<lambda>s. (Ok (ms_Interval (ma_Spec (parent s))), s)), sr_Finalize = None\<rparr>"

definition MavenArtifactReconciler :: "env \<Rightarrow> string \<Rightarrow> string \<Rightarrow> Cert list \<Rightarrow> MavenArtifact ResourceReconciler" where
  "MavenArtifactReconciler e root host certs =
     \<lparr>rr_Finalizer = Group @ ''/finalizer'',
      rr_Sequence =
        [MavenArtifactSecretsSyncReconciler e certs,
         MavenArtifactVersionSyncReconciler e,
         MavenArtifactDownloadSyncReconciler e root host,
         MavenArtifactIntervalReconciler]\<rparr>"

end
