(* ===== verification/Maven_Sync.thy ===== *)
theory Maven_Sync
  imports Maven_Controller Publishing
begin

text \<open>
  Properties of the MavenArtifact controller: what each sub-reconciler leaves alone, that the work
  of a download stays in its temporary directory and in the directory of the resource, that what
  the status announces is on disk, how errors become conditions, and that the code does not panic
  on an admitted resource.
\<close>

section \<open>Work in the temporary directory\<close>

text \<open>
  What a step of the download may change: the file system below the temporary directory \<open>d\<close>, the
  conditions, and the log of requests, which only grows by requests with the stashed credentials.
\<close>

definition keeps_resource :: "mstate \<Rightarrow> mstate \<Rightarrow> bool" where
  "keeps_resource s s' \<longleftrightarrow>
     ma_Meta (parent s') = ma_Meta (parent s) \<and> ma_Spec (parent s') = ma_Spec (parent s) \<and>
     mst_URL (ma_Status (parent s')) = mst_URL (ma_Status (parent s)) \<and>
     mst_Artifact (ma_Status (parent s')) = mst_Artifact (ma_Status (parent s)) \<and>
     stashed s' = stashed s"

definition temp_step :: "env \<Rightarrow> string list \<Rightarrow> mstate \<Rightarrow> mstate \<Rightarrow> bool" where
  "temp_step e d s s' \<longleftrightarrow>
     keeps_resource s s' \<and> creds_log e (stashed s) (sent s) (sent s') \<and>
     (fs_wf (disk s) \<longrightarrow> fs_get (disk s) d = Some Dir \<longrightarrow> below d (disk s) (disk s'))"

lemma keeps_resource_refl [simp]: "keeps_resource s s"
  by (simp add: keeps_resource_def)

lemma temp_step_refl: "temp_step e d s s"
  by (simp add: temp_step_def below_refl)

lemma temp_step_trans:
  assumes "temp_step e d a b" and "temp_step e d b c"
  shows "temp_step e d a c"
proof -
  have "keeps_resource a c" using assms by (simp add: temp_step_def keeps_resource_def)
  moreover have "creds_log e (stashed a) (sent a) (sent c)"
    using assms creds_log_trans unfolding temp_step_def keeps_resource_def by metis
  moreover have "below d (disk a) (disk c)" if "fs_wf (disk a)" "fs_get (disk a) d = Some Dir"
    using assms that below_trans by (auto simp: temp_step_def below_def)
  ultimately show ?thesis by (simp add: temp_step_def)
qed

lemmas temp_and_then = sync_step_and_then [where R = "temp_step e d" for e d, OF _ _ temp_step_trans]

lemma temp_on_disk:
  assumes "inside f P" and "P d"
  shows "sync_step (on_disk f) (temp_step e d)"
  using assms by unfold_locales (simp add: temp_step_def keeps_resource_def inside_def)

lemma temp_return: "sync_step (\<lambda>s. (r s, s)) (temp_step e d)"
  by unfold_locales (simp add: temp_step_refl)

lemma temp_with_error: "sync_step f R \<Longrightarrow> sync_step (with_error w f) R"
  unfolding sync_step_def with_error_def
  by (auto split: prod.splits outcome.splits) (metis snd_conv)+

lemma temp_read: "sync_step (on_disk (sha1Checksum e' p)) (temp_step e d)"
  by unfold_locales
    (auto simp: temp_step_def keeps_resource_def sha1Checksum_def below_refl split: outcome.splits)

lemma fetch_step: "sync_step (fetch e url client) (temp_step e d)"
proof
  fix s :: mstate
  have log: "creds_log e (stashed s) (sent s) sent'"
    if "buildRequestObject e ''GET'' url (Some (basicAuthCredentialsFromSecret e (stashed s))) = Ok req"
      "client_Do (http e) (hc_Transport client) (sent s) req = (res, sent')" for req res sent'
    using client_Do_creds_log [OF that] by simp
  show "temp_step e d s (snd (fetch e url client s))"
    using log
    by (auto simp: fetch_def temp_step_def keeps_resource_def below_refl
        split: outcome.splits prod.splits)
qed

lemma handle_step: "sync_step (handle_download_error e dm err) (temp_step e d)"
  by unfold_locales
    (auto simp: handle_download_error_def temp_step_def keeps_resource_def below_refl Let_def
      split: go_error.splits prod.splits)

lemma io_Copy_body_inside: "inside (io_Copy_body e out resp) (\<lambda>d. prefix d (resolve (cwd (os e)) out))"
  unfolding io_Copy_body_def
proof (rule inside_and_then [OF write_in.inside_axioms])
  show "inside (\<lambda>fs. case BodyErr resp of None \<Rightarrow> (Ok (), fs) | Some er \<Rightarrow> (Error er, fs))
      (\<lambda>d. prefix d (resolve (cwd (os e)) out))"
    by (cases "BodyErr resp") (simp_all add: inside_return)
qed

lemma downloadArtifact_step:
  assumes "dir \<noteq> []" and "proper fileName"
  shows "sync_step (downloadArtifact e url dir fileName cs client) (temp_step e (resolve (cwd (os e)) dir))"
proof -
  let ?d = "resolve (cwd (os e)) dir"
  let ?P = "\<lambda>p d. prefix d (resolve (cwd (os e)) p)"
  note paths = temp_paths [OF assms(1) proper_names(1)]
  have out: "?P (Join [Join [dir, ''artifact''], fileName]) ?d" using paths(3) [OF assms(2)] by simp
  have adir: "?P (Join [dir, ''artifact'']) ?d" using paths(1) by simp
  have final: "sync_step (\<lambda>s. if a \<noteq> b then (Error er, s) else (Ok x, s)) (temp_step e ?d)" for a b :: string and er and x :: string
    by (cases "a = b") (simp_all add: temp_return)
  show ?thesis
    unfolding downloadArtifact_def Let_def
    by (intro temp_and_then temp_with_error temp_read fetch_step final
        temp_on_disk [OF mkdir_in.inside_axioms, OF adir] temp_on_disk [OF open_in.inside_axioms, OF out]
        temp_on_disk [OF io_Copy_body_inside, OF out]
        temp_on_disk [OF inside_snd [OF chtimes_in.inside_axioms], OF out])
qed

lemma unpack_step:
  assumes "dir \<noteq> []"
  shows "sync_step (unpack e info dir artifactDir) (temp_step e (resolve (cwd (os e)) dir))"
proof
  fix s :: mstate
  let ?d = "resolve (cwd (os e)) dir"
  let ?f = "on_disk (extractArchive e dir (Join [artifactDir, ResolvedFileName info]))"
  have f: "sync_step ?f (temp_step e ?d)"
    by (rule temp_on_disk [OF extract_in.inside_axioms]) (simp add: assms)
  have ex: "temp_step e ?d s s'" if "?f s = (r, s')" for r s'
    using sync_step.keeps_result [OF f that] .
  have mark: "temp_step e ?d s (s'\<lparr>parent := ma_MarkFalse (cond e) t r m as (parent s')\<rparr>)"
    if "temp_step e ?d s s'" for s' t r m as
    using that by (simp add: temp_step_def keeps_resource_def)
  show "temp_step e ?d s (snd (unpack e info dir artifactDir s))"
    using temp_step_refl
    by (auto simp: unpack_def Let_def split: prod.splits outcome.splits intro!: mark dest: ex)
qed

lemma make_tarball_step:
  assumes "dir \<noteq> []" and "proper nm"
  shows "sync_step (make_tarball e dir nm a) (temp_step e (resolve (cwd (os e)) dir))"
proof -
  let ?d = "resolve (cwd (os e)) dir"
  have "prefix ?d (resolve (cwd (os e)) (Join [dir, ''artifactTgz'']))"
    "prefix ?d (resolve (cwd (os e)) (Join [Join [dir, ''artifactTgz''], nm]))"
    using temp_paths [OF assms(1) proper_names(2)] assms(2) by simp_all
  then show ?thesis
    unfolding make_tarball_def Let_def
    by (intro temp_and_then temp_with_error temp_read temp_return
        temp_on_disk [OF mkdir_in.inside_axioms] temp_on_disk [OF tar_in.inside_axioms])
qed

lemma package_artifact_step:
  assumes "dir \<noteq> []"
  shows "sync_step (package_artifact e info dir artifactDir) (temp_step e (resolve (cwd (os e)) dir))"
proof
  fix s :: mstate
  let ?d = "resolve (cwd (os e)) dir"
  let ?rest = "\<lambda>sum. and_then (unpack e info dir artifactDir) (\<lambda>u. case u of None \<Rightarrow> (\<lambda>s. (Ok None, s))
      | Some a \<Rightarrow> make_tarball e dir (sum @ ''.tar.gz'') a)"
  have rest: "sync_step (?rest (sha1_hex x)) (temp_step e ?d)" for x
  proof (rule temp_and_then [OF unpack_step [OF assms]])
    fix u
    show "sync_step (case u of None \<Rightarrow> (\<lambda>s. (Ok None, s))
        | Some a \<Rightarrow> make_tarball e dir (sha1_hex x @ ''.tar.gz'') a) (temp_step e ?d)"
      using make_tarball_step [OF assms sha1_name_proper] by (cases u) (simp_all add: temp_return)
  qed
  obtain r s' where run: "package_artifact e info dir artifactDir s = (r, s')" by fastforce
  from run have "temp_step e ?d s s'" unfolding package_artifact_def
  proof (cases rule: and_then_cases)
    case (stop r')
    then show ?thesis by (blast intro: sync_step.keeps_result [OF temp_read])
  next
    case (cont sum s1)
    then show ?thesis
      using checksum_on_disk [OF cont(1)] sync_step.keeps_result [OF rest] by blast
  qed
  with run show "temp_step e ?d s (snd (package_artifact e info dir artifactDir s))" by simp
qed

text \<open>The package that is published: a tarball in the temporary directory, with its checksum.\<close>

lemma make_tarball_result:
  assumes "dir \<noteq> []" and "proper nm" and "make_tarball e dir nm a s = (Ok (Some (nm', tgz, ck)), s')"
  shows "nm' = nm \<and> resolve (cwd (os e)) tgz = resolve (cwd (os e)) dir @ [''artifactTgz'', nm] \<and>
    (\<exists>c md mt. fs_get (disk s') (resolve (cwd (os e)) tgz) = Some (File c md mt) \<and> ck = sha1_hex c)"
proof -
  have r: "resolve (cwd (os e)) (Join [Join [dir, ''artifactTgz''], nm]) =
      resolve (cwd (os e)) dir @ [''artifactTgz'', nm]"
    by (rule temp_paths(3) [OF assms(1) proper_names(2) assms(2)])
  note run = assms(3) [unfolded make_tarball_def Let_def]
  from run show ?thesis
  proof (cases rule: and_then_cases)
    case (cont u s1)
    from cont(2) show ?thesis
    proof (cases rule: and_then_cases)
      case (cont u s2)
      from cont(2) show ?thesis
        using r by (cases rule: and_then_cases) (auto dest!: checksum_on_disk)
    qed simp
  qed simp
qed

lemma package_artifact_result:
  assumes "dir \<noteq> []" and "package_artifact e info dir artifactDir s = (Ok (Some (nm, tgz, ck)), s')"
  shows "\<exists>x. nm = sha1_hex x @ ''.tar.gz'' \<and>
    resolve (cwd (os e)) tgz = resolve (cwd (os e)) dir @ [''artifactTgz'', nm] \<and>
    (\<exists>c md mt. fs_get (disk s') (resolve (cwd (os e)) tgz) = Some (File c md mt) \<and> ck = sha1_hex c)"
  using assms(2) unfolding package_artifact_def
proof (cases rule: and_then_cases)
  case (cont sum s1)
  then obtain x where x: "sum = sha1_hex x" using checksum_on_disk by metis
  from cont(2) show ?thesis
  proof (cases rule: and_then_cases)
    case (cont u s2)
    then obtain a where "make_tarball e dir (sha1_hex x @ ''.tar.gz'') a s2 = (Ok (Some (nm, tgz, ck)), s')"
      using x by (cases u) auto
    from make_tarball_result [OF assms(1) sha1_name_proper this] show ?thesis by blast
  qed simp
qed simp

section \<open>Publishing into the directory of the resource\<close>

lemma maven_http_path_eq:
  assumes "names_ok (ma_Meta p)" and "proper f"
  shows "maven_http_path p f = join_with slash [''mavenartifact'', Namespace (ma_Meta p), Name (ma_Meta p), f]"
  using assms Join_all_proper [of "''mavenartifact''" "[Namespace (ma_Meta p), Name (ma_Meta p), f]"]
  by (simp add: maven_http_path_def names_ok_def)

lemma published_file_in:
  assumes "root \<noteq> []" and "names_ok (ma_Meta p)" and "proper f"
  shows "file_in (cwd (os e)) (Join [root, maven_http_path p f])
    (resource_dir e root ''mavenartifact'' (ma_Meta p)) f"
  using assms file_in_Join [of root "[''mavenartifact'', Namespace (ma_Meta p), Name (ma_Meta p)]" f "cwd (os e)"]
    Join_join [of root "[''mavenartifact'', Namespace (ma_Meta p), Name (ma_Meta p), f]"]
  unfolding resource_dir_def maven_http_path_eq [OF assms(2,3)] by (simp add: names_ok_def)

lemma cache_file_in:
  assumes "root \<noteq> []" and "names_ok (ma_Meta p)" and "proper (ResolvedFileName info)"
  shows "file_in (cwd (os e)) (cache_file root p info)
    (resource_dir e root ''mavenartifact'' (ma_Meta p)) (ResolvedFileName info @ ''.sha1'')"
proof -
  let ?d = "Join [root, ''mavenartifact'', Namespace (ma_Meta p), Name (ma_Meta p)]"
  have "?d \<noteq> []" using assms(1) by (simp add: Join_Cons)
  moreover have "proper (ResolvedFileName info @ ''.sha1'')" using assms(3) by (rule proper_append) simp_all
  moreover have "resolve (cwd (os e)) ?d = resource_dir e root ''mavenartifact'' (ma_Meta p)"
    using assms(1,2) resolve_Join_proper [of root "[''mavenartifact'', Namespace (ma_Meta p), Name (ma_Meta p)]"]
    by (simp add: resource_dir_def names_ok_def)
  ultimately show ?thesis unfolding file_in_def cache_file_def by auto
qed

text \<open>
  What publishing does on every path: the resource's metadata, its spec, the stash and the log stay,
  and the file system changes only in the directory of the resource.
\<close>

lemma publish_artifact_frame:
  assumes root: "root \<noteq> []" and names: "names_ok (ma_Meta (parent s))" and nm: "proper nm"
    and info: "proper (ResolvedFileName info)" and wf: "fs_wf (disk s)"
    and run: "publish_artifact e root host info rc (nm, tgz, ck) s = (r, s')"
  shows "ma_Meta (parent s') = ma_Meta (parent s) \<and> ma_Spec (parent s') = ma_Spec (parent s) \<and>
    stashed s' = stashed s \<and> sent s' = sent s \<and> \<not> is_Panic r \<and>
    grows (resource_dir e root ''mavenartifact'' (ma_Meta (parent s))) (disk s) (disk s')"
proof -
  let ?D = "resource_dir e root ''mavenartifact'' (ma_Meta (parent s))"
  note run' = run [unfolded publish_artifact_def Let_def prod.case]
  have cp: "grows ?D (disk s) fs1"
    if "copyCompressedFile e tgz (Join [root, maven_http_path (parent s) nm]) (disk s) = (r1, fs1)" for r1 fs1
    using copy_compressed_pub.grow_result [OF that _ wf] published_file_in [OF root names nm] by blast
  have cf: "grows ?D fs1 fs2"
    if "os_WriteFile c 511 (os e) (cache_file root (parent s) info) fs1 = (r2, fs2)" "fs_wf fs1" for c fs1 r2 fs2
    using publishing.grow_result [OF into_publishing [OF write_whole.confined_axioms] that(1) _ that(2)]
      cache_file_in [OF root names info] by blast
  from run' show ?thesis
  proof (cases rule: and_then_cases)
    case (stop r')
    then show ?thesis
      using cp calm_result [OF copy_calm(2)] by (fastforce simp: on_disk_result)
  next
    case (cont u s1)
    then obtain fs1 where s1: "s1 = s\<lparr>disk := fs1\<rparr>" "grows ?D (disk s) fs1"
      using cp by (auto simp: on_disk_result)
    from cont(2) show ?thesis
    proof (cases rule: and_then_cases)
      case (stop r')
      then obtain fs2 where w: "os_WriteFile (artifactCache_toString
          \<lparr>ac_source = ArtifactDownloadURL info, ac_checksum = rc\<rparr>) 511 (os e)
          (cache_file root (parent s) info) fs1 = (r', fs2)" "s' = s\<lparr>disk := fs2\<rparr>"
        using s1(1) by (auto simp: on_disk_result)
      have "\<not> is_Panic r'" using calm_result [OF os_calm_all(2) w(1)] .
      moreover have "grows ?D (disk s) fs2"
        using grows_trans [OF s1(2) cf [OF w(1) grows_wf [OF s1(2)]]] .
      ultimately show ?thesis using stop w(2) by simp
    next
      case (cont v s2)
      then obtain fs2 where "s2 = s1\<lparr>disk := fs2\<rparr>" "grows ?D fs1 fs2"
        using cf s1 grows_wf by (fastforce simp: on_disk_result)
      with cont(2) s1 show ?thesis by (auto simp: announce_artifact_def Let_def intro: grows_trans)
    qed
  qed
qed

lemma tgz_not_cache: "sha1_hex x @ ''.tar.gz'' \<noteq> f @ ''.sha1''"
proof
  assume "sha1_hex x @ ''.tar.gz'' = f @ ''.sha1''"
  then have "last (sha1_hex x @ ''.tar.gz'') = last (f @ ''.sha1'')" by simp
  then show False by simp
qed

text \<open>A publication that returns \<^verbatim>\<open>nil\<close> puts the tarball in place and announces it.\<close>

lemma publish_artifact_result:
  assumes root: "root \<noteq> []" and names: "names_ok (ma_Meta (parent s))" and nm: "nm = sha1_hex x @ ''.tar.gz''"
    and info: "proper (ResolvedFileName info)" and wf: "fs_wf (disk s)"
    and D: "D = resource_dir e root ''mavenartifact'' (ma_Meta (parent s))"
    and src: "fs_get (disk s) (resolve (cwd (os e)) tgz) = Some (File c md mt)"
      "resolve (cwd (os e)) tgz \<noteq> D @ [nm @ ''.new'']"
    and free: "can_create (os e)" "fs_get (disk s) (D @ [nm @ ''.new'']) \<noteq> Some Dir"
    and run: "publish_artifact e root host info rc (nm, tgz, ck) s = (Ok (), s')"
  shows "\<exists>a md mt. mst_Artifact (ma_Status (parent s')) = Some a \<and> mst_URL (ma_Status (parent s')) = a_URL a \<and>
    a_Path a = join_with slash [''mavenartifact'', Namespace (ma_Meta (parent s)), Name (ma_Meta (parent s)), nm] \<and>
    a_URL a = ''http://'' @ Join [host, a_Path a] \<and>
    a_Revision a = ResolvedFileName info \<and> a_Checksum a = ck \<and>
    fs_get (disk s') (D @ [nm]) = Some (File c md mt)"
proof -
  have pnm: "proper nm" unfolding nm by (rule sha1_name_proper)
  note to = published_file_in [OF root names pnm, of e, folded D]
  note run' = run [unfolded publish_artifact_def Let_def prod.case]
  from run' obtain fs1 where
    cp: "copyCompressedFile e tgz (Join [root, maven_http_path (parent s) nm]) (disk s) = (Ok (), fs1)"
    and rest: "and_then (on_disk (os_WriteFile (artifactCache_toString
          \<lparr>ac_source = ArtifactDownloadURL info, ac_checksum = rc\<rparr>) 511 (os e) (cache_file root (parent s) info)))
        (\<lambda>_. announce_artifact e info (maven_http_path (parent s) nm)
           (''http://'' @ Join [host, maven_http_path (parent s) nm]) ck) (s\<lparr>disk := fs1\<rparr>) = (Ok (), s')"
  proof (cases rule: and_then_cases)
    case (cont u s1)
    then show thesis using that by (auto simp: on_disk_result)
  qed simp
  obtain md' mt' where pub: "fs_get fs1 (D @ [nm]) = Some (File c md' mt')"
    using copyCompressedFile_done [OF wf to src free cp] by blast
  have wf1: "fs_wf fs1"
    using copy_compressed_pub.grow_result [OF cp _ wf] to grows_wf by blast
  from rest obtain fs2 where
    cf: "os_WriteFile (artifactCache_toString \<lparr>ac_source = ArtifactDownloadURL info, ac_checksum = rc\<rparr>)
          511 (os e) (cache_file root (parent s) info) fs1 = (Ok (), fs2)"
    and ann: "announce_artifact e info (maven_http_path (parent s) nm)
           (''http://'' @ Join [host, maven_http_path (parent s) nm]) ck (s\<lparr>disk := fs2\<rparr>) = (Ok (), s')"
  proof (cases rule: and_then_cases)
    case (cont u s1)
    then show thesis using that by (auto simp: on_disk_result)
  qed simp
  have "fs_get fs2 (D @ [nm]) = fs_get fs1 (D @ [nm])"
    using write_whole.frame_result [OF cf wf1, of "D @ [nm]"] tgz_not_cache [of x]
      file_in_resolve [OF cache_file_in [OF root names info, of e, folded D]] nm by simp
  with ann pub show ?thesis
    unfolding announce_artifact_def Let_def maven_http_path_eq [OF names pnm] by (auto simp: preserve_fields)
qed

section \<open>What was downloaded\<close>

lemma fetch_state:
  assumes "fetch e url client s = (r, s')"
  shows "\<exists>sent'. s' = s\<lparr>sent := sent'\<rparr>"
proof -
  have "s = s\<lparr>sent := sent s\<rparr>" by simp
  with assms show ?thesis
    by (auto simp: fetch_def split: outcome.splits prod.splits if_splits intro: exI [of _ "sent s"])
qed

text \<open>A download that succeeds leaves exactly the body that was received, whose SHA-1 is the expected one.\<close>

lemma downloadArtifact_result:
  assumes dir: "dir \<noteq> []" and f: "proper fileName"
    and run: "downloadArtifact e url dir fileName rc client s = (Ok d, s')"
  shows "d = Join [dir, ''artifact''] \<and>
    (\<exists>fs1 resp s1 md mt. fetch e url client (s\<lparr>disk := fs1\<rparr>) = (Ok resp, s1) \<and> sent s' = sent s1 \<and>
      BodyErr resp = None \<and> sha1_hex (Body resp) = rc \<and>
      fs_get (disk s') (resolve (cwd (os e)) dir @ [''artifact'', fileName]) = Some (File (Body resp) md mt))"
proof -
  let ?out = "Join [Join [dir, ''artifact''], fileName]"
  let ?q = "resolve (cwd (os e)) dir @ [''artifact'', fileName]"
  have q: "resolve (cwd (os e)) ?out = ?q" by (rule temp_paths(3) [OF dir proper_names(1) f])
  from run [unfolded downloadArtifact_def Let_def] show ?thesis
  proof (cases rule: and_then_cases)
    case (cont u s1)
    then obtain fs1 where s1: "s1 = s\<lparr>disk := fs1\<rparr>" by (auto simp: on_disk_result)
    from cont(2) show ?thesis
    proof (cases rule: and_then_cases)
      case (cont u s2)
      then obtain fs2 where s2: "s2 = s\<lparr>disk := fs2\<rparr>" and "os_Create (os e) ?out fs1 = (Ok u, fs2)"
        using s1 by (auto simp: with_error_Ok on_disk_result)
      from os_Create_cases [OF this(2)] obtain md mt where g2: "fs_get fs2 ?q = Some (File [] md mt)"
        by (auto simp: q)
      from cont(2) show ?thesis
      proof (cases rule: and_then_cases)
        case (cont resp s3)
        then have ft: "fetch e url client (s\<lparr>disk := fs2\<rparr>) = (Ok resp, s3)" using s2 by simp
        with fetch_state [OF this] have d3: "disk s3 = fs2" by auto
        from cont(2) show ?thesis
        proof (cases rule: and_then_cases)
          case (cont u s4)
          then obtain fs4 where s4: "s4 = s3\<lparr>disk := fs4\<rparr>" and cp: "io_Copy_body e ?out resp fs2 = (Ok u, fs4)"
            using d3 by (auto simp: with_error_Ok on_disk_result)
          from cp obtain u' where "os_Write (Body resp) (os e) ?out fs2 = (Ok u', fs4)" "BodyErr resp = None"
            unfolding io_Copy_body_def
            by (cases rule: and_then_cases) (auto split: option.splits)
          with os_Write_cases [OF this(1), unfolded q, OF g2] obtain mt' where
            g4: "fs_get fs4 ?q = Some (File (Body resp) md mt')" and be: "BodyErr resp = None" by auto
          from cont(2) show ?thesis
          proof (cases rule: and_then_cases)
            case (cont u s5)
            then have s5: "s5 = s3\<lparr>disk := snd (os_Chtimes 0 (os e) ?out fs4)\<rparr>"
              using s4 by (auto simp: on_disk_result)
            have g5: "\<exists>md mt. fs_get (disk s5) ?q = Some (File (Body resp) md mt)"
              using g4 unfolding s5 by (auto simp: os_Chtimes_def q Let_def split: option.splits)
            from cont(2) show ?thesis
            proof (cases rule: and_then_cases)
              case (cont sum s6)
              then have ck: "on_disk (sha1Checksum e ?out) s5 = (Ok sum, s6)" by (simp add: with_error_Ok)
              with checksum_on_disk [OF this] g5 have "s6 = s5" "sum = sha1_hex (Body resp)" by (auto simp: q)
              with cont(2) have "sum = rc" "d = Join [dir, ''artifact'']" "s' = s5" "sha1_hex (Body resp) = rc"
                by (auto split: if_splits)
              with ft g5 be s5 show ?thesis by (auto intro!: exI [of _ fs2] exI [of _ resp])
            qed simp
          qed simp
        qed simp
      qed simp
    qed simp
  qed simp
qed

section \<open>The download as a whole\<close>

text \<open>
  The work in the temporary directory ends before anything is published, or goes on to publish a
  tarball that is in the temporary directory.
\<close>

lemma download_in_cases:
  assumes dir: "dir \<noteq> []" and f: "proper (ResolvedFileName info)"
    and run: "download_in e root host info client rc dir s = (r, s')"
  obtains (unpublished) "temp_step e (resolve (cwd (os e)) dir) s s'"
  | (publish) s1 x tgz c md mt where
      "temp_step e (resolve (cwd (os e)) dir) s s1"
      "resolve (cwd (os e)) tgz = resolve (cwd (os e)) dir @ [''artifactTgz'', sha1_hex x @ ''.tar.gz'']"
      "fs_get (disk s1) (resolve (cwd (os e)) tgz) = Some (File c md mt)"
      "publish_artifact e root host info rc (sha1_hex x @ ''.tar.gz'', tgz, sha1_hex c) s1 = (r, s')"
      "\<exists>y. rc = sha1_hex y"
proof -
  let ?T = "resolve (cwd (os e)) dir"
  obtain r1 s1 where dl: "downloadArtifact e (ArtifactDownloadURL info) dir (ResolvedFileName info) rc client s = (r1, s1)"
    by fastforce
  have t1: "temp_step e ?T s s1"
    by (rule sync_step.keeps_result [OF downloadArtifact_step [OF dir f] dl])
  show thesis
  proof (cases r1)
    case (Ok ad)
    with run dl have "and_then (package_artifact e info dir ad) (\<lambda>pkg. case pkg of
        None \<Rightarrow> (\<lambda>s. (Ok (), s)) | Some p \<Rightarrow> publish_artifact e root host info rc p) s1 = (r, s')"
      by (simp add: download_in_def)
    then show thesis
    proof (cases rule: and_then_cases)
      case (stop r')
      then show thesis
        using sync_step.keeps_result [OF package_artifact_step [OF dir] stop(1)] t1 temp_step_trans unpublished by blast
    next
      case (cont pkg s2)
      then have t2: "temp_step e ?T s s2"
        using sync_step.keeps_result [OF package_artifact_step [OF dir] cont(1)] t1 temp_step_trans by blast
      show thesis
      proof (cases pkg)
        case None
        with cont(2) t2 show thesis by (intro unpublished) simp
      next
        case (Some p)
        obtain nm tgz ck where p: "p = (nm, tgz, ck)" by (cases p)
        from package_artifact_result [OF dir cont(1) [unfolded Some p]] obtain x c md mt where
          "nm = sha1_hex x @ ''.tar.gz''" "resolve (cwd (os e)) tgz = ?T @ [''artifactTgz'', nm]"
          "fs_get (disk s2) (resolve (cwd (os e)) tgz) = Some (File c md mt)" "ck = sha1_hex c" by blast
        moreover have "\<exists>y. rc = sha1_hex y"
          using downloadArtifact_result [OF dir f dl [unfolded Ok]] by auto
        ultimately show thesis using cont(2) Some p t2 by (intro publish [of s2 tgz x c md mt]) auto
      qed
    qed
  next
    case (Error err)
    then have "handle_download_error e (artifact_messages (parent s1) info err) err s1 = (r, s')"
      using run dl by (simp add: download_in_def)
    then show thesis
      using sync_step.keeps_result [OF handle_step] t1 temp_step_trans unpublished by blast
  next
    case (Panic m)
    with run dl t1 show thesis by (intro unpublished) (simp add: download_in_def)
  qed
qed

text \<open>What every run of the download leaves alone.\<close>

definition keeps_request :: "env \<Rightarrow> mstate \<Rightarrow> mstate \<Rightarrow> bool" where
  "keeps_request e s s' \<longleftrightarrow>
     ma_Meta (parent s') = ma_Meta (parent s) \<and> ma_Spec (parent s') = ma_Spec (parent s) \<and>
     stashed s' = stashed s \<and> creds_log e (stashed s) (sent s) (sent s')"

lemma temp_keeps_request: "temp_step e d s s' \<Longrightarrow> keeps_request e s s'"
  by (simp add: temp_step_def keeps_request_def keeps_resource_def)

lemma download_in_frame:
  assumes dir: "dir \<noteq> []" and f: "proper (ResolvedFileName info)" and root: "root \<noteq> []"
    and names: "names_ok (ma_Meta (parent s))"
    and wf: "fs_wf (disk s)" "fs_get (disk s) (resolve (cwd (os e)) dir) = Some Dir"
    and run: "download_in e root host info client rc dir s = (r, s')"
  shows "keeps_request e s s' \<and>
    works (resolve (cwd (os e)) dir) (resource_dir e root ''mavenartifact'' (ma_Meta (parent s))) (disk s) (disk s')"
proof (cases rule: download_in_cases [OF dir f run])
  case 1
  then have "below (resolve (cwd (os e)) dir) (disk s) (disk s')" using wf by (simp add: temp_step_def)
  with 1 show ?thesis by (simp add: temp_keeps_request below_works)
next
  case (2 s1 x tgz c md mt)
  have b: "below (resolve (cwd (os e)) dir) (disk s) (disk s1)"
    and m: "ma_Meta (parent s1) = ma_Meta (parent s)"
    using 2(1) wf by (simp_all add: temp_step_def keeps_resource_def)
  have pub: "ma_Meta (parent s') = ma_Meta (parent s1) \<and> ma_Spec (parent s') = ma_Spec (parent s1) \<and>
      stashed s' = stashed s1 \<and> sent s' = sent s1 \<and> \<not> is_Panic r \<and>
      grows (resource_dir e root ''mavenartifact'' (ma_Meta (parent s1))) (disk s1) (disk s')"
    using publish_artifact_frame [OF root _ sha1_name_proper f _ 2(4)] names m b by (simp add: below_def)
  then show ?thesis
    using temp_keeps_request [OF 2(1)] m
    by (auto simp: keeps_request_def intro: works_trans [OF below_works [OF b] grows_works])
qed

text \<open>The error paths and early exits of the \<^verbatim>\<open>Sync\<close> function before the temporary directory.\<close>

lemma download_sync_cases:
  assumes run: "MavenArtifactDownloadSync e root host s = (r, s')"
  obtains (early) "temp_step e d s s'" and "disk s' = disk s"
  | (work) info client rc sent' where
      "retrieveArtifactVersion e (stashed s) = Some info" and "creds_log e (stashed s) (sent s) sent'"
      and "with_temp_dir e ''maven-artifact.'' (download_in e root host info client rc) (s\<lparr>sent := sent'\<rparr>) = (r, s')"
      and "retrieveHttpClient e (stashed s) = Some client"
      and "downloadChecksum e (stashed s) client (ArtifactDownloadURL info) (sent s) = (Ok rc, sent')"
proof -
  have hd: "temp_step e d s (snd (handle_download_error e dm err (s\<lparr>sent := sent'\<rparr>)))"
    "disk (snd (handle_download_error e dm err (s\<lparr>sent := sent'\<rparr>))) = disk s"
    if "creds_log e (stashed s) (sent s) sent'" for dm err sent'
    using that
    by (auto simp: handle_download_error_def temp_step_def keeps_resource_def below_refl Let_def
        split: go_error.splits prod.splits)
  have skip: "temp_step e d s (s\<lparr>sent := sent'\<rparr>)" if "creds_log e (stashed s) (sent s) sent'" for sent'
    using that by (simp add: temp_step_def keeps_resource_def below_refl)
  show thesis
  proof (cases "\<exists>info client timeout. retrieveArtifactVersion e (stashed s) = Some info \<and>
      retrieveHttpClient e (stashed s) = Some client \<and> ms_Timeout (ma_Spec (parent s)) = Some timeout")
    case False
    then have "s' = s" using run by (auto simp: MavenArtifactDownloadSync_def split: option.splits)
    then show thesis using early by (simp add: temp_step_refl)
  next
    case True
    then obtain info client timeout where i: "retrieveArtifactVersion e (stashed s) = Some info"
      "retrieveHttpClient e (stashed s) = Some client" "ms_Timeout (ma_Spec (parent s)) = Some timeout" by blast
    obtain rd sent' where d: "downloadChecksum e (stashed s) client (ArtifactDownloadURL info) (sent s) = (rd, sent')"
      by fastforce
    then have log: "creds_log e (stashed s) (sent s) sent'"
      unfolding downloadChecksum_def by (rule download_result(1))
    show thesis
    proof (cases rd)
      case (Ok rc)
      show thesis
      proof (cases "s' = s\<lparr>sent := sent'\<rparr>")
        case True
        then show thesis using skip [OF log] by (intro early) auto
      next
        case False
        then have "with_temp_dir e ''maven-artifact.'' (download_in e root host info client rc) (s\<lparr>sent := sent'\<rparr>) = (r, s')"
          using run i d Ok
          by (auto simp: MavenArtifactDownloadSync_def Let_def split: outcome.splits if_splits)
        from work [OF i(1) log this i(2)] show thesis using d Ok by simp
      qed
    next
      case (Error err)
      then have "s' = snd (handle_download_error e (checksum_messages info err) err (s\<lparr>sent := sent'\<rparr>))"
        using run i d by (simp add: MavenArtifactDownloadSync_def)
      then show thesis using hd [OF log] by (intro early) auto
    next
      case (Panic m)
      then show thesis
        using run i d skip [OF log] by (intro early) (auto simp: MavenArtifactDownloadSync_def)
    qed
  qed
qed

section \<open>Properties of the download reconciler\<close>

abbreviation maven_temp :: "env \<Rightarrow> fs \<Rightarrow> string list" where
  "maven_temp e fs \<equiv> temp_dir e ''maven-artifact.'' fs"

abbreviation maven_dir :: "env \<Rightarrow> string \<Rightarrow> mstate \<Rightarrow> string list" where
  "maven_dir e root s \<equiv> resource_dir e root ''mavenartifact'' (ma_Meta (parent s))"

text \<open>The stash holds no artifact details, or details with a proper file name.\<close>

definition details_ok :: "env \<Rightarrow> stash \<Rightarrow> bool" where
  "details_ok e st \<longleftrightarrow> (case retrieveArtifactVersion e st of None \<Rightarrow> True | Some i \<Rightarrow> proper (ResolvedFileName i))"

lemma download_sync_frame:
  assumes wf: "fs_wf (disk s)" and root: "root \<noteq> []" and names: "names_ok (ma_Meta (parent s))"
    and det: "details_ok e (stashed s)"
    and run: "MavenArtifactDownloadSync e root host s = (r, s')"
  shows "keeps_request e s s' \<and> works (maven_temp e (disk s)) (maven_dir e root s) (disk s) (disk s') \<and>
    ((\<forall>fs p. io_fault (os e) fs OpRemoveAll p = None) \<longrightarrow>
      (\<forall>q. prefix (maven_temp e (disk s)) q \<longrightarrow> fs_get (disk s') q = fs_get (disk s) q))"
proof (cases rule: download_sync_cases [OF run, of "[]"])
  case 1
  then show ?thesis using wf by (simp add: temp_keeps_request works_refl)
next
  case (2 info client rc sent')
  let ?dir = "temp_name ''maven-artifact.'' (os e) (TempDir (os e)) (disk s)"
  let ?s = "s\<lparr>sent := sent'\<rparr>"
  have f: "proper (ResolvedFileName info)" using det 2(1) by (simp add: details_ok_def)
  have step: "keeps_request e (?s\<lparr>disk := fs1\<rparr>) s2 \<and> works (maven_temp e (disk s)) (maven_dir e root s) fs1 (disk s2)"
    if "fs_wf fs1" "fs_get fs1 (maven_temp e (disk s)) = Some Dir"
      "download_in e root host info client rc ?dir (?s\<lparr>disk := fs1\<rparr>) = (r2, s2)" for fs1 r2 s2
    using download_in_frame [OF temp_name_not_Nil f root _ _ _ that(3)] that(1,2) names
    by (simp add: temp_dir_def)
  have w: "works (maven_temp e (disk s)) (maven_dir e root s) (disk s) (disk s')"
    using with_temp_dir_works(1) [OF _ 2(3), of "maven_dir e root s"] wf step by simp
  have c: "fs_get (disk s') q = fs_get (disk s) q"
    if "\<forall>fs p. io_fault (os e) fs OpRemoveAll p = None" "prefix (maven_temp e (disk s)) q" for q
    using with_temp_dir_works(2) [OF _ 2(3), of "maven_dir e root s" q] wf step that by simp
  have k: "keeps_request e s s'"
  proof (cases rule: with_temp_dir_cases [OF 2(3)])
    case (1 er)
    with 2(2) show ?thesis by (simp add: keeps_request_def)
  next
    case r: (2 fs1 s2)
    have "fs_wf fs1" "fs_get fs1 (maven_temp e (disk s)) = Some Dir"
      using r(1) mkdir.wf_result [OF r(1)] wf os_Mkdir_Ok [OF r(1)] by (simp_all add: temp_dir_def)
    with step r(2) have "keeps_request e (?s\<lparr>disk := fs1\<rparr>) s2" by simp
    with r(3) 2(2) show ?thesis by (auto simp: keeps_request_def intro: creds_log_trans)
  qed
  show ?thesis using w c k by blast
qed

text \<open>
  C12: one run of the download reconciler, whatever the repository sends, whatever the archive
  holds and whatever calls fail, changes the file system only in its temporary directory and in
  the directory of its own resource, apart from creating missing parent directories of the latter;
  it keeps the resource's metadata and spec and the stash, and only sends GET requests with the
  credentials of the secret. The temporary directory is gone afterwards on every path, also after
  an error or a panic, unless its removal itself fails.
\<close>

theorem download_sync_confined:
  assumes "fs_wf (disk s)" and "root \<noteq> []" and "names_ok (ma_Meta (parent s))"
    and "details_ok e (stashed s)"
    and "MavenArtifactDownloadSync e root host s = (r, s')"
  shows "keeps_request e s s' \<and> works (maven_temp e (disk s)) (maven_dir e root s) (disk s) (disk s') \<and>
    ((\<forall>fs p. io_fault (os e) fs OpRemoveAll p = None) \<longrightarrow>
      (\<forall>q. prefix (maven_temp e (disk s)) q \<longrightarrow> fs_get (disk s') q = fs_get (disk s) q))"
  using assms by (rule download_sync_frame)

lemma download_in_publishes:
  assumes dir: "dir \<noteq> []" and f: "proper (ResolvedFileName info)" and root: "root \<noteq> []"
    and names: "names_ok (ma_Meta (parent s))"
    and wf: "fs_wf (disk s)" "fs_get (disk s) (resolve (cwd (os e)) dir) = Some Dir"
    and par: "resolve (cwd (os e)) dir \<parallel> maven_dir e root s"
    and free: "can_create (os e)" "\<forall>n. fs_get (disk s) (maven_dir e root s @ [n @ ''.new'']) \<noteq> Some Dir"
    and run: "download_in e root host info client rc dir s = (Ok (), s')"
  shows "keeps_resource s s' \<or>
    (\<exists>a. mst_Artifact (ma_Status (parent s')) = Some a \<and> mst_URL (ma_Status (parent s')) = a_URL a \<and>
       a_URL a = ''http://'' @ Join [host, a_Path a] \<and> a_Revision a = ResolvedFileName info \<and>
       available e root ''mavenartifact'' (ma_Meta (parent s)) a (disk s'))"
proof (cases rule: download_in_cases [OF dir f run])
  case 1
  then show ?thesis by (simp add: temp_step_def)
next
  case (2 s1 x tgz c md mt)
  let ?T = "resolve (cwd (os e)) dir"
  let ?D = "maven_dir e root s"
  let ?nm = "sha1_hex x @ ''.tar.gz''"
  have b: "below ?T (disk s) (disk s1)" and m: "ma_Meta (parent s1) = ma_Meta (parent s)"
    using 2(1) wf by (simp_all add: temp_step_def keeps_resource_def)
  have new: "fs_get (disk s1) (?D @ [?nm @ ''.new'']) \<noteq> Some Dir"
    using b spec [OF free(2), of ?nm] not_below_parallel [OF par, of "[?nm @ ''.new'']"] by (simp add: below_def)
  have "resolve (cwd (os e)) tgz \<noteq> ?D @ [?nm @ ''.new'']"
    using not_below_parallel [OF par, of "[?nm @ ''.new'']"] 2(2) by (metis prefixI)
  then have "\<exists>a md mt. mst_Artifact (ma_Status (parent s')) = Some a \<and> mst_URL (ma_Status (parent s')) = a_URL a \<and>
      a_Path a = join_with slash [''mavenartifact'', Namespace (ma_Meta (parent s)), Name (ma_Meta (parent s)), ?nm] \<and>
      a_URL a = ''http://'' @ Join [host, a_Path a] \<and>
      a_Revision a = ResolvedFileName info \<and> a_Checksum a = sha1_hex c \<and>
      fs_get (disk s') (?D @ [?nm]) = Some (File c md mt)"
    using publish_artifact_result [OF root _ refl f _ refl 2(3) _ free(1) _ 2(4)] names m b new
    by (simp add: below_def)
  then show ?thesis unfolding available_def using sha1_tarball_name by blast
qed

lemma download_sync_result:
  assumes wf: "fs_wf (disk s)" and root: "root \<noteq> []" and names: "names_ok (ma_Meta (parent s))"
    and det: "details_ok e (stashed s)"
    and par: "maven_temp e (disk s) \<parallel> maven_dir e root s"
    and free: "can_create (os e)" "\<forall>n. fs_get (disk s) (maven_dir e root s @ [n @ ''.new'']) \<noteq> Some Dir"
    and run: "MavenArtifactDownloadSync e root host s = (Ok (), s')"
  shows "keeps_resource s s' \<or>
    (\<exists>a. mst_Artifact (ma_Status (parent s')) = Some a \<and> mst_URL (ma_Status (parent s')) = a_URL a \<and>
       a_URL a = ''http://'' @ Join [host, a_Path a] \<and>
       available e root ''mavenartifact'' (ma_Meta (parent s)) a (disk s'))"
proof (cases rule: download_sync_cases [OF run, of "[]"])
  case 1
  then show ?thesis by (simp add: temp_step_def)
next
  case (2 info client rc sent')
  let ?s = "s\<lparr>sent := sent'\<rparr>"
  let ?T = "maven_temp e (disk s)"
  have f: "proper (ResolvedFileName info)" using det 2(1) by (simp add: details_ok_def)
  from 2(3) show ?thesis
  proof (cases rule: with_temp_dir_cases)
    case (ran fs1 s2)
    have fs1: "fs_wf fs1" "fs_get fs1 ?T = Some Dir"
      using ran(1) mkdir.wf_result [OF ran(1)] wf os_Mkdir_Ok [OF ran(1)] by (simp_all add: temp_dir_def)
    have new: "\<forall>n. fs_get fs1 (maven_dir e root s @ [n @ ''.new'']) \<noteq> Some Dir"
    proof
      fix n
      have "maven_dir e root s @ [n @ ''.new''] \<noteq> ?T" using not_below_parallel [OF par] by (metis prefix_order.refl)
      then show "fs_get fs1 (maven_dir e root s @ [n @ ''.new'']) \<noteq> Some Dir"
        using mkdir.frame_result [OF ran(1)] wf free(2) by (simp add: temp_dir_def)
    qed
    have res: "keeps_resource (?s\<lparr>disk := fs1\<rparr>) s2 \<or>
        (\<exists>a. mst_Artifact (ma_Status (parent s2)) = Some a \<and> mst_URL (ma_Status (parent s2)) = a_URL a \<and>
          a_URL a = ''http://'' @ Join [host, a_Path a] \<and> a_Revision a = ResolvedFileName info \<and>
          available e root ''mavenartifact'' (ma_Meta (parent s)) a (disk s2))"
      using download_in_publishes [OF temp_name_not_Nil f root _ _ _ _ free(1) _ ran(2)] names fs1 par new
      by (simp add: temp_dir_def)
    have keep: "available e root ''mavenartifact'' (ma_Meta (parent s)) a (disk s')"
      if "available e root ''mavenartifact'' (ma_Meta (parent s)) a (disk s2)" for a
    proof -
      have "fs_get (disk s') (maven_dir e root s @ [n]) = fs_get (disk s2) (maven_dir e root s @ [n])" for n
        using not_below_parallel [OF par, of "[n]"] ran(3)
        by (auto simp: os_RemoveAll_def temp_dir_def split: option.splits)
      with that show ?thesis unfolding available_def by simp
    qed
    show ?thesis using res keep ran(3) by (auto simp: keeps_resource_def)
  qed simp
qed

text \<open>
  When the download reconciler returns without an error, the URL and artifact of the status
  are as before, or the status announces an artifact that is there: at the announced path below the
  artifact root there is a file whose SHA-1 is the announced checksum, and its URL is that path on
  the artifact host. This is for an environment that can create files.
\<close>

theorem download_sync_publishes:
  assumes wf: "fs_wf (disk s)" and root: "root \<noteq> []" and names: "names_ok (ma_Meta (parent s))"
    and det: "details_ok e (stashed s)"
    and par: "maven_temp e (disk s) \<parallel> maven_dir e root s"
    and free: "can_create (os e)" "\<forall>n. fs_get (disk s) (maven_dir e root s @ [n @ ''.new'']) \<noteq> Some Dir"
    and run: "MavenArtifactDownloadSync e root host s = (Ok (), s')"
  shows "keeps_resource s s' \<or>
    (\<exists>a. mst_Artifact (ma_Status (parent s')) = Some a \<and> mst_URL (ma_Status (parent s')) = a_URL a \<and>
       a_URL a = ''http://'' @ Join [host, a_Path a] \<and>
       available e root ''mavenartifact'' (ma_Meta (parent s)) a (disk s'))"
  using assms by (rule download_sync_result)

end
