(* ===== verification/Artifact_Server.thy ===== *)
theory Artifact_Server
  imports Image_Sync Maven_Sync
begin

text \<open>
  The artifact server of \<^verbatim>\<open>server/artifact.go\<close>: its configuration, and the answer of its handler to
  a plain GET (without range or conditional headers) of a URL path, with the parts of
  \<^verbatim>\<open>net/http\<close> the handler calls: \<^verbatim>\<open>http.FileServer\<close> and \<^verbatim>\<open>http.Dir\<close>. Listening, and closing the
  server when the context ends, are not modelled.
\<close>

section \<open>Configuration\<close>

record artifact_server =
  Addr :: string
  srv_Dir :: string

definition New :: "string \<Rightarrow> string \<Rightarrow> artifact_server" where
  "New addr dir = \<lparr>Addr = addr, srv_Dir = dir\<rparr>"

text \<open>Durations in nanoseconds; zero is no limit.\<close>

definition Second :: int where "Second = 1000000000"

definition readHeaderTimeout :: int where "readHeaderTimeout = 10 * Second"

definition readTimeout :: int where "readTimeout = 30 * Second"

definition idleTimeout :: int where "idleTimeout = 120 * Second"

record 'h http_server =
  hs_Addr :: string
  hs_Handler :: 'h
  hs_ReadHeaderTimeout :: int
  hs_ReadTimeout :: int
  hs_WriteTimeout :: int
  hs_IdleTimeout :: int

definition newHTTPServer :: "string \<Rightarrow> 'h \<Rightarrow> 'h http_server" where
  "newHTTPServer addr handler =
     \<lparr>hs_Addr = addr, hs_Handler = handler, hs_ReadHeaderTimeout = readHeaderTimeout,
      hs_ReadTimeout = readTimeout, hs_WriteTimeout = 0, hs_IdleTimeout = idleTimeout\<rparr>"

section \<open>The file server of the library\<close>

text \<open>
  \<^verbatim>\<open>utf8.ValidString\<close> on the codes of the bytes, which \<^verbatim>\<open>http.Dir\<close> asks for, besides that
  there is no zero byte.
\<close>

definition cont :: "nat \<Rightarrow> bool" where
  "cont b \<longleftrightarrow> 128 \<le> b \<and> b < 192"

fun utf8_valid :: "nat list \<Rightarrow> bool" where
  "utf8_valid [] = True"
| "utf8_valid (a # bs) =
     (if a < 128 then utf8_valid bs
      else if 194 \<le> a \<and> a < 224 then
        (case bs of b # cs \<Rightarrow> cont b \<and> utf8_valid cs | _ \<Rightarrow> False)
      else if 224 \<le> a \<and> a < 240 then
        (case bs of
           b # c # ds \<Rightarrow>
             (if a = 224 then 160 \<le> b \<and> b < 192 else if a = 237 then 128 \<le> b \<and> b < 160 else cont b) \<and>
             cont c \<and> utf8_valid ds
         | _ \<Rightarrow> False)
      else if 240 \<le> a \<and> a < 245 then
        (case bs of
           b # c # d # es \<Rightarrow>
             (if a = 240 then 144 \<le> b \<and> b < 192 else if a = 244 then 128 \<le> b \<and> b < 144 else cont b) \<and>
             cont c \<and> cont d \<and> utf8_valid es
         | _ \<Rightarrow> False)
      else False)"

definition localizes :: "string \<Rightarrow> bool" where
  "localizes p \<longleftrightarrow> CHR 0x00 \<notin> set p \<and> utf8_valid (map of_char p)"

text \<open>\<^verbatim>\<open>http.Dir.Open\<close>: the full name of the file and the opened node.\<close>

definition http_Dir_name :: "string \<Rightarrow> string \<Rightarrow> string" where
  "http_Dir_name dir nm =
     (let p = tl (Clean (slash # nm)) in
      Join [(if dir = [] then ''.'' else dir), (if p = [] then ''.'' else p)])"

definition http_Dir_Open :: "env \<Rightarrow> string \<Rightarrow> string \<Rightarrow> fs \<Rightarrow> node outcome" where
  "http_Dir_Open e dir nm fs =
     (if \<not> localizes (tl (Clean (slash # nm))) then Error (ErrorText ''http: invalid or unsafe file path'')
      else os_Open (os e) fs (http_Dir_name dir nm))"

text \<open>
  An answer: \<^verbatim>\<open>404\<close>, a redirect to a relative location, a directory listing, the bytes of a file,
  or the status (\<^verbatim>\<open>403\<close> or \<^verbatim>\<open>500\<close>) of another error.
\<close>

datatype answer =
    NotFound
  | Redirect string
  | Listing "string list"
  | Content string
  | Failed go_error

definition fail_answer :: "go_error \<Rightarrow> answer" where
  "fail_answer er =
     (if errors_Is er ErrNotExist \<or> errors_Is er ErrNotDir then NotFound else Failed er)"

definition content_answer :: "env \<Rightarrow> fs \<Rightarrow> string \<Rightarrow> node \<Rightarrow> answer" where
  "content_answer e fs full n =
     (case read_node (os e) fs full n of
        Ok c \<Rightarrow> Content c | Error er \<Rightarrow> Failed er | Panic m \<Rightarrow> Failed (ErrorText m))"

text \<open>\<^verbatim>\<open>dirList\<close>: the sorted names of the entries of a directory, directories with a slash.\<close>

definition dirList :: "fs \<Rightarrow> string list \<Rightarrow> string list" where
  "dirList fs d =
     map (\<lambda>n. if fs_get fs (d @ [n]) = Some Dir then n @ [slash] else n)
       (sort (remdups (map last (filter (\<lambda>q. q \<noteq> [] \<and> butlast q = d) (map fst fs)))))"

text \<open>\<^verbatim>\<open>serveFile\<close> with redirects; \<open>url\<close> is the URL path, which starts with a slash.\<close>

definition serveFile :: "env \<Rightarrow> string \<Rightarrow> string \<Rightarrow> fs \<Rightarrow> answer" where
  "serveFile e dir url fs =
     (let nm = Clean url; slashed = HasSuffix url [slash] in
      if HasSuffix url ''/index.html'' then Redirect ''./''
      else case http_Dir_Open e dir nm fs of
        Error er \<Rightarrow> fail_answer er
      | Panic m \<Rightarrow> Failed (ErrorText m)
      | Ok (File c md mt) \<Rightarrow>
          (if slashed
           then (if Base url = [slash] \<or> Base url = ''.''
                 then Failed (ErrorText ''http: attempting to traverse a non-directory'')
                 else Redirect (''../'' @ Base url))
           else content_answer e fs (http_Dir_name dir nm) (File c md mt))
      | Ok Dir \<Rightarrow>
          (if \<not> slashed then Redirect (Base url @ [slash])
           else let index = (if HasSuffix nm [slash] then butlast nm else nm) @ ''/index.html'' in
             case http_Dir_Open e dir index fs of
               Ok (File c md mt) \<Rightarrow> content_answer e fs (http_Dir_name dir index) (File c md mt)
             | Ok Dir \<Rightarrow> Listing (dirList fs (resolve (cwd (os e)) (http_Dir_name dir index)))
             | _ \<Rightarrow> Listing (dirList fs (resolve (cwd (os e)) (http_Dir_name dir nm)))))"

definition FileServer :: "env \<Rightarrow> string \<Rightarrow> string \<Rightarrow> fs \<Rightarrow> answer" where
  "FileServer e dir path = serveFile e dir (if HasPrefix path [slash] then path else slash # path)"

section \<open>The handler\<close>

text \<open>The handler \<^verbatim>\<open>Start\<close> installs: no answer for paths that end in a slash, else the file server.\<close>

definition handler :: "env \<Rightarrow> artifact_server \<Rightarrow> string \<Rightarrow> fs \<Rightarrow> answer" where
  "handler e s path fs =
     (if HasSuffix path [slash] then NotFound else FileServer e (srv_Dir s) path fs)"

text \<open>The server \<^verbatim>\<open>Start\<close> listens with.\<close>

definition Start :: "env \<Rightarrow> artifact_server \<Rightarrow> (string \<Rightarrow> fs \<Rightarrow> answer) http_server" where
  "Start e s = newHTTPServer (Addr s) (handler e s)"

section \<open>Paths\<close>

definition root_name :: "artifact_server \<Rightarrow> string" where
  "root_name s = (if srv_Dir s = [] then ''.'' else srv_Dir s)"

text \<open>Whatever the URL path, the file opened is below the served directory.\<close>

lemma http_Dir_name_resolve:
  "resolve w (http_Dir_name d nm) = resolve w (if d = [] then ''.'' else d) @ comps (slash # nm)"
proof -
  let ?d = "if d = [] then ''.'' else d"
  let ?cs = "comps (slash # nm)"
  have abs: "IsAbs (slash # nm)" by (simp add: IsAbs_def)
  then have pr: "list_all proper ?cs" using comps_clean [of "slash # nm"] by simp
  have tl: "tl (Clean (slash # nm)) = join_with slash ?cs" using abs by (simp add: Clean_eq_render render_def)
  show ?thesis
  proof (cases "?cs = []")
    case True
    have "resolve w (Join [?d, ''.'']) = resolve w ?d" using resolve_Join2 [of ?d w "''.''"] by simp
    with True tl show ?thesis by (simp add: http_Dir_name_def)
  next
    case False
    then have "join_with slash ?cs \<noteq> []"
      using pr by (cases ?cs; cases "tl ?cs") (auto simp: proper_def)
    with False tl Join_join [of ?d ?cs] resolve_Join_proper [of ?d ?cs w] pr show ?thesis
      by (simp add: http_Dir_name_def)
  qed
qed

lemma comps_rooted: "list_all proper ps \<Longrightarrow> ps \<noteq> [] \<Longrightarrow> comps (slash # join_with slash ps) = ps"
  using clean_comps_proper [of ps True "[]"] Split_join_with [of ps slash]
  by (simp add: comps_def IsAbs_def list_all_iff proper_def)

lemma content_answer_Content:
  "content_answer e fs full n = Content c \<Longrightarrow> \<exists>md mt. n = File c md mt"
  by (auto simp: content_answer_def read_node_def split: outcome.splits option.splits node.splits)

lemma http_Dir_Open_Ok:
  "http_Dir_Open e d nm fs = Ok n \<Longrightarrow> fs_get fs (resolve (cwd (os e)) (http_Dir_name d nm)) = Some n"
  by (auto simp: http_Dir_Open_def os_lookup_def split: if_splits option.splits)

lemma handler_content:
  assumes "handler e s path fs = Content c"
  shows "\<exists>r md mt. fs_get fs (resolve (cwd (os e)) (root_name s) @ r) = Some (File c md mt)"
proof -
  have "\<exists>nm md mt. fs_get fs (resolve (cwd (os e)) (http_Dir_name (srv_Dir s) nm)) = Some (File c md mt)"
    using assms
    by (auto simp: handler_def FileServer_def serveFile_def Let_def fail_answer_def
        split: if_splits outcome.splits node.splits dest!: content_answer_Content http_Dir_Open_Ok)
  then show ?thesis unfolding http_Dir_name_resolve root_name_def by blast
qed

lemma handler_unslashed:
  assumes "path \<noteq> []"
  shows "handler e s path fs \<noteq> Listing xs"
proof
  assume l: "handler e s path fs = Listing xs"
  let ?url = "if HasPrefix path [slash] then path else slash # path"
  have n: "\<not> suffix [slash] path" using l by (auto simp: handler_def)
  have "suffix [slash] (slash # path) = suffix [slash] path"
    using assms by (auto simp: suffix_def Cons_eq_append_conv)
  then have "\<not> HasSuffix ?url [slash]" using n by simp
  then show False
    using l n
    by (auto simp: handler_def FileServer_def serveFile_def Let_def fail_answer_def content_answer_def
        split: if_splits outcome.splits node.splits)
qed

lemma utf8_valid_ascii: "\<forall>b \<in> set bs. b < 128 \<Longrightarrow> utf8_valid bs"
  by (induction bs) auto

lemma plain_localizes: "plain p \<Longrightarrow> localizes p"
  using utf8_valid_ascii [of "map of_char p"] by (auto simp: localizes_def plain_def)

lemma plain_join_with: "\<forall>p \<in> set ps. plain p \<Longrightarrow> plain (join_with slash ps)"
  by (induction ps rule: induct_list012) auto

text \<open>A file below the root with plain names, other than an index page, is served.\<close>

lemma handler_serves_file:
  assumes free: "fault_free (os e)" and ps: "list_all proper ps" "\<forall>p \<in> set ps. plain p" "ps \<noteq> []"
    and index: "last ps \<noteq> ''index.html''"
    and there: "fs_get fs (resolve (cwd (os e)) (root_name s) @ ps) = Some (File c md mt)"
  shows "handler e s (slash # join_with slash ps) fs = Content c"
proof -
  let ?j = "join_with slash ps"
  let ?url = "slash # ?j"
  have no: "\<forall>p \<in> set ps. slash \<notin> set p" using ps(1) by (auto simp: list_all_iff proper_def)
  have split: "Split ?j slash = ps" using Split_join_with [of ps slash] no ps(3) by simp
  have abs: "IsAbs ?url" "IsAbs (slash # ?url)" by (simp_all add: IsAbs_def)
  have comps1: "comps ?url = ps" by (rule comps_rooted [OF ps(1,3)])
  have comps2: "comps (slash # ?url) = ps"
    using split clean_comps_proper [OF ps(1), of True "[]"] by (simp add: comps_def IsAbs_def)
  have clean: "Clean ?url = ?url" "tl (Clean (slash # ?url)) = ?j"
    using abs comps1 comps2 by (simp_all add: Clean_eq_render render_def)
  have not_slashed: "\<not> suffix [slash] ?url"
  proof
    assume "suffix [slash] ?url"
    then obtain x where "?url = x @ slash # []" by (auto simp: suffix_def)
    then have "Split ?url slash = Split x slash @ [[]]" by (metis Split_append Split.simps(1))
    then have "[] # ps = Split x slash @ [[]]" using split by simp
    then have "last ps = []" using ps(3) by (metis last_ConsR last_snoc)
    then show False using ps(1,3) by (metis last_in_set list_all_iff proper_dotdot(3))
  qed
  have not_index: "\<not> suffix ''/index.html'' ?url"
  proof
    assume "suffix ''/index.html'' ?url"
    then obtain x where "?url = x @ slash # ''index.html''" by (auto simp: suffix_def)
    then have "Split ?url slash = Split x slash @ Split ''index.html'' slash" by (metis Split_append)
    then have "[] # ps = Split x slash @ [''index.html'']" using split by simp
    then have "last ps = ''index.html''" using ps(3) by (metis last_ConsR last_snoc)
    with index show False by simp
  qed
  have r: "resolve (cwd (os e)) (http_Dir_name (srv_Dir s) ?url) = resolve (cwd (os e)) (root_name s) @ ps"
    unfolding http_Dir_name_resolve comps2 root_name_def by simp
  have op: "http_Dir_Open e (srv_Dir s) ?url fs = Ok (File c md mt)"
    using plain_localizes [OF plain_join_with [OF ps(2)]] free there
    unfolding http_Dir_Open_def clean(2) os_lookup_def r by simp
  show ?thesis
    using not_slashed not_index free
    by (simp add: handler_def FileServer_def serveFile_def Let_def clean(1) op content_answer_def read_node_def)
qed

lemma handler_serves_available:
  assumes free: "fault_free (os e)" and root: "root \<noteq> []" and kind: "proper kind" "plain kind"
    and names: "names_ok meta" "plain (Namespace meta)" "plain (Name meta)"
    and a: "available e root kind meta a fs"
  shows "\<exists>c. handler e (New addr root) (slash # a_Path a) fs = Content c \<and> sha1_hex c = a_Checksum a"
proof -
  obtain nm c md mt where nm: "tarball_name nm"
    and path: "a_Path a = join_with slash [kind, Namespace meta, Name meta, nm]"
    and there: "fs_get fs (resource_dir e root kind meta @ [nm]) = Some (File c md mt)"
    and sum: "a_Checksum a = sha1_hex c"
    using a by (auto simp: available_def)
  have "nm \<noteq> ''index.html''" using nm by (auto simp: tarball_name_def suffix_def)
  moreover have "root_name (New addr root) = root" using root by (simp add: root_name_def New_def)
  ultimately have "handler e (New addr root) (slash # a_Path a) fs = Content c"
    unfolding path using nm kind names there
    by (intro handler_serves_file [OF free]) (auto simp: tarball_name_def names_ok_def resource_dir_def)
  with sum show ?thesis by simp
qed

section \<open>Properties\<close>

text \<open>
  C35: the handler only ever reads below the directory it serves: the bytes of an answer are those
  of a file there, whatever the URL path, with dots, repeated slashes or anything else in it.
\<close>

theorem handler_confined:
  assumes "handler e s path fs = Content c"
  shows "\<exists>r md mt. fs_get fs (resolve (cwd (os e)) (root_name s) @ r) = Some (File c md mt)"
  using assms by (rule handler_content)

text \<open>The empty URL path reaches the file server past the guard, and lists the root.\<close>

lemma handler_empty_path:
  assumes free: "fault_free (os e)" and root: "fs_get fs (resolve (cwd (os e)) (root_name s)) = Some Dir"
    and index: "fs_get fs (resolve (cwd (os e)) (root_name s) @ [''index.html'']) = None"
  shows "handler e s [] fs = Listing (dirList fs (resolve (cwd (os e)) (root_name s)))"
proof -
  let ?w = "cwd (os e)"
  have c: "comps [slash, slash] = []" "Clean [slash] = [slash]" "Clean [slash, slash] = [slash]"
    by (simp_all add: comps_def Clean_def render_def IsAbs_def)
  have ci: "comps (slash # ''/index.html'') = [''index.html'']" "Clean (slash # ''/index.html'') = ''/index.html''"
    by (simp_all add: comps_def Clean_def render_def IsAbs_def)
  have r: "resolve ?w (http_Dir_name (srv_Dir s) [slash]) = resolve ?w (root_name s)"
    unfolding http_Dir_name_resolve c root_name_def by simp
  have i: "resolve ?w (http_Dir_name (srv_Dir s) ''/index.html'') = resolve ?w (root_name s) @ [''index.html'']"
    unfolding http_Dir_name_resolve ci root_name_def by simp
  have open_root: "http_Dir_Open e (srv_Dir s) [slash] fs = Ok Dir"
    using root free unfolding http_Dir_Open_def c os_lookup_def r by (simp add: localizes_def)
  have open_index: "\<exists>er. http_Dir_Open e (srv_Dir s) ''/index.html'' fs = Error er"
    using index free unfolding http_Dir_Open_def os_lookup_def i by simp
  then show ?thesis
    using open_root c(2) r
    by (auto simp: handler_def FileServer_def serveFile_def Let_def suffix_def)
qed

text \<open>
  C36: directory listings. On a root directory without an index page, and without faults, the
  handler answers a listing for exactly one URL path: the empty one, which a request with the
  absolute URL of the host has. That listing is the one of the root. Every other path, with or
  without a final slash, gets none.
\<close>

theorem handler_listing_iff:
  assumes "fault_free (os e)" and "fs_get fs (resolve (cwd (os e)) (root_name s)) = Some Dir"
    and "fs_get fs (resolve (cwd (os e)) (root_name s) @ [''index.html'']) = None"
  shows "handler e s path fs = Listing xs \<longleftrightarrow>
    path = [] \<and> xs = dirList fs (resolve (cwd (os e)) (root_name s))"
  using handler_unslashed handler_empty_path [OF assms] by (cases "path = []") auto

definition served_fs :: fs where
  "served_fs = [([], Dir), ([''artifacts''], Dir), ([''artifacts'', ''a.tar.gz''], File ''data'' 420 0)]"

lemma served_paths:
  "resolve (cwd (os sample_env)) (root_name (New '':8082'' ''/artifacts'')) = [''artifacts'']"
  by (simp add: root_name_def New_def resolve_def IsAbs_def)

lemma served_content: "handler sample_env (New '':8082'' ''/artifacts'') ''/a.tar.gz'' served_fs = Content ''data''"
proof -
  have f: "fs_get served_fs (resolve (cwd (os sample_env)) (root_name (New '':8082'' ''/artifacts'')) @ [''a.tar.gz'']) =
      Some (File ''data'' 420 0)"
    unfolding served_paths by (simp add: served_fs_def fs_get_def)
  have "handler sample_env (New '':8082'' ''/artifacts'') (slash # join_with slash [''a.tar.gz'']) served_fs = Content ''data''"
    by (rule handler_serves_file [OF sample_fault_free _ _ _ _ f]) (simp_all add: proper_def)
  then show ?thesis by simp
qed

theorem handler_confined_witness:
  "\<exists>r md mt. fs_get served_fs ([''artifacts''] @ r) = Some (File ''data'' md mt)"
  using handler_confined [OF served_content] unfolding served_paths .

theorem handler_listing_iff_witness:
  "handler sample_env (New '':8082'' ''/artifacts'') [] served_fs = Listing [''a.tar.gz'']"
proof -
  have "dirList served_fs [''artifacts''] = [''a.tar.gz'']"
    by (simp add: dirList_def served_fs_def fs_get_def)
  moreover have "fs_get served_fs [''artifacts''] = Some Dir" "fs_get served_fs ([''artifacts''] @ [''index.html'']) = None"
    by (simp_all add: served_fs_def fs_get_def)
  ultimately show ?thesis
    using handler_listing_iff [OF sample_fault_free, of served_fs "New '':8082'' ''/artifacts''"]
    unfolding served_paths by simp
qed

end
