(* ===== verification/Maven_Live.thy ===== *)
theory Maven_Live
  imports Maven_Sync
begin

text \<open>
  Liveness of the MavenArtifact download: in an environment without faults, against a repository
  that serves the artifact and its checksum, the reconciler publishes the artifact. The lemmas
  compute the state each function of the download leads to.
\<close>

section \<open>Downloading and packaging without faults\<close>

text \<open>The file system after a successful download: one new directory with one new file.\<close>

lemma downloadArtifact_total:
  assumes free: "fault_free (os e)" and dir: "dir \<noteq> []" and T: "T = resolve (cwd (os e)) dir"
    and f: "proper fileName"
    and fs: "fs_get (disk s) T = Some Dir" "fs_get (disk s) (T @ [''artifact'']) = None"
      "fs_get (disk s) (T @ [''artifact'', fileName]) = None"
    and fetch: "\<And>fs. fetch e url client (s\<lparr>disk := fs\<rparr>) = (Ok resp, s\<lparr>disk := fs, sent := sent'\<rparr>)"
    and body: "BodyErr resp = None" "sha1_hex (Body resp) = rc"
  shows "\<exists>md fs'. downloadArtifact e url dir fileName rc client s =
      (Ok (Join [dir, ''artifact'']), s\<lparr>disk := fs', sent := sent'\<rparr>) \<and>
    (\<forall>q. fs_get fs' q = (if q = T @ [''artifact'', fileName] then Some (File (Body resp) md 0)
       else if q = T @ [''artifact''] then Some Dir else fs_get (disk s) q))"
proof -
  let ?a = "Join [dir, ''artifact'']"
  let ?o = "Join [?a, fileName]"
  let ?w = "cwd (os e)"
  have ra: "resolve ?w ?a = T @ [''artifact'']" and ro: "resolve ?w ?o = T @ [''artifact'', fileName]"
    using temp_paths [OF dir proper_names(1)] f T by simp_all
  let ?fs1 = "fs_put (T @ [''artifact'']) Dir (disk s)"
  have mk: "os_Mkdir (os e) ?a (disk s) = (Ok (), ?fs1)"
    using os_Mkdir_total [OF free, of "disk s" ?a] fs ra by simp
  obtain md where cr: "os_Create (os e) ?o ?fs1 = (Ok (), fs_put (T @ [''artifact'', fileName]) (File [] md (mtime (os e) ?fs1)) ?fs1)"
    using os_OpenTrunc_total [OF free, of ?fs1 ?o 438] fs(3) ro by (auto simp: butlast_append)
  define fs2 where "fs2 = fs_put (T @ [''artifact'', fileName]) (File [] md (mtime (os e) ?fs1)) ?fs1"
  define fs3 where "fs3 = fs_put (T @ [''artifact'', fileName]) (File (Body resp) md (mtime (os e) fs2)) fs2"
  define fs4 where "fs4 = fs_put (T @ [''artifact'', fileName]) (File (Body resp) md 0) fs3"
  have wr: "io_Copy_body e ?o resp fs2 = (Ok (), fs3)"
    using os_Write_total [OF free, of fs2 ?o "[]" md _ "Body resp"] ro body(1)
    by (simp add: io_Copy_body_def and_then_def fs2_def fs3_def)
  have ch: "snd (os_Chtimes 0 (os e) ?o fs3) = fs4"
    using os_Chtimes_total [OF free, of fs3 ?o] ro by (simp add: fs3_def fs4_def)
  have ck: "sha1Checksum e ?o fs4 = (Ok rc, fs4)"
    using sha1Checksum_total [OF free, of fs4 ?o] ro body(2) by (simp add: fs4_def)
  have "downloadArtifact e url dir fileName rc client s = (Ok ?a, s\<lparr>disk := fs4, sent := sent'\<rparr>)"
    using mk cr [folded fs2_def] wr ch ck fetch
    by (simp add: downloadArtifact_def Let_def and_then_def with_error_def on_disk_def)
  moreover have "fs_get fs4 q = (if q = T @ [''artifact'', fileName] then Some (File (Body resp) md 0)
       else if q = T @ [''artifact''] then Some Dir else fs_get (disk s) q)" for q
    by (simp add: fs4_def fs3_def fs2_def)
  ultimately show ?thesis by blast
qed

lemma tar_spec_single:
  assumes "\<forall>r. fs_get fs (root @ r) = (if r = [] then Some Dir else if r = [f] then Some (File c md mt) else None)"
  shows "tar_spec fs root = [tar_header f c md mt]"
proof -
  have "walk_rels fs root = [[], [f]]"
  proof (rule sorted_distinct_set_unique)
    show "set (walk_rels fs root) = set [[], [f]]"
      using assms by (auto simp: set_walk_rels split: if_splits)
  qed (simp_all add: walk_rels_def)
  then show ?thesis using assms [rule_format, of "[]"] assms [rule_format, of "[f]"]
    by (simp add: tar_spec_def rel_name_def)
qed

text \<open>A downloaded file that is no archive is packaged as it is.\<close>

lemma package_artifact_total:
  assumes free: "fault_free (os e)" "\<forall>h. tar_WriteErr e h = None" and dir: "dir \<noteq> []"
    and T: "T = resolve (cwd (os e)) dir" and f: "proper (ResolvedFileName info)"
    and fs: "\<forall>r. fs_get (disk s) (T @ r) =
      (if r = [''artifact'', ResolvedFileName info] then Some (File body md 0)
       else if r = [''artifact''] \<or> r = [] then Some Dir else None)"
    and zip: "body = [] \<or> \<not> is_zip_type (take 512 body)"
  shows "\<exists>fs' md' mt. package_artifact e info dir (Join [dir, ''artifact'']) s =
      (Ok (Some (sha1_hex body @ ''.tar.gz'', Join [Join [dir, ''artifactTgz''], sha1_hex body @ ''.tar.gz''],
         sha1_hex (targz e [tar_header (ResolvedFileName info) body md 0]))), s\<lparr>disk := fs'\<rparr>) \<and>
    fs_get fs' (T @ [''artifactTgz'', sha1_hex body @ ''.tar.gz'']) =
      Some (File (targz e [tar_header (ResolvedFileName info) body md 0]) md' mt)"
proof -
  let ?w = "cwd (os e)"
  let ?nm = "sha1_hex body @ ''.tar.gz''"
  let ?a = "Join [dir, ''artifact'']"
  let ?t = "Join [dir, ''artifactTgz'']"
  let ?z = "Join [?t, ?nm]"
  have ra: "resolve ?w ?a = T @ [''artifact'']" "?a \<noteq> []"
      "resolve ?w (Join [?a, ResolvedFileName info]) = T @ [''artifact'', ResolvedFileName info]"
    and rt: "resolve ?w ?t = T @ [''artifactTgz'']" "resolve ?w ?z = T @ [''artifactTgz'', ?nm]"
    using temp_paths [OF dir proper_names(1)] temp_paths [OF dir proper_names(2)] f T sha1_name_proper
    by simp_all
  have dl: "fs_get (disk s) (T @ [''artifact'', ResolvedFileName info]) = Some (File body md 0)" using fs by simp
  have ck: "sha1Checksum e (Join [?a, ResolvedFileName info]) (disk s) = (Ok (sha1_hex body), disk s)"
    using sha1Checksum_total [OF free(1)] dl ra(3) by simp
  have un: "unpack e info dir ?a s = (Ok (Some ?a), s)"
    using zip dl ra(3) free(1)
    by (auto simp: unpack_def Let_def isArchive_def os_lookup_def read_node_def)
  let ?fs1 = "fs_put (T @ [''artifactTgz'']) Dir (disk s)"
  have mk: "os_Mkdir (os e) ?t (disk s) = (Ok (), ?fs1)"
    using os_Mkdir_total [OF free(1), of "disk s" ?t] rt(1) fs [rule_format, of "[''artifactTgz'']"]
      fs [rule_format, of "[]"] by simp
  have tree: "fs_get ?fs1 ((T @ [''artifact'']) @ r) =
      (if r = [] then Some Dir else if r = [ResolvedFileName info] then Some (File body md 0) else None)" for r
    using fs [rule_format, of "''artifact'' # r"] by simp
  have spec: "tar_spec ?fs1 (T @ [''artifact'']) = [tar_header (ResolvedFileName info) body md 0]"
    by (rule tar_spec_single) (simp only: tree simp_thms)
  have proper: "proper_tree ?fs1 (T @ [''artifact''])" unfolding proper_tree_def tree using f by auto
  have "\<exists>fs' md' mt. createTarGz e ?a ?z ?fs1 = (Ok (), fs') \<and>
      fs_get fs' (resolve ?w ?z) = Some (File (targz e (tar_spec ?fs1 (resolve ?w ?a))) md' mt) \<and>
      (\<forall>q. q \<noteq> resolve ?w ?z \<longrightarrow> fs_get fs' q = fs_get ?fs1 q)"
  proof (rule createTarGz_content [OF free ra(2)])
    show "fs_get ?fs1 (resolve ?w ?a) \<noteq> None" using tree [of "[]"] ra(1) by simp
    show "proper_tree ?fs1 (resolve ?w ?a)" using proper ra(1) by simp
    show "fs_get ?fs1 (butlast (resolve ?w ?z)) = Some Dir" unfolding rt by (simp add: butlast_append)
    show "fs_get ?fs1 (resolve ?w ?z) \<noteq> Some Dir"
      using fs [rule_format, of "[''artifactTgz'', ?nm]"] unfolding rt by simp
    show "\<not> prefix (resolve ?w ?a) (resolve ?w ?z)" unfolding rt ra by simp
  qed
  then obtain fs2 md' mt where tar: "createTarGz e ?a ?z ?fs1 = (Ok (), fs2)"
    "fs_get fs2 (T @ [''artifactTgz'', ?nm]) = Some (File (targz e [tar_header (ResolvedFileName info) body md 0]) md' mt)"
    unfolding rt ra spec by blast
  have ck2: "sha1Checksum e ?z fs2 = (Ok (sha1_hex (targz e [tar_header (ResolvedFileName info) body md 0])), fs2)"
    using sha1Checksum_total [OF free(1)] tar(2) rt(2) by simp
  have "make_tarball e dir ?nm ?a s = (Ok (Some (?nm, ?z,
      sha1_hex (targz e [tar_header (ResolvedFileName info) body md 0]))), s\<lparr>disk := fs2\<rparr>)"
    using mk tar(1) ck2 by (simp add: make_tarball_def Let_def and_then_def with_error_def on_disk_def)
  then have "package_artifact e info dir ?a s = (Ok (Some (?nm, ?z,
      sha1_hex (targz e [tar_header (ResolvedFileName info) body md 0]))), s\<lparr>disk := fs2\<rparr>)"
    using ck un by (simp add: package_artifact_def and_then_def on_disk_def)
  with tar(2) show ?thesis by blast
qed

text \<open>Without faults the publication of a tarball succeeds.\<close>

lemma publish_artifact_total:
  assumes free: "fault_free (os e)" and root: "root \<noteq> []" and names: "names_ok (ma_Meta (parent s))"
    and f: "proper (ResolvedFileName info)" and wf: "fs_wf (disk s)" and D: "D = maven_dir e root s"
    and nm: "nm = sha1_hex x @ ''.tar.gz''"
    and src: "fs_get (disk s) (resolve (cwd (os e)) tgz) = Some (File c md mt)"
      "resolve (cwd (os e)) tgz \<noteq> D @ [nm @ ''.new'']"
    and dirs: "\<forall>q. prefix q D \<longrightarrow> \<not> is_File (fs_get (disk s) q)"
      "\<forall>n. fs_get (disk s) (D @ [n]) \<noteq> Some Dir"
  shows "\<exists>fs'. publish_artifact e root host info rc (nm, tgz, ck) s =
      announce_artifact e info (maven_http_path (parent s) nm)
        (''http://'' @ Join [host, maven_http_path (parent s) nm]) ck (s\<lparr>disk := fs'\<rparr>) \<and>
      (\<exists>md mt. fs_get fs' (D @ [nm]) = Some (File c md mt))"
proof -
  have pnm: "proper nm" unfolding nm by (rule sha1_name_proper)
  note to = published_file_in [OF root names pnm, of e, folded D]
  note cf = file_in_resolve [OF cache_file_in [OF root names f, of e, folded D]]
  obtain fs1 md1 mt1 where cp: "copyCompressedFile e tgz (Join [root, maven_http_path (parent s) nm]) (disk s) = (Ok (), fs1)"
    "fs_get fs1 D = Some Dir" "fs_get fs1 (D @ [nm]) = Some (File c md1 mt1)"
    "\<forall>q. q \<noteq> D @ [nm] \<longrightarrow> q \<noteq> D @ [nm @ ''.new''] \<longrightarrow> \<not> prefix q D \<longrightarrow> fs_get fs1 q = fs_get (disk s) q"
    using copyCompressedFile_total [OF free wf to src dirs(1)] dirs(2) by blast
  have "last (f @ ''.sha1'') \<noteq> last (nm @ ''.new'')" for f by simp
  then have ne: "ResolvedFileName info @ ''.sha1'' \<noteq> nm @ ''.new''" by metis
  have "fs_get fs1 (D @ [ResolvedFileName info @ ''.sha1'']) \<noteq> Some Dir"
  proof (cases "ResolvedFileName info @ ''.sha1'' = nm")
    case True
    with cp(3) show ?thesis by simp
  next
    case False
    with ne cp(4) have "fs_get fs1 (D @ [ResolvedFileName info @ ''.sha1'']) = fs_get (disk s) (D @ [ResolvedFileName info @ ''.sha1''])"
      by simp
    with dirs(2) show ?thesis by simp
  qed
  then obtain fs2 where wr: "os_WriteFile (artifactCache_toString \<lparr>ac_source = ArtifactDownloadURL info, ac_checksum = rc\<rparr>)
      511 (os e) (cache_file root (parent s) info) fs1 = (Ok (), fs2)"
    using os_WriteFile_total [OF free, of fs1 "cache_file root (parent s) info"] cp(2) unfolding cf
    by (metis butlast_snoc)
  have "fs_wf fs1" using copy_compressed_pub.grow_result [OF cp(1) _ wf] to grows_wf by blast
  then have "fs_get fs2 (D @ [nm]) = Some (File c md1 mt1)"
    using write_whole.frame_result [OF wr, of "D @ [nm]"] tgz_not_cache [of x] cp(3) cf nm by simp
  then show ?thesis using cp(1) wr by (auto simp: publish_artifact_def Let_def and_then_def on_disk_def)
qed

section \<open>The whole download without faults\<close>

lemma fetch_disk:
  "fetch e url client (s\<lparr>disk := d\<rparr>) =
     (fst (fetch e url client s), (snd (fetch e url client s))\<lparr>disk := d\<rparr>)"
  by (simp add: fetch_def split: outcome.splits prod.splits)

text \<open>What the reconciler finds when it can go through: the answers of the repository and the disk.\<close>

definition serves_artifact :: "env \<Rightarrow> mstate \<Rightarrow> ArtifactDetails \<Rightarrow> http_client \<Rightarrow> string \<Rightarrow> bool" where
  "serves_artifact e s info client body \<longleftrightarrow>
     (case downloadChecksum e (stashed s) client (ArtifactDownloadURL info) (sent s) of
        (Ok rc, sent1) \<Rightarrow> rc = sha1_hex body \<and>
          (case fetch e (ArtifactDownloadURL info) client (s\<lparr>sent := sent1\<rparr>) of
             (Ok resp, _) \<Rightarrow> Body resp = body \<and> BodyErr resp = None
           | _ \<Rightarrow> False)
      | _ \<Rightarrow> False)"

lemma download_in_total:
  assumes free: "fault_free (os e)" "\<forall>h. tar_WriteErr e h = None" and dir: "dir \<noteq> []"
    and T: "T = resolve (cwd (os e)) dir" and f: "proper (ResolvedFileName info)"
    and root: "root \<noteq> []" and names: "names_ok (ma_Meta (parent s))" and D: "D = maven_dir e root s"
    and wf: "fs_wf (disk s)" and new: "\<forall>r. fs_get (disk s) (T @ r) = (if r = [] then Some Dir else None)"
    and par: "T \<parallel> D" and dirs: "\<forall>q. prefix q D \<longrightarrow> \<not> is_File (fs_get (disk s) q)"
      "\<forall>n. fs_get (disk s) (D @ [n]) \<noteq> Some Dir"
    and fetch: "fetch e (ArtifactDownloadURL info) client s = (Ok resp, s1)"
    and body: "BodyErr resp = None" "sha1_hex (Body resp) = rc"
    and zip: "Body resp = [] \<or> \<not> is_zip_type (take 512 (Body resp))"
  shows "\<exists>md s2. download_in e root host info client rc dir s =
      announce_artifact e info (maven_http_path (parent s) (rc @ ''.tar.gz''))
        (''http://'' @ Join [host, maven_http_path (parent s) (rc @ ''.tar.gz'')])
        (sha1_hex (targz e [tar_header (ResolvedFileName info) (Body resp) md 0])) s2 \<and>
      parent s2 = parent s \<and>
      (\<exists>md' mt. fs_get (disk s2) (D @ [rc @ ''.tar.gz'']) =
         Some (File (targz e [tar_header (ResolvedFileName info) (Body resp) md 0]) md' mt))"
proof -
  obtain sent1 where s1: "s1 = s\<lparr>sent := sent1\<rparr>" using fetch_state [OF fetch] by blast
  have get: "fs_get (disk s) (T @ r) = (if r = [] then Some Dir else None)" for r using new by blast
  have fetch': "fetch e (ArtifactDownloadURL info) client (s\<lparr>disk := fs\<rparr>) = (Ok resp, s\<lparr>disk := fs, sent := sent1\<rparr>)" for fs
    using fetch fetch_disk [where d = fs] by (simp add: s1)
  have g: "fs_get (disk s) T = Some Dir" "fs_get (disk s) (T @ [''artifact'']) = None"
    "fs_get (disk s) (T @ [''artifact'', ResolvedFileName info]) = None"
    using get [of "[]"] get [of "[''artifact'']"] get [of "[''artifact'', ResolvedFileName info]"] by simp_all
  obtain md fs1 where dl: "downloadArtifact e (ArtifactDownloadURL info) dir (ResolvedFileName info) rc client s =
      (Ok (Join [dir, ''artifact'']), s\<lparr>disk := fs1, sent := sent1\<rparr>)"
    and fs1: "\<forall>q. fs_get fs1 q = (if q = T @ [''artifact'', ResolvedFileName info] then Some (File (Body resp) md 0)
       else if q = T @ [''artifact''] then Some Dir else fs_get (disk s) q)"
    using downloadArtifact_total [OF free(1) dir T f g fetch' body] by blast
  let ?s1 = "s\<lparr>disk := fs1, sent := sent1\<rparr>"
  have t1: "temp_step e T s ?s1"
    using sync_step.keeps_result [OF downloadArtifact_step [OF dir f] dl] T by simp
  have "\<forall>r. fs_get (disk ?s1) (T @ r) =
      (if r = [''artifact'', ResolvedFileName info] then Some (File (Body resp) md 0)
       else if r = [''artifact''] \<or> r = [] then Some Dir else None)"
    using fs1 get g(1) by simp
  from package_artifact_total [OF free dir T f this zip] obtain fs2 md' mt where
    pk: "package_artifact e info dir (Join [dir, ''artifact'']) ?s1 =
      (Ok (Some (sha1_hex (Body resp) @ ''.tar.gz'', Join [Join [dir, ''artifactTgz''], sha1_hex (Body resp) @ ''.tar.gz''],
         sha1_hex (targz e [tar_header (ResolvedFileName info) (Body resp) md 0]))), ?s1\<lparr>disk := fs2\<rparr>)"
    and tgz: "fs_get fs2 (T @ [''artifactTgz'', sha1_hex (Body resp) @ ''.tar.gz'']) =
      Some (File (targz e [tar_header (ResolvedFileName info) (Body resp) md 0]) md' mt)"
    by blast
  let ?s2 = "?s1\<lparr>disk := fs2\<rparr>"
  have "temp_step e T ?s1 ?s2"
    using sync_step.keeps_result [OF package_artifact_step [OF dir] pk] T by simp
  with t1 have "temp_step e T s ?s2" by (rule temp_step_trans)
  then have b: "below T (disk s) fs2" using wf get [of "[]"] by (simp add: temp_step_def)
  have keep: "fs_get fs2 q = fs_get (disk s) q" if "\<not> prefix T q" for q using b that by (simp add: below_def)
  have rt: "resolve (cwd (os e)) (Join [Join [dir, ''artifactTgz''], sha1_hex (Body resp) @ ''.tar.gz'']) =
      T @ [''artifactTgz'', sha1_hex (Body resp) @ ''.tar.gz'']"
    using temp_paths(3) [OF dir proper_names(2) sha1_name_proper] T by simp
  have dirs2: "\<forall>n. fs_get fs2 (D @ [n]) \<noteq> Some Dir"
    using keep not_below_parallel [OF par] dirs(2) by metis
  have "T @ [''artifactTgz'', n] \<noteq> D @ m" for n m using not_below_parallel [OF par, of m] by (metis prefixI)
  moreover have "\<not> prefix T q" if "prefix q D" for q
    using par that by (metis parallel_def prefix_order.trans)
  ultimately have "\<exists>fs'. publish_artifact e root host info rc (sha1_hex (Body resp) @ ''.tar.gz'',
      Join [Join [dir, ''artifactTgz''], sha1_hex (Body resp) @ ''.tar.gz''],
      sha1_hex (targz e [tar_header (ResolvedFileName info) (Body resp) md 0])) ?s2 =
      announce_artifact e info (maven_http_path (parent ?s2) (sha1_hex (Body resp) @ ''.tar.gz''))
        (''http://'' @ Join [host, maven_http_path (parent ?s2) (sha1_hex (Body resp) @ ''.tar.gz'')])
        (sha1_hex (targz e [tar_header (ResolvedFileName info) (Body resp) md 0])) (?s2\<lparr>disk := fs'\<rparr>) \<and>
      (\<exists>md' mt. fs_get fs' (D @ [sha1_hex (Body resp) @ ''.tar.gz'']) =
         Some (File (targz e [tar_header (ResolvedFileName info) (Body resp) md 0]) md' mt))"
    using names b tgz rt dirs dirs2 keep not_below_parallel [OF par] D
    by (intro publish_artifact_total [OF free(1) root _ f, where D = D and x = "Body resp"]) (simp_all add: below_def)
  then show ?thesis
    using dl pk body(2) by (fastforce simp: download_in_def and_then_def)
qed

lemma download_sync_total:
  assumes free: "fault_free (os e)" "\<forall>h. tar_WriteErr e h = None"
    and root: "root \<noteq> []" and names: "names_ok (ma_Meta (parent s))"
    and stash: "retrieveArtifactVersion e (stashed s) = Some info" "retrieveHttpClient e (stashed s) = Some client"
      "ms_Timeout (ma_Spec (parent s)) = Some timeout" "proper (ResolvedFileName info)"
    and serves: "serves_artifact e s info client body"
    and zip: "body = [] \<or> \<not> is_zip_type (take 512 body)"
    and cache: "is_Ok (retrieveChecksumFromFile e (disk s) (cache_file root (parent s) info))"
      "mst_Artifact (ma_Status (parent s)) = None"
    and ready: "disk_ready (disk s) (maven_temp e (disk s)) (maven_dir e root s)"
  shows "\<exists>s' a md p. MavenArtifactDownloadSync e root host s = (Ok (), s') \<and>
    parent s' = ma_MarkTrue (cond e) MavenArtifactConditionArtifactAvailable ''Available'' [] [] p \<and>
    mst_Artifact (ma_Status (parent s')) = Some a \<and> mst_URL (ma_Status (parent s')) = a_URL a \<and>
    a_Checksum a = sha1_hex (targz e [tar_header (ResolvedFileName info) body md 0]) \<and>
    available e root ''mavenartifact'' (ma_Meta (parent s)) a (disk s')"
proof -
  let ?T = "maven_temp e (disk s)"
  let ?D = "maven_dir e root s"
  let ?dir = "temp_name ''maven-artifact.'' (os e) (TempDir (os e)) (disk s)"
  let ?nm = "sha1_hex body @ ''.tar.gz''"
  note r = ready [unfolded disk_ready_def]
  have T: "?T = resolve (cwd (os e)) ?dir" by (simp add: temp_dir_def)
  have par: "?T \<parallel> ?D" using r by blast
  obtain sent1 where ck: "downloadChecksum e (stashed s) client (ArtifactDownloadURL info) (sent s) = (Ok (sha1_hex body), sent1)"
    and "\<exists>resp s1. fetch e (ArtifactDownloadURL info) client (s\<lparr>sent := sent1\<rparr>) = (Ok resp, s1) \<and>
      Body resp = body \<and> BodyErr resp = None"
    using serves by (auto simp: serves_artifact_def split: prod.splits outcome.splits)
  then obtain resp s1 where ft: "fetch e (ArtifactDownloadURL info) client (s\<lparr>sent := sent1\<rparr>) = (Ok resp, s1)"
    and body: "Body resp = body" "BodyErr resp = None" by blast
  obtain c where c: "retrieveChecksumFromFile e (disk s) (cache_file root (parent s) info) = Ok c"
    using cache(1) by (cases "retrieveChecksumFromFile e (disk s) (cache_file root (parent s) info)") auto
  let ?fs1 = "fs_put ?T Dir (disk s)"
  let ?s1 = "s\<lparr>sent := sent1, disk := ?fs1\<rparr>"
  have mk: "os_Mkdir (os e) ?dir (disk s) = (Ok (), ?fs1)"
    using os_Mkdir_total [OF free(1), of "disk s" ?dir] r by (simp add: temp_dir_def)
  have wf1: "fs_wf ?fs1" using mkdir.wf_result [OF mk] r by blast
  have "fs_get (disk s) (?T @ x) = None" if "x \<noteq> []" for x
    using fs_wf_missing_below [of "disk s" ?T "?T @ x"] r that by (auto simp: strict_prefix_def)
  then have new: "\<forall>x. fs_get (disk ?s1) (?T @ x) = (if x = [] then Some Dir else None)" by simp
  have other: "fs_get ?fs1 q = fs_get (disk s) q" if "q \<noteq> ?T" for q using that by simp
  have ft1: "\<exists>s2. fetch e (ArtifactDownloadURL info) client ?s1 = (Ok resp, s2)"
    using ft fetch_disk [where s = "s\<lparr>sent := sent1\<rparr>" and d = ?fs1] by simp
  have nT: "q \<noteq> ?T" if "prefix q ?D" for q using par that by (metis parallel_def)
  have nT2: "?D @ [n] \<noteq> ?T" for n using not_below_parallel [OF par] by (metis prefix_order.refl)
  from ft1 obtain s2' where ft2: "fetch e (ArtifactDownloadURL info) client ?s1 = (Ok resp, s2')" by blast
  have pre: "names_ok (ma_Meta (parent ?s1))" "?D = maven_dir e root ?s1" "fs_wf (disk ?s1)"
    using names wf1 by simp_all
  have d1: "\<forall>q. prefix q ?D \<longrightarrow> \<not> is_File (fs_get (disk ?s1) q)"
    and d2: "\<forall>n. fs_get (disk ?s1) (?D @ [n]) \<noteq> Some Dir"
    using r nT nT2 by simp_all
  have z: "Body resp = [] \<or> \<not> is_zip_type (take 512 (Body resp))" using zip body(1) by simp
  from download_in_total [OF free temp_name_not_Nil T stash(4) root pre new par d1 d2 ft2 body(2) refl z, of host]
  obtain md s2 where dl: "download_in e root host info client (sha1_hex body) ?dir ?s1 =
      announce_artifact e info (maven_http_path (parent s) ?nm) (''http://'' @ Join [host, maven_http_path (parent s) ?nm])
        (sha1_hex (targz e [tar_header (ResolvedFileName info) body md 0])) s2"
    and s2: "parent s2 = parent s" and tgz: "\<exists>md' mt. fs_get (disk s2) (?D @ [?nm]) =
         Some (File (targz e [tar_header (ResolvedFileName info) body md 0]) md' mt)"
    unfolding body(1) by auto
  let ?p = "parent s\<lparr>ma_Status := (ma_Status (parent s))\<lparr>mst_Artifact := Some (preserveArtifactLastUpdateTime None
      \<lparr>a_Path = maven_http_path (parent s) ?nm, a_URL = ''http://'' @ Join [host, maven_http_path (parent s) ?nm],
       a_Revision = ResolvedFileName info,
       a_Checksum = sha1_hex (targz e [tar_header (ResolvedFileName info) body md 0]), a_LastUpdateTime = now e\<rparr>),
      mst_URL := ''http://'' @ Join [host, maven_http_path (parent s) ?nm]\<rparr>\<rparr>"
  let ?s3 = "s2\<lparr>parent := ma_MarkTrue (cond e) MavenArtifactConditionArtifactAvailable ''Available'' [] [] ?p\<rparr>"
  have ann: "download_in e root host info client (sha1_hex body) ?dir ?s1 = (Ok (), ?s3)"
    using dl s2 cache(2) by (simp add: announce_artifact_def Let_def)
  let ?s4 = "?s3\<lparr>disk := snd (os_RemoveAll (os e) ?dir (disk ?s3))\<rparr>"
  have "MavenArtifactDownloadSync e root host s =
      with_temp_dir e ''maven-artifact.'' (download_in e root host info client (sha1_hex body)) (s\<lparr>sent := sent1\<rparr>)"
    using stash ck c cache(2) by (simp add: MavenArtifactDownloadSync_def Let_def)
  also have "\<dots> = (Ok (), ?s4)"
    using mk ann by (simp add: with_temp_dir_def and_then_def on_disk_def os_MkdirTemp_def)
  finally have run: "MavenArtifactDownloadSync e root host s = (Ok (), ?s4)" .
  have "fs_get (disk ?s4) (?D @ [?nm]) = fs_get (disk s2) (?D @ [?nm])"
    using free(1) not_below_parallel [OF par, of "[?nm]"] by (simp add: os_RemoveAll_def temp_dir_def)
  then show ?thesis
    using run tgz sha1_tarball_name [of body] maven_http_path_eq [OF names sha1_name_proper]
    by (auto simp: available_def preserve_fields)
qed

section \<open>A concrete repository\<close>

text \<open>A repository that serves four bytes and their checksum, and a resource that asks for them.\<close>

definition repo_info :: ArtifactDetails where
  "repo_info = \<lparr>ResolvedFileName = ''app-1.0.bin'', ArtifactVersion = ''1.0'',
     ArtifactDownloadURL = ''https://repo/g/app/1.0/app-1.0.bin''\<rparr>"

definition repo_env :: env where
  "repo_env = sample_env\<lparr>http := sample_http_env\<lparr>send := (\<lambda>_ _ req. Inr
     \<lparr>StatusCode = 200, Location = [],
      Body = (if u_String (req_URL req) = ArtifactDownloadURL repo_info then ''data'' else sha1_hex ''data''),
      BodyErr = None\<rparr>)\<rparr>\<rparr>"

definition repo_state :: mstate where
  "repo_state =
     \<lparr>parent = sample_maven\<lparr>ma_Spec := (ma_Spec sample_maven)\<lparr>ms_Timeout := Some 5\<rparr>\<rparr>,
      stashed = [(MavenArtifactVersionStashKey, StashDetails repo_info),
                 (MavenArtifactHttpClientKey, StashClient sample_client)],
      disk = [([], Dir), ([''tmp''], Dir)], sent = []\<rparr>"

lemma repo_wf: "fs_wf (disk repo_state)"
  by (auto simp: repo_state_def fs_wf_def fs_get_def split: if_splits)

lemma repo_os [simp]: "os repo_env = sample_os"
  by (simp add: repo_env_def sample_env_def)

lemma repo_temp: "maven_temp repo_env fs = [''tmp'', ''maven-artifact.7'']"
  by (simp add: temp_dir_def temp_name_def sample_os_def itoa_7 suffix_def resolve_def IsAbs_def)

lemma repo_meta [simp]: "ma_Meta (parent repo_state) = \<lparr>Namespace = ''dev'', Name = ''app''\<rparr>"
  by (simp add: repo_state_def sample_maven_def)

lemma repo_names: "names_ok (ma_Meta (parent repo_state))"
  by (simp add: names_ok_def proper_def)

lemma repo_dir: "maven_dir repo_env ''/artifacts'' repo_state = [''artifacts'', ''mavenartifact'', ''dev'', ''app'']"
  by (simp add: resource_dir_def sample_os_def resolve_def IsAbs_def)

lemma repo_stash:
  "retrieveArtifactVersion repo_env (stashed repo_state) = Some repo_info"
  "retrieveHttpClient repo_env (stashed repo_state) = Some sample_client"
  "ms_Timeout (ma_Spec (parent repo_state)) = Some 5" "mst_Artifact (ma_Status (parent repo_state)) = None"
  by (simp_all add: retrieveArtifactVersion_def retrieveHttpClient_def repo_state_def repo_env_def
      sample_env_def MavenArtifactVersionStashKey_def MavenArtifactHttpClientKey_def sample_maven_def)

lemma repo_file: "proper (ResolvedFileName repo_info)"
  by (simp add: repo_info_def proper_def)

lemma repo_details: "details_ok repo_env (stashed repo_state)"
  using repo_file by (simp add: details_ok_def repo_stash)

lemma repo_client_Do:
  "client_Do (http repo_env) t st (\<lparr>req_Method = m, req_URL = \<lparr>u_Scheme = ''https'', u_Host = h, u_String = u\<rparr>, req_BasicAuth = a\<rparr>) =
    (Ok \<lparr>StatusCode = 200, Location = [], Body = (if u = ArtifactDownloadURL repo_info then ''data'' else sha1_hex ''data''),
        BodyErr = None\<rparr>,
     st @ [\<lparr>req_Method = m, req_URL = \<lparr>u_Scheme = ''https'', u_Host = h, u_String = u\<rparr>, req_BasicAuth = a\<rparr>])"
  unfolding client_Do_def by (subst client_loop.simps) (simp add: repo_env_def shouldRedirect_def)

lemma repo_url: "url_Parse (http repo_env) u = Inr \<lparr>u_Scheme = ''https'', u_Host = ''repo'', u_String = u\<rparr>"
  by (simp add: repo_env_def sample_http_env_def)

lemma repo_serves: "serves_artifact repo_env repo_state repo_info sample_client ''data''"
  by (simp add: serves_artifact_def downloadChecksum_def download_def fetch_def buildRequestObject_def
      repo_url repo_client_Do)

lemma repo_ready: "disk_ready (disk repo_state) (maven_temp repo_env fs) (maven_dir repo_env ''/artifacts'' repo_state)"
  using repo_wf unfolding repo_temp repo_dir disk_ready_def
  by (auto simp: repo_state_def fs_get_def)

lemma repo_cache:
  "retrieveChecksumFromFile repo_env (disk repo_state) (cache_file ''/artifacts'' (parent repo_state) repo_info) = Ok None"
proof -
  have "resolve (cwd sample_os) (cache_file ''/artifacts'' (parent repo_state) repo_info) =
      [''artifacts'', ''mavenartifact'', ''dev'', ''app'', ResolvedFileName repo_info @ ''.sha1'']"
    using file_in_resolve [OF cache_file_in [OF _ repo_names repo_file, of "''/artifacts''" repo_env]] repo_dir by simp
  then show ?thesis
    by (simp add: retrieveChecksumFromFile_def os_ReadFile_def os_lookup_def missing_def prefixes_def repo_state_def
       fs_get_def sample_os_def)
qed

lemma repo_free: "fault_free (os repo_env)" "\<forall>h. tar_WriteErr repo_env h = None"
  by (simp_all add: fault_free_def sample_os_def repo_env_def sample_env_def)

lemma repo_not_zip: "\<not> is_zip_type (take 512 ''data'')"
  by (simp add: is_zip_type_def)



theorem download_sync_confined_witness:
  "works [''tmp'', ''maven-artifact.7''] [''artifacts'', ''mavenartifact'', ''dev'', ''app'']
     (disk repo_state) (disk (snd (MavenArtifactDownloadSync repo_env ''/artifacts'' ''host'' repo_state)))"
proof -
  have "''/artifacts'' \<noteq> []" by simp
  from download_sync_confined [OF repo_wf this repo_names repo_details, of "''host''"] show ?thesis
    unfolding repo_temp repo_dir by (metis prod.collapse)
qed

theorem download_sync_publishes_witness:
  "\<exists>s' a. MavenArtifactDownloadSync repo_env ''/artifacts'' ''host'' repo_state = (Ok (), s') \<and>
     available repo_env ''/artifacts'' ''mavenartifact'' \<lparr>Namespace = ''dev'', Name = ''app''\<rparr> a (disk s')"
proof -
  have root: "''/artifacts'' \<noteq> []" and cache: "is_Ok (retrieveChecksumFromFile repo_env (disk repo_state)
      (cache_file ''/artifacts'' (parent repo_state) repo_info))"
    unfolding repo_cache by simp_all
  have par: "maven_temp repo_env (disk repo_state) \<parallel> maven_dir repo_env ''/artifacts'' repo_state"
    and new: "\<forall>n. fs_get (disk repo_state) (maven_dir repo_env ''/artifacts'' repo_state @ [n @ ''.new'']) \<noteq> Some Dir"
    using repo_ready by (simp_all add: disk_ready_def)
  have create: "can_create (os repo_env)" using repo_free by (simp add: can_create_def)
  obtain s' a where run: "MavenArtifactDownloadSync repo_env ''/artifacts'' ''host'' repo_state = (Ok (), s')"
    and a: "mst_Artifact (ma_Status (parent s')) = Some a"
    using download_sync_total [OF repo_free root repo_names repo_stash(1-3) repo_file repo_serves
      disjI2 [OF repo_not_zip] cache repo_stash(4) repo_ready, of "''host''"] by blast
  from download_sync_publishes [OF repo_wf root repo_names repo_details par create new run] a repo_stash(4)
  show ?thesis using run by (auto simp: keeps_resource_def)
qed

text \<open>
  C16: integrity of the download. When it succeeds, the file in the temporary directory is exactly the
  body of the response to the last request, received without an error, and its SHA-1 is the checksum
  that was asked for: a truncated or altered body is never packaged.
\<close>

theorem downloadArtifact_checked:
  assumes "dir \<noteq> []" and "proper fileName"
    and "downloadArtifact e url dir fileName rc client s = (Ok d, s')"
  shows "d = Join [dir, ''artifact''] \<and>
    (\<exists>fs1 resp s1 md mt. fetch e url client (s\<lparr>disk := fs1\<rparr>) = (Ok resp, s1) \<and> sent s' = sent s1 \<and>
      BodyErr resp = None \<and> sha1_hex (Body resp) = rc \<and>
      fs_get (disk s') (resolve (cwd (os e)) dir @ [''artifact'', fileName]) = Some (File (Body resp) md mt))"
  using assms by (rule downloadArtifact_result)

theorem downloadArtifact_checked_witness:
  "\<exists>s' md mt. downloadArtifact repo_env (ArtifactDownloadURL repo_info) ''/tmp'' ''app'' (sha1_hex ''data'') sample_client
       repo_state = (Ok ''/tmp/artifact'', s') \<and>
     fs_get (disk s') [''tmp'', ''artifact'', ''app''] = Some (File ''data'' md mt)"
proof -
  let ?resp = "\<lparr>StatusCode = 200, Location = [], Body = ''data'', BodyErr = None\<rparr>"
  have T: "[''tmp''] = resolve (cwd (os repo_env)) ''/tmp''" by (simp add: resolve_def IsAbs_def)
  have ne: "''/tmp'' \<noteq> []" and app: "proper ''app''" by (simp_all add: proper_def)
  obtain st where ft: "fetch repo_env (ArtifactDownloadURL repo_info) sample_client (repo_state\<lparr>disk := fs\<rparr>) =
      (Ok ?resp, repo_state\<lparr>disk := fs, sent := st\<rparr>)" for fs
    by (simp add: fetch_def buildRequestObject_def repo_url repo_client_Do)
  obtain s' where run: "downloadArtifact repo_env (ArtifactDownloadURL repo_info) ''/tmp'' ''app'' (sha1_hex ''data'')
      sample_client repo_state = (Ok (Join [''/tmp'', ''artifact'']), s')"
    using downloadArtifact_total [OF repo_free(1) ne T app, of repo_state _ sample_client ?resp st, OF _ _ _ ft]
    by (auto simp: repo_state_def fs_get_def)
  from downloadArtifact_checked [OF ne app run] obtain fs1 resp s1 md mt where
    "fetch repo_env (ArtifactDownloadURL repo_info) sample_client (repo_state\<lparr>disk := fs1\<rparr>) = (Ok resp, s1)"
    and g: "fs_get (disk s') [''tmp'', ''artifact'', ''app''] = Some (File (Body resp) md mt)"
    unfolding T [symmetric] by auto
  then have "Body resp = ''data''" using ft by auto
  moreover have "Join [''/tmp'', ''artifact''] = ''/tmp/artifact''" by code_simp
  ultimately show ?thesis using run g by metis
qed

end
