(* ===== verification/Image_Live.thy ===== *)
theory Image_Live
  imports Image_Sync
begin

text \<open>
  Liveness of the ImageRepository pull: in an environment without faults, when the registry
  delivers the image, the reconciler publishes the tarball of exactly the files it delivered.
\<close>

section \<open>Packaging and publishing without faults\<close>

lemma package_image_total:
  assumes free: "fault_free (os e)" "\<forall>h. tar_WriteErr e h = None" and dir: "dir \<noteq> []"
    and T: "T = resolve (cwd (os e)) dir" and nm: "proper nm" "nm \<noteq> ''artifact''"
    and fs: "fs_get (disk s) T = Some Dir" "fs_get (disk s) (T @ [''artifact'']) \<noteq> None"
      "fs_get (disk s) (T @ [nm]) = None" "proper_tree (disk s) (T @ [''artifact''])"
    and tar: "tar = targz e (tar_spec (disk s) (T @ [''artifact'']))"
  shows "\<exists>fs' md mt. package_image e (Join [dir, ''artifact'']) (Join [dir, nm]) s =
      (Ok (sha1_hex tar), s\<lparr>disk := fs'\<rparr>) \<and> fs_get fs' (T @ [nm]) = Some (File tar md mt)"
proof -
  let ?w = "cwd (os e)"
  let ?a = "Join [dir, ''artifact'']"
  let ?z = "Join [dir, nm]"
  have ra: "resolve ?w ?a = T @ [''artifact'']" "?a \<noteq> []" and rz: "resolve ?w ?z = T @ [nm]"
    using temp_paths(1,2) [OF dir] nm(1) T by simp_all
  have "\<exists>fs' md mt. createTarGz e ?a ?z (disk s) = (Ok (), fs') \<and>
      fs_get fs' (resolve ?w ?z) = Some (File (targz e (tar_spec (disk s) (resolve ?w ?a))) md mt) \<and>
      (\<forall>q. q \<noteq> resolve ?w ?z \<longrightarrow> fs_get fs' q = fs_get (disk s) q)"
    by (rule createTarGz_content [OF free ra(2)]) (use fs nm(2) in \<open>simp_all add: ra rz\<close>)
  then obtain fs' md mt where z: "createTarGz e ?a ?z (disk s) = (Ok (), fs')"
    "fs_get fs' (T @ [nm]) = Some (File tar md mt)"
    unfolding ra rz tar by blast
  have "sha1Checksum e ?z fs' = (Ok (sha1_hex tar), fs')"
    using sha1Checksum_total [OF free(1)] z(2) rz by simp
  with z show ?thesis
    by (auto simp: package_image_def and_then_def with_error_def on_disk_def)
qed

lemma publish_image_total:
  assumes free: "fault_free (os e)" and root: "root \<noteq> []" and names: "names_ok (ir_Meta (parent s))"
    and nm: "proper nm" and wf: "fs_wf (disk s)" and D: "D = image_dir e root s"
    and src: "fs_get (disk s) (resolve (cwd (os e)) tgz) = Some (File c md mt)"
      "resolve (cwd (os e)) tgz \<noteq> D @ [nm @ ''.new'']"
    and dirs: "\<forall>q. prefix q D \<longrightarrow> \<not> is_File (fs_get (disk s) q)" "\<forall>n. fs_get (disk s) (D @ [n]) \<noteq> Some Dir"
  shows "\<exists>fs' md mt. publish_image e root ref (image_http_path (parent s) nm) url tgz ck s =
      announce_image e ref (image_http_path (parent s) nm) url ck (s\<lparr>disk := fs'\<rparr>) \<and>
    fs_get fs' (D @ [nm]) = Some (File c md mt)"
proof -
  let ?p = "Join [root, image_http_path (parent s) nm]"
  note to = image_file_in [OF root names nm, of e, folded D]
  have create: "can_create (os e)" using free by (simp add: can_create_def)
  obtain fs' md' mt' where "copyCompressedFile e tgz ?p (disk s) = (Ok (), fs')"
    and pub: "fs_get fs' (D @ [nm]) = Some (File c md' mt')"
    using copyCompressedFile_total [OF free wf to src dirs(1)] dirs(2) by blast
  then have "and_then (copyFile e tgz (?p @ ''.new'')) (\<lambda>_. os_Rename (os e) (?p @ ''.new'') ?p) (disk s) = (Ok (), fs')"
    using copyFile_rename_eq [OF wf to create] dirs(2) by simp
  then obtain fs1 where "copyFile e tgz (?p @ ''.new'') (disk s) = (Ok (), fs1)"
    "os_Rename (os e) (?p @ ''.new'') ?p fs1 = (Ok (), fs')"
    by (cases rule: and_then_cases) auto
  then have "publish_image e root ref (image_http_path (parent s) nm) url tgz ck s =
      announce_image e ref (image_http_path (parent s) nm) url ck (s\<lparr>disk := fs'\<rparr>)"
    unfolding publish_image_def image_placeholder [OF root names nm]
    by (simp add: and_then_def on_disk_def)
  with pub show ?thesis by blast
qed

section \<open>The whole pull without faults\<close>

text \<open>
  What the reconciler finds when it can go through: an image reference with a digest, pull secrets
  and a registry client, and a registry that delivers the directory tree of the file system \<open>fs'\<close>.
\<close>

definition delivers_image :: "env \<Rightarrow> istate \<Rightarrow> string \<Rightarrow> fs \<Rightarrow> bool" where
  "delivers_image e s ref fs' \<longleftrightarrow>
     (case RetrieveImagePullSecrets e (stashed s) of
        None \<Rightarrow> False
      | Some secrets \<Rightarrow>
          (case NewFromPullSecrets e secrets of
             Inl _ \<Rightarrow> False
           | Inr keychain \<Rightarrow>
               (case NewBasicRegistry e keychain (RetrieveHttpRoundTripper e (stashed s)) of
                  Inl _ \<Rightarrow> False
                | Inr reg \<Rightarrow>
                    Pull e ref reg
                      (Join [temp_name ''image.'' (os e) (TempDir (os e)) (disk s), ''artifact''])
                      (fs_put (image_temp e (disk s)) Dir (disk s)) = (None, fs') \<and>
                    fs_get fs' (image_temp e (disk s) @ [''artifact'']) \<noteq> None \<and>
                    proper_tree fs' (image_temp e (disk s) @ [''artifact'']))))"

lemma pull_sync_total:
  assumes free: "fault_free (os e)" "\<forall>h. tar_WriteErr e h = None" and laws: "pull_laws e" "digest_laws e"
    and root: "root \<noteq> []" and names: "names_ok (ir_Meta (parent s))"
    and ref: "RetrieveImageRef e (stashed s) = ref" "ref \<noteq> []" "NewDigest e ref = Inr d"
    and fresh: "irst_URL (ir_Status (parent s)) = []" "irst_Artifact (ir_Status (parent s)) = None"
    and pull: "delivers_image e s ref fs2"
    and ready: "disk_ready (disk s) (image_temp e (disk s)) (image_dir e root s)"
  shows "\<exists>s' a p. ImageRepositoryPullImageSync e root host s = (Ok (), s') \<and>
    parent s' = ir_MarkTrue (cond e) ImageRepositoryConditionArtifactAvailable ''Available'' [] [] p \<and>
    irst_Artifact (ir_Status (parent s')) = Some a \<and> irst_URL (ir_Status (parent s')) = a_URL a \<and>
    a_Revision a = ref \<and>
    a_Checksum a = sha1_hex (targz e (tar_spec fs2 (image_temp e (disk s) @ [''artifact'']))) \<and>
    available e root ''imagerepository'' (ir_Meta (parent s)) a (disk s')"
proof -
  let ?T = "image_temp e (disk s)"
  let ?D = "image_dir e root s"
  let ?dir = "temp_name ''image.'' (os e) (TempDir (os e)) (disk s)"
  let ?a = "Join [?dir, ''artifact'']"
  let ?f = "image_tgz_filename d"
  let ?p = "image_http_path (parent s) ?f"
  let ?u = "''http://'' @ host @ ''/'' @ ?p"
  let ?fs1 = "fs_put ?T Dir (disk s)"
  define tar where "tar = targz e (tar_spec fs2 (?T @ [''artifact'']))"
  note r = ready [unfolded disk_ready_def]
  note nm = digest_filename_proper [OF laws(2) ref(3)]
  have "last ?f \<noteq> last ''artifact''" by (simp add: image_tgz_filename_def)
  then have na: "?f \<noteq> ''artifact''" by metis
  have T: "?T = resolve (cwd (os e)) ?dir" by (simp add: temp_dir_def)
  have par: "?T \<parallel> ?D" using r by blast
  have mk: "os_Mkdir (os e) ?dir (disk s) = (Ok (), ?fs1)"
    using os_Mkdir_total [OF free(1), of "disk s" ?dir] r by (simp add: temp_dir_def)
  have wf1: "fs_wf ?fs1" using mkdir.wf_result [OF mk] r by blast
  have ra: "resolve (cwd (os e)) ?a = ?T @ [''artifact'']"
    using temp_paths(1) [OF temp_name_not_Nil proper_names(1)] T by simp
  obtain secrets keychain reg where env: "RetrieveImagePullSecrets e (stashed s) = Some secrets"
    "NewFromPullSecrets e secrets = Inr keychain"
    "NewBasicRegistry e keychain (RetrieveHttpRoundTripper e (stashed s)) = Inr reg"
    and P: "Pull e ref reg ?a ?fs1 = (None, fs2)"
    and tree: "fs_get fs2 (?T @ [''artifact'']) \<noteq> None" "proper_tree fs2 (?T @ [''artifact''])"
    using pull by (auto simp: delivers_image_def split: option.splits sum.splits)
  have b2: "below ?T ?fs1 fs2" using Pull_below [OF laws(1) ra _ wf1 _ P] by simp
  have conf: "fs_get fs2 q = fs_get ?fs1 q" if "\<not> prefix (?T @ [''artifact'']) q" for q
  proof -
    have "confined (\<lambda>fs. case Pull e ref reg ?a fs of
        (None, fs') \<Rightarrow> (Ok (), fs') | (Some er, fs') \<Rightarrow> (Error er, fs')) (prefix (?T @ [''artifact'']))"
      using laws(1) [unfolded pull_laws_def, rule_format, of ref reg ?a] unfolding ra .
    from confined.frame [OF this wf1 that] P show ?thesis by simp
  qed
  let ?s2 = "s\<lparr>disk := fs2, parent := ir_MarkTrue (cond e) ImageRepositoryConditionImageResolved
    ''Resolved'' [] [] (parent s)\<rparr>"
  have pi: "pull_image e ref ?a (s\<lparr>disk := ?fs1\<rparr>) = (Ok True, ?s2)"
    using env P by (simp add: pull_image_def)
  have "fs_get (disk s) (?T @ [?f]) = None"
    using fs_wf_missing_below [of "disk s" ?T "?T @ [?f]"] r by (auto simp: strict_prefix_def)
  then have "fs_get fs2 (?T @ [?f]) = None" using conf [of "?T @ [?f]"] na by simp
  then have "\<exists>fs' md mt. package_image e ?a (Join [?dir, ?f]) ?s2 = (Ok (sha1_hex tar), ?s2\<lparr>disk := fs'\<rparr>) \<and>
      fs_get fs' (?T @ [?f]) = Some (File tar md mt)"
    using b2 tree nm na
    by (intro package_image_total [OF free temp_name_not_Nil T]) (simp_all add: below_def tar_def)
  then obtain fs3 md mt where pk: "package_image e ?a (Join [?dir, ?f]) ?s2 = (Ok (sha1_hex tar), ?s2\<lparr>disk := fs3\<rparr>)"
    and tgz: "fs_get fs3 (?T @ [?f]) = Some (File tar md mt)" by blast
  let ?s3 = "?s2\<lparr>disk := fs3\<rparr>"
  have rt: "resolve (cwd (os e)) (Join [?dir, ?f]) = ?T @ [?f]"
    using temp_paths(1) [OF temp_name_not_Nil nm] T by simp
  have "image_step ?T ?s2 ?s3"
    by (rule sync_step.keeps_result [OF package_image_step pk]) (simp only: rt prefixI)
  then have b3: "below ?T ?fs1 fs3" using b2 below_trans by (auto simp: image_step_def below_def)
  have keep: "fs_get fs3 q = fs_get (disk s) q" if "\<not> prefix ?T q" for q
  proof -
    have "q \<noteq> ?T" using that by blast
    then show ?thesis using b3 that by (simp add: below_def)
  qed
  have nD: "\<not> prefix ?T q" if "prefix q ?D" for q by (rule above_parallel [OF par that])
  have d1: "\<forall>q. prefix q ?D \<longrightarrow> \<not> is_File (fs_get fs3 q)" using r by (auto simp: keep [OF nD])
  have d2: "\<forall>n. fs_get fs3 (?D @ [n]) \<noteq> Some Dir" using r by (simp only: keep [OF not_below_parallel [OF par]] simp_thms)
  have ne: "resolve (cwd (os e)) (Join [?dir, ?f]) \<noteq> ?D @ [?f @ ''.new'']"
    unfolding rt using not_below_parallel [OF par, of "[?f @ ''.new'']"] by (metis prefixI)
  have "\<exists>fs' md' mt'. publish_image e root ref (image_http_path (parent ?s3) ?f) ?u (Join [?dir, ?f]) (sha1_hex tar) ?s3 =
      announce_image e ref (image_http_path (parent ?s3) ?f) ?u (sha1_hex tar) (?s3\<lparr>disk := fs'\<rparr>) \<and>
      fs_get fs' (?D @ [?f]) = Some (File tar md' mt')"
    using names nm b3 tgz rt ne d1 d2
    by (intro publish_image_total [OF free(1) root]) (simp_all add: below_def)
  moreover have "image_http_path (parent ?s3) ?f = ?p" by (simp add: image_http_path_def)
  ultimately obtain fs4 md' mt' where
    pub: "publish_image e root ref ?p ?u (Join [?dir, ?f]) (sha1_hex tar) ?s3 =
      announce_image e ref ?p ?u (sha1_hex tar) (?s3\<lparr>disk := fs4\<rparr>)"
    and there: "fs_get fs4 (?D @ [?f]) = Some (File tar md' mt')" by metis
  obtain s5 where ann: "announce_image e ref ?p ?u (sha1_hex tar) (?s3\<lparr>disk := fs4\<rparr>) = (Ok (), s5)"
    by (simp add: announce_image_def Let_def)
  have s5: "disk s5 = fs4" "\<exists>a p. parent s5 = ir_MarkTrue (cond e) ImageRepositoryConditionArtifactAvailable ''Available'' [] [] p \<and>
    irst_Artifact (ir_Status (parent s5)) = Some a \<and> irst_URL (ir_Status (parent s5)) = a_URL a \<and>
    a_Revision a = ref \<and> a_Checksum a = sha1_hex tar \<and> a_Path a = ?p"
    using ann by (auto simp: announce_image_def Let_def preserve_fields)
  have "pull_in e root ref ?f ?p ?u ?dir (s\<lparr>disk := ?fs1\<rparr>) = (Ok (), s5)"
    using pi pk pub ann unfolding pull_in_def Let_def by (simp add: and_then_def)
  then have "with_temp_dir e ''image.'' (pull_in e root ref ?f ?p ?u) s =
      (Ok (), s5\<lparr>disk := snd (os_RemoveAll (os e) ?dir (disk s5))\<rparr>)"
    using mk by (simp add: with_temp_dir_def and_then_def on_disk_def os_MkdirTemp_def)
  moreover have "ImageRepositoryPullImageSync e root host s = with_temp_dir e ''image.'' (pull_in e root ref ?f ?p ?u) s"
    using ref fresh by (simp add: ImageRepositoryPullImageSync_def Let_def)
  moreover have "fs_get (snd (os_RemoveAll (os e) ?dir (disk s5))) (?D @ [?f]) = Some (File tar md' mt')"
    using free(1) not_below_parallel [OF par, of "[?f]"] there s5(1) by (simp add: os_RemoveAll_def temp_dir_def)
  ultimately show ?thesis
    using s5(2) digest_tarball_name [OF laws(2) ref(3)] unfolding available_def tar_def image_http_path_eq by auto
qed

text \<open>
  C5: liveness of the pull. Without faults, on a disk where the directory of the resource can be
  made, and with a registry that delivers the image, the reconciler of a new resource returns without
  an error, sets the condition to available, and announces in the status, under the reference of the
  image, the tarball of exactly the files delivered, which is there with the announced checksum.
\<close>

theorem pull_sync_succeeds:
  assumes "fault_free (os e)" "\<forall>h. tar_WriteErr e h = None" and "pull_laws e" "digest_laws e"
    and "root \<noteq> []" and "names_ok (ir_Meta (parent s))"
    and "RetrieveImageRef e (stashed s) = ref" "ref \<noteq> []" "NewDigest e ref = Inr d"
    and "irst_URL (ir_Status (parent s)) = []" "irst_Artifact (ir_Status (parent s)) = None"
    and "delivers_image e s ref fs2"
    and "disk_ready (disk s) (image_temp e (disk s)) (image_dir e root s)"
  shows "\<exists>s' a p. ImageRepositoryPullImageSync e root host s = (Ok (), s') \<and>
    parent s' = ir_MarkTrue (cond e) ImageRepositoryConditionArtifactAvailable ''Available'' [] [] p \<and>
    irst_Artifact (ir_Status (parent s')) = Some a \<and> irst_URL (ir_Status (parent s')) = a_URL a \<and>
    a_Revision a = ref \<and>
    a_Checksum a = sha1_hex (targz e (tar_spec fs2 (image_temp e (disk s) @ [''artifact'']))) \<and>
    available e root ''imagerepository'' (ir_Meta (parent s)) a (disk s')"
  using assms by (rule pull_sync_total)

section \<open>A concrete registry\<close>

definition unpack_app :: "string list \<Rightarrow> fs \<Rightarrow> go_error option \<times> fs" where
  "unpack_app d fs =
     (if d \<noteq> [] \<and> fs_get fs d = None \<and> fs_get fs (butlast d) = Some Dir
      then (None, fs_put (d @ [''app'']) (File ''data'' 420 0) (fs_put d Dir fs))
      else (Some (ErrorText ''cannot unpack''), fs))"

definition image_env :: env where
  "image_env = sample_env\<lparr>Pull := (\<lambda>ref reg dir. unpack_app (resolve [''srv''] dir))\<rparr>"

definition image_state :: istate where
  "image_state =
     \<lparr>parent = \<lparr>ir_Meta = \<lparr>Namespace = ''dev'', Name = ''app''\<rparr>,
        ir_Spec = \<lparr>irs_Image = ''reg/app@sha'', irs_Interval = 5, irs_ImagePullSecrets = [], irs_ServiceAccountName = []\<rparr>,
        ir_Status = \<lparr>irst_Conditions = [], irst_URL = [], irst_Artifact = None\<rparr>\<rparr>,
      stashed = [(ImagePullSecretsStashKey, StashSecrets []), (ImageRefStashKey, StashString ''reg/app@sha'')],
      disk = [([], Dir), ([''tmp''], Dir)], sent = []\<rparr>"

lemma image_os [simp]: "os image_env = sample_os"
  by (simp add: image_env_def sample_env_def)

lemma unpack_app_fs:
  assumes "unpack_app d fs = (er, fs')" and "fs_wf fs"
  shows "fs_wf fs'" and "\<not> prefix d q \<Longrightarrow> fs_get fs' q = fs_get fs q"
proof -
  have "fs_wf (fs_put (d @ [''app'']) (File ''data'' 420 0) (fs_put d Dir fs))"
    if "fs_get fs d = None" "fs_get fs (butlast d) = Some Dir"
  proof (rule fs_wf_put_file [OF fs_wf_put_dir [OF assms(2) that(2)]])
    show "fs_get (fs_put d Dir fs) (d @ [''app'']) \<noteq> Some Dir"
      using fs_wf_missing_below [OF assms(2), of d "d @ [''app'']"] that(1) by (simp add: strict_prefix_def)
  qed (simp add: butlast_append)
  then show "fs_wf fs'" using assms by (auto simp: unpack_app_def split: if_splits)
  show "\<not> prefix d q \<Longrightarrow> fs_get fs' q = fs_get fs q"
    using assms(1) by (auto simp: unpack_app_def split: if_splits)
qed

lemma image_pull_laws: "pull_laws image_env"
  unfolding pull_laws_def
proof (intro allI)
  fix ref reg dir
  have P: "Pull image_env ref reg dir = unpack_app (resolve [''srv''] dir)" by (simp add: image_env_def)
  have w: "cwd (os image_env) = [''srv'']" by (simp add: sample_os_def)
  show "confined (\<lambda>fs. case Pull image_env ref reg dir fs of
      (None, fs') \<Rightarrow> (Ok (), fs') | (Some er, fs') \<Rightarrow> (Error er, fs')) (prefix (resolve (cwd (os image_env)) dir))"
    unfolding P w confined_def using unpack_app_fs
    by (auto split: prod.splits option.splits)
qed

lemma image_digest_laws: "digest_laws image_env"
  by (auto simp: digest_laws_def sample_env_def image_env_def)

lemma image_temp_7: "temp_name ''image.'' sample_os ''/tmp'' fs = ''/tmp/image.7''"
  by (simp add: temp_name_def sample_os_def itoa_7 suffix_def)

lemma image_temp_path: "image_temp image_env fs = [''tmp'', ''image.7'']"
  by (simp add: temp_dir_def sample_os_def [THEN arg_cong [where f = TempDir]] image_temp_7 resolve_def IsAbs_def)

lemma image_names: "names_ok (ir_Meta (parent image_state))"
  by (simp add: image_state_def names_ok_def proper_def)

lemma image_dir_path: "image_dir image_env ''/artifacts'' image_state = [''artifacts'', ''imagerepository'', ''dev'', ''app'']"
  by (simp add: resource_dir_def sample_os_def resolve_def IsAbs_def image_state_def)

lemma image_disk: "disk image_state = [([], Dir), ([''tmp''], Dir)]"
  by (simp add: image_state_def)

lemma image_wf: "fs_wf (disk image_state)"
  by (auto simp: image_disk fs_wf_def fs_get_def split: if_splits)

lemma image_ready:
  "disk_ready (disk image_state) (image_temp image_env fs) (image_dir image_env ''/artifacts'' image_state)"
  using image_wf unfolding image_temp_path image_dir_path disk_ready_def
  by (auto simp: image_disk fs_get_def)

lemma image_stash:
  "RetrieveImageRef image_env (stashed image_state) = ''reg/app@sha''"
  "RetrieveImagePullSecrets image_env (stashed image_state) = Some []"
  by (simp_all add: RetrieveImageRef_def RetrieveImagePullSecrets_def image_state_def image_env_def
      sample_env_def ImagePullSecretsStashKey_def ImageRefStashKey_def)

lemma image_new_digest: "NewDigest image_env ''reg/app@sha'' = Inr (''sha256:'' @ replicate 64 (CHR ''a''))"
  by (simp add: image_env_def sample_env_def)

definition image_pulled :: fs where
  "image_pulled = snd (unpack_app [''tmp'', ''image.7'', ''artifact'']
     (fs_put [''tmp'', ''image.7''] Dir (disk image_state)))"

lemma image_pulled_eq:
  "unpack_app [''tmp'', ''image.7'', ''artifact''] (fs_put [''tmp'', ''image.7''] Dir (disk image_state)) =
     (None, image_pulled)"
  by (simp add: image_pulled_def unpack_app_def image_disk fs_get_def fs_put_def)

lemma image_pulled_tree:
  "fs_get image_pulled [''tmp'', ''image.7'', ''artifact''] = Some Dir"
  "proper_tree image_pulled [''tmp'', ''image.7'', ''artifact'']"
proof -
  have eq: "image_pulled = [([''tmp'', ''image.7'', ''artifact'', ''app''], File ''data'' 420 0),
      ([''tmp'', ''image.7'', ''artifact''], Dir), ([''tmp'', ''image.7''], Dir), ([], Dir), ([''tmp''], Dir)]"
    by (simp add: image_pulled_def unpack_app_def image_disk fs_get_def fs_put_def)
  show "fs_get image_pulled [''tmp'', ''image.7'', ''artifact''] = Some Dir" by (simp add: eq fs_get_def)
  show "proper_tree image_pulled [''tmp'', ''image.7'', ''artifact'']"
    by (rule fs_get_proper_tree) (simp add: eq proper_def)
qed

lemma image_delivers: "delivers_image image_env image_state ''reg/app@sha'' image_pulled"
proof -
  have dir: "temp_name ''image.'' (os image_env) (TempDir (os image_env)) fs = ''/tmp/image.7''" for fs
    by (simp add: image_temp_7 sample_os_def [THEN arg_cong [where f = TempDir]])
  have "resolve [''srv''] (Join [''/tmp/image.7'', ''artifact'']) = [''tmp'', ''image.7'', ''artifact'']"
    using temp_paths(1) [of "''/tmp/image.7''" "''artifact''" "[''srv'']"] by (simp add: resolve_def IsAbs_def)
  then have P: "Pull image_env ref reg (Join [''/tmp/image.7'', ''artifact'']) =
      unpack_app [''tmp'', ''image.7'', ''artifact'']" for ref reg
    by (simp add: image_env_def)
  have api: "NewFromPullSecrets image_env xs = Inr []" "NewBasicRegistry image_env k t = Inr []" for xs k t
    by (simp_all add: image_env_def sample_env_def)
  have tree: "[''tmp'', ''image.7''] @ [''artifact''] = [''tmp'', ''image.7'', ''artifact'']" by simp
  show ?thesis
    unfolding delivers_image_def image_stash dir image_temp_path P image_pulled_eq tree
    using image_pulled_tree by (simp add: api)
qed

lemma image_free: "fault_free (os image_env)" "\<forall>h. tar_WriteErr image_env h = None"
  by (simp_all add: fault_free_def sample_os_def image_env_def sample_env_def)

lemma image_fresh:
  "irst_URL (ir_Status (parent image_state)) = []" "irst_Artifact (ir_Status (parent image_state)) = None"
  by (simp_all add: image_state_def)

lemma artifacts_root: "''/artifacts'' \<noteq> []" "''reg/app@sha'' \<noteq> []"
  by simp_all

theorem pull_sync_succeeds_witness:
  "is_Ok (fst (ImageRepositoryPullImageSync image_env ''/artifacts'' ''host'' image_state))"
  using pull_sync_succeeds [OF image_free image_pull_laws image_digest_laws artifacts_root(1) image_names
      image_stash(1) artifacts_root(2) image_new_digest image_fresh image_delivers image_ready, of "''host''"]
  by auto

theorem pull_sync_confined_witness:
  "works [''tmp'', ''image.7''] [''artifacts'', ''imagerepository'', ''dev'', ''app'']
     (disk image_state) (disk (snd (ImageRepositoryPullImageSync image_env ''/artifacts'' ''host'' image_state)))"
  using pull_sync_confined [OF image_pull_laws image_digest_laws image_wf artifacts_root(1) image_names, of "''host''"]
  unfolding image_temp_path image_dir_path by (metis prod.collapse)

theorem pull_sync_status_invariant_witness:
  "image_status_ok (parent (snd (ImageRepositoryPullImageSync image_env ''/artifacts'' ''host'' image_state)))"
proof -
  have ok: "image_status_ok (parent image_state)" by (simp add: image_status_ok_def image_fresh)
  show ?thesis
    using pull_sync_status_invariant [OF image_pull_laws image_digest_laws image_wf artifacts_root(1) image_names
        surjective_pairing ok, of "''host''"] by blast
qed

theorem pull_sync_publishes_witness:
  "\<exists>s' a. ImageRepositoryPullImageSync image_env ''/artifacts'' ''host'' image_state = (Ok (), s') \<and>
     available image_env ''/artifacts'' ''imagerepository'' (ir_Meta (parent image_state)) a (disk s')"
proof -
  have par: "image_temp image_env (disk image_state) \<parallel> image_dir image_env ''/artifacts'' image_state"
    and new: "\<forall>n. fs_get (disk image_state) (image_dir image_env ''/artifacts'' image_state @ [n @ ''.new'']) \<noteq> Some Dir"
    using image_ready by (simp_all add: disk_ready_def)
  have create: "can_create (os image_env)" using image_free by (simp add: can_create_def)
  obtain s' a where run: "ImageRepositoryPullImageSync image_env ''/artifacts'' ''host'' image_state = (Ok (), s')"
    and a: "irst_Artifact (ir_Status (parent s')) = Some a"
    using pull_sync_total [OF image_free image_pull_laws image_digest_laws artifacts_root(1) image_names
      image_stash(1) artifacts_root(2) image_new_digest image_fresh image_delivers image_ready, of "''host''"] by blast
  from pull_sync_publishes [OF image_pull_laws image_digest_laws image_wf artifacts_root(1) image_names par create new run]
  show ?thesis using run a image_fresh(2) by (auto simp: keeps_image_def)
qed

end
