(* ===== verification/Manager.thy ===== *)
theory Manager
  imports Artifact_Server Maven_Live Image_Live
begin

text \<open>
  The program as \<^verbatim>\<open>main.go\<close> puts it together: its flags, the two reconcilers and the artifact
  server on one root directory, and what follows for a client: what a reconciler announces the
  server serves.
\<close>

section \<open>Flags and wiring\<close>

record flags =
  metricsAddr :: string
  enableLeaderElection :: bool
  probeAddr :: string
  artifactAddr :: string
  artifactRootDir :: string
  artifactHost :: string
  caCertPath :: string

definition default_flags :: flags where
  "default_flags =
     \<lparr>metricsAddr = '':0'', enableLeaderElection = False, probeAddr = '':8081'', artifactAddr = '':8082'',
      artifactRootDir = ''./artifact-root'', artifactHost = ''localhost:8082'', caCertPath = []\<rparr>"

definition main_certs :: "flags \<Rightarrow> Cert list" where
  "main_certs f = [\<lparr>Path = caCertPath f, Certificate = None, Raw = []\<rparr>]"

text \<open>What \<^verbatim>\<open>main\<close> adds to the manager it starts.\<close>

record manager =
  mg_ImageRepository :: "ImageRepository ResourceReconciler"
  mg_MavenArtifact :: "MavenArtifact ResourceReconciler"
  mg_Server :: artifact_server

definition main_manager :: "env \<Rightarrow> flags \<Rightarrow> manager" where
  "main_manager e f =
     \<lparr>mg_ImageRepository = ImageRepositoryReconciler e (artifactRootDir f) (artifactHost f) (main_certs f),
      mg_MavenArtifact = MavenArtifactReconciler e (artifactRootDir f) (artifactHost f) (main_certs f),
      mg_Server = New (artifactAddr f) (artifactRootDir f)\<rparr>"

section \<open>What is announced is served\<close>

definition plain_names :: "ObjectMeta \<Rightarrow> bool" where
  "plain_names meta \<longleftrightarrow> names_ok meta \<and> plain (Namespace meta) \<and> plain (Name meta)"

text \<open>
  A client that gets the announced path receives bytes with the announced checksum.
\<close>

definition served :: "env \<Rightarrow> flags \<Rightarrow> Artifact \<Rightarrow> fs \<Rightarrow> bool" where
  "served e f a fs \<longleftrightarrow>
     (\<exists>c. handler e (mg_Server (main_manager e f)) (slash # a_Path a) fs = Content c \<and> sha1_hex c = a_Checksum a)"

lemma available_served:
  assumes "fault_free (os e)" and "artifactRootDir f \<noteq> []" and "plain_names meta"
    and "kind = ''mavenartifact'' \<or> kind = ''imagerepository''"
    and "available e (artifactRootDir f) kind meta a fs"
  shows "served e f a fs"
  using assms handler_serves_available [of e "artifactRootDir f" kind meta a fs "artifactAddr f"]
  by (auto simp: served_def main_manager_def plain_names_def)

text \<open>
  End to end for MavenArtifact. When the third reconciler that \<^verbatim>\<open>main\<close> sets up returns without
  an error and has changed the artifact of the status, the artifact server that \<^verbatim>\<open>main\<close> sets up
  answers the announced path with bytes whose SHA-1 is the announced checksum.
\<close>

theorem maven_artifact_served:
  assumes "sr_Sync (rr_Sequence (mg_MavenArtifact (main_manager e f)) ! 2) = Sync sync" and "sync s = (Ok (), s')"
    and "mst_Artifact (ma_Status (parent s')) \<noteq> mst_Artifact (ma_Status (parent s))"
    and "fault_free (os e)" and "fs_wf (disk s)" and "artifactRootDir f \<noteq> []"
    and "plain_names (ma_Meta (parent s))" and "details_ok e (stashed s)"
    and "disk_ready (disk s) (maven_temp e (disk s)) (maven_dir e (artifactRootDir f) s)"
  shows "\<exists>a. mst_Artifact (ma_Status (parent s')) = Some a \<and> mst_URL (ma_Status (parent s')) = a_URL a \<and>
    a_URL a = ''http://'' @ Join [artifactHost f, a_Path a] \<and> served e f a (disk s')"
proof -
  have run: "MavenArtifactDownloadSync e (artifactRootDir f) (artifactHost f) s = (Ok (), s')"
    using assms(1,2) by (simp add: main_manager_def MavenArtifactReconciler_def MavenArtifactDownloadSyncReconciler_def)
  have create: "can_create (os e)" using assms(4) by (simp add: can_create_def)
  have "\<not> keeps_resource s s'" using assms(3) by (auto simp: keeps_resource_def)
  moreover have "names_ok (ma_Meta (parent s))" using assms(7) by (simp add: plain_names_def)
  ultimately show ?thesis
    using download_sync_result [OF assms(5,6) _ assms(8) _ create _ run] assms(9)
      available_served [OF assms(4,6,7)] unfolding disk_ready_def by blast
qed

text \<open>End to end for ImageRepository, in the same way.\<close>

theorem image_served:
  assumes "sr_Sync (rr_Sequence (mg_ImageRepository (main_manager e f)) ! 3) = Sync sync" and "sync s = (Ok (), s')"
    and "irst_Artifact (ir_Status (parent s')) \<noteq> irst_Artifact (ir_Status (parent s))"
    and "pull_laws e" "digest_laws e" and "fault_free (os e)" and "fs_wf (disk s)" and "artifactRootDir f \<noteq> []"
    and "plain_names (ir_Meta (parent s))"
    and "disk_ready (disk s) (image_temp e (disk s)) (image_dir e (artifactRootDir f) s)"
  shows "\<exists>a. irst_Artifact (ir_Status (parent s')) = Some a \<and> irst_URL (ir_Status (parent s')) = a_URL a \<and>
    a_URL a = ''http://'' @ artifactHost f @ ''/'' @ a_Path a \<and> served e f a (disk s')"
proof -
  have run: "ImageRepositoryPullImageSync e (artifactRootDir f) (artifactHost f) s = (Ok (), s')"
    using assms(1,2) by (simp add: main_manager_def ImageRepositoryReconciler_def ImageRepositoryPullImageSyncReconciler_def)
  have create: "can_create (os e)" using assms(6) by (simp add: can_create_def)
  have "\<not> keeps_image s s'" using assms(3) by (auto simp: keeps_image_def)
  moreover have "names_ok (ir_Meta (parent s))" using assms(9) by (simp add: plain_names_def)
  ultimately show ?thesis
    using pull_sync_result [OF assms(4,5,7,8) _ _ create _ run] assms(10)
      available_served [OF assms(6,8,9)] unfolding disk_ready_def by blast
qed

section \<open>Both at work\<close>

definition sample_flags :: flags where
  "sample_flags = default_flags\<lparr>artifactRootDir := ''/artifacts'', artifactHost := ''host''\<rparr>"

lemma sample_flag_values: "artifactRootDir sample_flags = ''/artifacts''" "artifactHost sample_flags = ''host''"
  by (simp_all add: sample_flags_def)

lemma maven_third:
  "sr_Sync (rr_Sequence (mg_MavenArtifact (main_manager e f)) ! 2) =
     Sync (MavenArtifactDownloadSync e (artifactRootDir f) (artifactHost f))"
  by (simp add: main_manager_def MavenArtifactReconciler_def MavenArtifactDownloadSyncReconciler_def)

lemma image_fourth:
  "sr_Sync (rr_Sequence (mg_ImageRepository (main_manager e f)) ! 3) =
     Sync (ImageRepositoryPullImageSync e (artifactRootDir f) (artifactHost f))"
  by (simp add: main_manager_def ImageRepositoryReconciler_def ImageRepositoryPullImageSyncReconciler_def)

theorem maven_artifact_served_witness:
  "\<exists>s' a. MavenArtifactDownloadSync repo_env ''/artifacts'' ''host'' repo_state = (Ok (), s') \<and>
     served repo_env sample_flags a (disk s')"
proof -
  have cache: "is_Ok (retrieveChecksumFromFile repo_env (disk repo_state)
      (cache_file ''/artifacts'' (parent repo_state) repo_info))" unfolding repo_cache by simp
  obtain s' a where run: "MavenArtifactDownloadSync repo_env ''/artifacts'' ''host'' repo_state = (Ok (), s')"
    and a: "mst_Artifact (ma_Status (parent s')) = Some a"
    using download_sync_total [OF repo_free artifacts_root(1) repo_names repo_stash(1-3) repo_file repo_serves
      disjI2 [OF repo_not_zip] cache repo_stash(4) repo_ready, of "''host''"] by blast
  have plain: "plain_names (ma_Meta (parent repo_state))"
    using repo_names by (simp add: plain_names_def)
  have "\<exists>a. mst_Artifact (ma_Status (parent s')) = Some a \<and> mst_URL (ma_Status (parent s')) = a_URL a \<and>
    a_URL a = ''http://'' @ Join [artifactHost sample_flags, a_Path a] \<and> served repo_env sample_flags a (disk s')"
    using maven_artifact_served [OF maven_third, of repo_env sample_flags repo_state s']
      run a repo_stash(4) repo_free(1) repo_wf plain repo_details repo_ready
    unfolding sample_flag_values by simp
  with run show ?thesis by blast
qed

theorem image_served_witness:
  "\<exists>s' a. ImageRepositoryPullImageSync image_env ''/artifacts'' ''host'' image_state = (Ok (), s') \<and>
     served image_env sample_flags a (disk s')"
proof -
  obtain s' a where run: "ImageRepositoryPullImageSync image_env ''/artifacts'' ''host'' image_state = (Ok (), s')"
    and a: "irst_Artifact (ir_Status (parent s')) = Some a"
    using pull_sync_total [OF image_free image_pull_laws image_digest_laws artifacts_root(1) image_names
      image_stash(1) artifacts_root(2) image_new_digest image_fresh image_delivers image_ready, of "''host''"] by blast
  have plain: "plain_names (ir_Meta (parent image_state))"
    using image_names by (simp add: plain_names_def image_state_def)
  have "\<exists>a. irst_Artifact (ir_Status (parent s')) = Some a \<and> irst_URL (ir_Status (parent s')) = a_URL a \<and>
    a_URL a = ''http://'' @ artifactHost sample_flags @ ''/'' @ a_Path a \<and> served image_env sample_flags a (disk s')"
    using image_served [OF image_fourth, of image_env sample_flags image_state s']
      run a image_fresh(2) image_free(1) image_pull_laws image_digest_laws image_wf plain image_ready
    unfolding sample_flag_values by simp
  with run show ?thesis by blast
qed

end
