(* ===== verification/Maven_Steps.thy ===== *)
theory Maven_Steps
  imports Maven_Sync
begin

text \<open>
  The other sub-reconcilers of MavenArtifact: secrets, version, finalizer, and the table of errors
  of a download. \<open>quiet\<close> is what the first two share: they leave the disk and everything of the
  resource but its conditions.
\<close>

section \<open>Steps that leave the disk\<close>

definition quiet :: "mstate \<Rightarrow> mstate \<Rightarrow> bool" where
  "quiet s s' \<longleftrightarrow>
     disk s' = disk s \<and> ma_Meta (parent s') = ma_Meta (parent s) \<and> ma_Spec (parent s') = ma_Spec (parent s) \<and>
     mst_URL (ma_Status (parent s')) = mst_URL (ma_Status (parent s)) \<and>
     mst_Artifact (ma_Status (parent s')) = mst_Artifact (ma_Status (parent s))"

lemma quiet_refl [simp]: "quiet s s"
  by (simp add: quiet_def)

lemma quiet_trans: "quiet a b \<Longrightarrow> quiet b c \<Longrightarrow> quiet a c"
  by (simp add: quiet_def)

lemma stash_keys [simp]:
  "MavenArtifactHttpClientKey \<noteq> MavenArtifactVersionStashKey"
  "MavenArtifactAuthSecretStashKey \<noteq> MavenArtifactVersionStashKey"
  "MavenArtifactAuthSecretStashKey \<noteq> MavenArtifactHttpClientKey"
  "MavenArtifactVersionStashKey \<noteq> MavenArtifactHttpClientKey"
  by (simp_all add: MavenArtifactHttpClientKey_def MavenArtifactVersionStashKey_def MavenArtifactAuthSecretStashKey_def)

text \<open>Retrieving from the stash after stashing, under the laws of the runtime.\<close>

lemma retrieve_after_stash:
  assumes "stash_laws e"
  shows "retrieveHttpClient e (stashHttpClient e c st) = Some c"
    and "retrieveArtifactVersion e (stashArtifactVersion e d st) = Some d"
    and "retrieveAuthSecret e (stashAuthSecret e x st) = Some x"
    and "retrieveArtifactVersion e (stashHttpClient e c st) = retrieveArtifactVersion e st"
    and "retrieveArtifactVersion e (stashAuthSecret e x st) = retrieveArtifactVersion e st"
    and "retrieveHttpClient e (stashAuthSecret e x st) = retrieveHttpClient e st"
  using assms
  by (simp_all add: stash_laws_def retrieveHttpClient_def stashHttpClient_def retrieveArtifactVersion_def
      stashArtifactVersion_def retrieveAuthSecret_def stashAuthSecret_def)

lemma retrieve_empty:
  "stash_laws e \<Longrightarrow> retrieveArtifactVersion e [] = None"
  "stash_laws e \<Longrightarrow> retrieveHttpClient e [] = None"
  by (simp_all add: stash_laws_def retrieveArtifactVersion_def retrieveHttpClient_def)

section \<open>Secrets\<close>

lemma stash_client_cases:
  assumes "stash_client e certs data s = (r, s')"
  shows "(\<exists>er. r = Error er \<and> s' = s) \<or> (\<exists>m. r = Panic m \<and> s' = s) \<or>
    (\<exists>t. r = Ok () \<and> s' = s\<lparr>stashed := stashHttpClient e \<lparr>hc_Transport = t\<rparr> (stashed s)\<rparr> \<and>
       newTransport e (disk s) (case data of None \<Rightarrow> certs
         | Some m \<Rightarrow> certs @ [\<lparr>Path = [], Certificate = None,
             Raw = (case m ''caFile'' of None \<Rightarrow> [] | Some b \<Rightarrow> b)\<rparr>]) = Ok t)"
  using assms by (auto simp: stash_client_def Let_def split: outcome.splits)

lemma secrets_quiet:
  assumes "MavenArtifactSecretsSync e certs s = (r, s')"
  shows "quiet s s'" and "sent s' = sent s"
    and "stash_laws e \<Longrightarrow> retrieveArtifactVersion e (stashed s') = retrieveArtifactVersion e (stashed s)"
proof -
  have "quiet s s' \<and> sent s' = sent s \<and>
    (stash_laws e \<longrightarrow> retrieveArtifactVersion e (stashed s') = retrieveArtifactVersion e (stashed s))"
    using assms
    by (auto simp: MavenArtifactSecretsSync_def Let_def quiet_def retrieve_after_stash
        split: if_splits sum.splits dest!: stash_client_cases)
  then show "quiet s s'" "sent s' = sent s"
    "stash_laws e \<Longrightarrow> retrieveArtifactVersion e (stashed s') = retrieveArtifactVersion e (stashed s)" by blast+
qed

section \<open>Errors of a download\<close>

text \<open>The resource after a condition was set to false.\<close>

definition marked_false :: "env \<Rightarrow> string \<Rightarrow> mstate \<Rightarrow> mstate \<Rightarrow> bool" where
  "marked_false e t s s' \<longleftrightarrow>
     (\<exists>reason m as. s' = s\<lparr>parent := ma_MarkFalse (cond e) t reason m as (parent s)\<rparr>)"

lemma marked_falseI [simp]: "marked_false e t s (s\<lparr>parent := ma_MarkFalse (cond e) t reason m as (parent s)\<rparr>)"
  unfolding marked_false_def by (intro exI) (rule refl)

lemma marked_false_quiet: "marked_false e t s s' \<Longrightarrow> quiet s s' \<and> stashed s' = stashed s \<and> sent s' = sent s"
  by (auto simp: marked_false_def quiet_def)

lemma handle_cases:
  assumes "handle_download_error e dm err s = (r, s')"
  shows "(\<exists>inner code. err = DownloadError inner code \<and> (code = 429 \<or> code \<ge> 500) \<and> r = Error inner \<and> s' = s) \<or>
    (\<forall>inner code. err = DownloadError inner code \<longrightarrow> code \<noteq> 429 \<and> code < 500) \<and>
    r = Ok () \<and> marked_false e (dm_Type dm) s s'"
  using assms
  by (auto simp: handle_download_error_def Let_def split: if_splits prod.splits go_error.splits)

section \<open>Version\<close>

lemma Resolve_result:
  assumes "Resolve e st client mr log = (res, mr', log')"
  shows "\<not> is_Panic res" and "res = Ok () \<Longrightarrow> proper (ResolvedFilename mr')"
    and "creds_log e st log log'"
  using assms resolver.no_panic [of e st client mr log] resolver.resolved resolver.log_kept resolved_ok_proper
  by fastforce+

text \<open>Either the version is resolved, its details are stashed and the condition is true, or not.\<close>

lemma resolve_version_cases:
  assumes "resolve_version e client u s = (r, s')"
  obtains (resolved) d sent' m as where "r = Ok ()" and "proper (ResolvedFileName d)"
      and "s' = s\<lparr>parent := ma_MarkTrue (cond e) MavenArtifactConditionArtifactResolved ''Resolved'' m as (parent s),
             stashed := stashArtifactVersion e d (stashed s), sent := sent'\<rparr>"
      and "creds_log e (stashed s) (sent s) sent'"
  | (failed) sent' where "creds_log e (stashed s) (sent s) sent'"
      and "marked_false e MavenArtifactConditionArtifactResolved (s\<lparr>sent := sent'\<rparr>) s' \<and> r = Ok () \<or>
        (\<exists>er. r = Error er) \<and> s' = s\<lparr>sent := sent'\<rparr>"
proof -
  let ?a = "ms_Artifact (ma_Spec (parent s))"
  let ?mr = "\<lparr>mr_Artifact = ?a, RepositoryURL = u_String u,
      RequestPath = ReplaceAll (GroupId ?a) (CHR ''.'') (CHR ''/'') @ ''/'' @ ArtifactId ?a,
      ResolvedVersion = [], ResolvedFilename = [], DownloadURL = [], MetaXML = []\<rparr>"
  obtain res mr' sent' where R: "Resolve e (stashed s) client ?mr (sent s) = (res, mr', sent')"
    by (cases "Resolve e (stashed s) client ?mr (sent s)") auto
  note rr = Resolve_result [OF R]
  show thesis
  proof (cases res)
    case (Ok x)
    then have "res = Ok ()" by simp
    with assms R rr(2,3) show thesis
      by (intro resolved [of "\<lparr>ResolvedFileName = ResolvedFilename mr',
          ArtifactVersion = at_Version (mr_Artifact mr'), ArtifactDownloadURL = DownloadURL mr'\<rparr>"])
        (auto simp: resolve_version_def Let_def)
  next
    case (Error err)
    with assms R have h: "handle_download_error e (version_messages (parent s) err) err (s\<lparr>sent := sent'\<rparr>) = (r, s')"
      by (simp add: resolve_version_def Let_def)
    have "dm_Type (version_messages (parent s) err) = MavenArtifactConditionArtifactResolved"
      by (simp add: version_messages_def Let_def)
    with handle_cases [OF h] rr(3) show thesis by (intro failed [of sent']) auto
  next
    case (Panic m)
    with rr(1) show thesis by simp
  qed
qed

lemma version_sync_cases:
  assumes "MavenArtifactVersionSync e s = (r, s')"
  obtains (noclient) "retrieveHttpClient e (stashed s) = None" and "r = Ok ()" and "s' = s"
  | (nil) "ms_Timeout (ma_Spec (parent s)) = None" and "is_Panic r" and "s' = s"
  | (config) "r = Ok ()" and "marked_false e MavenArtifactConditionArtifactResolved s s'"
  | (run) client u where "resolve_version e client u s = (r, s')" and "u_Scheme u = ''https''"
proof (cases "retrieveHttpClient e (stashed s)")
  case None
  with assms show thesis by (intro noclient) (simp_all add: MavenArtifactVersionSync_def)
next
  case client: (Some client)
  show thesis
  proof (cases "ms_Timeout (ma_Spec (parent s))")
    case None
    with assms client show thesis by (intro nil) (auto simp: MavenArtifactVersionSync_def)
  next
    case timeout: (Some timeout)
    show thesis
    proof (cases "url_Parse (http e) (repo_URL (ms_Repository (ma_Spec (parent s))))")
      case (Inl m)
      with assms client timeout show thesis by (intro config) (auto simp: MavenArtifactVersionSync_def Let_def)
    next
      case (Inr u)
      show thesis
      proof (cases "u_Scheme u = ''https''")
        case True
        with assms client timeout Inr show thesis
          by (intro run [of client u]) (simp_all add: MavenArtifactVersionSync_def Let_def)
      next
        case False
        with assms client timeout Inr show thesis
          by (intro config) (auto simp: MavenArtifactVersionSync_def Let_def)
      qed
    qed
  qed
qed

text \<open>What the version reconciler leaves, and that it stashes only details with a proper file name.\<close>

lemma version_sync_result:
  assumes run: "MavenArtifactVersionSync e s = (r, s')"
  shows "quiet s s'" and "creds_log e (stashed s) (sent s) (sent s')"
    and "is_Panic r \<longleftrightarrow> retrieveHttpClient e (stashed s) \<noteq> None \<and> ms_Timeout (ma_Spec (parent s)) = None"
    and "stashed s' = stashed s \<or>
      (\<exists>d. stashed s' = stashArtifactVersion e d (stashed s) \<and> proper (ResolvedFileName d))"
proof -
  have "quiet s s' \<and> creds_log e (stashed s) (sent s) (sent s') \<and>
    (is_Panic r \<longrightarrow> ms_Timeout (ma_Spec (parent s)) = None) \<and>
    (stashed s' = stashed s \<or> (\<exists>d. stashed s' = stashArtifactVersion e d (stashed s) \<and> proper (ResolvedFileName d)))"
    using run
  proof (cases rule: version_sync_cases)
    case (config)
    with marked_false_quiet show ?thesis by auto
  next
    case (run client u)
    from run(1) show ?thesis
    proof (cases rule: resolve_version_cases)
      case (resolved d sent' m as)
      then show ?thesis by (auto simp: quiet_def)
    next
      case (failed sent')
      then show ?thesis using marked_false_quiet [of e _ "s\<lparr>sent := sent'\<rparr>" s'] by (auto simp: quiet_def)
    qed
  qed auto
  then show "quiet s s'" "creds_log e (stashed s) (sent s) (sent s')"
    and st: "stashed s' = stashed s \<or>
      (\<exists>d. stashed s' = stashArtifactVersion e d (stashed s) \<and> proper (ResolvedFileName d))" by blast+
  have "is_Panic r" if "retrieveHttpClient e (stashed s) \<noteq> None" "ms_Timeout (ma_Spec (parent s)) = None"
    using that run by (auto simp: MavenArtifactVersionSync_def)
  moreover have "retrieveHttpClient e (stashed s) \<noteq> None" if "is_Panic r"
  proof
    assume "retrieveHttpClient e (stashed s) = None"
    then have "r = Ok ()" using run by (simp add: MavenArtifactVersionSync_def)
    with that show False by simp
  qed
  ultimately show "is_Panic r \<longleftrightarrow> retrieveHttpClient e (stashed s) \<noteq> None \<and> ms_Timeout (ma_Spec (parent s)) = None"
    using \<open>quiet s s' \<and> _\<close> by blast
qed

text \<open>The status of a condition, when it has one.\<close>

definition condition_status :: "string \<Rightarrow> MavenArtifact \<Rightarrow> string option" where
  "condition_status t p = map_option c_Status (find_condition t (mst_Conditions (ma_Status p)))"

lemma condition_after_mark:
  assumes "condition_laws (cond e)" and "t \<in> set MavenArtifactCondSet"
  shows "condition_status t (ma_MarkTrue (cond e) t r m as p) = Some ''True''"
    and "condition_status t (ma_MarkFalse (cond e) t r m as p) = Some ''False''"
  using assms by (simp_all add: condition_laws_def condition_status_def ma_MarkTrue_def ma_MarkFalse_def)

lemma marked_false_status:
  "condition_laws (cond e) \<Longrightarrow> t \<in> set MavenArtifactCondSet \<Longrightarrow> marked_false e t s s' \<Longrightarrow>
   condition_status t (parent s') = Some ''False''"
  using condition_after_mark(2) by (auto simp: marked_false_def)

lemma resolved_in_set [simp]: "MavenArtifactConditionArtifactResolved \<in> set MavenArtifactCondSet"
  by (simp add: MavenArtifactCondSet_def)

lemma version_sync_stashes:
  assumes laws: "stash_laws e" "condition_laws (cond e)"
    and pre: "retrieveHttpClient e (stashed s) \<noteq> None" "ms_Timeout (ma_Spec (parent s)) \<noteq> None"
      "retrieveArtifactVersion e (stashed s) = None"
    and run: "MavenArtifactVersionSync e s = (Ok (), s')"
  shows "(case retrieveArtifactVersion e (stashed s') of
       None \<Rightarrow> condition_status MavenArtifactConditionArtifactResolved (parent s') = Some ''False''
     | Some d \<Rightarrow> proper (ResolvedFileName d) \<and>
         condition_status MavenArtifactConditionArtifactResolved (parent s') = Some ''True'')"
proof -
  have false: ?thesis if "marked_false e MavenArtifactConditionArtifactResolved s1 s'" "stashed s1 = stashed s" for s1
  proof -
    have "stashed s' = stashed s" using that marked_false_quiet by metis
    moreover have "condition_status MavenArtifactConditionArtifactResolved (parent s') = Some ''False''"
      using that(1) marked_false_status [OF laws(2) resolved_in_set] by blast
    ultimately show ?thesis using pre(3) by simp
  qed
  from run show ?thesis
  proof (cases rule: version_sync_cases)
    case config
    then show ?thesis using false by simp
  next
    case (run client u)
    from run(1) show ?thesis
    proof (cases rule: resolve_version_cases)
      case (resolved d sent' m as)
      then show ?thesis
        using retrieve_after_stash(2) [OF laws(1)] condition_after_mark(1) [OF laws(2) resolved_in_set] by simp
    next
      case (failed sent')
      then show ?thesis using false [of "s\<lparr>sent := sent'\<rparr>"] by auto
    qed
  qed (use pre in auto)
qed

section \<open>Properties\<close>


text \<open>
  C20: the table of errors. An HTTP error with status 429 or from 500 on is returned as it is, for a
  retry, and the resource is untouched; every other error of a download sets the condition to
  false and the reconcile goes on. The disk, metadata, spec, URL, artifact and stash stay.
\<close>

theorem handle_download_error_table:
  assumes "condition_laws (cond e)" and "dm_Type dm \<in> set MavenArtifactCondSet"
    and "handle_download_error e dm err s = (r, s')"
  shows "(\<exists>inner code. err = DownloadError inner code \<and> (code = 429 \<or> code \<ge> 500) \<and> r = Error inner \<and> s' = s) \<or>
    (\<forall>inner code. err = DownloadError inner code \<longrightarrow> code \<noteq> 429 \<and> code < 500) \<and>
    r = Ok () \<and> condition_status (dm_Type dm) (parent s') = Some ''False'' \<and>
      quiet s s' \<and> stashed s' = stashed s \<and> sent s' = sent s"
  using handle_cases [OF assms(3)] marked_false_quiet marked_false_status [OF assms(1,2)] by blast

text \<open>The data of the secret the resource refers to, if it refers to one.\<close>

definition ca_certs :: "(string \<rightharpoonup> string) option \<Rightarrow> Cert list" where
  "ca_certs data =
     (case data of
        None \<Rightarrow> []
      | Some m \<Rightarrow> [\<lparr>Path = [], Certificate = None, Raw = (case m ''caFile'' of None \<Rightarrow> [] | Some b \<Rightarrow> b)\<rparr>])"

definition secret_field :: "(string \<rightharpoonup> string) option \<Rightarrow> string \<Rightarrow> string" where
  "secret_field data k = (case data of None \<Rightarrow> [] | Some m \<Rightarrow> (case m k of None \<Rightarrow> [] | Some v \<Rightarrow> v))"

lemma retrieveAuthSecret_stashHttpClient:
  "stash_laws e \<Longrightarrow> retrieveAuthSecret e (stashHttpClient e c st) = retrieveAuthSecret e st"
  using stash_keys(3)
  by (simp add: stash_laws_def retrieveAuthSecret_def stashHttpClient_def) (metis stash_keys(3))

lemma secrets_sync_data:
  assumes laws: "stash_laws e" "condition_laws (cond e)"
    and run: "MavenArtifactSecretsSync e certs s = (Ok (), s')"
  shows "(\<exists>err. SecretRef (ms_Repository (ma_Spec (parent s))) \<noteq> [] \<and>
      GetSecret e (Namespace (ma_Meta (parent s))) (SecretRef (ms_Repository (ma_Spec (parent s)))) = Inl err \<and>
      IsNotFound e err \<and> stashed s' = stashed s \<and>
      condition_status MavenArtifactConditionArtifactResolved (parent s') = Some ''False'') \<or>
    (\<exists>data t. newTransport e (disk s) (certs @ ca_certs data) = Ok t \<and>
      retrieveHttpClient e (stashed s') = Some \<lparr>hc_Transport = t\<rparr> \<and> parent s' = parent s \<and>
      (if SecretRef (ms_Repository (ma_Spec (parent s))) = []
       then data = None \<and> retrieveAuthSecret e (stashed s') = retrieveAuthSecret e (stashed s)
       else (\<exists>x. GetSecret e (Namespace (ma_Meta (parent s))) (SecretRef (ms_Repository (ma_Spec (parent s)))) = Inr x \<and>
         data = sec_Data x \<and>
         basicAuthCredentialsFromSecret e (stashed s') = (secret_field data ''username'', secret_field data ''password''))))"
proof -
  let ?ref = "SecretRef (ms_Repository (ma_Spec (parent s)))"
  let ?ns = "Namespace (ma_Meta (parent s))"
  have client: "\<exists>t. newTransport e (disk s1) (certs @ ca_certs data) = Ok t \<and>
      s' = s1\<lparr>stashed := stashHttpClient e \<lparr>hc_Transport = t\<rparr> (stashed s1)\<rparr>"
    if "stash_client e certs data s1 = (Ok (), s')" for data s1
    using stash_client_cases [OF that] by (cases data) (auto simp: ca_certs_def)
  show ?thesis
  proof (cases "?ref = []")
    case True
    then have "stash_client e certs None s = (Ok (), s')"
      using run by (simp add: MavenArtifactSecretsSync_def Let_def)
    from client [OF this] True show ?thesis
      using retrieve_after_stash(1) [OF laws(1)] retrieveAuthSecret_stashHttpClient [OF laws(1)]
      by (intro disjI2 exI [of _ None]) auto
  next
    case ref: False
    show ?thesis
    proof (cases "GetSecret e ?ns ?ref")
      case (Inl err)
      with run ref have "IsNotFound e err" "marked_false e MavenArtifactConditionArtifactResolved s s'"
        by (auto simp: MavenArtifactSecretsSync_def Let_def intro: marked_falseI split: if_splits)
      with Inl ref marked_false_status [OF laws(2) resolved_in_set] show ?thesis
        by (auto simp: marked_false_def)
    next
      case (Inr x)
      let ?s1 = "s\<lparr>stashed := stashAuthSecret e x (stashed s)\<rparr>"
      from run ref Inr have "stash_client e certs (sec_Data x) ?s1 = (Ok (), s')"
        by (simp add: MavenArtifactSecretsSync_def Let_def)
      from client [OF this] obtain t where t: "newTransport e (disk s) (certs @ ca_certs (sec_Data x)) = Ok t"
        and s': "s' = ?s1\<lparr>stashed := stashHttpClient e \<lparr>hc_Transport = t\<rparr> (stashed ?s1)\<rparr>" by auto
      have "retrieveAuthSecret e (stashed s') = Some x"
        unfolding s' using retrieveAuthSecret_stashHttpClient [OF laws(1)] retrieve_after_stash(3) [OF laws(1)] by simp
      then have creds: "basicAuthCredentialsFromSecret e (stashed s') =
          (secret_field (sec_Data x) ''username'', secret_field (sec_Data x) ''password'')"
        by (simp add: basicAuthCredentialsFromSecret_def secret_field_def Let_def)
      have "retrieveHttpClient e (stashed s') = Some \<lparr>hc_Transport = t\<rparr>" "parent s' = parent s"
        unfolding s' using retrieve_after_stash(1) [OF laws(1)] by simp_all
      with t creds ref Inr show ?thesis by auto
    qed
  qed
qed

text \<open>
  C21: a run of the secrets reconciler without error leaves one of two states. Either the secret the
  resource refers to is missing, which the condition says, and no client is stashed. Or the client
  is stashed: its transport is made of the certificates of the process and, when the resource refers
  to a secret, that secret's \<^verbatim>\<open>caFile\<close>, and every later request carries that secret's user name and
  password.
\<close>

theorem secrets_sync_outcome:
  assumes "stash_laws e" "condition_laws (cond e)" and "MavenArtifactSecretsSync e certs s = (Ok (), s')"
  shows "(\<exists>err. SecretRef (ms_Repository (ma_Spec (parent s))) \<noteq> [] \<and>
      GetSecret e (Namespace (ma_Meta (parent s))) (SecretRef (ms_Repository (ma_Spec (parent s)))) = Inl err \<and>
      IsNotFound e err \<and> stashed s' = stashed s \<and>
      condition_status MavenArtifactConditionArtifactResolved (parent s') = Some ''False'') \<or>
    (\<exists>data t. newTransport e (disk s) (certs @ ca_certs data) = Ok t \<and>
      retrieveHttpClient e (stashed s') = Some \<lparr>hc_Transport = t\<rparr> \<and> parent s' = parent s \<and>
      (if SecretRef (ms_Repository (ma_Spec (parent s))) = []
       then data = None \<and> retrieveAuthSecret e (stashed s') = retrieveAuthSecret e (stashed s)
       else (\<exists>x. GetSecret e (Namespace (ma_Meta (parent s))) (SecretRef (ms_Repository (ma_Spec (parent s)))) = Inr x \<and>
         data = sec_Data x \<and>
         basicAuthCredentialsFromSecret e (stashed s') = (secret_field data ''username'', secret_field data ''password''))))"
  using assms by (rule secrets_sync_data)

end
