(* ===== verification/Store.thy ===== *)
theory Store
  imports Publishing
begin

text \<open>
  The artifact root as an abstract store: a map from kind, resource and file name to the bytes of
  the published tarball. The operations on the file system below the reconcilers act on it by one
  update or not at all. The locale \<open>flat_publishing\<close> extends \<open>publishing\<close> by the invariant that the
  directory of a resource holds files only.
\<close>

section \<open>The abstract store\<close>

type_synonym store_key = "string \<times> ObjectMeta \<times> string"

definition content :: "fs \<Rightarrow> string list \<Rightarrow> string option" where
  "content fs q = (case fs_get fs q of Some (File c _ _) \<Rightarrow> Some c | _ \<Rightarrow> None)"

definition stored :: "env \<Rightarrow> string \<Rightarrow> fs \<Rightarrow> store_key \<Rightarrow> string option" where
  "stored e root fs = (\<lambda>(kind, meta, nm).
     if tarball_name nm then content fs (resource_dir e root kind meta @ [nm]) else None)"

lemma content_cong: "fs_get fs' q = fs_get fs q \<Longrightarrow> content fs' q = content fs q"
  by (simp add: content_def)

lemma content_Some: "content fs q = Some c \<longleftrightarrow> (\<exists>md mt. fs_get fs q = Some (File c md mt))"
  by (auto simp: content_def split: option.splits node.splits)

lemma available_stored:
  "available e root kind meta a fs \<longleftrightarrow>
     (\<exists>nm c. stored e root fs (kind, meta, nm) = Some c \<and>
        a_Path a = join_with slash [kind, Namespace meta, Name meta, nm] \<and> a_Checksum a = sha1_hex c)"
  by (auto simp: available_def stored_def content_Some split: if_splits)

lemma resource_dir_other:
  assumes "(kind', meta') \<noteq> (kind, meta)"
  shows "\<not> prefix (resource_dir e root kind meta) (resource_dir e root kind' meta' @ [nm])"
    and "\<not> strict_prefix (resource_dir e root kind' meta' @ [nm]) (resource_dir e root kind meta)"
  using assms by (auto simp: resource_dir_def strict_prefix_def dest: prefix_length_le)

lemma works_at:
  "works t d fs fs' \<Longrightarrow> \<not> prefix t q \<Longrightarrow> \<not> prefix d q \<Longrightarrow> \<not> strict_prefix q d \<Longrightarrow>
     fs_get fs' q = fs_get fs q"
  unfolding works_def by blast

lemma below_at: "below t fs fs' \<Longrightarrow> \<not> prefix t q \<Longrightarrow> fs_get fs' q = fs_get fs q"
  by (simp add: below_def)

lemma resource_not_temp:
  assumes "t \<parallel> resolve (cwd (os e)) root"
  shows "\<not> prefix t (resource_dir e root kind meta @ x)"
  using not_below_parallel [OF assms, of "[kind, Namespace meta, Name meta] @ x"]
  unfolding resource_dir_def append_assoc .

text \<open>Work in a temporary directory and in the directory of one resource leaves the others' entries.\<close>

lemma works_stored:
  assumes "works t (resource_dir e root kind meta) fs fs'" and "t \<parallel> resolve (cwd (os e)) root"
    and "(kind', meta') \<noteq> (kind, meta)"
  shows "stored e root fs' (kind', meta', nm) = stored e root fs (kind', meta', nm)"
  using works_at [OF assms(1) resource_not_temp [OF assms(2)] resource_dir_other [OF assms(3)]]
  by (simp add: stored_def content_def)

lemma below_stored:
  assumes "below t fs fs'" and "t \<parallel> resolve (cwd (os e)) root"
  shows "stored e root fs' = stored e root fs"
proof
  fix k :: store_key
  show "stored e root fs' k = stored e root fs k"
    using below_at [OF assms(1) resource_not_temp [OF assms(2)]]
    by (cases k) (simp add: stored_def content_def)
qed

section \<open>Directories that hold files only\<close>

definition flat :: "string list \<Rightarrow> fs \<Rightarrow> bool" where
  "flat d fs \<longleftrightarrow> (\<forall>n. fs_get fs (d @ [n]) \<noteq> Some Dir)"

locale flat_publishing = publishing +
  assumes stays_flat: "guard d \<Longrightarrow> fs_wf fs \<Longrightarrow> flat d fs \<Longrightarrow> flat d (snd (run fs))"
begin

lemma flat_result: "run fs = (r, fs') \<Longrightarrow> guard d \<Longrightarrow> fs_wf fs \<Longrightarrow> flat d fs \<Longrightarrow> flat d fs'"
  using stays_flat [of d fs] by simp

end

lemma flat_publishingI:
  assumes "publishing f P" and "\<And>d fs. P d \<Longrightarrow> fs_wf fs \<Longrightarrow> flat d fs \<Longrightarrow> flat d (snd (f fs))"
  shows "flat_publishing f P"
  using assms by (simp add: flat_publishing_def flat_publishing_axioms_def)

lemma flat_publishingD:
  assumes "flat_publishing f P"
  shows "publishing f P" and "P d \<Longrightarrow> fs_wf fs \<Longrightarrow> flat d fs \<Longrightarrow> flat d (snd (f fs))"
  using assms by (simp_all add: flat_publishing_def flat_publishing_axioms_def)

lemma flat_weaken:
  assumes "flat_publishing f P" and "\<And>d. Q d \<Longrightarrow> P d"
  shows "flat_publishing f Q"
  by (rule flat_publishingI [OF publishing_weaken [OF flat_publishingD(1) [OF assms(1)]]])
    (auto intro: assms(2) flat_publishingD(2) [OF assms(1)])

lemma flat_and_then:
  assumes "flat_publishing f P" and "\<And>x. flat_publishing (g x) P"
  shows "flat_publishing (and_then f g) P"
proof (rule flat_publishingI)
  show "publishing (and_then f g) P"
    by (rule publishing_and_then [OF flat_publishingD(1) [OF assms(1)] flat_publishingD(1) [OF assms(2)]])
next
  fix d fs
  assume d: "P d" "fs_wf fs" "flat d fs"
  have "flat d (snd (f fs))" "fs_wf (snd (f fs))"
    using flat_publishingD(2) [OF assms(1) d] grows_wf [OF publishing.grow [OF flat_publishingD(1) [OF assms(1)] d(1,2)]]
    by blast+
  then show "flat d (snd (and_then f g fs))"
    using flat_publishingD(2) [OF assms(2) d(1)]
    by (auto simp: and_then_def split: prod.splits outcome.splits)
qed

lemma flat_create_or_nil:
  assumes "flat_publishing (os_Create (os e) p) P" and "flat_publishing g P"
  shows "flat_publishing (\<lambda>fs. case os_Create (os e) p fs of
      (Error x, fs') \<Rightarrow> (Ok (), fs') | (Panic m, fs') \<Rightarrow> (Panic m, fs') | (Ok _, fs') \<Rightarrow> g fs') P"
proof (rule flat_publishingI)
  show "publishing (\<lambda>fs. case os_Create (os e) p fs of
      (Error x, fs') \<Rightarrow> (Ok (), fs') | (Panic m, fs') \<Rightarrow> (Panic m, fs') | (Ok _, fs') \<Rightarrow> g fs') P"
    by (rule create_or_nil_publishing [OF flat_publishingD(1) [OF assms(1)] flat_publishingD(1) [OF assms(2)]])
next
  fix d fs
  assume d: "P d" "fs_wf fs" "flat d fs"
  have "flat d (snd (os_Create (os e) p fs))" "fs_wf (snd (os_Create (os e) p fs))"
    using flat_publishingD(2) [OF assms(1) d] grows_wf [OF publishing.grow [OF flat_publishingD(1) [OF assms(1)] d(1,2)]]
    by blast+
  then show "flat d (snd (case os_Create (os e) p fs of
      (Error x, fs') \<Rightarrow> (Ok (), fs') | (Panic m, fs') \<Rightarrow> (Panic m, fs') | (Ok _, fs') \<Rightarrow> g fs'))"
    using flat_publishingD(2) [OF assms(2) d(1)] by (auto split: prod.splits outcome.splits)
qed

text \<open>An operation on one file: it is at the path, unchanged or a file.\<close>

lemma flat_one_file:
  assumes "confined f (\<lambda>q. q = resolve w p)"
    and "\<And>fs. fs_get fs (resolve w p) \<noteq> Some Dir \<Longrightarrow> fs_get (snd (f fs)) (resolve w p) \<noteq> Some Dir"
  shows "flat_publishing f (\<lambda>d. \<exists>n. file_in w p d n)"
proof (rule flat_publishingI [OF into_publishing [OF assms(1)]])
  fix d fs
  assume "\<exists>n. file_in w p d n" and wf: "fs_wf fs" and fl: "flat d fs"
  then obtain n where q: "resolve w p = d @ [n]" using file_in_resolve by blast
  show "flat d (snd (f fs))"
    unfolding flat_def
  proof
    fix m
    show "fs_get (snd (f fs)) (d @ [m]) \<noteq> Some Dir"
      using assms(2) [of fs] confined.frame [OF assms(1) wf, of "d @ [m]"] fl q
      by (cases "m = n") (auto simp: flat_def)
  qed
qed

interpretation mkdir_all_flat: flat_publishing "os_MkdirAll e p" "\<lambda>d. d = resolve (cwd e) p" for e p
proof (rule flat_publishingI [OF mkdir_all_pub.publishing_axioms])
  fix d fs
  assume "d = resolve (cwd e) p" and wf: "fs_wf fs" and "flat d fs"
  then show "flat d (snd (os_MkdirAll e p fs))"
    using mkdir_all.frame [OF wf] by (simp add: flat_def)
qed

interpretation create_flat: flat_publishing "os_OpenTrunc md e p" "\<lambda>d. \<exists>n. file_in (cwd e) p d n" for md e p
  by (rule flat_one_file [OF open_trunc.confined_axioms])
    (auto simp: os_OpenTrunc_def Let_def split: option.splits node.splits)

interpretation write_whole_flat: flat_publishing "os_WriteFile c md e p" "\<lambda>d. \<exists>n. file_in (cwd e) p d n" for c md e p
  by (rule flat_one_file [OF write_whole.confined_axioms])
    (auto simp: os_WriteFile_def os_OpenTrunc_def os_Write_def Let_def split: option.splits node.splits)

interpretation io_copy_flat: flat_publishing "io_Copy e b a" "\<lambda>d. \<exists>n. file_in (cwd (os e)) b d n" for e b a
  by (rule flat_one_file [OF io_copy.confined_axioms])
    (auto simp: io_Copy_def os_Write_def Let_def split: option.splits node.splits outcome.splits)

interpretation open_from_flat: flat_publishing "open_from e p" "\<lambda>_. True" for e p
  by (rule flat_publishingI [OF open_from_publishing]) (simp add: open_from_def)

interpretation rename_flat: flat_publishing "os_Rename e (p @ ''.new'') p" "\<lambda>d. \<exists>n. file_in (cwd e) p d n" for e p
proof (rule flat_publishingI [OF rename_publishing])
  fix d fs
  assume "\<exists>n. file_in (cwd e) p d n" and "fs_wf fs" and fl: "flat d fs"
  then obtain n where q: "resolve (cwd e) p = d @ [n]" "resolve (cwd e) (p @ ''.new'') = d @ [n @ ''.new'']"
    using file_in_resolve file_in_new by blast
  from fl have "fs_get fs (d @ [n @ ''.new'']) \<noteq> Some Dir" by (simp add: flat_def)
  with fl show "flat d (snd (os_Rename e (p @ ''.new'') p fs))"
    unfolding flat_def by (auto simp: os_Rename_def q Let_def split: option.splits node.splits)
qed

interpretation copy_file_flat: flat_publishing "copyFile e a b" "\<lambda>d. \<exists>n. file_in (cwd (os e)) b d n" for e a b
  unfolding copyFile_def
  by (intro flat_and_then flat_create_or_nil flat_weaken [OF open_from_flat.flat_publishing_axioms]
      flat_weaken [OF mkdir_all_flat.flat_publishing_axioms] create_flat.flat_publishing_axioms
      io_copy_flat.flat_publishing_axioms)
    (auto simp: file_in_Dir)

interpretation copy_compressed_flat: flat_publishing "copyCompressedFile e a b"
  "\<lambda>d. \<exists>n. file_in (cwd (os e)) b d n" for e a b
proof -
  let ?P = "\<lambda>d. \<exists>n. file_in (cwd (os e)) b d n"
  have new: "\<exists>n. file_in (cwd (os e)) (b @ ''.new'') d n" if "?P d" for d
    using that file_in_new by blast
  have par: "d = resolve (cwd (os e)) (path_Dir (b @ ''.new''))" if "?P d" for d
    using that file_in_new file_in_Dir by blast
  show "flat_publishing (copyCompressedFile e a b) ?P"
    unfolding copyCompressedFile_def Let_def
    by (intro flat_and_then flat_create_or_nil rename_flat.flat_publishing_axioms
        flat_weaken [OF open_from_flat.flat_publishing_axioms]
        flat_weaken [OF mkdir_all_flat.flat_publishing_axioms] par
        flat_weaken [OF create_flat.flat_publishing_axioms]
        flat_weaken [OF io_copy_flat.flat_publishing_axioms] new TrueI)
qed

section \<open>What a publication leaves alone in its directory\<close>

text \<open>Creating parents and the placeholder, or all of the publication, at most touches these files.\<close>

lemma confined_open_from: "confined (open_from e p) P"
  unfolding open_from_def by (rule confined_return)

lemma copyFile_confined:
  assumes "file_in (cwd (os e)) b d f"
  shows "confined (copyFile e a b) (\<lambda>q. prefix q d \<or> q = d @ [f])"
proof -
  let ?P = "\<lambda>q. prefix q d \<or> q = d @ [f]"
  have r: "resolve (cwd (os e)) b = d @ [f]" "resolve (cwd (os e)) (path_Dir b) = d"
    using file_in_resolve [OF assms] file_in_Dir [OF assms] by simp_all
  have mk: "confined (os_MkdirAll (os e) (path_Dir b)) ?P"
    by (rule confined_weaken [OF mkdir_all.confined_axioms]) (simp add: r)
  have cr: "confined (os_Create (os e) b) ?P"
    by (rule confined_weaken [OF open_trunc.confined_axioms]) (simp add: r)
  have cp: "confined (io_Copy e b a) ?P"
    by (rule confined_weaken [OF io_copy.confined_axioms]) (simp add: r)
  have "confined (\<lambda>fs. case os_Create (os e) b fs of
      (Error x, fs') \<Rightarrow> (Ok (), fs') | (Panic m, fs') \<Rightarrow> (Panic m, fs') | (Ok _, fs') \<Rightarrow> io_Copy e b a fs') ?P"
  proof
    fix q fs
    assume wf: "fs_wf fs"
    let ?c = "case os_Create (os e) b fs of
      (Error x, fs') \<Rightarrow> (Ok (), fs') | (Panic m, fs') \<Rightarrow> (Panic m, fs') | (Ok _, fs') \<Rightarrow> io_Copy e b a fs'"
    have wf1: "fs_wf (snd (os_Create (os e) b fs))" using confined.keeps_wf [OF cr wf] .
    show "fs_wf (snd ?c)"
      using wf1 confined.keeps_wf [OF cp wf1] by (auto split: prod.splits outcome.splits)
    show "fs_get (snd ?c) q = fs_get fs q" if "\<not> ?P q"
      using confined.frame [OF cr wf that] confined.frame [OF cp wf1 that]
      by (auto split: prod.splits outcome.splits)
  qed
  then show ?thesis
    unfolding copyFile_def by (intro confined_and_then mk confined_open_from)
qed

lemma copyCompressedFile_others:
  assumes wf: "fs_wf fs" and to: "file_in (cwd (os e)) to d f" and free: "can_create (os e)" "flat d fs"
    and n: "n \<noteq> f" "n \<noteq> f @ ''.new''"
  shows "fs_get (snd (copyCompressedFile e a to fs)) (d @ [n]) = fs_get fs (d @ [n])"
proof -
  have new: "fs_get fs (d @ [f @ ''.new'']) \<noteq> Some Dir" using free(2) by (simp add: flat_def)
  have r: "resolve (cwd (os e)) to = d @ [f]" "resolve (cwd (os e)) (to @ ''.new'') = d @ [f @ ''.new'']"
    using file_in_resolve [OF to] file_in_resolve [OF file_in_new [OF to]] by simp_all
  note cf = copyFile_confined [OF file_in_new [OF to], of a]
  let ?a = "snd (copyFile e a (to @ ''.new'') fs)"
  have one: "fs_get ?a (d @ [n]) = fs_get fs (d @ [n])"
    using confined.frame [OF cf wf, of "d @ [n]"] n(2) by simp
  have "fs_get (snd (os_Rename (os e) (to @ ''.new'') to ?a)) (d @ [n]) = fs_get ?a (d @ [n])"
    using rename.frame [OF confined.keeps_wf [OF cf wf], where e = "os e" and old = "to @ ''.new''" and new = to and q = "d @ [n]"] n r by simp
  with one show ?thesis
    unfolding copyFile_rename_eq [OF wf to free(1) new, symmetric]
    by (auto simp: and_then_def split: prod.splits outcome.splits)
qed

section \<open>Publishing is one update of the store\<close>

lemma grows_stored:
  assumes "grows (resource_dir e root kind meta) fs fs'" and "(kind', meta') \<noteq> (kind, meta)"
  shows "stored e root fs' (kind', meta', nm) = stored e root fs (kind', meta', nm)"
proof -
  have "fs_get fs' (resource_dir e root kind' meta' @ [nm]) = fs_get fs (resource_dir e root kind' meta' @ [nm])"
    using assms(1) resource_dir_other [OF assms(2)] unfolding grows_def by blast
  then show ?thesis by (simp add: stored_def content_def)
qed

lemma tarball_not_new: "tarball_name nm \<Longrightarrow> nm \<noteq> f @ ''.new''"
proof
  assume "tarball_name nm" "nm = f @ ''.new''"
  then obtain x where "x @ ''.tar.gz'' = f @ ''.new''" by (auto simp: tarball_name_def suffix_def)
  then have "last (x @ ''.tar.gz'') = last (f @ ''.new'')" by simp
  then show False by simp
qed

lemma copyCompressedFile_stored:
  assumes wf: "fs_wf fs" and D: "D = resource_dir e root kind meta" and to: "file_in (cwd (os e)) to D f"
    and f: "tarball_name f" and src: "fs_get fs (resolve (cwd (os e)) from) = Some (File c md mt)"
      "resolve (cwd (os e)) from \<noteq> D @ [f @ ''.new'']"
    and free: "can_create (os e)" "flat D fs"
    and run: "copyCompressedFile e from to fs = (r, fs')"
  shows "flat D fs' \<and> \<not> is_Panic r \<and>
    (stored e root fs' = (if is_Ok r then (stored e root fs)((kind, meta, f) \<mapsto> c) else stored e root fs))"
proof -
  have grow: "grows D fs fs'" using copy_compressed_pub.grow_result [OF run _ wf] to by blast
  have fl: "flat D fs'" using copy_compressed_flat.flat_result [OF run _ wf free(2)] to by blast
  have new: "fs_get fs (D @ [f @ ''.new'']) \<noteq> Some Dir" using free(2) by (simp add: flat_def)
  have others: "stored e root fs' (k, m, n) = stored e root fs (k, m, n)" if "(k, m, n) \<noteq> (kind, meta, f)" for k m n
  proof (cases "(k, m) = (kind, meta)")
    case True
    then show ?thesis
      using that copyCompressedFile_others [OF wf to free, of n "from"] tarball_not_new [of n] run D
      by (auto simp: stored_def content_def)
  next
    case False
    then show ?thesis using grows_stored [OF grow [unfolded D]] by simp
  qed
  have res: "\<not> is_Panic r \<and> (r = Ok () \<and> (\<exists>md mt. fs_get fs' (D @ [f]) = Some (File c md mt)) \<or>
      fs_get fs' (D @ [f]) = fs_get fs (D @ [f]))"
    using copyCompressedFile_result [OF wf to src run] by blast
  have self: "stored e root fs' (kind, meta, f) = (if is_Ok r then Some c else stored e root fs (kind, meta, f))"
  proof (cases r)
    case (Ok u)
    then have "r = Ok ()" by simp
    with run have "copyCompressedFile e from to fs = (Ok (), fs')" by simp
    from copyCompressedFile_done [OF wf to src free(1) new this] show ?thesis
      using f Ok D by (auto simp: stored_def content_def)
  next
    case (Error er)
    with res D show ?thesis by (simp add: stored_def content_def)
  qed (use res in simp)
  have "stored e root fs' = (if is_Ok r then (stored e root fs)((kind, meta, f) \<mapsto> c) else stored e root fs)"
  proof
    fix k :: store_key
    show "stored e root fs' k = (if is_Ok r then (stored e root fs)((kind, meta, f) \<mapsto> c) else stored e root fs) k"
      using others self by (cases k) auto
  qed
  with fl res show ?thesis by blast
qed

section \<open>Temporary directories\<close>

lemma with_temp_dir_stored:
  assumes wf: "fs_wf (disk s)" and run: "with_temp_dir e pattern work s = (r, s')"
    and par: "temp_dir e pattern (disk s) \<parallel> resolve (cwd (os e)) root"
  obtains (failed) "s' = s"
  | (ran) fs1 s2 where "fs_wf fs1" "fs_get fs1 (temp_dir e pattern (disk s)) = Some Dir"
      "stored e root fs1 = stored e root (disk s)"
      "\<And>kind meta. flat (resource_dir e root kind meta) fs1 = flat (resource_dir e root kind meta) (disk s)"
      "work (temp_name pattern (os e) (TempDir (os e)) (disk s)) (s\<lparr>disk := fs1\<rparr>) = (r, s2)"
      "\<exists>d. s' = s2\<lparr>disk := d\<rparr>"
      "fs_wf (disk s2) \<Longrightarrow> stored e root (disk s') = stored e root (disk s2)"
      "\<And>kind meta. fs_wf (disk s2) \<Longrightarrow> flat (resource_dir e root kind meta) (disk s2) \<Longrightarrow>
         flat (resource_dir e root kind meta) (disk s')"
proof (cases rule: with_temp_dir_cases [OF run])
  case (1 er)
  then show thesis using failed by simp
next
  case (2 fs1 s2)
  let ?t = "temp_dir e pattern (disk s)"
  have out: "\<not> prefix ?t (resource_dir e root kind meta @ x)" for kind meta x
    by (rule resource_not_temp [OF par])
  have same1: "fs_get fs1 (resource_dir e root kind meta @ x) = fs_get (disk s) (resource_dir e root kind meta @ x)" for kind meta x
  proof -
    have "resource_dir e root kind meta @ x \<noteq> ?t" using out prefix_order.refl by metis
    then show ?thesis using mkdir.frame_result [OF 2(1) wf] by (simp add: temp_dir_def)
  qed
  have same2: "fs_get (disk s') (resource_dir e root kind meta @ x) = fs_get (disk s2) (resource_dir e root kind meta @ x)"
    if "fs_wf (disk s2)" for kind meta x
    using remove_all.frame [OF that] out 2(3) by (simp add: temp_dir_def)
  show thesis
  proof (rule ran)
    show "fs_wf fs1" by (rule mkdir.wf_result [OF 2(1) wf])
    show "fs_get fs1 ?t = Some Dir" using os_Mkdir_Ok [OF 2(1)] by (simp add: temp_dir_def)
    show "stored e root fs1 = stored e root (disk s)"
      by (rule ext) (auto simp: stored_def content_def same1)
    show "flat (resource_dir e root kind meta) fs1 = flat (resource_dir e root kind meta) (disk s)" for kind meta
      by (simp add: flat_def same1)
    show "stored e root (disk s') = stored e root (disk s2)" if "fs_wf (disk s2)"
      by (rule ext) (auto simp: stored_def content_def same2 [OF that])
    show "flat (resource_dir e root kind meta) (disk s')"
      if "fs_wf (disk s2)" "flat (resource_dir e root kind meta) (disk s2)" for kind meta
      using that(2) by (simp add: flat_def same2 [OF that(1)])
  qed (use 2 in auto)
qed

section \<open>Removing a resource\<close>

lemma remove_resource:
  assumes "root \<noteq> []" and "names_ok meta" and "proper kind"
    and "os_RemoveAll (os e) (Join [root, kind, Namespace meta, Name meta]) fs = (r, fs')"
  shows "fs_get fs' q = (if is_Ok r \<and> prefix (resource_dir e root kind meta) q then None else fs_get fs q)"
    and "fs_wf fs \<Longrightarrow> fs_wf fs'" and "\<not> is_Panic r"
proof -
  have q: "resolve (cwd (os e)) (Join [root, kind, Namespace meta, Name meta]) = resource_dir e root kind meta"
    using resolve_Join_proper [OF assms(1), of "[kind, Namespace meta, Name meta]"] assms(2,3)
    by (simp add: resource_dir_def names_ok_def)
  have "resource_dir e root kind meta \<noteq> []" by (simp add: resource_dir_def)
  then show "fs_get fs' q = (if is_Ok r \<and> prefix (resource_dir e root kind meta) q then None else fs_get fs q)"
    using assms(4) by (auto simp: os_RemoveAll_def q split: option.splits)
  show "fs_wf fs \<Longrightarrow> fs_wf fs'" by (rule remove_all.wf_result [OF assms(4)])
  show "\<not> is_Panic r" using assms(4) by (auto simp: os_RemoveAll_def split: option.splits)
qed

section \<open>The specification of a reconcile\<close>

text \<open>
  What one run of a reconciler may do to the store and to the artifact its resource announces:
  nothing, or put one tarball under a name of this resource and announce it with its checksum.
\<close>

definition publish_spec ::
  "string \<Rightarrow> ObjectMeta \<Rightarrow> (store_key \<Rightarrow> string option) \<times> Artifact option \<Rightarrow>
     (store_key \<Rightarrow> string option) \<times> Artifact option \<Rightarrow> bool" where
  "publish_spec kind meta = (\<lambda>(st, a) (st', a').
     st' = st \<and> a' = a \<or>
     (\<exists>nm c b. tarball_name nm \<and> st' = st((kind, meta, nm) \<mapsto> c) \<and> a' = Some b \<and>
        a_Path b = join_with slash [kind, Namespace meta, Name meta, nm] \<and> a_Checksum b = sha1_hex c))"

text \<open>An announced artifact is in the store.\<close>

definition announced :: "string \<Rightarrow> ObjectMeta \<Rightarrow> (store_key \<Rightarrow> string option) \<times> Artifact option \<Rightarrow> bool" where
  "announced kind meta = (\<lambda>(st, a). case a of
     None \<Rightarrow> True
   | Some b \<Rightarrow> (\<exists>nm c. st (kind, meta, nm) = Some c \<and>
       a_Path b = join_with slash [kind, Namespace meta, Name meta, nm] \<and> a_Checksum b = sha1_hex c))"

lemma publish_spec_refl [simp]: "publish_spec kind meta x x"
  by (cases x) (simp add: publish_spec_def)

lemma publish_spec_announced:
  assumes "publish_spec kind meta x x'" and "announced kind meta x"
  shows "announced kind meta x'"
proof -
  obtain st a st' a' where x: "x = (st, a)" "x' = (st', a')" by fastforce
  from assms(1) [unfolded x publish_spec_def prod.case] show ?thesis
  proof
    assume "st' = st \<and> a' = a"
    with assms(2) x show ?thesis by simp
  next
    assume "\<exists>nm c b. tarball_name nm \<and> st' = st((kind, meta, nm) \<mapsto> c) \<and> a' = Some b \<and>
        a_Path b = join_with slash [kind, Namespace meta, Name meta, nm] \<and> a_Checksum b = sha1_hex c"
    then obtain nm c b where b: "st' = st((kind, meta, nm) \<mapsto> c)" "a' = Some b"
      "a_Path b = join_with slash [kind, Namespace meta, Name meta, nm]" "a_Checksum b = sha1_hex c" by blast
    then have "st' (kind, meta, nm) = Some c" by simp
    with b(3,4) show ?thesis unfolding x announced_def prod.case b(2) option.case by blast
  qed
qed

lemma publish_spec_other:
  assumes "publish_spec kind meta (st, a) (st', a')" and "(kind', meta') \<noteq> (kind, meta)"
  shows "announced kind' meta' (st', b) = announced kind' meta' (st, b)"
  using assms by (auto simp: publish_spec_def announced_def split: option.split)

lemma announced_available:
  "announced kind meta (stored e root fs, Some a) \<longleftrightarrow> available e root kind meta a fs"
  by (simp add: announced_def available_stored)

end
