(* ===== verification/Maven_Store.thy ===== *)
theory Maven_Store
  imports Maven_Sync Store
begin

text \<open>
  The download reconciler of MavenArtifact as a refinement: on the abstract store it is one step
  of \<open>publish_spec\<close>. It writes the download cache between the publication of the tarball and the
  update of the status, so here writes must not fail: \<open>writes_ok\<close>.
\<close>

definition writes_ok :: "os_env \<Rightarrow> bool" where
  "writes_ok e \<longleftrightarrow> can_create e \<and> (\<forall>fs p. io_fault e fs OpWrite p = None)"

lemma fault_free_writes_ok: "fault_free e \<Longrightarrow> writes_ok e"
  by (simp add: writes_ok_def can_create_def)

lemma os_WriteFile_into:
  assumes ok: "writes_ok e" and dir: "fs_get fs (butlast (resolve (cwd e) p)) = Some Dir"
    and nd: "fs_get fs (resolve (cwd e) p) \<noteq> Some Dir"
  shows "fst (os_WriteFile c md e p fs) = Ok ()"
proof -
  have "fst (os_OpenTrunc md e p fs) = Ok ()"
    using ok dir nd
    by (auto simp: os_OpenTrunc_def writes_ok_def can_create_def Let_def split: option.splits node.splits)
  then obtain fs1 where "os_OpenTrunc md e p fs = (Ok (), fs1)" by (metis prod.collapse)
  then show ?thesis using ok by (simp add: os_WriteFile_def os_Write_def writes_ok_def Let_def)
qed

lemma cache_not_tarball: "\<not> tarball_name (f @ ''.sha1'')"
proof
  assume "tarball_name (f @ ''.sha1'')"
  then obtain x where "x @ ''.tar.gz'' = f @ ''.sha1''" by (auto simp: tarball_name_def suffix_def)
  then have "last (x @ ''.tar.gz'') = last (f @ ''.sha1'')" by simp
  then show False by simp
qed

definition maven_abs :: "env \<Rightarrow> string \<Rightarrow> mstate \<Rightarrow> (store_key \<Rightarrow> string option) \<times> Artifact option" where
  "maven_abs e root s = (stored e root (disk s), mst_Artifact (ma_Status (parent s)))"

text \<open>The cache file is no entry of the store.\<close>

lemma cache_stored:
  assumes root: "root \<noteq> []" and names: "names_ok (ma_Meta p)" and info: "proper (ResolvedFileName info)"
    and wf: "fs_wf fs" and run: "os_WriteFile c md (os e) (cache_file root p info) fs = (r, fs')"
  shows "stored e root fs' = stored e root fs"
proof -
  let ?D = "resource_dir e root ''mavenartifact'' (ma_Meta p)"
  have q: "resolve (cwd (os e)) (cache_file root p info) = ?D @ [ResolvedFileName info @ ''.sha1'']"
    by (rule file_in_resolve [OF cache_file_in [OF root names info]])
  have "fs_get fs' (resource_dir e root kind meta @ [nm]) = fs_get fs (resource_dir e root kind meta @ [nm])"
    if "tarball_name nm" for kind meta nm
  proof (rule write_whole.frame_result [OF run wf])
    have "nm \<noteq> ResolvedFileName info @ ''.sha1''" using that cache_not_tarball by blast
    then show "resource_dir e root kind meta @ [nm] \<noteq> resolve (cwd (os e)) (cache_file root p info)"
      by (simp add: q)
  qed
  then show ?thesis by (intro ext) (auto simp: stored_def content_def)
qed

lemma publish_artifact_refines:
  assumes root: "root \<noteq> []" and names: "names_ok (ma_Meta (parent s))" and nm: "tarball_name nm"
    and info: "proper (ResolvedFileName info)" and wf: "fs_wf (disk s)"
    and free: "writes_ok (os e)" "flat (maven_dir e root s) (disk s)"
    and src: "fs_get (disk s) (resolve (cwd (os e)) tgz) = Some (File c md mt)"
      "resolve (cwd (os e)) tgz \<noteq> maven_dir e root s @ [nm @ ''.new'']"
    and run: "publish_artifact e root host info rc (nm, tgz, sha1_hex c) s = (r, s')"
  shows "publish_spec ''mavenartifact'' (ma_Meta (parent s)) (maven_abs e root s) (maven_abs e root s') \<and>
    flat (maven_dir e root s) (disk s')"
proof -
  let ?D = "maven_dir e root s"
  have pnm: "proper nm" using nm by (simp add: tarball_name_def)
  have create: "can_create (os e)" using free(1) by (simp add: writes_ok_def)
  note to = published_file_in [OF root names pnm, of e]
  note cin = cache_file_in [OF root names info, of e]
  obtain r1 fs1 where cp: "copyCompressedFile e tgz (Join [root, maven_http_path (parent s) nm]) (disk s) = (r1, fs1)"
    by fastforce
  note st = copyCompressedFile_stored [OF wf refl to nm src create free(2) cp]
  have wf1: "fs_wf fs1" using copy_compressed_pub.grow_result [OF cp _ wf] to grows_wf by blast
  from run [unfolded publish_artifact_def Let_def prod.case] show ?thesis
  proof (cases rule: and_then_cases)
    case (stop r')
    then have "s' = s\<lparr>disk := fs1\<rparr>" "\<not> is_Ok r1" using cp by (auto simp: on_disk_result)
    with st show ?thesis by (simp add: maven_abs_def)
  next
    case (cont u s1)
    then have s1: "s1 = s\<lparr>disk := fs1\<rparr>" "is_Ok r1" using cp by (auto simp: on_disk_result)
    let ?data = "artifactCache_toString \<lparr>ac_source = ArtifactDownloadURL info, ac_checksum = rc\<rparr>"
    obtain r2 fs2 where w: "os_WriteFile ?data 511 (os e) (cache_file root (parent s) info) fs1 = (r2, fs2)" by fastforce
    have "r1 = Ok ()" using s1(2) by (cases r1) auto
    then have "\<exists>md mt. fs_get fs1 (?D @ [nm]) = Some (File c md mt)"
      using copyCompressedFile_done [OF wf to src create _ ] cp free(2) by (simp add: flat_def)
    then have "fs_get fs1 ?D = Some Dir" using wf1 fs_wf_file_in_dir by fastforce
    moreover have "fs_get fs1 (?D @ [ResolvedFileName info @ ''.sha1'']) \<noteq> Some Dir"
      using st by (simp add: flat_def)
    ultimately have "r2 = Ok ()"
      using os_WriteFile_into [OF free(1), of fs1 "cache_file root (parent s) info" ?data 511] w
        file_in_resolve [OF cin] by simp
    then have ann: "announce_artifact e info (maven_http_path (parent s) nm)
          (''http://'' @ Join [host, maven_http_path (parent s) nm]) (sha1_hex c) (s\<lparr>disk := fs2\<rparr>) = (r, s')"
      using cont(2) s1(1) w by (simp add: and_then_def on_disk_def)
    then have d: "disk s' = fs2" and a: "\<exists>a. mst_Artifact (ma_Status (parent s')) = Some a \<and>
        a_Path a = maven_http_path (parent s) nm \<and> a_Checksum a = sha1_hex c"
      by (auto simp: announce_artifact_def Let_def preserve_fields)
    have "stored e root (disk s') = (stored e root (disk s))((''mavenartifact'', ma_Meta (parent s), nm) \<mapsto> c)"
      using st s1(2) d cache_stored [OF root names info wf1 w] by simp
    with a nm have "publish_spec ''mavenartifact'' (ma_Meta (parent s)) (maven_abs e root s) (maven_abs e root s')"
      unfolding publish_spec_def maven_abs_def prod.case maven_http_path_eq [OF names pnm] by blast
    moreover have "flat ?D fs2" using write_whole_flat.flat_result [OF w _ wf1] cin st by blast
    ultimately show ?thesis using d by simp
  qed
qed

lemma download_in_refines:
  assumes dir: "dir \<noteq> []" and f: "proper (ResolvedFileName info)" and root: "root \<noteq> []"
    and names: "names_ok (ma_Meta (parent s))"
    and wf: "fs_wf (disk s)" "fs_get (disk s) (resolve (cwd (os e)) dir) = Some Dir"
    and par: "resolve (cwd (os e)) dir \<parallel> resolve (cwd (os e)) root"
    and free: "writes_ok (os e)" "flat (maven_dir e root s) (disk s)"
    and run: "download_in e root host info client rc dir s = (r, s')"
  shows "publish_spec ''mavenartifact'' (ma_Meta (parent s)) (maven_abs e root s) (maven_abs e root s') \<and>
    flat (maven_dir e root s) (disk s')"
proof -
  let ?T = "resolve (cwd (os e)) dir"
  let ?D = "maven_dir e root s"
  have step: "maven_abs e root s1 = maven_abs e root s \<and> flat ?D (disk s1)" if "temp_step e ?T s s1" for s1
  proof -
    have b: "below ?T (disk s) (disk s1)" using that wf by (simp add: temp_step_def)
    have "flat ?D (disk s1)"
      using free(2) below_at [OF b resource_not_temp [OF par]] by (simp add: flat_def)
    then show ?thesis
      using that below_stored [OF b par] by (simp add: maven_abs_def temp_step_def keeps_resource_def)
  qed
  show ?thesis
  proof (cases rule: download_in_cases [OF dir f run])
    case 1
    show ?thesis using step [OF 1] by simp
  next
    case (2 s1 x tgz c md mt)
    note s1 = step [OF 2(1)]
    have m: "ma_Meta (parent s1) = ma_Meta (parent s)" and b: "below ?T (disk s) (disk s1)"
      using 2(1) wf by (simp_all add: temp_step_def keeps_resource_def)
    have "prefix ?T (resolve (cwd (os e)) tgz)" using 2(2) by simp
    then have "resolve (cwd (os e)) tgz \<noteq> maven_dir e root s1 @ [(sha1_hex x @ ''.tar.gz'') @ ''.new'']"
      using resource_not_temp [OF par, of "''mavenartifact''" "ma_Meta (parent s1)" "[(sha1_hex x @ ''.tar.gz'') @ ''.new'']"]
      by metis
    then show ?thesis
      using publish_artifact_refines [OF root _ sha1_tarball_name f _ free(1) _ 2(3) _ 2(4)] names s1 b m
      by (simp add: below_def)
  qed
qed

lemma download_sync_spec:
  assumes wf: "fs_wf (disk s)" and root: "root \<noteq> []" and names: "names_ok (ma_Meta (parent s))"
    and det: "details_ok e (stashed s)"
    and par: "maven_temp e (disk s) \<parallel> resolve (cwd (os e)) root"
    and free: "writes_ok (os e)" "flat (maven_dir e root s) (disk s)"
    and run: "MavenArtifactDownloadSync e root host s = (r, s')"
  shows "publish_spec ''mavenartifact'' (ma_Meta (parent s)) (maven_abs e root s) (maven_abs e root s') \<and>
    flat (maven_dir e root s) (disk s')"
proof (cases rule: download_sync_cases [OF run, of "[]"])
  case 1
  then have "maven_abs e root s' = maven_abs e root s"
    by (simp add: maven_abs_def temp_step_def keeps_resource_def)
  with 1 free(2) show ?thesis by simp
next
  case (2 info client rc sent')
  let ?s = "s\<lparr>sent := sent'\<rparr>"
  let ?dir = "temp_name ''maven-artifact.'' (os e) (TempDir (os e)) (disk s)"
  have f: "proper (ResolvedFileName info)" using det 2(1) by (simp add: details_ok_def)
  have T: "resolve (cwd (os e)) ?dir = maven_temp e (disk s)" by (simp add: temp_dir_def)
  have wf': "fs_wf (disk ?s)" and par': "maven_temp e (disk ?s) \<parallel> resolve (cwd (os e)) root"
    using wf par by simp_all
  have abs: "maven_abs e root ?s = maven_abs e root s" by (simp add: maven_abs_def)
  show ?thesis
  proof (cases rule: with_temp_dir_stored [OF wf' 2(3) par'])
    case 1
    with free(2) abs show ?thesis by simp
  next
    case r: (2 fs1 s2)
    let ?s1 = "?s\<lparr>disk := fs1\<rparr>"
    have run': "download_in e root host info client rc ?dir ?s1 = (r, s2)" using r(5) by simp
    have pre: "names_ok (ma_Meta (parent ?s1))" "fs_wf (disk ?s1)"
      "fs_get (disk ?s1) (resolve (cwd (os e)) ?dir) = Some Dir" "flat (maven_dir e root ?s1) (disk ?s1)"
      using r(1,2,4) names free T by simp_all
    have in_: "publish_spec ''mavenartifact'' (ma_Meta (parent s)) (maven_abs e root ?s1) (maven_abs e root s2) \<and>
        flat (maven_dir e root s) (disk s2)"
      using download_in_refines [OF temp_name_not_Nil f root pre(1-3) _ free(1) pre(4) run'] par T by simp
    have wf2: "fs_wf (disk s2)"
      using download_in_frame [OF temp_name_not_Nil f root pre(1-3) run'] by (simp add: works_def)
    have "maven_abs e root ?s1 = maven_abs e root s" "maven_abs e root s' = maven_abs e root s2"
      using r(3,6) r(7) [OF wf2] by (auto simp: maven_abs_def)
    with in_ r(8) [OF wf2] show ?thesis by simp
  qed
qed


end
