(* ===== verification/Maven_Runs.thy ===== *)
theory Maven_Runs
  imports Maven_Steps Maven_Store
begin

text \<open>
  Whole reconciles of a MavenArtifact: when the download can panic, the invariant of the cache files
  that excludes it, and the sequence of the sub-reconcilers as the runtime runs it.
\<close>

section \<open>Absence of panics\<close>

lemma calm_return_state: "(\<And>s. \<not> is_Panic (fst (f s))) \<Longrightarrow> calm f"
  by (simp add: calm_def)

lemma handle_calm [simp]: "calm (handle_download_error e dm err)"
  by (auto simp: calm_def handle_download_error_def Let_def split: go_error.splits prod.splits)

lemma fetch_calm [simp]: "calm (fetch e url client)"
proof (rule calm_return_state)
  fix s :: mstate
  have "buildRequestObject e ''GET'' url a \<noteq> Panic m" for a m
    by (auto simp: buildRequestObject_def split: sum.splits)
  moreover have "client_Do (http e) t st req \<noteq> (Panic m, st')" for t st req m st'
    using client_loop_no_panic unfolding client_Do_def by (metis fst_conv is_Panic_simps(3))
  ultimately show "\<not> is_Panic (fst (fetch e url client s))"
    by (auto simp: fetch_def split: outcome.splits prod.splits)
qed

lemma io_Copy_body_calm [simp]: "calm (io_Copy_body e out resp)"
  unfolding io_Copy_body_def
  by (rule calm_and_then [OF os_calm(2)]) (auto simp: calm_def split: option.splits)

lemma downloadArtifact_calm [simp]: "calm (downloadArtifact e url dir f cs client)"
  unfolding downloadArtifact_def Let_def
  by (intro calm_and_then calm_with_error calm_on_disk)
    (simp_all add: calm_return_state calm_return)

lemma unpack_calm [simp]: "calm (unpack e info dir a)"
  using calm_result [OF calm_on_disk [OF extract_calm]]
  by (fastforce simp: calm_def unpack_def Let_def split: prod.splits outcome.splits)

lemma package_artifact_calm [simp]: "calm (package_artifact e info dir a)"
proof -
  have "calm (make_tarball e dir nm a')" for nm a'
    unfolding make_tarball_def Let_def
    by (intro calm_and_then calm_with_error calm_on_disk) (simp_all add: calm_return)
  then show ?thesis
    unfolding package_artifact_def
    by (intro calm_and_then calm_on_disk) (auto simp: calm_return split: option.split)
qed

lemma publish_artifact_calm [simp]: "calm (publish_artifact e root host info rc pkg)"
proof (rule calm_return_state)
  fix s
  obtain nm tgz ck where p: "pkg = (nm, tgz, ck)" by (cases pkg)
  have "calm (announce_artifact e info a b c)" for a b c
    by (simp add: calm_def announce_artifact_def Let_def)
  then have "calm (and_then (on_disk (copyCompressedFile e a b)) (\<lambda>_. and_then (on_disk (os_WriteFile x md (os e) c))
      (\<lambda>_. announce_artifact e info d f ck)))" for a b c d f md x
    by (intro calm_and_then calm_on_disk os_calm_all) simp_all
  then show "\<not> is_Panic (fst (publish_artifact e root host info rc pkg s))"
    by (simp add: publish_artifact_def p Let_def calm_def)
qed

lemma with_temp_dir_calm:
  assumes "\<And>dir. calm (work dir)"
  shows "calm (with_temp_dir e pat work)"
proof -
  have mk: "calm (os_MkdirTemp pat (os e) d)" for d
    using calm_result [OF os_calm(4)]
    by (fastforce simp: calm_def os_MkdirTemp_def Let_def split: prod.splits outcome.splits)
  have "calm (\<lambda>s. case work dir s of (r, s') \<Rightarrow> (r, s'\<lparr>disk := d s'\<rparr>))" for dir d
    using calm_result [OF assms] by (fastforce simp: calm_def split: prod.splits)
  then show ?thesis
    unfolding with_temp_dir_def by (intro calm_and_then calm_on_disk mk)
qed

lemma download_in_calm [simp]: "calm (download_in e root host info client rc dir)"
proof (rule calm_return_state)
  fix s
  have rest: "calm (and_then (package_artifact e info dir a) (\<lambda>pkg. case pkg of
      None \<Rightarrow> (\<lambda>s. (Ok (), s)) | Some p \<Rightarrow> publish_artifact e root host info rc p))" for a
    by (intro calm_and_then) (auto simp: calm_return split: option.split)
  obtain r s' where d: "downloadArtifact e (ArtifactDownloadURL info) dir (ResolvedFileName info) rc client s = (r, s')"
    by fastforce
  have "\<not> is_Panic r" by (rule calm_result [OF downloadArtifact_calm d])
  then show "\<not> is_Panic (fst (download_in e root host info client rc dir s))"
    using d rest handle_calm by (cases r) (simp_all add: download_in_def calm_def)
qed

text \<open>The download panics for two reasons only: no timeout, or a cache file without the separator.\<close>

lemma download_sync_panics:
  "is_Panic (fst (MavenArtifactDownloadSync e root host s)) \<longleftrightarrow>
     (\<exists>info client. retrieveArtifactVersion e (stashed s) = Some info \<and>
        retrieveHttpClient e (stashed s) = Some client \<and>
        (ms_Timeout (ma_Spec (parent s)) = None \<or>
         is_Ok (fst (downloadChecksum e (stashed s) client (ArtifactDownloadURL info) (sent s))) \<and>
         is_Panic (retrieveChecksumFromFile e (disk s) (cache_file root (parent s) info))))"
proof (cases "\<exists>info client timeout. retrieveArtifactVersion e (stashed s) = Some info \<and>
      retrieveHttpClient e (stashed s) = Some client \<and> ms_Timeout (ma_Spec (parent s)) = Some timeout")
  case False
  then show ?thesis by (auto simp: MavenArtifactDownloadSync_def split: option.splits)
next
  case True
  then obtain info client timeout where i: "retrieveArtifactVersion e (stashed s) = Some info"
    "retrieveHttpClient e (stashed s) = Some client" "ms_Timeout (ma_Spec (parent s)) = Some timeout" by blast
  obtain rd sent' where d: "downloadChecksum e (stashed s) client (ArtifactDownloadURL info) (sent s) = (rd, sent')"
    by fastforce
  have np: "\<not> is_Panic rd" using d unfolding downloadChecksum_def by (rule download_result(2))
  show ?thesis
  proof (cases rd)
    case (Ok rc)
    let ?c = "retrieveChecksumFromFile e (disk s) (cache_file root (parent s) info)"
    have "calm (with_temp_dir e ''maven-artifact.'' (download_in e root host info client rc))"
      by (rule with_temp_dir_calm) simp
    then have w: "\<not> is_Panic (fst (with_temp_dir e ''maven-artifact.'' (download_in e root host info client rc) t))" for t
      by (simp add: calm_def)
    show ?thesis
      using i d Ok w by (cases ?c) (simp_all add: MavenArtifactDownloadSync_def Let_def)
  next
    case (Error err)
    then show ?thesis
      using i d handle_calm [of e "checksum_messages info err" err]
      by (simp add: MavenArtifactDownloadSync_def calm_def)
  qed (use np in simp)
qed

section \<open>The cache files\<close>

text \<open>Every cache file in the directory of a resource holds the separator.\<close>

definition caches_ok :: "string list \<Rightarrow> fs \<Rightarrow> bool" where
  "caches_ok d fs \<longleftrightarrow>
     (\<forall>f c md mt. fs_get fs (d @ [f @ ''.sha1'']) = Some (File c md mt) \<longrightarrow> CHR ''|'' \<in> set c)"

lemma caches_cong:
  "(\<And>f. fs_get fs' (d @ [f @ ''.sha1'']) = fs_get fs (d @ [f @ ''.sha1''])) \<Longrightarrow> caches_ok d fs' = caches_ok d fs"
  by (simp add: caches_ok_def)

lemma Split_two:
  assumes "c \<in> set s"
  shows "\<exists>a b ws. Split s c = a # b # ws"
proof (cases "Split s c")
  case (Cons a ws)
  then have "ws \<noteq> []" using Split_hd [OF assms] join_with_Split [of c s] by auto
  with Cons show ?thesis by (cases ws) auto
qed simp

lemma read_cache_no_panic:
  assumes "caches_ok d fs" and "resolve (cwd (os e)) p = d @ [f @ ''.sha1'']"
  shows "\<not> is_Panic (retrieveChecksumFromFile e fs p)"
proof (cases "os_ReadFile (os e) fs p")
  case (Ok c)
  then obtain md mt where "fs_get fs (resolve (cwd (os e)) p) = Some (File c md mt)"
    by (auto simp: os_ReadFile_def os_lookup_def read_node_def split: outcome.splits option.splits node.splits)
  then have "CHR ''|'' \<in> set c" using assms by (auto simp: caches_ok_def)
  from Split_two [OF this] show ?thesis using Ok by (auto simp: retrieveChecksumFromFile_def)
next
  case (Error er)
  then show ?thesis by (simp add: retrieveChecksumFromFile_def)
next
  case (Panic m)
  then show ?thesis using os_ReadFile_no_panic(2) by simp
qed

lemma os_WriteFile_whole:
  assumes "writes_ok e" and "os_WriteFile c md e p fs = (r, fs')"
  shows "fs' = fs \<or> (\<exists>md mt. fs_get fs' (resolve (cwd e) p) = Some (File c md mt))"
proof -
  obtain r1 fs1 where op: "os_OpenTrunc md e p fs = (r1, fs1)" by fastforce
  from os_Create_cases [OF this] show ?thesis
  proof
    assume "r1 = Ok () \<and> (\<exists>md mt. fs_get fs1 (resolve (cwd e) p) = Some (File [] md mt))"
    then obtain md' mt' where f: "r1 = Ok ()" "fs_get fs1 (resolve (cwd e) p) = Some (File [] md' mt')" by blast
    then have "os_Write c e p fs1 = (r, fs')" using assms(2) op by (simp add: os_WriteFile_def)
    then show ?thesis using assms(1) f(2) by (auto simp: os_Write_def writes_ok_def Let_def)
  next
    assume "(\<exists>er. r1 = Error er) \<and> fs1 = fs"
    then show ?thesis using assms(2) op by (auto simp: os_WriteFile_def)
  qed
qed

lemma publish_artifact_caches:
  assumes root: "root \<noteq> []" and names: "names_ok (ma_Meta (parent s))" and nm: "tarball_name nm"
    and info: "proper (ResolvedFileName info)" and wf: "fs_wf (disk s)"
    and free: "writes_ok (os e)" "flat (maven_dir e root s) (disk s)"
    and ok: "caches_ok (maven_dir e root s) (disk s)"
    and run: "publish_artifact e root host info rc (nm, tgz, ck) s = (r, s')"
  shows "caches_ok (maven_dir e root s) (disk s')"
proof -
  let ?D = "maven_dir e root s"
  have pnm: "proper nm" using nm by (simp add: tarball_name_def)
  have create: "can_create (os e)" using free(1) by (simp add: writes_ok_def)
  note to = published_file_in [OF root names pnm, of e]
  note q = file_in_resolve [OF cache_file_in [OF root names info, of e]]
  have cp: "caches_ok ?D fs1"
    if "copyCompressedFile e tgz (Join [root, maven_http_path (parent s) nm]) (disk s) = (r1, fs1)" for r1 fs1
  proof -
    have "f @ ''.sha1'' \<noteq> nm" "f @ ''.sha1'' \<noteq> nm @ ''.new''" for f
      using nm cache_not_tarball [of f] by auto
    then have "fs_get fs1 (?D @ [f @ ''.sha1'']) = fs_get (disk s) (?D @ [f @ ''.sha1''])" for f
      using copyCompressedFile_others [OF wf to create free(2)] that by (metis snd_conv)
    then show ?thesis using ok caches_cong by blast
  qed
  have cf: "caches_ok ?D fs2"
    if w: "os_WriteFile (artifactCache_toString ac) 511 (os e) (cache_file root (parent s) info) fs1 = (r2, fs2)"
      and ok1: "caches_ok ?D fs1" and wf1: "fs_wf fs1" for ac r2 fs1 fs2
  proof -
    have other: "fs_get fs2 p = fs_get fs1 p" if "p \<noteq> ?D @ [ResolvedFileName info @ ''.sha1'']" for p
      using write_whole.frame_result [OF w wf1] that q by metis
    have sep: "CHR ''|'' \<in> set (artifactCache_toString ac)" by (simp add: artifactCache_toString_def)
    have "CHR ''|'' \<in> set c" if g: "fs_get fs2 (?D @ [f @ ''.sha1'']) = Some (File c md mt)" for f c md mt
    proof (cases "f = ResolvedFileName info")
      case True
      show ?thesis
        using os_WriteFile_whole [OF free(1) w] unfolding q
      proof
        assume "fs2 = fs1"
        with ok1 g show ?thesis by (auto simp: caches_ok_def)
      next
        assume "\<exists>md mt. fs_get fs2 (?D @ [ResolvedFileName info @ ''.sha1'']) =
          Some (File (artifactCache_toString ac) md mt)"
        with g True sep show ?thesis by auto
      qed
    next
      case False
      with g other have "fs_get fs1 (?D @ [f @ ''.sha1'']) = Some (File c md mt)" by simp
      with ok1 show ?thesis unfolding caches_ok_def by blast
    qed
    then show ?thesis unfolding caches_ok_def by blast
  qed
  have wf1: "fs_wf fs1"
    if "copyCompressedFile e tgz (Join [root, maven_http_path (parent s) nm]) (disk s) = (r1, fs1)" for r1 fs1
    using copy_compressed_pub.grow_result [OF that _ wf] to grows_wf by blast
  from run [unfolded publish_artifact_def Let_def prod.case] show ?thesis
  proof (cases rule: and_then_cases)
    case (stop r')
    then show ?thesis using cp by (auto simp: on_disk_result)
  next
    case (cont u s1)
    then obtain fs1 where s1: "s1 = s\<lparr>disk := fs1\<rparr>" "caches_ok ?D fs1" "fs_wf fs1"
      using cp wf1 by (auto simp: on_disk_result)
    from cont(2) show ?thesis
    proof (cases rule: and_then_cases)
      case (stop r')
      then show ?thesis using cf [OF _ s1(2,3)] s1(1) by (auto simp: on_disk_result)
    next
      case (cont v s2)
      then have "caches_ok ?D (disk s2)" using cf [OF _ s1(2,3)] s1(1) by (auto simp: on_disk_result)
      with cont(2) show ?thesis by (auto simp: announce_artifact_def Let_def)
    qed
  qed
qed

lemma download_in_caches:
  assumes dir: "dir \<noteq> []" and f: "proper (ResolvedFileName info)" and root: "root \<noteq> []"
    and names: "names_ok (ma_Meta (parent s))"
    and wf: "fs_wf (disk s)" "fs_get (disk s) (resolve (cwd (os e)) dir) = Some Dir"
    and par: "resolve (cwd (os e)) dir \<parallel> resolve (cwd (os e)) root"
    and free: "writes_ok (os e)" "flat (maven_dir e root s) (disk s)"
    and ok: "caches_ok (maven_dir e root s) (disk s)"
    and run: "download_in e root host info client rc dir s = (r, s')"
  shows "caches_ok (maven_dir e root s) (disk s')"
proof -
  let ?T = "resolve (cwd (os e)) dir"
  let ?D = "maven_dir e root s"
  have step: "flat ?D (disk s1) \<and> caches_ok ?D (disk s1)" if "temp_step e ?T s s1" for s1
  proof -
    have b: "below ?T (disk s) (disk s1)" using that wf by (simp add: temp_step_def)
    have "fs_get (disk s1) (?D @ [n]) = fs_get (disk s) (?D @ [n])" for n
      using below_at [OF b resource_not_temp [OF par]] by simp
    then show ?thesis using free(2) ok by (simp add: flat_def caches_ok_def)
  qed
  show ?thesis
  proof (cases rule: download_in_cases [OF dir f run])
    case 1
    show ?thesis using step [OF 1] by simp
  next
    case (2 s1 x tgz c md mt)
    have m: "ma_Meta (parent s1) = ma_Meta (parent s)" and b: "below ?T (disk s) (disk s1)"
      using 2(1) wf by (simp_all add: temp_step_def keeps_resource_def)
    then show ?thesis
      using publish_artifact_caches [OF root _ sha1_tarball_name f _ free(1) _ _ 2(4)] names step [OF 2(1)]
      by (simp add: below_def)
  qed
qed

lemma download_sync_caches:
  assumes wf: "fs_wf (disk s)" and root: "root \<noteq> []" and names: "names_ok (ma_Meta (parent s))"
    and det: "details_ok e (stashed s)"
    and par: "maven_temp e (disk s) \<parallel> resolve (cwd (os e)) root"
    and free: "writes_ok (os e)" "flat (maven_dir e root s) (disk s)"
    and ok: "caches_ok (maven_dir e root s) (disk s)"
    and run: "MavenArtifactDownloadSync e root host s = (r, s')"
  shows "caches_ok (maven_dir e root s) (disk s')"
proof (cases rule: download_sync_cases [OF run, of "[]"])
  case 1
  then show ?thesis using ok by simp
next
  case (2 info client rc sent')
  let ?s = "s\<lparr>sent := sent'\<rparr>"
  let ?T = "maven_temp e (disk s)"
  have f: "proper (ResolvedFileName info)" using det 2(1) by (simp add: details_ok_def)
  from 2(3) show ?thesis
  proof (cases rule: with_temp_dir_cases)
    case (ran fs1 s2)
    let ?s1 = "?s\<lparr>disk := fs1\<rparr>"
    have fs1: "fs_wf fs1" "fs_get fs1 ?T = Some Dir"
      using ran(1) mkdir.wf_result [OF ran(1)] wf os_Mkdir_Ok [OF ran(1)] by (simp_all add: temp_dir_def)
    have same1: "fs_get fs1 (maven_dir e root s @ x) = fs_get (disk s) (maven_dir e root s @ x)" for x
    proof -
      have "maven_dir e root s @ x \<noteq> ?T" using resource_not_temp [OF par] prefix_order.refl by metis
      then show ?thesis using mkdir.frame_result [OF ran(1)] wf by (simp add: temp_dir_def)
    qed
    have run': "download_in e root host info client rc (temp_name ''maven-artifact.'' (os e) (TempDir (os e)) (disk s)) ?s1 = (r, s2)"
      using ran(2) by simp
    have pre: "names_ok (ma_Meta (parent ?s1))" "fs_wf (disk ?s1)"
      "fs_get (disk ?s1) (resolve (cwd (os e)) (temp_name ''maven-artifact.'' (os e) (TempDir (os e)) (disk s))) = Some Dir"
      "flat (maven_dir e root ?s1) (disk ?s1)" "caches_ok (maven_dir e root ?s1) (disk ?s1)"
      "resolve (cwd (os e)) (temp_name ''maven-artifact.'' (os e) (TempDir (os e)) (disk s)) \<parallel> resolve (cwd (os e)) root"
      using fs1 names same1 free(2) ok par by (simp_all add: temp_dir_def flat_def caches_ok_def)
    have "caches_ok (maven_dir e root s) (disk s2)"
      using download_in_caches [OF temp_name_not_Nil f root pre(1-3,6) free(1) pre(4,5) run'] by simp
    moreover have "fs_wf (disk s2)"
      using download_in_frame [OF temp_name_not_Nil f root pre(1-3) run'] by (simp add: works_def)
    then have "fs_get (disk s') (maven_dir e root s @ x) = fs_get (disk s2) (maven_dir e root s @ x)" for x
      using remove_all.frame resource_not_temp [OF par] ran(3) by (simp add: temp_dir_def)
    ultimately show ?thesis using caches_cong by blast
  qed (use ok in simp)
qed

section \<open>The sequence of sub-reconcilers\<close>

interpretation secrets_step: sync_step "MavenArtifactSecretsSync e certs" quiet for e certs
  by unfold_locales (metis secrets_quiet(1) prod.collapse)

interpretation version_step: sync_step "MavenArtifactVersionSync e" quiet for e
  by unfold_locales (metis version_sync_result(1) prod.collapse)

lemma maven_sequence:
  "rr_Sequence (MavenArtifactReconciler e root host certs) =
     [MavenArtifactSecretsSyncReconciler e certs, MavenArtifactVersionSyncReconciler e,
      MavenArtifactDownloadSyncReconciler e root host, MavenArtifactIntervalReconciler]"
  "sr_Sync (MavenArtifactSecretsSyncReconciler e certs) = Sync (MavenArtifactSecretsSync e certs)"
  "sr_Sync (MavenArtifactVersionSyncReconciler e) = Sync (MavenArtifactVersionSync e)"
  "sr_Sync (MavenArtifactDownloadSyncReconciler e root host) = Sync (MavenArtifactDownloadSync e root host)"
  "sr_Sync MavenArtifactIntervalReconciler = SyncWithResult (\<lambda>s. (Ok (ms_Interval (ma_Spec (parent s))), s))"
  by (simp_all add: MavenArtifactReconciler_def MavenArtifactSecretsSyncReconciler_def
      MavenArtifactVersionSyncReconciler_def MavenArtifactDownloadSyncReconciler_def
      MavenArtifactIntervalReconciler_def)

lemma secrets_no_panic: "MavenArtifactSecretsSync e certs s = (r, s') \<Longrightarrow> \<not> is_Panic r"
  by (auto simp: MavenArtifactSecretsSync_def stash_client_def Let_def newTransport_no_panic
      split: if_splits sum.splits outcome.splits)

lemma maven_run_cases:
  assumes laws: "sequence_laws run" "stash_laws e" and start: "retrieveArtifactVersion e (stashed s) = None"
    and timeout: "ms_Timeout (ma_Spec (parent s)) \<noteq> None"
    and run: "run (rr_Sequence (MavenArtifactReconciler e root host certs)) s = (r, s')"
  obtains (stop) "quiet s s'" and "\<exists>er. r = Error er"
  | (download) s2 r3 where "quiet s s2" and "details_ok e (stashed s2)"
      and "MavenArtifactDownloadSync e root host s2 = (r3, s')"
      and "is_Panic r \<longleftrightarrow> is_Panic r3" and "is_Ok r \<Longrightarrow> r = Ok (ms_Interval (ma_Spec (parent s')))"
proof -
  have err: "\<exists>er. r = Error er" if "\<not> is_Ok r" "\<not> is_Panic r" using that by (cases r) auto
  show thesis
  proof (cases rule: sequence_cases [OF laws(1) maven_sequence(2) run [unfolded maven_sequence(1)]])
    case (1 r1)
    then show thesis using stop secrets_quiet(1) secrets_no_panic err by blast
  next
    case (2 s1)
    have q1: "quiet s s1" by (rule secrets_step.keeps_result [OF 2(1)])
    have none: "retrieveArtifactVersion e (stashed s1) = None"
      using secrets_quiet(3) [OF 2(1) laws(2)] start by simp
    show thesis
    proof (cases rule: sequence_cases [OF laws(1) maven_sequence(3) 2(2)])
      case v: (1 r2)
      have "\<not> is_Panic r2" using version_sync_result(3) [OF v(1)] timeout q1 by (simp add: quiet_def)
      then show thesis using stop quiet_trans [OF q1 version_sync_result(1) [OF v(1)]] v(3,4) err by blast
    next
      case v: (2 s2)
      have q2: "quiet s s2" by (rule quiet_trans [OF q1 version_step.keeps_result [OF v(1)]])
      have det: "details_ok e (stashed s2)"
        using version_sync_result(4) [OF v(1)] none retrieve_after_stash(2) [OF laws(2)]
        by (auto simp: details_ok_def)
      show thesis
      proof (cases rule: sequence_cases [OF laws(1) maven_sequence(4) v(2)])
        case d: (1 r3)
        then show thesis using download [OF q2 det d(1)] by blast
      next
        case d: (2 s3)
        have eq: "s3 = s'" and rq: "r = Ok (ms_Interval (ma_Spec (parent s')))"
          using d(2) sequence_last [OF laws(1) maven_sequence(5), of s3] by auto
        show thesis
          by (rule download [OF q2 det d(1) [unfolded eq]]) (simp_all add: rq)
      qed
    qed
  qed
qed

text \<open>
  The invariant of a MavenArtifact and the disk: the resource is admitted and has a timeout, its
  directory holds files only, its cache files hold the separator, and the artifact its status
  announces is there.
\<close>

definition maven_ok :: "env \<Rightarrow> string \<Rightarrow> MavenArtifact \<Rightarrow> fs \<Rightarrow> bool" where
  "maven_ok e root p fs \<longleftrightarrow>
     fs_wf fs \<and> names_ok (ma_Meta p) \<and> ms_Timeout (ma_Spec p) \<noteq> None \<and>
     flat (resource_dir e root ''mavenartifact'' (ma_Meta p)) fs \<and>
     caches_ok (resource_dir e root ''mavenartifact'' (ma_Meta p)) fs \<and>
     announced ''mavenartifact'' (ma_Meta p) (stored e root fs, mst_Artifact (ma_Status p))"

lemma quiet_ok: "quiet s s' \<Longrightarrow> maven_ok e root (parent s') (disk s') = maven_ok e root (parent s) (disk s)"
  by (simp add: quiet_def maven_ok_def)

lemma maven_run_keeps:
  assumes laws: "sequence_laws run" "stash_laws e" and root: "root \<noteq> []" and "stashed s = []"
    and par: "\<And>fs. maven_temp e fs \<parallel> resolve (cwd (os e)) root" and free: "writes_ok (os e)"
    and ok: "maven_ok e root (parent s) (disk s)"
    and run: "run (rr_Sequence (MavenArtifactReconciler e root host certs)) s = (r, s')"
  shows "maven_ok e root (parent s') (disk s') \<and> \<not> is_Panic r \<and>
    (is_Ok r \<longrightarrow> r = Ok (ms_Interval (ma_Spec (parent s)))) \<and>
    ma_Meta (parent s') = ma_Meta (parent s) \<and> ma_Spec (parent s') = ma_Spec (parent s) \<and>
    (\<exists>t. t \<parallel> resolve (cwd (os e)) root \<and> works t (maven_dir e root s) (disk s) (disk s'))"
proof -
  have wf: "fs_wf (disk s)" and names: "names_ok (ma_Meta (parent s))"
    and timeout: "ms_Timeout (ma_Spec (parent s)) \<noteq> None"
    using ok by (simp_all add: maven_ok_def)
  have none: "retrieveArtifactVersion e (stashed s) = None"
    using assms(4) retrieve_empty(1) [OF laws(2)] by simp
  show ?thesis
  proof (cases rule: maven_run_cases [OF laws none timeout run])
    case 1
    with ok quiet_ok [OF 1(1), of e root] par wf show ?thesis
      by (auto simp: quiet_def intro: works_refl)
  next
    case (2 s2 r3)
    have ok2: "maven_ok e root (parent s2) (disk s2)" using ok quiet_ok [OF 2(1)] by simp
    have eq: "disk s2 = disk s" "ma_Meta (parent s2) = ma_Meta (parent s)" "ma_Spec (parent s2) = ma_Spec (parent s)"
      using 2(1) by (simp_all add: quiet_def)
    have pre: "fs_wf (disk s2)" "names_ok (ma_Meta (parent s2))" "flat (maven_dir e root s2) (disk s2)"
      "caches_ok (maven_dir e root s2) (disk s2)"
      "announced ''mavenartifact'' (ma_Meta (parent s2)) (maven_abs e root s2)"
      using ok2 by (simp_all add: maven_ok_def maven_abs_def)
    note spec = download_sync_spec [OF pre(1) root pre(2) 2(2) par free pre(3) 2(3)]
    have fr: "keeps_request e s2 s'" and w: "works (maven_temp e (disk s2)) (maven_dir e root s2) (disk s2) (disk s')"
      using download_sync_frame [OF pre(1) root pre(2) 2(2,3)] by blast+
    have caches: "caches_ok (maven_dir e root s2) (disk s')"
      by (rule download_sync_caches [OF pre(1) root pre(2) 2(2) par free pre(3,4) 2(3)])
    have ann: "announced ''mavenartifact'' (ma_Meta (parent s2)) (maven_abs e root s')"
      using publish_spec_announced [OF _ pre(5)] spec by blast
    have keep: "ma_Meta (parent s') = ma_Meta (parent s)" "ma_Spec (parent s') = ma_Spec (parent s)"
      using fr eq by (simp_all add: keeps_request_def)
    have ok': "maven_ok e root (parent s') (disk s')"
      using w spec caches ann keep names timeout eq by (simp add: maven_ok_def works_def maven_abs_def)
    have "\<not> is_Panic (retrieveChecksumFromFile e (disk s2) (cache_file root (parent s2) info))"
      if "retrieveArtifactVersion e (stashed s2) = Some info" for info
    proof -
      have "proper (ResolvedFileName info)" using 2(2) that by (simp add: details_ok_def)
      from read_cache_no_panic [OF pre(4) file_in_resolve [OF cache_file_in [OF root pre(2) this]]] show ?thesis .
    qed
    then have "\<not> is_Panic r3"
      using download_sync_panics [of e root host s2] 2(3) timeout eq by auto
    with 2(4,5) ok' keep w par eq show ?thesis by auto
  qed
qed

section \<open>Properties\<close>


end
