(* ===== verification/Image_Store.thy ===== *)
theory Image_Store
  imports Image_Sync Store
begin

text \<open>
  The pull reconciler of ImageRepository as a refinement: on the abstract store it is one step of
  \<open>publish_spec\<close>.
\<close>

lemma and_then_on_disk:
  "and_then (on_disk f) (\<lambda>x. and_then (on_disk (g x)) h) s = and_then (on_disk (and_then f g)) h s"
  by (auto simp: and_then_def on_disk_def split: prod.splits outcome.splits)

text \<open>Where the placeholder can be created the publication is that of \<^verbatim>\<open>copyCompressedFile\<close>.\<close>

lemma publish_image_eq:
  assumes root: "root \<noteq> []" and names: "names_ok (ir_Meta (parent s))" and nm: "proper nm"
    and wf: "fs_wf (disk s)" and free: "can_create (os e)" "flat (image_dir e root s) (disk s)"
  shows "publish_image e root ref (image_http_path (parent s) nm) url tgz ck s =
    and_then (on_disk (copyCompressedFile e tgz (Join [root, image_http_path (parent s) nm])))
      (\<lambda>_. announce_image e ref (image_http_path (parent s) nm) url ck) s"
proof -
  note to = image_file_in [OF root names nm, of e]
  have "fs_get (disk s) (image_dir e root s @ [nm @ ''.new'']) \<noteq> Some Dir" using free(2) by (simp add: flat_def)
  note eq = copyFile_rename_eq [OF wf to free(1) this, of tgz]
  show ?thesis
    unfolding publish_image_def image_placeholder [OF root names nm] and_then_on_disk
    by (simp add: and_then_def on_disk_def eq [unfolded and_then_def])
qed

definition image_abs :: "env \<Rightarrow> string \<Rightarrow> istate \<Rightarrow> (store_key \<Rightarrow> string option) \<times> Artifact option" where
  "image_abs e root s = (stored e root (disk s), irst_Artifact (ir_Status (parent s)))"

lemma publish_image_refines:
  assumes root: "root \<noteq> []" and names: "names_ok (ir_Meta (parent s))" and nm: "tarball_name nm"
    and wf: "fs_wf (disk s)" and free: "can_create (os e)" "flat (image_dir e root s) (disk s)"
    and src: "fs_get (disk s) (resolve (cwd (os e)) tgz) = Some (File c md mt)"
      "resolve (cwd (os e)) tgz \<noteq> image_dir e root s @ [nm @ ''.new'']"
    and run: "publish_image e root ref (image_http_path (parent s) nm) url tgz (sha1_hex c) s = (r, s')"
  shows "publish_spec ''imagerepository'' (ir_Meta (parent s)) (image_abs e root s) (image_abs e root s') \<and>
    flat (image_dir e root s) (disk s')"
proof -
  let ?p = "Join [root, image_http_path (parent s) nm]"
  have pnm: "proper nm" using nm by (simp add: tarball_name_def)
  note to = image_file_in [OF root names pnm, of e]
  obtain r1 fs1 where cp: "copyCompressedFile e tgz ?p (disk s) = (r1, fs1)" by fastforce
  note st = copyCompressedFile_stored [OF wf refl to nm src free cp]
  from run [unfolded publish_image_eq [OF root names pnm wf free]] show ?thesis
  proof (cases rule: and_then_cases)
    case (stop r')
    then have "s' = s\<lparr>disk := fs1\<rparr>" "\<not> is_Ok r1" using cp by (auto simp: on_disk_result)
    with st show ?thesis by (simp add: image_abs_def)
  next
    case (cont u s1)
    then have s1: "s1 = s\<lparr>disk := fs1\<rparr>" "is_Ok r1" using cp by (auto simp: on_disk_result)
    then have d: "disk s' = fs1" and a: "\<exists>a. irst_Artifact (ir_Status (parent s')) = Some a \<and>
        a_Path a = image_http_path (parent s) nm \<and> a_Checksum a = sha1_hex c"
      using cont(2) by (auto simp: announce_image_def Let_def preserve_fields)
    have "stored e root (disk s') = (stored e root (disk s))((''imagerepository'', ir_Meta (parent s), nm) \<mapsto> c)"
      using st s1(2) d by simp
    with a nm have "publish_spec ''imagerepository'' (ir_Meta (parent s)) (image_abs e root s) (image_abs e root s')"
      unfolding publish_spec_def image_abs_def prod.case image_http_path_eq by blast
    with st d show ?thesis by simp
  qed
qed

text \<open>The disk as a reconcile wants it: well formed, with the directory of the resource flat.\<close>

lemma pull_in_refines:
  assumes dir: "dir \<noteq> []" and laws: "pull_laws e" and nm: "tarball_name nm" and root: "root \<noteq> []"
    and names: "names_ok (ir_Meta (parent s))"
    and wf: "fs_wf (disk s)" "fs_get (disk s) (resolve (cwd (os e)) dir) = Some Dir"
    and par: "resolve (cwd (os e)) dir \<parallel> resolve (cwd (os e)) root"
    and free: "can_create (os e)" "flat (image_dir e root s) (disk s)"
    and run: "pull_in e root ref nm (image_http_path (parent s) nm) url dir s = (r, s')"
  shows "publish_spec ''imagerepository'' (ir_Meta (parent s)) (image_abs e root s) (image_abs e root s') \<and>
    flat (image_dir e root s) (disk s')"
proof -
  let ?T = "resolve (cwd (os e)) dir"
  let ?D = "image_dir e root s"
  have pnm: "proper nm" using nm by (simp add: tarball_name_def)
  have step: "image_abs e root s1 = image_abs e root s \<and> flat ?D (disk s1)" if "image_step ?T s s1" for s1
  proof -
    have b: "below ?T (disk s) (disk s1)" using that wf by (simp add: image_step_def)
    have "flat ?D (disk s1)"
      using free(2) below_at [OF b resource_not_temp [OF par]] by (simp add: flat_def)
    then show ?thesis
      using that below_stored [OF b par] by (simp add: image_abs_def image_step_def keeps_image_def)
  qed
  show ?thesis
  proof (cases rule: pull_in_cases [OF dir laws pnm run])
    case 1
    show ?thesis using step [OF 1(1)] by simp
  next
    case (2 s1 tgz c md mt)
    note s1 = step [OF 2(1)]
    have m: "ir_Meta (parent s1) = ir_Meta (parent s)" and b: "below ?T (disk s) (disk s1)"
      using 2(1) wf by (simp_all add: image_step_def keeps_image_def)
    have path: "image_http_path (parent s) nm = image_http_path (parent s1) nm"
      using m by (simp add: image_http_path_def)
    have "prefix ?T (resolve (cwd (os e)) tgz)" using 2(2) by simp
    then have "resolve (cwd (os e)) tgz \<noteq> image_dir e root s1 @ [nm @ ''.new'']"
      using resource_not_temp [OF par, of "''imagerepository''" "ir_Meta (parent s1)" "[nm @ ''.new'']"] by metis
    then show ?thesis
      using publish_image_refines [OF root _ nm _ free(1) _ 2(3) _ 2(4) [unfolded path]] names s1 b m
      by (simp add: below_def)
  qed
qed

lemma pull_sync_spec:
  assumes laws: "pull_laws e" "digest_laws e" and wf: "fs_wf (disk s)" and root: "root \<noteq> []"
    and names: "names_ok (ir_Meta (parent s))"
    and par: "image_temp e (disk s) \<parallel> resolve (cwd (os e)) root"
    and free: "can_create (os e)" "flat (image_dir e root s) (disk s)"
    and run: "ImageRepositoryPullImageSync e root host s = (r, s')"
  shows "publish_spec ''imagerepository'' (ir_Meta (parent s)) (image_abs e root s) (image_abs e root s') \<and>
    flat (image_dir e root s) (disk s')"
proof (cases rule: pull_sync_cases [OF run])
  case 1
  then have "image_abs e root s' = image_abs e root s" by (simp add: image_abs_def keeps_image_def)
  with 1 free(2) show ?thesis by simp
next
  case 2
  with free(2) show ?thesis by simp
next
  case (3 ref d)
  let ?f = "image_tgz_filename d"
  let ?dir = "temp_name ''image.'' (os e) (TempDir (os e)) (disk s)"
  note nm = digest_tarball_name [OF laws(2) 3(1)]
  have T: "resolve (cwd (os e)) ?dir = image_temp e (disk s)" by (simp add: temp_dir_def)
  show ?thesis
  proof (cases rule: with_temp_dir_stored [OF wf 3(2) par])
    case 1
    with free(2) show ?thesis by simp
  next
    case (2 fs1 s2)
    let ?s1 = "s\<lparr>disk := fs1\<rparr>"
    have run': "pull_in e root ref ?f (image_http_path (parent ?s1) ?f)
        (''http://'' @ host @ ''/'' @ image_http_path (parent s) ?f) ?dir ?s1 = (r, s2)"
      using 2(5) by simp
    have pre: "names_ok (ir_Meta (parent ?s1))" "fs_wf (disk ?s1)"
      "fs_get (disk ?s1) (resolve (cwd (os e)) ?dir) = Some Dir" "flat (image_dir e root ?s1) (disk ?s1)"
      using 2(1,2,4) names free T by simp_all
    have in_: "publish_spec ''imagerepository'' (ir_Meta (parent s)) (image_abs e root ?s1) (image_abs e root s2) \<and>
        flat (image_dir e root s) (disk s2)"
      using pull_in_refines [OF temp_name_not_Nil laws(1) nm root pre(1-3) _ free(1) pre(4) run'] par T by simp
    have pnm: "proper ?f" using nm by (simp add: tarball_name_def)
    have wf2: "fs_wf (disk s2)"
      using pull_in_frame [OF temp_name_not_Nil laws(1) pnm root pre(1-3) run'] by (simp add: works_def)
    have "image_abs e root ?s1 = image_abs e root s" "image_abs e root s' = image_abs e root s2"
      using 2(3,6) 2(7) [OF wf2] by (auto simp: image_abs_def)
    with in_ 2(8) [OF wf2] show ?thesis by simp
  qed
qed


end
