(* ===== verification/Image_Runs.thy ===== *)
theory Image_Runs
  imports Image_Store
begin

text \<open>
  The steps of an ImageRepository reconcile before the pull, what they leave in the stash for it,
  and the whole sequence as the runtime runs it.
\<close>

section \<open>Steps that leave the disk\<close>

definition image_quiet :: "istate \<Rightarrow> istate \<Rightarrow> bool" where
  "image_quiet s s' \<longleftrightarrow>
     disk s' = disk s \<and> sent s' = sent s \<and> ir_Meta (parent s') = ir_Meta (parent s) \<and>
     ir_Spec (parent s') = ir_Spec (parent s) \<and>
     irst_URL (ir_Status (parent s')) = irst_URL (ir_Status (parent s)) \<and>
     irst_Artifact (ir_Status (parent s')) = irst_Artifact (ir_Status (parent s))"

lemma image_quiet_refl [simp]: "image_quiet s s"
  by (simp add: image_quiet_def)

lemma image_quiet_trans: "image_quiet a b \<Longrightarrow> image_quiet b c \<Longrightarrow> image_quiet a c"
  by (simp add: image_quiet_def)

text \<open>The image whose condition was set to false.\<close>

definition image_marked_false :: "env \<Rightarrow> istate \<Rightarrow> istate \<Rightarrow> bool" where
  "image_marked_false e s s' \<longleftrightarrow>
     (\<exists>reason m as. s' = s\<lparr>parent := ir_MarkFalse (cond e) ImageRepositoryConditionImageResolved reason m as (parent s)\<rparr>)"

lemma image_marked_falseI [simp]:
  "image_marked_false e s (s\<lparr>parent := ir_MarkFalse (cond e) ImageRepositoryConditionImageResolved reason m as (parent s)\<rparr>)"
  unfolding image_marked_false_def by (intro exI) (rule refl)

lemma image_marked_false_quiet: "image_marked_false e s s' \<Longrightarrow> image_quiet s s' \<and> stashed s' = stashed s"
  by (auto simp: image_marked_false_def image_quiet_def)

interpretation transport_step: sync_step "ImageRepositoryTransportSync e certs" image_quiet for e certs
  by unfold_locales (simp add: ImageRepositoryTransportSync_def image_quiet_def split: outcome.split)

lemma transport_no_panic: "ImageRepositoryTransportSync e certs s = (r, s') \<Longrightarrow> \<not> is_Panic r"
  by (auto simp: ImageRepositoryTransportSync_def newTransport_no_panic split: outcome.splits)

section \<open>Pull secrets\<close>

lemma lookup_pull_secrets_Inr:
  "lookup_pull_secrets e ns names = Inr xs \<Longrightarrow> list_all2 (\<lambda>n x. GetSecret e ns n = Inr x) names xs"
  by (induction names arbitrary: xs) (auto split: sum.splits)

lemma lookup_pull_secrets_Inl:
  "lookup_pull_secrets e ns names = Inl (n, err) \<Longrightarrow> n \<in> set names \<and> GetSecret e ns n = Inl err"
  by (induction names) (auto split: sum.splits)

definition service_account_name :: "ImageRepository \<Rightarrow> string" where
  "service_account_name p =
     (if irs_ServiceAccountName (ir_Spec p) = [] then ''default'' else irs_ServiceAccountName (ir_Spec p))"

lemma pull_secrets_cases:
  assumes "ImageRepositoryImagePullSecretsSync e s = (r, s')"
  obtains (failed) er where "r = Error er" and "s' = s" and "\<not> IsNotFound e er"
  | (no_account) er where "r = Ok ()" and "image_marked_false e s s'" and "IsNotFound e er"
      and "GetServiceAccount e (Namespace (ir_Meta (parent s))) (service_account_name (parent s)) = Inl er"
  | (no_secret) n er where "r = Ok ()" and "image_marked_false e s s'" and "IsNotFound e er"
      and "GetSecret e (Namespace (ir_Meta (parent s))) n = Inl er"
  | (found) sa xs where "r = Ok ()" and "s' = s\<lparr>stashed := StashImagePullSecrets e xs (stashed s)\<rparr>"
      and "GetServiceAccount e (Namespace (ir_Meta (parent s))) (service_account_name (parent s)) = Inr sa"
      and "list_all2 (\<lambda>n x. GetSecret e (Namespace (ir_Meta (parent s))) n = Inr x)
        (set_List e (irs_ImagePullSecrets (ir_Spec (parent s)) @ sa_ImagePullSecrets sa)) xs"
proof -
  let ?ns = "Namespace (ir_Meta (parent s))"
  note run = assms [unfolded ImageRepositoryImagePullSecretsSync_def Let_def, folded service_account_name_def]
  show thesis
  proof (cases "GetServiceAccount e ?ns (service_account_name (parent s))")
    case (Inl er)
    show thesis
    proof (cases "IsNotFound e er")
      case True
      with run Inl show thesis by (intro no_account [of er]) auto
    next
      case False
      with run Inl show thesis by (intro failed [of er]) auto
    qed
  next
    case sa: (Inr sa)
    let ?names = "set_List e (irs_ImagePullSecrets (ir_Spec (parent s)) @ sa_ImagePullSecrets sa)"
    show thesis
    proof (cases "lookup_pull_secrets e ?ns ?names")
      case (Inl x)
      obtain n er where x: "x = (n, er)" by (cases x)
      note g = lookup_pull_secrets_Inl [OF Inl [unfolded x]]
      show thesis
      proof (cases "IsNotFound e er")
        case True
        with run Inl x sa g show thesis by (intro no_secret [of er n]) auto
      next
        case False
        with run Inl x sa show thesis by (intro failed [of er]) auto
      qed
    next
      case (Inr xs)
      with run sa show thesis by (intro found [of xs sa]) (auto dest: lookup_pull_secrets_Inr)
    qed
  qed
qed

interpretation pull_secrets_step: sync_step "ImageRepositoryImagePullSecretsSync e" image_quiet for e
proof
  fix s :: istate
  obtain r s' where run: "ImageRepositoryImagePullSecretsSync e s = (r, s')" by fastforce
  then have "image_quiet s s'"
    by (cases rule: pull_secrets_cases) (auto simp: image_quiet_def dest: image_marked_false_quiet)
  with run show "image_quiet s (snd (ImageRepositoryImagePullSecretsSync e s))" by simp
qed

lemma pull_secrets_no_panic: "ImageRepositoryImagePullSecretsSync e s = (r, s') \<Longrightarrow> \<not> is_Panic r"
  by (erule pull_secrets_cases) auto

section \<open>Digest\<close>

lemma digest_cases:
  assumes "ImageRepositoryImageDigestSync e s = (r, s')"
  obtains (digest) d where "NewDigest e (irs_Image (ir_Spec (parent s))) = Inr d" and "r = Ok ()"
      and "s' = s\<lparr>stashed := StashImageRef e (irs_Image (ir_Spec (parent s))) (stashed s)\<rparr>"
  | (no_secrets) "RetrieveImagePullSecrets e (stashed s) = None" and "r = Ok ()" and "s' = s"
  | (failed) er where "r = Error er" and "s' = s"
  | (marked) "r = Ok ()" and "image_marked_false e s s'"
  | (tag) m xs keychain tag d where "NewDigest e (irs_Image (ir_Spec (parent s))) = Inl m" and "r = Ok ()"
      and "RetrieveImagePullSecrets e (stashed s) = Some xs" and "NewFromPullSecrets e xs = Inr keychain"
      and "NewTag e (irs_Image (ir_Spec (parent s))) = Inr tag"
      and "Head e tag (RetrieveHttpRoundTripper e (stashed s)) keychain = Inr d"
      and "s' = s\<lparr>stashed := StashImageRef e (tag @ ''@'' @ d) (stashed s)\<rparr>"
proof -
  let ?img = "irs_Image (ir_Spec (parent s))"
  note run = assms [unfolded ImageRepositoryImageDigestSync_def Let_def]
  show thesis
  proof (cases "NewDigest e ?img")
    case (Inr d)
    with run show thesis by (intro digest [of d]) auto
  next
    case m: (Inl m)
    show thesis
    proof (cases "RetrieveImagePullSecrets e (stashed s)")
      case None
      with run m show thesis by (intro no_secrets) auto
    next
      case xs: (Some xs)
      show thesis
      proof (cases "NewFromPullSecrets e xs")
        case (Inl er)
        with run m xs show thesis by (intro failed [of er]) auto
      next
        case k: (Inr keychain)
        show thesis
        proof (cases "NewTag e ?img")
          case (Inl er)
          with run m xs k show thesis by (intro marked) auto
        next
          case t: (Inr tag)
          show thesis
          proof (cases "Head e tag (RetrieveHttpRoundTripper e (stashed s)) keychain")
            case (Inl er)
            with run m xs k t show thesis by (intro marked) auto
          next
            case (Inr d)
            with run m xs k t show thesis by (intro that(5) [of m xs keychain tag d]) auto
          qed
        qed
      qed
    qed
  qed
qed

interpretation digest_step: sync_step "ImageRepositoryImageDigestSync e" image_quiet for e
proof
  fix s :: istate
  obtain r s' where run: "ImageRepositoryImageDigestSync e s = (r, s')" by fastforce
  then have "image_quiet s s'"
    by (cases rule: digest_cases) (auto simp: image_quiet_def dest: image_marked_false_quiet)
  with run show "image_quiet s (snd (ImageRepositoryImageDigestSync e s))" by simp
qed

lemma digest_no_panic: "ImageRepositoryImageDigestSync e s = (r, s') \<Longrightarrow> \<not> is_Panic r"
  by (erule digest_cases) auto

section \<open>The sequence of sub-reconcilers\<close>

lemma image_sequence:
  "rr_Sequence (ImageRepositoryReconciler e root host certs) =
     [ImageRepositoryTransportSyncReconciler e certs, ImageRepositoryImagePullSecretsSyncReconciler e,
      ImageRepositoryImageDigestSyncReconciler e, ImageRepositoryPullImageSyncReconciler e root host,
      ImageRepositoryIntervalReconciler]"
  "sr_Sync (ImageRepositoryTransportSyncReconciler e certs) = Sync (ImageRepositoryTransportSync e certs)"
  "sr_Sync (ImageRepositoryImagePullSecretsSyncReconciler e) = Sync (ImageRepositoryImagePullSecretsSync e)"
  "sr_Sync (ImageRepositoryImageDigestSyncReconciler e) = Sync (ImageRepositoryImageDigestSync e)"
  "sr_Sync (ImageRepositoryPullImageSyncReconciler e root host) = Sync (ImageRepositoryPullImageSync e root host)"
  "sr_Sync ImageRepositoryIntervalReconciler = SyncWithResult (\<lambda>s. (Ok (irs_Interval (ir_Spec (parent s))), s))"
  by (simp_all add: ImageRepositoryReconciler_def ImageRepositoryTransportSyncReconciler_def
      ImageRepositoryImagePullSecretsSyncReconciler_def ImageRepositoryImageDigestSyncReconciler_def
      ImageRepositoryPullImageSyncReconciler_def ImageRepositoryIntervalReconciler_def)

lemma image_run_cases:
  assumes laws: "sequence_laws run"
    and run: "run (rr_Sequence (ImageRepositoryReconciler e root host certs)) s = (r, s')"
  obtains (stop) "image_quiet s s'" and "\<exists>er. r = Error er"
  | (pull) s2 r3 where "image_quiet s s2" and "ImageRepositoryPullImageSync e root host s2 = (r3, s')"
      and "is_Panic r \<longleftrightarrow> is_Panic r3" and "is_Ok r \<Longrightarrow> r = Ok (irs_Interval (ir_Spec (parent s')))"
proof -
  have err: "\<exists>er. r = Error er" if "\<not> is_Ok r" "\<not> is_Panic r" using that by (cases r) auto
  show thesis
  proof (cases rule: sequence_cases [OF laws image_sequence(2) run [unfolded image_sequence(1)]])
    case t: (1 r1)
    then show thesis using stop transport_step.keeps_result [OF t(1)] transport_no_panic err by blast
  next
    case t: (2 s1)
    note q1 = transport_step.keeps_result [OF t(1)]
    show thesis
    proof (cases rule: sequence_cases [OF laws image_sequence(3) t(2)])
      case p: (1 r1)
      then show thesis
        using stop image_quiet_trans [OF q1 pull_secrets_step.keeps_result [OF p(1)]] pull_secrets_no_panic err by blast
    next
      case p: (2 s2)
      note q2 = image_quiet_trans [OF q1 pull_secrets_step.keeps_result [OF p(1)]]
      show thesis
      proof (cases rule: sequence_cases [OF laws image_sequence(4) p(2)])
        case d: (1 r1)
        then show thesis
          using stop image_quiet_trans [OF q2 digest_step.keeps_result [OF d(1)]] digest_no_panic err by blast
      next
        case d: (2 s3)
        note q3 = image_quiet_trans [OF q2 digest_step.keeps_result [OF d(1)]]
        show thesis
        proof (cases rule: sequence_cases [OF laws image_sequence(5) d(2)])
          case l: (1 r1)
          then show thesis using pull [OF q3 l(1)] by blast
        next
          case l: (2 s4)
          have eq: "s4 = s'" and rq: "r = Ok (irs_Interval (ir_Spec (parent s')))"
            using l(2) sequence_last [OF laws image_sequence(6), of s4] by auto
          show thesis by (rule pull [OF q3 l(1) [unfolded eq]]) (simp_all add: rq)
        qed
      qed
    qed
  qed
qed

text \<open>
  The invariant of an ImageRepository and the disk: the URL of the status is that of its artifact,
  the directory of the resource holds files only, and the artifact the status announces is there.
\<close>

definition image_ok :: "env \<Rightarrow> string \<Rightarrow> ImageRepository \<Rightarrow> fs \<Rightarrow> bool" where
  "image_ok e root p fs \<longleftrightarrow>
     fs_wf fs \<and> names_ok (ir_Meta p) \<and> image_status_ok p \<and>
     flat (resource_dir e root ''imagerepository'' (ir_Meta p)) fs \<and>
     announced ''imagerepository'' (ir_Meta p) (stored e root fs, irst_Artifact (ir_Status p))"

lemma image_quiet_ok:
  "image_quiet s s' \<Longrightarrow> image_ok e root (parent s') (disk s') = image_ok e root (parent s) (disk s)"
  by (simp add: image_quiet_def image_ok_def image_status_ok_def split: option.split)

lemma image_run_keeps:
  assumes laws: "sequence_laws run" "pull_laws e" "digest_laws e" and root: "root \<noteq> []"
    and par: "\<And>fs. image_temp e fs \<parallel> resolve (cwd (os e)) root" and free: "can_create (os e)"
    and ok: "image_ok e root (parent s) (disk s)"
    and run: "run (rr_Sequence (ImageRepositoryReconciler e root host certs)) s = (r, s')"
  shows "image_ok e root (parent s') (disk s') \<and> \<not> is_Panic r \<and>
    (is_Ok r \<longrightarrow> r = Ok (irs_Interval (ir_Spec (parent s)))) \<and>
    ir_Meta (parent s') = ir_Meta (parent s) \<and> ir_Spec (parent s') = ir_Spec (parent s) \<and>
    (\<exists>t. t \<parallel> resolve (cwd (os e)) root \<and> works t (image_dir e root s) (disk s) (disk s'))"
proof (cases rule: image_run_cases [OF laws(1) run])
  case 1
  with ok image_quiet_ok [OF 1(1), of e root] par show ?thesis
    by (auto simp: image_quiet_def image_ok_def intro: works_refl)
next
  case (2 s2 r3)
  have ok2: "image_ok e root (parent s2) (disk s2)" using ok image_quiet_ok [OF 2(1)] by simp
  have eq: "disk s2 = disk s" "ir_Meta (parent s2) = ir_Meta (parent s)" "ir_Spec (parent s2) = ir_Spec (parent s)"
    using 2(1) by (simp_all add: image_quiet_def)
  have pre: "fs_wf (disk s2)" "names_ok (ir_Meta (parent s2))" "flat (image_dir e root s2) (disk s2)"
    "image_status_ok (parent s2)" "announced ''imagerepository'' (ir_Meta (parent s2)) (image_abs e root s2)"
    using ok2 by (simp_all add: image_ok_def image_abs_def)
  note spec = pull_sync_spec [OF laws(2,3) pre(1) root pre(2) par free pre(3) 2(2)]
  note fr = pull_sync_frame [OF laws(2,3) pre(1) root pre(2) 2(2)]
  have ann: "announced ''imagerepository'' (ir_Meta (parent s2)) (image_abs e root s')"
    using publish_spec_announced [OF _ pre(5)] spec by blast
  have keep: "ir_Meta (parent s') = ir_Meta (parent s)" "ir_Spec (parent s') = ir_Spec (parent s)"
    using fr eq by (auto simp: image_update_def keeps_image_def)
  have w: "works (image_temp e (disk s2)) (image_dir e root s2) (disk s2) (disk s')" using fr by blast
  have st: "image_status_ok (parent s') \<and> \<not> is_Panic r3" using fr pre(4) by blast
  have "image_ok e root (parent s') (disk s')"
    using w st spec ann keep pre(2) eq by (simp add: image_ok_def works_def image_abs_def)
  with 2(3,4) st keep w par eq show ?thesis by auto
qed

section \<open>Properties\<close>

lemma image_retrieve:
  assumes "stash_laws e"
  shows "RetrieveImagePullSecrets e (StashImagePullSecrets e xs st) = Some xs"
    and "RetrieveImageRef e (StashImageRef e ref st) = ref"
  using assms
  by (simp_all add: stash_laws_def RetrieveImagePullSecrets_def StashImagePullSecrets_def RetrieveImageRef_def
      StashImageRef_def)

text \<open>
  C23: a run of the pull secrets reconciler without error leaves one of two states. Either the
  service account or a secret is missing, the condition of the image is false, and nothing is
  stashed. Or the stashed secrets are those of the names the image or its service account lists, by
  default the account \<^verbatim>\<open>default\<close>, each name once and in order.
\<close>

theorem pull_secrets_outcome:
  assumes "stash_laws e" "set_laws e" and "ImageRepositoryImagePullSecretsSync e s = (Ok (), s')"
  shows "image_marked_false e s s' \<and>
      (\<exists>er. IsNotFound e er \<and>
        (GetServiceAccount e (Namespace (ir_Meta (parent s))) (service_account_name (parent s)) = Inl er \<or>
         (\<exists>n. GetSecret e (Namespace (ir_Meta (parent s))) n = Inl er))) \<or>
    (\<exists>sa names xs. parent s' = parent s \<and> RetrieveImagePullSecrets e (stashed s') = Some xs \<and>
      GetServiceAccount e (Namespace (ir_Meta (parent s))) (service_account_name (parent s)) = Inr sa \<and>
      set names = set (irs_ImagePullSecrets (ir_Spec (parent s))) \<union> set (sa_ImagePullSecrets sa) \<and>
      sorted names \<and> distinct names \<and>
      list_all2 (\<lambda>n x. GetSecret e (Namespace (ir_Meta (parent s))) n = Inr x) names xs)"
  using assms(3)
proof (cases rule: pull_secrets_cases)
  case (found sa xs)
  let ?names = "set_List e (irs_ImagePullSecrets (ir_Spec (parent s)) @ sa_ImagePullSecrets sa)"
  have "set ?names = set (irs_ImagePullSecrets (ir_Spec (parent s))) \<union> set (sa_ImagePullSecrets sa) \<and>
      sorted ?names \<and> distinct ?names"
    using assms(2) by (simp add: set_laws_def)
  moreover have "parent s' = parent s" "RetrieveImagePullSecrets e (stashed s') = Some xs"
    using found(2) image_retrieve(1) [OF assms(1)] by simp_all
  ultimately show ?thesis using found(3,4) by blast
qed auto


end
