(* ===== verification/System.thy ===== *)
theory System
  imports Manager Maven_Runs Image_Runs
begin

text \<open>
  The running program as a state machine. The state is the resources of the cluster and the disk;
  the steps are what users do to resources through the API server, and whole reconciles and
  finalizers of the manager that \<^verbatim>\<open>main\<close> sets up, in any order. Between two steps everything the
  environment decides may change: secrets, registries, repositories, clock, faults.
\<close>

section \<open>States and steps\<close>

record cluster =
  cl_Maven :: "ObjectMeta \<rightharpoonup> MavenArtifact"
  cl_Image :: "ObjectMeta \<rightharpoonup> ImageRepository"
  cl_disk :: fs

text \<open>
  The environments in which the program runs: the working directory \<open>w\<close> is that of the process, the
  libraries behave as documented, files can be created and written, and temporary directories are
  neither above nor below the artifact root.
\<close>

definition world :: "string list \<Rightarrow> flags \<Rightarrow> env \<Rightarrow> bool" where
  "world w f e \<longleftrightarrow>
     cwd (os e) = w \<and> stash_laws e \<and> pull_laws e \<and> digest_laws e \<and> writes_ok (os e) \<and>
     (\<forall>fs. maven_temp e fs \<parallel> resolve w (artifactRootDir f) \<and> image_temp e fs \<parallel> resolve w (artifactRootDir f))"

text \<open>A reconcile starts with an empty stash, on the resource with its conditions initialized.\<close>

definition start :: "'p \<Rightarrow> fs \<Rightarrow> 'p rstate" where
  "start p fs = \<lparr>parent = p, stashed = [], disk = fs, sent = []\<rparr>"

definition start_maven :: "env \<Rightarrow> MavenArtifact \<Rightarrow> fs \<Rightarrow> mstate" where
  "start_maven e p fs = start (p\<lparr>ma_Status := ma_InitializeConditions (cond e) (ma_Status p)\<rparr>) fs"

definition start_image :: "env \<Rightarrow> ImageRepository \<Rightarrow> fs \<Rightarrow> istate" where
  "start_image e p fs = start (p\<lparr>ir_Status := ir_InitializeConditions (cond e) (ir_Status p)\<rparr>) fs"

text \<open>
  The API server admits a MavenArtifact through the webhook: defaulted, then validated. A user does
  not write the status. A reconcile updates the resource also after an error. The finalizer of a
  deleted resource runs, again if it fails, before the resource goes away.
\<close>

inductive cluster_step ::
  "string list \<Rightarrow> flags \<Rightarrow> (MavenArtifact SyncReconciler list \<Rightarrow> mstate \<Rightarrow> int outcome \<times> mstate) \<Rightarrow>
   (ImageRepository SyncReconciler list \<Rightarrow> istate \<Rightarrow> int outcome \<times> istate) \<Rightarrow> cluster \<Rightarrow> cluster \<Rightarrow> bool"
  for w f runM runI where
  create_maven:
    "cl_Maven c (ma_Meta q) = None \<Longrightarrow> plain_names (ma_Meta q) \<Longrightarrow>
     ma_Status q = \<lparr>mst_Conditions = [], mst_URL = [], mst_Artifact = None\<rparr> \<Longrightarrow>
     p = MavenArtifactDefaulter_Default q \<Longrightarrow> ValidateCreate h dns agg p = None \<Longrightarrow>
     cluster_step w f runM runI c (c\<lparr>cl_Maven := (cl_Maven c)(ma_Meta q \<mapsto> p)\<rparr>)"
| update_maven:
    "cl_Maven c (ma_Meta q) = Some old \<Longrightarrow> ma_Status q = ma_Status old \<Longrightarrow>
     p = MavenArtifactDefaulter_Default q \<Longrightarrow> ValidateUpdate h dns agg old p = None \<Longrightarrow>
     cluster_step w f runM runI c (c\<lparr>cl_Maven := (cl_Maven c)(ma_Meta q \<mapsto> p)\<rparr>)"
| reconcile_maven:
    "world w f e \<Longrightarrow> cl_Maven c k = Some p \<Longrightarrow>
     runM (rr_Sequence (mg_MavenArtifact (main_manager e f))) (start_maven e p (cl_disk c)) = (r, s') \<Longrightarrow>
     cluster_step w f runM runI c (c\<lparr>cl_Maven := (cl_Maven c)(k \<mapsto> parent s'), cl_disk := disk s'\<rparr>)"
| finalize_maven:
    "world w f e \<Longrightarrow> cl_Maven c k = Some p \<Longrightarrow>
     sr_Finalize (rr_Sequence (mg_MavenArtifact (main_manager e f)) ! 2) = Some fin \<Longrightarrow>
     fin (start p (cl_disk c)) = (Ok (), s') \<Longrightarrow>
     cluster_step w f runM runI c (c\<lparr>cl_Maven := (cl_Maven c)(k := None), cl_disk := disk s'\<rparr>)"
| create_image:
    "cl_Image c (ir_Meta p) = None \<Longrightarrow> plain_names (ir_Meta p) \<Longrightarrow>
     ir_Status p = \<lparr>irst_Conditions = [], irst_URL = [], irst_Artifact = None\<rparr> \<Longrightarrow>
     cluster_step w f runM runI c (c\<lparr>cl_Image := (cl_Image c)(ir_Meta p \<mapsto> p)\<rparr>)"
| update_image:
    "cl_Image c (ir_Meta p) = Some old \<Longrightarrow> ir_Status p = ir_Status old \<Longrightarrow>
     cluster_step w f runM runI c (c\<lparr>cl_Image := (cl_Image c)(ir_Meta p \<mapsto> p)\<rparr>)"
| reconcile_image:
    "world w f e \<Longrightarrow> cl_Image c k = Some p \<Longrightarrow>
     runI (rr_Sequence (mg_ImageRepository (main_manager e f))) (start_image e p (cl_disk c)) = (r, s') \<Longrightarrow>
     cluster_step w f runM runI c (c\<lparr>cl_Image := (cl_Image c)(k \<mapsto> parent s'), cl_disk := disk s'\<rparr>)"
| finalize_image:
    "world w f e \<Longrightarrow> cl_Image c k = Some p \<Longrightarrow>
     sr_Finalize (rr_Sequence (mg_ImageRepository (main_manager e f)) ! 3) = Some fin \<Longrightarrow>
     fin (start p (cl_disk c)) = (Ok (), s') \<Longrightarrow>
     cluster_step w f runM runI c (c\<lparr>cl_Image := (cl_Image c)(k := None), cl_disk := disk s'\<rparr>)"

text \<open>It starts without resources and with nothing in the artifact root.\<close>

inductive reachable ::
  "string list \<Rightarrow> flags \<Rightarrow> (MavenArtifact SyncReconciler list \<Rightarrow> mstate \<Rightarrow> int outcome \<times> mstate) \<Rightarrow>
   (ImageRepository SyncReconciler list \<Rightarrow> istate \<Rightarrow> int outcome \<times> istate) \<Rightarrow> cluster \<Rightarrow> bool"
  for w f runM runI where
  init:
    "fs_wf fs \<Longrightarrow> (\<And>x. x \<noteq> [] \<Longrightarrow> fs_get fs (resolve w (artifactRootDir f) @ x) = None) \<Longrightarrow>
     reachable w f runM runI \<lparr>cl_Maven = Map.empty, cl_Image = Map.empty, cl_disk = fs\<rparr>"
| step:
    "reachable w f runM runI c \<Longrightarrow> cluster_step w f runM runI c c' \<Longrightarrow> reachable w f runM runI c'"

section \<open>The invariant\<close>

definition absent :: "string list \<Rightarrow> fs \<Rightarrow> bool" where
  "absent d fs \<longleftrightarrow> (\<forall>x. fs_get fs (d @ x) = None)"

definition maven_slot :: "env \<Rightarrow> flags \<Rightarrow> fs \<Rightarrow> ObjectMeta \<Rightarrow> MavenArtifact option \<Rightarrow> bool" where
  "maven_slot e f fs k slot =
     (case slot of
        None \<Rightarrow> absent (resource_dir e (artifactRootDir f) ''mavenartifact'' k) fs
      | Some p \<Rightarrow> ma_Meta p = k \<and> plain_names k \<and> maven_ok e (artifactRootDir f) p fs)"

definition image_slot :: "env \<Rightarrow> flags \<Rightarrow> fs \<Rightarrow> ObjectMeta \<Rightarrow> ImageRepository option \<Rightarrow> bool" where
  "image_slot e f fs k slot =
     (case slot of
        None \<Rightarrow> absent (resource_dir e (artifactRootDir f) ''imagerepository'' k) fs
      | Some p \<Rightarrow> ir_Meta p = k \<and> plain_names k \<and> image_ok e (artifactRootDir f) p fs)"

definition cluster_inv :: "env \<Rightarrow> flags \<Rightarrow> cluster \<Rightarrow> bool" where
  "cluster_inv e f c \<longleftrightarrow>
     fs_wf (cl_disk c) \<and> (\<forall>k. maven_slot e f (cl_disk c) k (cl_Maven c k)) \<and>
     (\<forall>k. image_slot e f (cl_disk c) k (cl_Image c k))"

text \<open>Of the environment only the working directory matters.\<close>

lemma slot_cwd:
  assumes "cwd (os e') = cwd (os e)"
  shows "maven_slot e' f fs k m = maven_slot e f fs k m" and "image_slot e' f fs k i = image_slot e f fs k i"
proof -
  have "resource_dir e' = resource_dir e" by (intro ext) (simp add: resource_dir_def assms)
  moreover from this have "stored e' = stored e" by (intro ext) (simp add: stored_def split: prod.split)
  ultimately show "maven_slot e' f fs k m = maven_slot e f fs k m" "image_slot e' f fs k i = image_slot e f fs k i"
    by (simp_all add: maven_slot_def image_slot_def maven_ok_def image_ok_def split: option.split)
qed

text \<open>Work for one resource leaves the directories of the others as they are.\<close>

definition same_dir :: "string list \<Rightarrow> fs \<Rightarrow> fs \<Rightarrow> bool" where
  "same_dir d fs fs' \<longleftrightarrow> (\<forall>x. fs_get fs' (d @ x) = fs_get fs (d @ x))"

lemma works_same_dir:
  assumes "works t (resource_dir e root kind meta) fs fs'" and "t \<parallel> resolve (cwd (os e)) root"
    and "(kind', meta') \<noteq> (kind, meta)"
  shows "same_dir (resource_dir e root kind' meta') fs fs'"
  unfolding same_dir_def
proof
  fix x
  have "\<not> prefix (resource_dir e root kind meta) (resource_dir e root kind' meta' @ x)"
    "\<not> strict_prefix (resource_dir e root kind' meta' @ x) (resource_dir e root kind meta)"
    using assms(3) by (auto simp: resource_dir_def strict_prefix_def dest: prefix_length_le)
  then show "fs_get fs' (resource_dir e root kind' meta' @ x) = fs_get fs (resource_dir e root kind' meta' @ x)"
    by (rule works_at [OF assms(1) resource_not_temp [OF assms(2)]])
qed

lemma same_dir_slots:
  assumes "fs_wf fs'"
  shows "same_dir (resource_dir e (artifactRootDir f) ''mavenartifact'' k) fs fs' \<Longrightarrow>
      maven_slot e f fs k m \<Longrightarrow> maven_slot e f fs' k m"
    and "same_dir (resource_dir e (artifactRootDir f) ''imagerepository'' k) fs fs' \<Longrightarrow>
      image_slot e f fs k i \<Longrightarrow> image_slot e f fs' k i"
proof -
  have st: "announced kind k (stored e root fs', a) = announced kind k (stored e root fs, a)"
    if "same_dir (resource_dir e root kind k) fs fs'" for kind root a
    using that by (simp add: announced_def stored_def content_def same_dir_def split: option.split)
  show "maven_slot e f fs k m \<Longrightarrow> maven_slot e f fs' k m"
    if "same_dir (resource_dir e (artifactRootDir f) ''mavenartifact'' k) fs fs'"
    using that assms st [OF that]
    by (auto simp: maven_slot_def maven_ok_def absent_def flat_def caches_ok_def same_dir_def split: option.splits)
  show "image_slot e f fs k i \<Longrightarrow> image_slot e f fs' k i"
    if "same_dir (resource_dir e (artifactRootDir f) ''imagerepository'' k) fs fs'"
    using that assms st [OF that]
    by (auto simp: image_slot_def image_ok_def absent_def flat_def same_dir_def split: option.splits)
qed

lemma disk_step:
  assumes inv: "cluster_inv e f c" and wf: "fs_wf fs'"
    and work: "works t (resource_dir e (artifactRootDir f) kind k) (cl_disk c) fs'"
      "t \<parallel> resolve (cwd (os e)) (artifactRootDir f)"
  shows "(kind, k) \<noteq> (''mavenartifact'', j) \<Longrightarrow> maven_slot e f fs' j (cl_Maven c j)"
    and "(kind, k) \<noteq> (''imagerepository'', j) \<Longrightarrow> image_slot e f fs' j (cl_Image c j)"
  using inv same_dir_slots [OF wf] works_same_dir [OF work] unfolding cluster_inv_def by metis+

lemma update_maven_inv:
  assumes inv: "cluster_inv e f c" and wf: "fs_wf fs'"
    and work: "works t (resource_dir e (artifactRootDir f) ''mavenartifact'' k) (cl_disk c) fs'"
      "t \<parallel> resolve (cwd (os e)) (artifactRootDir f)"
    and slot: "maven_slot e f fs' k m"
  shows "cluster_inv e f (c\<lparr>cl_Maven := (cl_Maven c)(k := m), cl_disk := fs'\<rparr>)"
  using disk_step [OF inv wf work] slot wf by (simp add: cluster_inv_def)

lemma update_image_inv:
  assumes inv: "cluster_inv e f c" and wf: "fs_wf fs'"
    and work: "works t (resource_dir e (artifactRootDir f) ''imagerepository'' k) (cl_disk c) fs'"
      "t \<parallel> resolve (cwd (os e)) (artifactRootDir f)"
    and slot: "image_slot e f fs' k i"
  shows "cluster_inv e f (c\<lparr>cl_Image := (cl_Image c)(k := i), cl_disk := fs'\<rparr>)"
  using disk_step [OF inv wf work] slot wf by (simp add: cluster_inv_def)

lemma remove_works:
  assumes "root \<noteq> []" and "names_ok meta" and "proper kind" and "fs_wf fs"
    and "os_RemoveAll (os e) (Join [root, kind, Namespace meta, Name meta]) fs = (Ok (), fs')"
  shows "works t (resource_dir e root kind meta) fs fs'" and "absent (resource_dir e root kind meta) fs'"
  using remove_resource [OF assms(1-3,5)] assms(4) by (simp_all add: works_def absent_def)

lemma absent_flat:
  "absent d fs \<Longrightarrow> flat d fs" "absent d fs \<Longrightarrow> caches_ok d fs"
  by (simp_all add: absent_def flat_def caches_ok_def)

text \<open>The steps of one resource, on its own slot.\<close>

lemma new_maven_slot:
  assumes "maven_slot e f fs (ma_Meta q) None" and "fs_wf fs" and "plain_names (ma_Meta q)"
    and "mst_Artifact (ma_Status q) = None"
  shows "maven_slot e f fs (ma_Meta q) (Some (MavenArtifactDefaulter_Default q))"
  using assms absent_flat
  by (simp add: maven_slot_def maven_ok_def announced_def plain_names_def MavenArtifactDefaulter_Default_def
      MavenArtifactSpec_Default_def Let_def)

lemma old_maven_slot:
  assumes "maven_slot e f fs (ma_Meta q) (Some old)" and "ma_Status q = ma_Status old"
  shows "maven_slot e f fs (ma_Meta q) (Some (MavenArtifactDefaulter_Default q))"
  using assms
  by (auto simp: maven_slot_def maven_ok_def MavenArtifactDefaulter_Default_def MavenArtifactSpec_Default_def Let_def)

lemma new_image_slot:
  assumes "image_slot e f fs (ir_Meta p) None" and "fs_wf fs" and "plain_names (ir_Meta p)"
    and "ir_Status p = \<lparr>irst_Conditions = [], irst_URL = [], irst_Artifact = None\<rparr>"
  shows "image_slot e f fs (ir_Meta p) (Some p)"
  using assms absent_flat
  by (simp add: image_slot_def image_ok_def image_status_ok_def announced_def plain_names_def)

lemma old_image_slot:
  assumes "image_slot e f fs (ir_Meta p) (Some old)" and "ir_Status p = ir_Status old"
  shows "image_slot e f fs (ir_Meta p) (Some p)"
  using assms by (auto simp: image_slot_def image_ok_def image_status_ok_def split: option.split)

lemma start_state:
  "ma_Spec (parent (start_maven e' p fs)) = ma_Spec p" "ir_Spec (parent (start_image e' q fs)) = ir_Spec q"
  "stashed (start_maven e' p fs) = []" "disk (start_maven e' p fs) = fs" "disk (start_image e' q fs) = fs"
  "ma_Meta (parent (start_maven e' p fs)) = ma_Meta p" "ir_Meta (parent (start_image e' q fs)) = ir_Meta q"
  by (simp_all add: start_maven_def start_image_def start_def)

lemma start_ok:
  "maven_ok e root (parent (start_maven e' p fs)) fs = maven_ok e root p fs"
  "image_ok e root (parent (start_image e' q fs)) fs = image_ok e root q fs"
  by (simp_all add: start_maven_def start_image_def start_def maven_ok_def image_ok_def image_status_ok_def
      ma_InitializeConditions_def ir_InitializeConditions_def Let_def split: option.split)

lemma reconcile_maven_slot:
  assumes laws: "sequence_laws runM" and root: "artifactRootDir f \<noteq> []" and world: "world w f e"
    and slot: "maven_slot e f fs k (Some p)"
    and run: "runM (rr_Sequence (mg_MavenArtifact (main_manager e f))) (start_maven e p fs) = (r, s')"
  shows "(\<exists>er. r = Error er) \<or> r = Ok (ms_Interval (ma_Spec p))"
    and "maven_slot e f (disk s') k (Some (parent s'))" and "fs_wf (disk s')"
    and "\<exists>t. t \<parallel> resolve (cwd (os e)) (artifactRootDir f) \<and>
      works t (resource_dir e (artifactRootDir f) ''mavenartifact'' k) fs (disk s')"
proof -
  have W: "stash_laws e" "writes_ok (os e)" "maven_temp e fs \<parallel> resolve (cwd (os e)) (artifactRootDir f)" for fs
    using world by (auto simp: world_def)
  have ok: "maven_ok e (artifactRootDir f) (parent (start_maven e p fs)) (disk (start_maven e p fs))"
    using slot by (simp add: start_ok start_state maven_slot_def)
  note keep = maven_run_keeps [OF laws W(1) root start_state(3) W(3,2) ok run [unfolded main_manager_def manager.simps]]
  have "is_Ok r \<or> (\<exists>er. r = Error er)" using keep by (cases r) auto
  then show "(\<exists>er. r = Error er) \<or> r = Ok (ms_Interval (ma_Spec p))" using keep by (auto simp: start_state)
  show "maven_slot e f (disk s') k (Some (parent s'))" "fs_wf (disk s')"
    "\<exists>t. t \<parallel> resolve (cwd (os e)) (artifactRootDir f) \<and>
      works t (resource_dir e (artifactRootDir f) ''mavenartifact'' k) fs (disk s')"
    using keep slot by (auto simp: maven_slot_def start_state maven_ok_def)
qed

lemma reconcile_image_slot:
  assumes laws: "sequence_laws runI" and root: "artifactRootDir f \<noteq> []" and world: "world w f e"
    and slot: "image_slot e f fs k (Some p)"
    and run: "runI (rr_Sequence (mg_ImageRepository (main_manager e f))) (start_image e p fs) = (r, s')"
  shows "(\<exists>er. r = Error er) \<or> r = Ok (irs_Interval (ir_Spec p))"
    and "image_slot e f (disk s') k (Some (parent s'))" and "fs_wf (disk s')"
    and "\<exists>t. t \<parallel> resolve (cwd (os e)) (artifactRootDir f) \<and>
      works t (resource_dir e (artifactRootDir f) ''imagerepository'' k) fs (disk s')"
proof -
  have W: "pull_laws e" "digest_laws e" "can_create (os e)"
    "image_temp e fs \<parallel> resolve (cwd (os e)) (artifactRootDir f)" for fs
    using world by (auto simp: world_def writes_ok_def)
  have ok: "image_ok e (artifactRootDir f) (parent (start_image e p fs)) (disk (start_image e p fs))"
    using slot by (simp add: start_ok start_state image_slot_def)
  note keep = image_run_keeps [OF laws W(1,2) root W(4,3) ok run [unfolded main_manager_def manager.simps]]
  have "is_Ok r \<or> (\<exists>er. r = Error er)" using keep by (cases r) auto
  then show "(\<exists>er. r = Error er) \<or> r = Ok (irs_Interval (ir_Spec p))" using keep by (auto simp: start_state)
  show "image_slot e f (disk s') k (Some (parent s'))" "fs_wf (disk s')"
    "\<exists>t. t \<parallel> resolve (cwd (os e)) (artifactRootDir f) \<and>
      works t (resource_dir e (artifactRootDir f) ''imagerepository'' k) fs (disk s')"
    using keep slot by (auto simp: image_slot_def start_state image_ok_def)
qed

section \<open>The invariant holds in every reachable state\<close>

lemma finalizers:
  "sr_Finalize (rr_Sequence (mg_MavenArtifact (main_manager e f)) ! 2) =
     Some (MavenArtifactDownloadFinalize e (artifactRootDir f))"
  "sr_Finalize (rr_Sequence (mg_ImageRepository (main_manager e f)) ! 3) =
     Some (ImageRepositoryPullImageFinalize e (artifactRootDir f))"
  by (simp_all add: main_manager_def MavenArtifactReconciler_def MavenArtifactDownloadSyncReconciler_def
      ImageRepositoryReconciler_def ImageRepositoryPullImageSyncReconciler_def)

lemma inv_slots:
  assumes "cluster_inv e f c"
  shows "fs_wf (cl_disk c)" and "maven_slot e f (cl_disk c) k (cl_Maven c k)"
    and "image_slot e f (cl_disk c) k (cl_Image c k)"
  using assms by (simp_all add: cluster_inv_def)

lemma inv_cwd: "cwd (os e') = cwd (os e) \<Longrightarrow> cluster_inv e' f c = cluster_inv e f c"
  using slot_cwd [of e' e] by (simp add: cluster_inv_def)

lemma step_inv:
  assumes laws: "sequence_laws runM" "sequence_laws runI" and root: "artifactRootDir f \<noteq> []"
    and step: "cluster_step w f runM runI c c'" and inv: "\<And>e. cwd (os e) = w \<Longrightarrow> cluster_inv e f c"
    and cwd: "cwd (os e) = w"
  shows "cluster_inv e f c'"
proof -
  have same: "cluster_inv e f c' = cluster_inv e' f c'" if "world w f e'" for e'
    using inv_cwd [of e e' f c'] cwd that by (simp add: world_def)
  have inv': "cluster_inv e' f c" if "world w f e'" for e'
    using inv that by (simp add: world_def)
  have par: "\<exists>t. t \<parallel> resolve (cwd (os e')) (artifactRootDir f)" if "world w f e'" for e'
    using that by (auto simp: world_def)
  from step show ?thesis
  proof cases
    case (create_maven q p h dns agg)
    then show ?thesis
      using inv [OF cwd] new_maven_slot [of e f "cl_disk c" q] inv_slots(1) [OF inv [OF cwd]]
        inv_slots(2) [OF inv [OF cwd], of "ma_Meta q"]
      by (auto simp: cluster_inv_def)
  next
    case (update_maven q old p h dns agg)
    then show ?thesis
      using inv [OF cwd] old_maven_slot [of e f "cl_disk c" q old] inv_slots(2) [OF inv [OF cwd], of "ma_Meta q"]
      by (auto simp: cluster_inv_def)
  next
    case (reconcile_maven e' k p r s')
    note i = inv' [OF reconcile_maven(2)]
    note s = reconcile_maven_slot [OF laws(1) root reconcile_maven(2) _ reconcile_maven(4)]
    have slot: "maven_slot e' f (cl_disk c) k (Some p)" using inv_slots(2) [OF i, of k] reconcile_maven(3) by simp
    obtain t where t: "t \<parallel> resolve (cwd (os e')) (artifactRootDir f)"
      "works t (resource_dir e' (artifactRootDir f) ''mavenartifact'' k) (cl_disk c) (disk s')"
      using s(4) [OF slot] by blast
    have "cluster_inv e' f c'"
      unfolding reconcile_maven(1)
      by (rule update_maven_inv [OF i s(3) [OF slot] t(2,1) s(2) [OF slot]])
    then show ?thesis by (simp only: same [OF reconcile_maven(2)])
  next
    case (finalize_maven e' k p fin s')
    note i = inv' [OF finalize_maven(2)]
    have slot: "ma_Meta p = k" "names_ok k" using inv_slots(2) [OF i, of k] finalize_maven(3)
      by (auto simp: maven_slot_def plain_names_def)
    obtain fs' where rm: "os_RemoveAll (os e') (Join [artifactRootDir f, ''mavenartifact'', Namespace k, Name k])
        (cl_disk c) = (Ok (), fs')" and s': "disk s' = fs'"
      using finalize_maven(4,5) slot(1)
      by (auto simp: finalizers MavenArtifactDownloadFinalize_def start_def on_disk_result)
    note r = remove_works [OF root slot(2) proper_names(3) inv_slots(1) [OF i] rm]
    have "maven_slot e' f fs' k None" using r(2) by (simp add: maven_slot_def)
    moreover obtain t where t: "t \<parallel> resolve (cwd (os e')) (artifactRootDir f)"
      using par [OF finalize_maven(2)] by blast
    moreover note remove_resource(2) [OF root slot(2) proper_names(3) rm inv_slots(1) [OF i]]
    ultimately have "cluster_inv e' f c'"
      unfolding finalize_maven(1) s' by (intro update_maven_inv [OF i _ r(1)])
    then show ?thesis by (simp only: same [OF finalize_maven(2)])
  next
    case (create_image p)
    then show ?thesis
      using inv [OF cwd] new_image_slot [of e f "cl_disk c" p] inv_slots(1) [OF inv [OF cwd]]
        inv_slots(3) [OF inv [OF cwd], of "ir_Meta p"]
      by (auto simp: cluster_inv_def)
  next
    case (update_image p old)
    then show ?thesis
      using inv [OF cwd] old_image_slot [of e f "cl_disk c" p old] inv_slots(3) [OF inv [OF cwd], of "ir_Meta p"]
      by (auto simp: cluster_inv_def)
  next
    case (reconcile_image e' k p r s')
    note i = inv' [OF reconcile_image(2)]
    note s = reconcile_image_slot [OF laws(2) root reconcile_image(2) _ reconcile_image(4)]
    have slot: "image_slot e' f (cl_disk c) k (Some p)" using inv_slots(3) [OF i, of k] reconcile_image(3) by simp
    obtain t where t: "t \<parallel> resolve (cwd (os e')) (artifactRootDir f)"
      "works t (resource_dir e' (artifactRootDir f) ''imagerepository'' k) (cl_disk c) (disk s')"
      using s(4) [OF slot] by blast
    have "cluster_inv e' f c'"
      unfolding reconcile_image(1)
      by (rule update_image_inv [OF i s(3) [OF slot] t(2,1) s(2) [OF slot]])
    then show ?thesis by (simp only: same [OF reconcile_image(2)])
  next
    case (finalize_image e' k p fin s')
    note i = inv' [OF finalize_image(2)]
    have slot: "ir_Meta p = k" "names_ok k" using inv_slots(3) [OF i, of k] finalize_image(3)
      by (auto simp: image_slot_def plain_names_def)
    obtain fs' where rm: "os_RemoveAll (os e') (Join [artifactRootDir f, ''imagerepository'', Namespace k, Name k])
        (cl_disk c) = (Ok (), fs')" and s': "disk s' = fs'"
      using finalize_image(4,5) slot(1)
      by (auto simp: finalizers ImageRepositoryPullImageFinalize_def start_def on_disk_result)
    note r = remove_works [OF root slot(2) proper_names(4) inv_slots(1) [OF i] rm]
    have "image_slot e' f fs' k None" using r(2) by (simp add: image_slot_def)
    moreover obtain t where t: "t \<parallel> resolve (cwd (os e')) (artifactRootDir f)"
      using par [OF finalize_image(2)] by blast
    moreover note remove_resource(2) [OF root slot(2) proper_names(4) rm inv_slots(1) [OF i]]
    ultimately have "cluster_inv e' f c'"
      unfolding finalize_image(1) s' by (intro update_image_inv [OF i _ r(1)])
    then show ?thesis by (simp only: same [OF finalize_image(2)])
  qed
qed

lemma reachable_inv:
  assumes reach: "reachable w f runM runI c" and laws: "sequence_laws runM" "sequence_laws runI"
    and root: "artifactRootDir f \<noteq> []" and cwd: "cwd (os e) = w"
  shows "cluster_inv e f c"
  using reach cwd
proof (induction arbitrary: e rule: reachable.induct)
  case (init fs)
  have "absent (resource_dir e (artifactRootDir f) kind k) fs" for kind k
    using init(2) init(3) by (simp add: absent_def resource_dir_def)
  with init(1) show ?case by (simp add: cluster_inv_def maven_slot_def image_slot_def)
next
  case (step c c')
  show ?case by (rule step_inv [OF laws root step(2) step(3) step(4)])
qed

section \<open>Properties of the running program\<close>

lemma served_if_ok:
  assumes root: "artifactRootDir f \<noteq> []" and free: "fault_free (os e)"
  shows "maven_slot e f fs k (Some p) \<Longrightarrow> mst_Artifact (ma_Status p) = Some a \<Longrightarrow> served e f a fs"
    and "image_slot e f fs k (Some q) \<Longrightarrow> irst_Artifact (ir_Status q) = Some a \<Longrightarrow> served e f a fs"
proof -
  assume "maven_slot e f fs k (Some p)" "mst_Artifact (ma_Status p) = Some a"
  then have "plain_names k" "available e (artifactRootDir f) ''mavenartifact'' k a fs"
    by (auto simp: maven_slot_def maven_ok_def announced_available)
  then show "served e f a fs" by (intro available_served [OF free root, where kind = "''mavenartifact''"]) auto
next
  assume "image_slot e f fs k (Some q)" "irst_Artifact (ir_Status q) = Some a"
  then have "plain_names k" "available e (artifactRootDir f) ''imagerepository'' k a fs"
    by (auto simp: image_slot_def image_ok_def announced_available)
  then show "served e f a fs" by (intro available_served [OF free root, where kind = "''imagerepository''"]) auto
qed



text \<open>
  C3: no leftovers. In every reachable state there is nothing at or below the directory of a
  resource that does not exist: deleting a resource has removed all that its reconciles published,
  and no reconcile of another resource ever writes there.
\<close>

theorem reachable_no_leftovers:
  assumes "reachable w f runM runI c" and "sequence_laws runM" "sequence_laws runI"
    and "artifactRootDir f \<noteq> []" and "cwd (os e) = w"
  shows "(cl_Maven c k = None \<longrightarrow>
      fs_get (cl_disk c) (resource_dir e (artifactRootDir f) ''mavenartifact'' k @ x) = None) \<and>
    (cl_Image c k = None \<longrightarrow>
      fs_get (cl_disk c) (resource_dir e (artifactRootDir f) ''imagerepository'' k @ x) = None)"
  using inv_slots(2,3) [OF reachable_inv [OF assms], of k]
  by (auto simp: maven_slot_def image_slot_def absent_def)

end
