(* ===== verification/Scenario.thy ===== *)
theory Scenario
  imports System
begin

text \<open>
  The properties of the components put together, at work: an image repository is created and
  reconciled in a cluster, and its artifact is served.
\<close>

section \<open>One image from its creation to its tarball\<close>

abbreviation demo_image :: ImageRepository where
  "demo_image \<equiv> parent image_state"

definition demo_key :: ObjectMeta where
  "demo_key = \<lparr>Namespace = ''dev'', Name = ''app''\<rparr>"

definition demo_fs :: fs where
  "demo_fs = [([], Dir), ([''tmp''], Dir)]"

definition demo_start :: cluster where
  "demo_start = \<lparr>cl_Maven = Map.empty, cl_Image = Map.empty, cl_disk = demo_fs\<rparr>"

definition demo_created :: cluster where
  "demo_created = demo_start\<lparr>cl_Image := (cl_Image demo_start)(ir_Meta demo_image \<mapsto> demo_image)\<rparr>"

lemma demo_meta [simp]: "ir_Meta demo_image = demo_key"
  by (simp add: image_state_def demo_key_def)

lemma demo_plain: "plain_names demo_key"
  by (simp add: plain_names_def names_ok_def demo_key_def proper_def)

lemma demo_world: "world [''srv''] sample_flags image_env"
proof -
  have "stash_laws image_env" using sample_stash_laws by (simp add: stash_laws_def image_env_def)
  moreover have "maven_temp image_env fs \<parallel> resolve [''srv''] ''/artifacts''" for fs
    by (simp add: temp_dir_def temp_name_def sample_os_def itoa_7 suffix_def resolve_def IsAbs_def parallel_def)
  moreover have "image_temp image_env fs \<parallel> resolve [''srv''] ''/artifacts''" for fs
    unfolding image_temp_path by (simp add: resolve_def IsAbs_def parallel_def)
  moreover have "cwd (os image_env) = [''srv'']" by (simp add: sample_os_def)
  ultimately show ?thesis
    using image_pull_laws image_digest_laws fault_free_writes_ok [OF image_free(1)]
    by (simp add: world_def sample_flag_values)
qed

lemma demo_reachable_start: "reachable [''srv''] sample_flags run_sequence run_sequence demo_start"
  unfolding demo_start_def
proof (rule init)
  show "fs_wf demo_fs" using image_wf by (simp add: image_disk demo_fs_def)
  show "fs_get demo_fs (resolve [''srv''] (artifactRootDir sample_flags) @ x) = None" for x
    by (simp add: demo_fs_def fs_get_def sample_flag_values resolve_def IsAbs_def)
qed

lemma demo_reachable_created: "reachable [''srv''] sample_flags run_sequence run_sequence demo_created"
  unfolding demo_created_def
proof (rule step [OF demo_reachable_start create_image])
  show "cl_Image demo_start (ir_Meta demo_image) = None" by (simp add: demo_start_def)
  show "plain_names (ir_Meta demo_image)" using demo_plain by simp
  show "ir_Status demo_image = \<lparr>irst_Conditions = [], irst_URL = [], irst_Artifact = None\<rparr>"
    by (simp add: image_state_def)
qed

text \<open>The states of the reconcile before the pull.\<close>

definition demo_stash :: stash where
  "demo_stash =
     [(ImageRefStashKey, StashString ''reg/app@sha''), (ImagePullSecretsStashKey, StashSecrets []),
      (HttpRoundTripperStashKey, StashTransport \<lparr>RootCAs = []\<rparr>)]"

lemma demo_before_pull:
  "ImageRepositoryTransportSync image_env (main_certs sample_flags) (start demo_image demo_fs) =
     (Ok (), (start demo_image demo_fs)\<lparr>stashed := tl (tl demo_stash)\<rparr>)"
  "ImageRepositoryImagePullSecretsSync image_env ((start demo_image demo_fs)\<lparr>stashed := tl (tl demo_stash)\<rparr>) =
     (Ok (), (start demo_image demo_fs)\<lparr>stashed := tl demo_stash\<rparr>)"
  "ImageRepositoryImageDigestSync image_env ((start demo_image demo_fs)\<lparr>stashed := tl demo_stash\<rparr>) =
     (Ok (), (start demo_image demo_fs)\<lparr>stashed := demo_stash\<rparr>)"
proof -
  have "newTransport image_env demo_fs (main_certs sample_flags) = Ok \<lparr>RootCAs = []\<rparr>"
    by (simp add: newTransport_def main_certs_def Cert_Bytes_def sample_flags_def default_flags_def
        image_env_def sample_env_def)
  then show "ImageRepositoryTransportSync image_env (main_certs sample_flags) (start demo_image demo_fs) =
     (Ok (), (start demo_image demo_fs)\<lparr>stashed := tl (tl demo_stash)\<rparr>)"
    by (simp add: ImageRepositoryTransportSync_def start_def demo_stash_def StashHttpRoundTripper_def
        image_env_def sample_env_def)
  show "ImageRepositoryImagePullSecretsSync image_env ((start demo_image demo_fs)\<lparr>stashed := tl (tl demo_stash)\<rparr>) =
     (Ok (), (start demo_image demo_fs)\<lparr>stashed := tl demo_stash\<rparr>)"
    by (simp add: ImageRepositoryImagePullSecretsSync_def start_def demo_stash_def StashImagePullSecrets_def
        image_env_def sample_env_def image_state_def)
  show "ImageRepositoryImageDigestSync image_env ((start demo_image demo_fs)\<lparr>stashed := tl demo_stash\<rparr>) =
     (Ok (), (start demo_image demo_fs)\<lparr>stashed := demo_stash\<rparr>)"
    by (simp add: ImageRepositoryImageDigestSync_def Let_def start_def demo_stash_def StashImageRef_def
        image_env_def sample_env_def image_state_def)
qed

lemma demo_pull:
  "\<exists>s' a. ImageRepositoryPullImageSync image_env ''/artifacts'' ''host'' ((start demo_image demo_fs)\<lparr>stashed := demo_stash\<rparr>) =
     (Ok (), s') \<and> irst_Artifact (ir_Status (parent s')) = Some a"
proof -
  let ?s = "(start demo_image demo_fs)\<lparr>stashed := demo_stash\<rparr>"
  have disk: "disk ?s = disk image_state" by (simp add: start_def image_disk demo_fs_def)
  have par: "parent ?s = demo_image" by (simp add: start_def)
  have stash: "RetrieveImageRef image_env (stashed ?s) = ''reg/app@sha''"
    "RetrieveImagePullSecrets image_env (stashed ?s) = Some []"
    by (simp_all add: RetrieveImageRef_def RetrieveImagePullSecrets_def demo_stash_def image_env_def
        sample_env_def ImagePullSecretsStashKey_def ImageRefStashKey_def)
  have reg: "NewBasicRegistry image_env k t = Inr []" "NewFromPullSecrets image_env xs = Inr []" for k t xs
    by (simp_all add: image_env_def sample_env_def)
  have pull: "delivers_image image_env ?s ''reg/app@sha'' image_pulled"
    using image_delivers unfolding delivers_image_def stash image_stash disk by (simp add: reg)
  have names: "names_ok (ir_Meta (parent ?s))" and fresh: "irst_URL (ir_Status (parent ?s)) = []"
    "irst_Artifact (ir_Status (parent ?s)) = None"
    using image_names image_fresh unfolding par by simp_all
  have ready: "disk_ready (disk ?s) (image_temp image_env (disk ?s)) (image_dir image_env ''/artifacts'' ?s)"
    using image_ready unfolding disk par .
  show ?thesis
    using pull_sync_total [OF image_free image_pull_laws image_digest_laws artifacts_root(1) names stash(1)
        artifacts_root(2) image_new_digest fresh pull ready, of "''host''"] by blast
qed

lemma demo_start_image: "start_image image_env demo_image demo_fs = start demo_image demo_fs"
  by (simp add: start_image_def ir_InitializeConditions_def image_env_def sample_env_def sample_cond_def
      image_state_def)

lemma demo_reconcile:
  "\<exists>r s' a. run_sequence (rr_Sequence (mg_ImageRepository (main_manager image_env sample_flags)))
      (start_image image_env demo_image demo_fs) = (r, s') \<and> irst_Artifact (ir_Status (parent s')) = Some a"
proof -
  obtain s' a where p: "ImageRepositoryPullImageSync image_env ''/artifacts'' ''host''
      ((start demo_image demo_fs)\<lparr>stashed := demo_stash\<rparr>) = (Ok (), s')"
    and a: "irst_Artifact (ir_Status (parent s')) = Some a"
    using demo_pull by blast
  have "run_sequence (rr_Sequence (mg_ImageRepository (main_manager image_env sample_flags)))
      (start_image image_env demo_image demo_fs) = (Ok (irs_Interval (ir_Spec (parent s'))), s')"
    unfolding demo_start_image
    by (simp add: main_manager_def image_sequence run_sync_def and_then_def sample_flag_values
        demo_before_pull p aggregate_def)
  with a show ?thesis by blast
qed

lemma demo_reachable:
  "\<exists>c p a. reachable [''srv''] sample_flags run_sequence run_sequence c \<and> cl_Image c demo_key = Some p \<and>
     irst_Artifact (ir_Status p) = Some a"
proof -
  obtain r s' a where run: "run_sequence (rr_Sequence (mg_ImageRepository (main_manager image_env sample_flags)))
      (start_image image_env demo_image (cl_disk demo_created)) = (r, s')"
    and a: "irst_Artifact (ir_Status (parent s')) = Some a"
    using demo_reconcile by (auto simp: demo_created_def demo_start_def)
  have "cl_Image demo_created demo_key = Some demo_image" by (simp add: demo_created_def)
  note reached = step [OF demo_reachable_created reconcile_image [where c = demo_created and k = demo_key and p = demo_image
      and runI = run_sequence and f = sample_flags and e = image_env,
      OF demo_world this run]]
  let ?c = "demo_created\<lparr>cl_Image := (cl_Image demo_created)(demo_key \<mapsto> parent s'), cl_disk := disk s'\<rparr>"
  have "cl_Image ?c demo_key = Some (parent s')" by simp
  with reached a show ?thesis by blast
qed

section \<open>Witnesses\<close>

lemma demo_laws: "sequence_laws run_sequence" "artifactRootDir sample_flags \<noteq> []" "cwd (os image_env) = [''srv'']"
  by (simp_all add: run_sequence_laws sample_flag_values sample_os_def)



theorem reachable_no_leftovers_witness:
  "\<exists>(c :: cluster) p. cl_Image c demo_key = Some p \<and>
     fs_get (cl_disk c) [''artifacts'', ''mavenartifact'', ''dev'', ''app''] = None"
proof -
  let ?P = "\<lambda>c. fs_get (cl_disk c) [''artifacts'', ''mavenartifact'', ''dev'', ''app''] = None"
  have d: "resource_dir image_env (artifactRootDir sample_flags) ''mavenartifact'' demo_key =
      [''artifacts'', ''mavenartifact'', ''dev'', ''app'']"
    by (simp add: resource_dir_def sample_os_def sample_flag_values resolve_def IsAbs_def demo_key_def)
  have "?P demo_created"
    using reachable_no_leftovers [OF demo_reachable_created demo_laws(1) demo_laws(1) demo_laws(2,3), of demo_key "[]"]
    unfolding d by (simp add: demo_created_def demo_start_def)
  moreover have "cl_Image demo_created demo_key = Some demo_image" by (simp add: demo_created_def)
  ultimately show ?thesis by blast
qed

section \<open>Single reconcilers at work\<close>

lemma image_laws: "stash_laws image_env" "set_laws image_env"
  using sample_stash_laws sample_set_laws by (simp_all add: stash_laws_def set_laws_def image_env_def)

lemma repo_laws: "stash_laws repo_env" "condition_laws (cond repo_env)"
  using sample_stash_laws sample_condition_laws
  by (simp_all add: stash_laws_def repo_env_def sample_env_def)

lemma image_apart: "image_temp image_env fs \<parallel> resolve (cwd (os image_env)) ''/artifacts''"
  unfolding image_temp_path by (simp add: resolve_def IsAbs_def parallel_def)

lemma repo_apart: "maven_temp repo_env fs \<parallel> resolve (cwd (os repo_env)) ''/artifacts''"
  unfolding repo_temp by (simp add: resolve_def IsAbs_def parallel_def)

lemma image_flat: "flat (image_dir image_env ''/artifacts'' image_state) (disk image_state)"
  using image_ready by (simp add: flat_def disk_ready_def)

lemma repo_flat: "flat (maven_dir repo_env ''/artifacts'' repo_state) (disk repo_state)"
  using repo_ready by (simp add: flat_def disk_ready_def)



definition client_state :: mstate where
  "client_state = repo_state\<lparr>stashed := [(MavenArtifactHttpClientKey, StashClient sample_client)]\<rparr>"


theorem handle_download_error_table_witness:
  "\<exists>s'. handle_download_error repo_env (checksum_messages repo_info (DownloadError (ErrorText []) 404))
     (DownloadError (ErrorText []) 404) repo_state = (Ok (), s') \<and>
   condition_status MavenArtifactConditionArtifactAvailable (parent s') = Some ''False''"
proof -
  define dm where "dm = checksum_messages repo_info (DownloadError (ErrorText []) 404)"
  have t: "dm_Type dm = MavenArtifactConditionArtifactAvailable"
    by (simp add: dm_def checksum_messages_def Let_def)
  then have "dm_Type dm \<in> set MavenArtifactCondSet" by (simp add: MavenArtifactCondSet_def)
  moreover obtain r s' where run: "handle_download_error repo_env dm (DownloadError (ErrorText []) 404) repo_state = (r, s')"
    by fastforce
  ultimately have "r = Ok () \<and> condition_status (dm_Type dm) (parent s') = Some ''False''"
    using handle_download_error_table [OF repo_laws(2), of dm "DownloadError (ErrorText []) 404" repo_state r s'] by auto
  with run t show ?thesis unfolding dm_def by simp
qed

theorem secrets_sync_outcome_witness:
  "\<exists>t. retrieveHttpClient repo_env (stashed (snd (MavenArtifactSecretsSync repo_env [] repo_state))) =
     Some \<lparr>hc_Transport = t\<rparr>"
proof -
  have ref: "SecretRef (ms_Repository (ma_Spec (parent repo_state))) = []"
    by (simp add: repo_state_def sample_maven_def)
  then have "MavenArtifactSecretsSync repo_env [] repo_state =
      (Ok (), snd (MavenArtifactSecretsSync repo_env [] repo_state))"
    by (simp add: MavenArtifactSecretsSync_def stash_client_def newTransport_def repo_env_def sample_env_def Let_def)
  from secrets_sync_outcome [OF repo_laws this] ref show ?thesis by blast
qed

theorem pull_secrets_outcome_witness:
  "\<exists>s'. ImageRepositoryImagePullSecretsSync image_env ((start demo_image demo_fs)\<lparr>stashed := tl (tl demo_stash)\<rparr>) =
     (Ok (), s') \<and> RetrieveImagePullSecrets image_env (stashed s') = Some []"
proof -
  let ?s' = "(start demo_image demo_fs)\<lparr>stashed := tl demo_stash\<rparr>"
  have "\<not> image_marked_false image_env ((start demo_image demo_fs)\<lparr>stashed := tl (tl demo_stash)\<rparr>) ?s'"
    by (auto simp: demo_stash_def dest!: image_marked_false_quiet)
  then obtain sa names xs where x: "RetrieveImagePullSecrets image_env (stashed ?s') = Some xs"
    and sa: "GetServiceAccount image_env (Namespace demo_key) (service_account_name demo_image) = Inr sa"
    and names: "set names = set (irs_ImagePullSecrets (ir_Spec demo_image)) \<union> set (sa_ImagePullSecrets sa)"
      "list_all2 (\<lambda>n x. GetSecret image_env (Namespace demo_key) n = Inr x) names xs"
    using pull_secrets_outcome [OF image_laws demo_before_pull(2)] by (auto simp: start_def)
  have "sa_ImagePullSecrets sa = []" "irs_ImagePullSecrets (ir_Spec demo_image) = []"
    using sa by (auto simp: image_env_def sample_env_def image_state_def)
  with names have "xs = []" by simp
  with x demo_before_pull(2) show ?thesis by blast
qed


end
