(* ===== verification/Startup.thy ===== *)
theory Startup
  imports System
begin

text \<open>
  \<^verbatim>\<open>main\<close> of \<^verbatim>\<open>main.go\<close> from the parsed flags on: the calls it makes to the controller runtime, in
  their order, and where it gives up. The runtime is a parameter: a function from the calls made
  so far and the next one to the error of that call, if it returns one.
\<close>

section \<open>The calls of main\<close>

definition syncPeriod :: int where
  "syncPeriod = 10 * (60 * 60 * 1000000000)"

text \<open>The fields of \<^verbatim>\<open>ctrl.Options\<close> that \<^verbatim>\<open>main\<close> sets, apart from the scheme.\<close>

record manager_options =
  mo_MetricsBindAddress :: string
  mo_HealthProbeBindAddress :: string
  mo_LeaderElection :: bool
  mo_LeaderElectionID :: string
  mo_WebhookPort :: int
  mo_SyncPeriod :: int
  mo_DisableFor :: "string list"

definition main_options :: "flags \<Rightarrow> manager_options" where
  "main_options f =
     \<lparr>mo_MetricsBindAddress = metricsAddr f, mo_HealthProbeBindAddress = probeAddr f,
      mo_LeaderElection = enableLeaderElection f, mo_LeaderElectionID = ''db9e3205.apps.tanzu.vmware.com'',
      mo_WebhookPort = 9443, mo_SyncPeriod = syncPeriod, mo_DisableFor = [''Secret'']\<rparr>"

record webhook =
  wh_Default :: "MavenArtifact \<Rightarrow> MavenArtifact"
  wh_ValidateCreate :: "MavenArtifact \<Rightarrow> go_error option"
  wh_ValidateUpdate :: "MavenArtifact \<Rightarrow> MavenArtifact \<Rightarrow> go_error option"
  wh_ValidateDelete :: "MavenArtifact \<Rightarrow> go_error option"

text \<open>\<open>h\<close>, \<open>dns\<close> and \<open>agg\<close> are the parameters of the validation: URLs, DNS labels, aggregates.\<close>

definition main_webhook ::
  "http_env \<Rightarrow> (string \<Rightarrow> bool \<Rightarrow> string list) \<Rightarrow> (field_error list \<Rightarrow> go_error option) \<Rightarrow> webhook" where
  "main_webhook h dns agg =
     \<lparr>wh_Default = MavenArtifactDefaulter_Default, wh_ValidateCreate = ValidateCreate h dns agg,
      wh_ValidateUpdate = ValidateUpdate h dns agg, wh_ValidateDelete = ValidateDelete\<rparr>"

datatype startup_call =
    NewManager manager_options
  | SetupImageRepository int "ImageRepository ResourceReconciler"
  | SetupMavenArtifact int "MavenArtifact ResourceReconciler"
  | CompleteWebhook webhook
  | AddHealthzCheck string
  | AddReadyzCheck string
  | AddRunnable artifact_server
  | StartManager

text \<open>\<^verbatim>\<open>main\<close> returns, or logs a message with an error and exits with a status.\<close>

datatype exit_status = Returned | Exited int string go_error

text \<open>
  \<^verbatim>\<open>if err := call; err != nil { setupLog.Error(err, msg); os.Exit(1) }\<close>, and what follows it.
\<close>

definition or_exit ::
  "(startup_call list \<Rightarrow> startup_call \<Rightarrow> go_error option) \<Rightarrow> startup_call \<Rightarrow> string \<Rightarrow>
   (startup_call list \<Rightarrow> startup_call list \<times> exit_status) \<Rightarrow> startup_call list \<Rightarrow> startup_call list \<times> exit_status" where
  "or_exit rt c msg k calls =
     (case rt calls c of
        Some er \<Rightarrow> (calls @ [c], Exited 1 msg er)
      | None \<Rightarrow> k (calls @ [c]))"

text \<open>\<^verbatim>\<open>mgr.Add\<close> is the one call whose error \<^verbatim>\<open>main\<close> does not look at.\<close>

definition dropping_error ::
  "startup_call \<Rightarrow> (startup_call list \<Rightarrow> startup_call list \<times> exit_status) \<Rightarrow>
   startup_call list \<Rightarrow> startup_call list \<times> exit_status" where
  "dropping_error c k calls = k (calls @ [c])"

definition main ::
  "(startup_call list \<Rightarrow> startup_call \<Rightarrow> go_error option) \<Rightarrow> env \<Rightarrow> flags \<Rightarrow>
   http_env \<Rightarrow> (string \<Rightarrow> bool \<Rightarrow> string list) \<Rightarrow> (field_error list \<Rightarrow> go_error option) \<Rightarrow>
   startup_call list \<times> exit_status" where
  "main rt e f h dns agg =
     (or_exit rt (NewManager (main_options f)) ''unable to start manager''
     (or_exit rt (SetupImageRepository syncPeriod
        (ImageRepositoryReconciler e (artifactRootDir f) (artifactHost f) (main_certs f))) ''unable to create controller''
     (or_exit rt (SetupMavenArtifact syncPeriod
        (MavenArtifactReconciler e (artifactRootDir f) (artifactHost f) (main_certs f))) ''unable to create controller''
     (or_exit rt (CompleteWebhook (main_webhook h dns agg)) ''unable to create webhook''
     (or_exit rt (AddHealthzCheck ''healthz'') ''unable to set up health check''
     (or_exit rt (AddReadyzCheck ''readyz'') ''unable to set up ready check''
     (dropping_error (AddRunnable (New (artifactAddr f) (artifactRootDir f)))
     (or_exit rt StartManager ''problem running manager''
     (\<lambda>calls. (calls, Returned)))))))))) []"

section \<open>What main starts\<close>

text \<open>The calls of a start-up in which nothing fails.\<close>

definition startup_calls ::
  "env \<Rightarrow> flags \<Rightarrow> http_env \<Rightarrow> (string \<Rightarrow> bool \<Rightarrow> string list) \<Rightarrow> (field_error list \<Rightarrow> go_error option) \<Rightarrow>
   startup_call list" where
  "startup_calls e f h dns agg =
     [NewManager (main_options f),
      SetupImageRepository syncPeriod (mg_ImageRepository (main_manager e f)),
      SetupMavenArtifact syncPeriod (mg_MavenArtifact (main_manager e f)),
      CompleteWebhook (main_webhook h dns agg), AddHealthzCheck ''healthz'', AddReadyzCheck ''readyz'',
      AddRunnable (mg_Server (main_manager e f)), StartManager]"

text \<open>The same as a list of calls of which the first that fails ends it, unless it is the server's.\<close>

fun is_AddRunnable :: "startup_call \<Rightarrow> bool" where
  "is_AddRunnable (AddRunnable _) = True"
| "is_AddRunnable _ = False"

primrec until_failure ::
  "(startup_call list \<Rightarrow> startup_call \<Rightarrow> go_error option) \<Rightarrow> startup_call list \<Rightarrow> startup_call list \<Rightarrow>
   startup_call list \<times> go_error option" where
  "until_failure rt [] done = (done, None)"
| "until_failure rt (c # cs) done =
     (if is_AddRunnable c \<or> rt done c = None then until_failure rt cs (done @ [c]) else (done @ [c], rt done c))"

lemma until_failure_calls: "\<exists>k \<le> length cs. fst (until_failure rt cs d) = d @ take k cs"
proof (induction cs arbitrary: d)
  case (Cons c cs)
  obtain k where "k \<le> length cs" "fst (until_failure rt cs (d @ [c])) = (d @ [c]) @ take k cs"
    using Cons.IH by blast
  then have "\<exists>k \<le> Suc (length cs). fst (until_failure rt cs (d @ [c])) = d @ take k (c # cs)"
    by (intro exI [of _ "Suc k"]) simp
  moreover have "\<exists>k \<le> Suc (length cs). d @ [c] = d @ take k (c # cs)"
    by (intro exI [of _ 1]) simp
  ultimately show ?case by simp
qed simp

lemma until_failure_all:
  "snd (until_failure rt cs d) = None \<longleftrightarrow>
     (\<forall>i < length cs. is_AddRunnable (cs ! i) \<or> rt (d @ take i cs) (cs ! i) = None)"
proof (induction cs arbitrary: d)
  case (Cons c cs)
  have "(\<forall>i < length (c # cs). is_AddRunnable ((c # cs) ! i) \<or> rt (d @ take i (c # cs)) ((c # cs) ! i) = None) \<longleftrightarrow>
      (is_AddRunnable c \<or> rt d c = None) \<and>
      (\<forall>i < length cs. is_AddRunnable (cs ! i) \<or> rt ((d @ [c]) @ take i cs) (cs ! i) = None)"
    by (simp add: All_less_Suc2)
  then show ?case using Cons.IH [of "d @ [c]"] by auto
qed simp

lemma until_failure_last:
  "snd (until_failure rt cs d) = Some er \<Longrightarrow>
     \<exists>c. fst (until_failure rt cs d) = butlast (fst (until_failure rt cs d)) @ [c] \<and> \<not> is_AddRunnable c \<and>
       rt (butlast (fst (until_failure rt cs d))) c = Some er"
proof (induction cs arbitrary: d)
  case (Cons c cs)
  then show ?case by (cases "is_AddRunnable c \<or> rt d c = None") auto
qed simp

definition exit_message :: "startup_call \<Rightarrow> string" where
  "exit_message c =
     (case c of
        NewManager _ \<Rightarrow> ''unable to start manager''
      | SetupImageRepository _ _ \<Rightarrow> ''unable to create controller''
      | SetupMavenArtifact _ _ \<Rightarrow> ''unable to create controller''
      | CompleteWebhook _ \<Rightarrow> ''unable to create webhook''
      | AddHealthzCheck _ \<Rightarrow> ''unable to set up health check''
      | AddReadyzCheck _ \<Rightarrow> ''unable to set up ready check''
      | AddRunnable _ \<Rightarrow> []
      | StartManager \<Rightarrow> ''problem running manager'')"

lemma main_until_failure:
  "main rt e f h dns agg =
     (case until_failure rt (startup_calls e f h dns agg) [] of
        (calls, None) \<Rightarrow> (calls, Returned)
      | (calls, Some er) \<Rightarrow> (calls, Exited 1 (exit_message (last calls)) er))"
  by (simp add: main_def or_exit_def dropping_error_def startup_calls_def main_manager_def exit_message_def
      split: option.splits)

text \<open>The calls before the server's are what \<^verbatim>\<open>StartManager\<close> waits for.\<close>

lemma until_failure_start:
  assumes "\<forall>i < length cs. \<not> is_AddRunnable (cs ! i)" and "is_AddRunnable a" and "StartManager \<notin> set (d @ cs)"
  shows "StartManager \<in> set (fst (until_failure rt (cs @ [a, StartManager]) d)) \<longleftrightarrow>
    (\<forall>i < length cs. rt (d @ take i cs) (cs ! i) = None)"
  using assms(1,3)
proof (induction cs arbitrary: d)
  case Nil
  with assms(2) show ?case by (cases a) auto
next
  case (Cons c cs)
  have "(\<forall>i < length (c # cs). rt (d @ take i (c # cs)) ((c # cs) ! i) = None) \<longleftrightarrow>
      rt d c = None \<and> (\<forall>i < length cs. rt ((d @ [c]) @ take i cs) (cs ! i) = None)"
    by (simp add: All_less_Suc2)
  moreover have "\<forall>i < length cs. \<not> is_AddRunnable (cs ! i)" "\<not> is_AddRunnable c"
    using Cons.prems(1) by (auto simp: All_less_Suc2)
  ultimately show ?case using Cons.IH [of "d @ [c]"] Cons.prems(2) by auto
qed

lemma main_reaches_start:
  "StartManager \<in> set (fst (main rt e f h dns agg)) \<longleftrightarrow>
     (\<forall>i < 6. rt (take i (startup_calls e f h dns agg)) (startup_calls e f h dns agg ! i) = None)"
proof -
  let ?cs = "take 6 (startup_calls e f h dns agg)"
  have split: "startup_calls e f h dns agg = ?cs @ [AddRunnable (mg_Server (main_manager e f)), StartManager]"
    by (simp add: startup_calls_def)
  have "StartManager \<in> set (fst (until_failure rt (?cs @ [AddRunnable (mg_Server (main_manager e f)), StartManager]) [])) \<longleftrightarrow>
      (\<forall>i < length ?cs. rt ([] @ take i ?cs) (?cs ! i) = None)"
    by (rule until_failure_start) (simp_all add: startup_calls_def All_less_Suc numeral_eq_Suc)
  then have "StartManager \<in> set (fst (until_failure rt (startup_calls e f h dns agg) [])) \<longleftrightarrow>
      (\<forall>i < length ?cs. rt ([] @ take i ?cs) (?cs ! i) = None)"
    unfolding split [symmetric] .
  moreover have "length (startup_calls e f h dns agg) = 8" by (simp add: startup_calls_def)
  moreover have "take i ?cs = take i (startup_calls e f h dns agg) \<and> ?cs ! i = startup_calls e f h dns agg ! i" if "i < 6" for i
    using that by (simp add: min_def)
  ultimately have "StartManager \<in> set (fst (until_failure rt (startup_calls e f h dns agg) [])) \<longleftrightarrow>
      (\<forall>i < 6. rt (take i (startup_calls e f h dns agg)) (startup_calls e f h dns agg ! i) = None)" by simp
  then show ?thesis unfolding main_until_failure by (auto split: prod.splits option.splits)
qed

text \<open>
  C18: the start-up. \<^verbatim>\<open>main\<close> makes the calls to the controller runtime in one order, and starts the
  manager exactly when both controllers, the webhook and both probes are set up. It returns exactly
  when no call but the registration of the artifact server failed, whose error is dropped: then the
  manager runs without a server. Otherwise it exits with status 1, the message and the error of the
  call that failed, which is the last it made.
\<close>

theorem main_startup:
  defines "S \<equiv> startup_calls"
  shows "(\<exists>k \<le> 8. fst (main rt e f h dns agg) = take k (S e f h dns agg)) \<and>
    (StartManager \<in> set (fst (main rt e f h dns agg)) \<longleftrightarrow> (\<forall>i < 6. rt (take i (S e f h dns agg)) (S e f h dns agg ! i) = None)) \<and>
    (snd (main rt e f h dns agg) = Returned \<longleftrightarrow> (\<forall>i < 8. i = 6 \<or> rt (take i (S e f h dns agg)) (S e f h dns agg ! i) = None)) \<and>
    (\<forall>code msg er. snd (main rt e f h dns agg) = Exited code msg er \<longrightarrow>
      code = 1 \<and> (\<exists>calls c. fst (main rt e f h dns agg) = calls @ [c] \<and> \<not> is_AddRunnable c \<and>
        rt calls c = Some er \<and> msg = exit_message c))"
proof -
  let ?u = "until_failure rt (S e f h dns agg) []"
  have fst: "fst (main rt e f h dns agg) = fst ?u" and
    snd: "snd (main rt e f h dns agg) = (case snd ?u of None \<Rightarrow> Returned | Some er \<Rightarrow> Exited 1 (exit_message (last (fst ?u))) er)"
    unfolding S_def main_until_failure by (simp_all split: prod.splits option.splits)
  have len: "length (S e f h dns agg) = 8" by (simp add: S_def startup_calls_def)
  have add: "is_AddRunnable (S e f h dns agg ! i) \<longleftrightarrow> i = 6" if "i < 8" for i
    using that by (auto simp: S_def startup_calls_def numeral_eq_Suc less_Suc_eq)
  have "snd (main rt e f h dns agg) = Returned \<longleftrightarrow> snd ?u = None" unfolding snd by (simp split: option.splits)
  then have ret: "snd (main rt e f h dns agg) = Returned \<longleftrightarrow> (\<forall>i < 8. i = 6 \<or> rt (take i (S e f h dns agg)) (S e f h dns agg ! i) = None)"
    using until_failure_all [of rt "S e f h dns agg" "[]"] add len by auto
  have "code = 1 \<and> (\<exists>calls c. fst ?u = calls @ [c] \<and> \<not> is_AddRunnable c \<and> rt calls c = Some er \<and> msg = exit_message c)"
    if "snd (main rt e f h dns agg) = Exited code msg er" for code msg er
  proof -
    have "snd ?u = Some er" "code = 1" "msg = exit_message (last (fst ?u))"
      using that unfolding snd by (simp_all split: option.splits)
    then show ?thesis using until_failure_last [of rt "S e f h dns agg" "[]" er] by (metis last_snoc)
  qed
  then show ?thesis
    using until_failure_calls [of "S e f h dns agg" rt "[]"] main_reaches_start [of rt e f h dns agg] ret len
    unfolding fst by (simp add: S_def)
qed

text \<open>With a port that is taken, say: every check passes, and the manager starts without a server.\<close>

definition busy_port :: "startup_call list \<Rightarrow> startup_call \<Rightarrow> go_error option" where
  "busy_port calls c = (if is_AddRunnable c then Some (External ''address already in use'') else None)"

theorem main_startup_witness:
  "snd (main busy_port repo_env default_flags sample_http (\<lambda>_ _. []) sample_aggregate) = Returned \<and>
   StartManager \<in> set (fst (main busy_port repo_env default_flags sample_http (\<lambda>_ _. []) sample_aggregate))"
  using main_startup [of busy_port repo_env default_flags sample_http "\<lambda>_ _. []" sample_aggregate]
  by (simp add: busy_port_def startup_calls_def numeral_eq_Suc All_less_Suc)

end
