(* ===== verification/Requests.thy ===== *)
theory Requests
  imports Maven_Runs
begin

text \<open>
  How many HTTP requests the MavenArtifact controller sends. The locale \<open>bounded_requests\<close> is the
  contract of code that sends at most \<open>n\<close> of them; it composes along the code, from one call of
  the client to a whole reconcile.
\<close>

section \<open>The redirect loop ends\<close>

text \<open>A server that answers every request with a redirect within its own origin.\<close>

definition redirects_forever :: "http_env \<Rightarrow> transport \<Rightarrow> bool" where
  "redirects_forever h tr \<longleftrightarrow>
     (\<forall>log req. \<exists>resp u. send h log tr req = Inr resp \<and> shouldRedirect resp \<and> Location resp \<noteq> [] \<and>
        url_ParseRef h (req_URL req) (Location resp) = Inr u \<and> same_origin u (req_URL req))"

lemma redirect_loop_stops:
  assumes "redirects_forever h tr" and "length via < maxRedirects"
    and "\<forall>r \<in> set via. same_origin (req_URL r) (req_URL req)"
  shows "\<exists>er log'. client_loop h tr log via req = (Error er, log') \<and>
    length log' = length log + (maxRedirects - length via)"
  using assms(2,3)
proof (induction "maxRedirects - length via" arbitrary: via req log)
  case (Suc n)
  obtain resp u where r: "send h log tr req = Inr resp" "shouldRedirect resp" "Location resp \<noteq> []"
    "url_ParseRef h (req_URL req) (Location resp) = Inr u" "same_origin u (req_URL req)"
    using assms(1) unfolding redirects_forever_def by blast
  let ?req = "req\<lparr>req_URL := u\<rparr>"
  let ?via = "via @ [req]"
  have origin: "\<forall>r \<in> set ?via. same_origin (req_URL r) (req_URL ?req)"
    using Suc.prems(2) r(5) by (auto simp: same_origin_def)
  show ?case
  proof (cases "length ?via < maxRedirects")
    case True
    have hd: "same_origin (req_URL ?req) (req_URL (hd ?via))"
      using origin by (cases via) (auto simp: same_origin_def)
    then have "sameHostRedirectPolicy ?req ?via = Ok ()"
      using True policy_Ok [of ?req ?via] by (simp add: same_origin_def)
    then have loop: "client_loop h tr log via req = client_loop h tr (log @ [req]) ?via ?req"
      using r by (simp add: client_loop.simps [of h tr log via req])
    have "n = maxRedirects - length ?via" using Suc.hyps(2) by simp
    from Suc.hyps(1) [OF this True origin, of "log @ [req]"] show ?thesis
      unfolding loop using Suc.prems(1) True by auto
  next
    case False
    then have "sameHostRedirectPolicy ?req ?via = Error (Errorf ''stopped after %d redirects'' [AInt (int maxRedirects)])"
      by (simp add: sameHostRedirectPolicy_def)
    then have "client_loop h tr log via req =
        (Error (UrlError (Errorf ''stopped after %d redirects'' [AInt (int maxRedirects)])), log @ [req])"
      using r by (simp add: client_loop.simps [of h tr log via req])
    moreover have "maxRedirects - length via = 1" using False Suc.prems(1) by simp
    ultimately show ?thesis by simp
  qed
qed simp

text \<open>
  C29: a redirect cycle ends. Against a server that redirects every request within its own origin, a
  call of the client sends exactly ten requests and returns an error.
\<close>

theorem redirect_cycle_ends:
  assumes "redirects_forever h tr"
  shows "\<exists>er log'. client_Do h tr log req = (Error er, log') \<and> length log' = length log + maxRedirects"
  using redirect_loop_stops [OF assms, of "[]" req log] by (simp add: client_Do_def maxRedirects_def)

definition cycling_http :: http_env where
  "cycling_http =
     \<lparr>send = (\<lambda>_ _ _. Inr \<lparr>StatusCode = 302, Location = ''https://repo/again'', Body = [], BodyErr = None\<rparr>),
      url_Parse = (\<lambda>s. Inr \<lparr>u_Scheme = ''https'', u_Host = ''repo'', u_String = s\<rparr>),
      url_ParseRef = (\<lambda>u s. Inr (u\<lparr>u_String := s\<rparr>))\<rparr>"

theorem redirect_cycle_ends_witness:
  "length (snd (client_Do cycling_http \<lparr>RootCAs = []\<rparr> []
     \<lparr>req_Method = ''GET'', req_URL = \<lparr>u_Scheme = ''https'', u_Host = ''repo'', u_String = ''u''\<rparr>, req_BasicAuth = None\<rparr>)) = 10"
proof -
  have "redirects_forever cycling_http \<lparr>RootCAs = []\<rparr>"
    by (simp add: redirects_forever_def cycling_http_def shouldRedirect_def same_origin_def)
  from redirect_cycle_ends [OF this, of "[]"
      "\<lparr>req_Method = ''GET'', req_URL = \<lparr>u_Scheme = ''https'', u_Host = ''repo'', u_String = ''u''\<rparr>, req_BasicAuth = None\<rparr>"]
  show ?thesis by (auto simp: maxRedirects_def)
qed

section \<open>Code that sends at most so many requests\<close>

locale bounded_requests =
  fixes log :: "'s \<Rightarrow> request list"
    and run :: "'s \<Rightarrow> 'a outcome \<times> 's"
    and n :: nat
  assumes bound: "length (log (snd (run s))) \<le> length (log s) + n"
begin

lemma bound_result: "run s = (r, s') \<Longrightarrow> length (log s') \<le> length (log s) + n"
  using bound [of s] by simp

lemma weaken: "n \<le> m \<Longrightarrow> bounded_requests log run m"
  using bound order_trans unfolding bounded_requests_def by (metis add_left_mono)

end

lemma bounded_and_then:
  assumes f: "bounded_requests log f m" and g: "\<And>x. bounded_requests log (g x) n"
  shows "bounded_requests log (and_then f g) (m + n)"
proof
  fix s
  obtain r s1 where run: "f s = (r, s1)" by fastforce
  note b = bounded_requests.bound_result [OF f run]
  show "length (log (snd (and_then f g s))) \<le> length (log s) + (m + n)"
  proof (cases r)
    case (Ok x)
    then show ?thesis using run b bounded_requests.bound [OF g, of x s1] by (simp add: and_then_def)
  qed (use run b in \<open>simp_all add: and_then_def\<close>)
qed

lemma bounded_and_then_last:
  assumes "bounded_requests log f m" and "\<And>x. bounded_requests log (g x) 0"
  shows "bounded_requests log (and_then f g) m"
  using bounded_and_then [OF assms] by simp

lemma bounded_on_disk: "bounded_requests sent (on_disk f) 0"
  by unfold_locales simp

lemma bounded_with_error: "bounded_requests log f n \<Longrightarrow> bounded_requests log (with_error w f) n"
  unfolding bounded_requests_def with_error_def
  by (auto split: prod.splits outcome.splits) (metis snd_conv)+

lemma bounded_return: "(\<And>s. log (f s) = log s) \<Longrightarrow> bounded_requests log (\<lambda>s. (r s, f s)) 0"
  by unfold_locales simp

interpretation client_Do_bound: bounded_requests id "\<lambda>log. client_Do h tr log req" maxRedirects for h tr req
proof
  fix log
  obtain new where "snd (client_Do h tr log req) = log @ new" "length new \<le> maxRedirects"
    using client_Do_log [of h tr log req] by blast
  then show "length (id (snd (client_Do h tr log req))) \<le> length (id log) + maxRedirects" by simp
qed

interpretation download_bound: bounded_requests id "download e st url client" maxRedirects for e st url client
proof
  fix log
  show "length (id (snd (download e st url client log))) \<le> length (id log) + maxRedirects"
    using client_Do_bound.bound_result
    by (auto simp: download_def split: outcome.splits option.splits prod.splits)
qed

interpretation metadata_bound: bounded_requests id "downloadMetadata e st client url" maxRedirects for e st client url
proof
  fix log
  show "length (id (snd (downloadMetadata e st client url log))) \<le> length (id log) + maxRedirects"
    using download_bound.bound_result [of e st url client log]
    by (auto simp: downloadMetadata_def split: outcome.splits prod.splits)
qed

interpretation fetch_bound: bounded_requests sent "fetch e url client" maxRedirects for e url client
proof
  fix s :: mstate
  show "length (sent (snd (fetch e url client s))) \<le> length (sent s) + maxRedirects"
    using client_Do_bound.bound_result
    by (auto simp: fetch_def split: outcome.splits prod.splits)
qed

section \<open>The reconcilers\<close>

text \<open>Resolving a version takes at most two metadata files: that of the artifact and of a snapshot.\<close>

lemma snapshot_requests:
  "length (snd (snd (processSnapshotVersion e st client r log))) \<le> length log + maxRedirects"
  using metadata_bound.bound_result [of e st client "snapshotMetadataURL r" log]
  by (auto simp: processSnapshotVersion_def Let_def split: outcome.splits prod.splits)

lemma Resolve_requests:
  "length (snd (snd (Resolve e st client r log))) \<le> length log + 2 * maxRedirects"
proof -
  have "length (snd (snd (processReleaseVersion e st client r log))) \<le> length log + maxRedirects"
    using metadata_bound.bound_result [of e st client "metadataURL r" log]
    by (auto simp: processReleaseVersion_def Let_def split: outcome.splits prod.splits)
  moreover have "length (snd (snd (processLatestVersion e st client r log))) \<le> length log + 2 * maxRedirects"
  proof -
    obtain res log1 where d: "downloadMetadata e st client (metadataURL r) log = (res, log1)" by fastforce
    have one: "length log1 \<le> length log + maxRedirects"
      using metadata_bound.bound_result [of e st client "metadataURL r" log] d by simp
    have two: "length (snd (snd (processSnapshotVersion e st client r' log1))) \<le> length log + 2 * maxRedirects" for r'
      using snapshot_requests [of e st client r' log1] one by simp
    show ?thesis
      using d one two by (auto simp: processLatestVersion_def Let_def split: outcome.splits sum.splits prod.splits)
  qed
  moreover have "length (snd (snd (processSnapshotVersion e st client r log))) \<le> length log + 2 * maxRedirects"
    using snapshot_requests [of e st client r log] by simp
  ultimately show ?thesis
    by (auto simp: Resolve_def Let_def split: prod.splits)
qed

interpretation handle_bound: bounded_requests sent "handle_download_error e dm err" 0 for e dm err
  by unfold_locales
    (auto simp: handle_download_error_def Let_def split: go_error.splits prod.splits)

interpretation version_bound: bounded_requests sent "MavenArtifactVersionSync e" "2 * maxRedirects" for e
proof
  fix s :: mstate
  obtain r s' where run: "MavenArtifactVersionSync e s = (r, s')" by fastforce
  from run have "length (sent s') \<le> length (sent s) + 2 * maxRedirects"
  proof (cases rule: version_sync_cases)
    case config
    then show ?thesis using marked_false_quiet by fastforce
  next
    case (run client u)
    let ?mr = "\<lparr>mr_Artifact = ms_Artifact (ma_Spec (parent s)), RepositoryURL = u_String u,
      RequestPath = ReplaceAll (GroupId (ms_Artifact (ma_Spec (parent s)))) (CHR ''.'') (CHR ''/'') @ ''/'' @
        ArtifactId (ms_Artifact (ma_Spec (parent s))),
      ResolvedVersion = [], ResolvedFilename = [], DownloadURL = [], MetaXML = []\<rparr>"
    obtain res mr' log' where R: "Resolve e (stashed s) client ?mr (sent s) = (res, mr', log')"
      by (cases "Resolve e (stashed s) client ?mr (sent s)") auto
    have log: "length log' \<le> length (sent s) + 2 * maxRedirects"
      using Resolve_requests [of e "stashed s" client ?mr "sent s"] R by simp
    have "length (sent s') \<le> length log'"
      using run(1) R handle_bound.bound_result by (fastforce simp: resolve_version_def Let_def split: outcome.splits)
    with log show ?thesis by simp
  qed simp_all
  with run show "length (sent (snd (MavenArtifactVersionSync e s))) \<le> length (sent s) + 2 * maxRedirects" by simp
qed

lemma downloadArtifact_bound: "bounded_requests sent (downloadArtifact e url dir f cs client) maxRedirects"
proof -
  have final: "bounded_requests sent (\<lambda>s. if a \<noteq> b then (Error er, s) else (Ok x, s)) 0"
    for a b :: string and er and x :: string
    by (cases "a = b") (simp_all add: bounded_return)
  have zero: "maxRedirects = 0 + (0 + (maxRedirects + 0))" by simp
  show ?thesis
    unfolding downloadArtifact_def Let_def
    by (subst zero, intro bounded_and_then bounded_and_then_last bounded_with_error bounded_on_disk
        fetch_bound.bounded_requests_axioms final)
qed

text \<open>Packaging and publishing send nothing.\<close>

lemma package_bound: "bounded_requests sent (package_artifact e info dir a) 0"
proof -
  have un: "bounded_requests sent (unpack e info dir a) 0"
    by unfold_locales
      (auto simp: unpack_def Let_def on_disk_def split: prod.splits outcome.splits)
  have tar: "bounded_requests sent (make_tarball e dir nm a') 0" for nm a'
    unfolding make_tarball_def Let_def
    by (intro bounded_and_then_last bounded_with_error bounded_on_disk bounded_return refl)
  show ?thesis
    unfolding package_artifact_def
    by (intro bounded_and_then_last bounded_on_disk un) (auto intro: tar bounded_return split: option.split)
qed

lemma publish_bound: "bounded_requests sent (publish_artifact e root host info rc pkg) 0"
proof
  fix s
  obtain nm tgz ck where p: "pkg = (nm, tgz, ck)" by (cases pkg)
  have "bounded_requests sent (announce_artifact e info a b c) 0" for a b c
    by unfold_locales (simp add: announce_artifact_def Let_def)
  then have "bounded_requests sent (and_then (on_disk (copyCompressedFile e a b))
      (\<lambda>_. and_then (on_disk (os_WriteFile x md (os e) c)) (\<lambda>_. announce_artifact e info d f ck))) 0" for a b c d f md x
    by (intro bounded_and_then_last bounded_on_disk)
  then show "length (sent (snd (publish_artifact e root host info rc pkg s))) \<le> length (sent s) + 0"
    by (simp add: publish_artifact_def p Let_def bounded_requests_def)
qed

lemma download_in_bound: "bounded_requests sent (download_in e root host info client rc dir) maxRedirects"
proof
  fix s
  obtain r s1 where d: "downloadArtifact e (ArtifactDownloadURL info) dir (ResolvedFileName info) rc client s = (r, s1)"
    by fastforce
  have one: "length (sent s1) \<le> length (sent s) + maxRedirects"
    by (rule bounded_requests.bound_result [OF downloadArtifact_bound d])
  have rest: "bounded_requests sent (and_then (package_artifact e info dir a) (\<lambda>pkg. case pkg of
      None \<Rightarrow> (\<lambda>s. (Ok (), s)) | Some p \<Rightarrow> publish_artifact e root host info rc p)) 0" for a
    by (intro bounded_and_then_last package_bound) (auto intro: publish_bound bounded_return split: option.split)
  show "length (sent (snd (download_in e root host info client rc dir s))) \<le> length (sent s) + maxRedirects"
  proof (cases r)
    case (Ok a)
    then show ?thesis using d one bounded_requests.bound [OF rest, of a s1] by (simp add: download_in_def)
  next
    case (Error err)
    then show ?thesis
      using d one handle_bound.bound [of e "artifact_messages (parent s1) info err" err s1]
      by (simp add: download_in_def)
  qed (use d one in \<open>simp add: download_in_def\<close>)
qed

lemma with_temp_dir_bound:
  assumes "\<And>dir. bounded_requests sent (work dir) n"
  shows "bounded_requests sent (with_temp_dir e pat work) n"
proof -
  have "bounded_requests sent (\<lambda>s. case work dir s of (r, s') \<Rightarrow> (r, s'\<lparr>disk := d s'\<rparr>)) n" for dir d
    using bounded_requests.bound_result [OF assms] by unfold_locales (auto split: prod.splits)
  then have "bounded_requests sent (with_temp_dir e pat work) (0 + n)"
    unfolding with_temp_dir_def by (intro bounded_and_then bounded_on_disk)
  then show ?thesis by simp
qed

interpretation download_sync_bound: bounded_requests sent "MavenArtifactDownloadSync e root host" "2 * maxRedirects"
  for e root host
proof
  fix s :: mstate
  obtain r s' where run: "MavenArtifactDownloadSync e root host s = (r, s')" by fastforce
  show "length (sent (snd (MavenArtifactDownloadSync e root host s))) \<le> length (sent s) + 2 * maxRedirects"
  proof (cases "\<exists>info client timeout. retrieveArtifactVersion e (stashed s) = Some info \<and>
      retrieveHttpClient e (stashed s) = Some client \<and> ms_Timeout (ma_Spec (parent s)) = Some timeout")
    case False
    then show ?thesis by (auto simp: MavenArtifactDownloadSync_def split: option.splits)
  next
    case True
    then obtain info client timeout where i: "retrieveArtifactVersion e (stashed s) = Some info"
      "retrieveHttpClient e (stashed s) = Some client" "ms_Timeout (ma_Spec (parent s)) = Some timeout" by blast
    obtain rd log where d: "downloadChecksum e (stashed s) client (ArtifactDownloadURL info) (sent s) = (rd, log)"
      by fastforce
    have one: "length log \<le> length (sent s) + maxRedirects"
      using d download_bound.bound_result unfolding downloadChecksum_def by fastforce
    have work: "length (sent (snd (with_temp_dir e ''maven-artifact.'' (download_in e root host info client rc) (s\<lparr>sent := log\<rparr>))))
        \<le> length (sent (s\<lparr>sent := log\<rparr>)) + maxRedirects" for rc
      by (rule bounded_requests.bound [OF with_temp_dir_bound [OF download_in_bound]])
    have "length (sent (snd (with_temp_dir e ''maven-artifact.'' (download_in e root host info client rc) (s\<lparr>sent := log\<rparr>))))
        \<le> length (sent s) + 2 * maxRedirects" for rc
      using work [of rc] one by simp
    moreover have "length (sent (snd (handle_download_error e dm err (s\<lparr>sent := log\<rparr>)))) \<le> length (sent s) + 2 * maxRedirects" for dm err
      using handle_bound.bound [of e dm err "s\<lparr>sent := log\<rparr>"] one by simp
    ultimately show ?thesis
      using i d one by (auto simp: MavenArtifactDownloadSync_def Let_def split: outcome.splits)
  qed
qed

text \<open>
  C30: one reconcile of a MavenArtifact sends at most forty requests: two metadata files, the
  checksum and the artifact, each with at most ten redirects, whatever the servers answer and however
  the runtime runs the sequence to its end.
\<close>

theorem maven_requests_bounded:
  assumes "sequence_laws run"
    and "run (rr_Sequence (MavenArtifactReconciler e root host certs)) s = (r, s')"
  shows "length (sent s') \<le> length (sent s) + 4 * maxRedirects"
proof (cases rule: sequence_cases [OF assms(1) maven_sequence(2) assms(2) [unfolded maven_sequence(1)]])
  case (1 r1)
  then show ?thesis using secrets_quiet(2) [OF 1(1)] by simp
next
  case (2 s1)
  note l1 = secrets_quiet(2) [OF 2(1)]
  show ?thesis
  proof (cases rule: sequence_cases [OF assms(1) maven_sequence(3) 2(2)])
    case v: (1 r1)
    then show ?thesis using version_bound.bound_result [OF v(1)] l1 by simp
  next
    case v: (2 s2)
    note l2 = version_bound.bound_result [OF v(1)]
    show ?thesis
    proof (cases rule: sequence_cases [OF assms(1) maven_sequence(4) v(2)])
      case d: (1 r1)
      then show ?thesis using download_sync_bound.bound_result [OF d(1)] l1 l2 by simp
    next
      case d: (2 s3)
      have "s3 = s'" using d(2) sequence_last [OF assms(1) maven_sequence(5), of s3] by auto
      then show ?thesis using download_sync_bound.bound_result [OF d(1)] l1 l2 by simp
    qed
  qed
qed

theorem maven_requests_bounded_witness:
  "length (sent (snd (run_sequence (rr_Sequence (MavenArtifactReconciler sample_env ''/artifacts'' ''host'' []))
     \<lparr>parent = sample_maven, stashed = [], disk = [], sent = []\<rparr>))) \<le> 40"
  using maven_requests_bounded [OF run_sequence_laws surjective_pairing, of sample_env "''/artifacts''" "''host''" "[]"
      "\<lparr>parent = sample_maven, stashed = [], disk = [], sent = []\<rparr>"]
  by (simp add: maxRedirects_def)

end
