(* ===== verification/Second_Run.thy ===== *)
theory Second_Run
  imports Maven_Runs Image_Runs Maven_Live Image_Live
begin

text \<open>
  Repeating a reconcile: after a run that published an artifact, a run on the same input changes
  nothing, neither on the disk nor in what the status announces.
\<close>

section \<open>MavenArtifact\<close>

text \<open>A publication that returns \<^verbatim>\<open>nil\<close> leaves the cache entry.\<close>

lemma publish_artifact_cached:
  assumes root: "root \<noteq> []" and names: "names_ok (ma_Meta (parent s))" and info: "proper (ResolvedFileName info)"
    and run: "publish_artifact e root host info rc (nm, tgz, ck) s = (Ok (), s')"
  shows "\<exists>md mt. fs_get (disk s') (maven_dir e root s @ [ResolvedFileName info @ ''.sha1'']) =
    Some (File (artifactCache_toString \<lparr>ac_source = ArtifactDownloadURL info, ac_checksum = rc\<rparr>) md mt) \<and>
    mst_Artifact (ma_Status (parent s')) \<noteq> None"
proof -
  note q = file_in_resolve [OF cache_file_in [OF root names info, of e]]
  from run [unfolded publish_artifact_def Let_def prod.case] show ?thesis
  proof (cases rule: and_then_cases)
    case (cont u s1)
    from cont(2) show ?thesis
    proof (cases rule: and_then_cases)
      case (cont u s2)
      then have "\<exists>md mt. fs_get (disk s2) (maven_dir e root s @ [ResolvedFileName info @ ''.sha1'']) =
          Some (File (artifactCache_toString \<lparr>ac_source = ArtifactDownloadURL info, ac_checksum = rc\<rparr>) md mt)"
        using os_WriteFile_Ok q by (fastforce simp: on_disk_result)
      with cont(2) show ?thesis by (auto simp: announce_artifact_def Let_def preserve_fields)
    qed simp
  qed simp
qed

lemma download_in_cached:
  assumes dir: "dir \<noteq> []" and f: "proper (ResolvedFileName info)" and root: "root \<noteq> []"
    and names: "names_ok (ma_Meta (parent s))"
    and run: "download_in e root host info client rc dir s = (Ok (), s')" and new: "\<not> keeps_resource s s'"
  shows "(\<exists>md mt. fs_get (disk s') (maven_dir e root s @ [ResolvedFileName info @ ''.sha1'']) =
      Some (File (artifactCache_toString \<lparr>ac_source = ArtifactDownloadURL info, ac_checksum = rc\<rparr>) md mt)) \<and>
    mst_Artifact (ma_Status (parent s')) \<noteq> None \<and> (\<exists>y. rc = sha1_hex y)"
proof (cases rule: download_in_cases [OF dir f run])
  case 1
  with new show ?thesis by (simp add: temp_step_def)
next
  case (2 s1 x tgz c md mt)
  have "ma_Meta (parent s1) = ma_Meta (parent s)" using 2(1) by (simp add: temp_step_def keeps_resource_def)
  then show ?thesis using publish_artifact_cached [OF root _ f 2(4)] names 2(5) by simp
qed

lemma download_sync_cached:
  assumes wf: "fs_wf (disk s)" and root: "root \<noteq> []" and names: "names_ok (ma_Meta (parent s))"
    and det: "details_ok e (stashed s)" and par: "maven_temp e (disk s) \<parallel> resolve (cwd (os e)) root"
    and run: "MavenArtifactDownloadSync e root host s = (Ok (), s')" and new: "\<not> keeps_resource s s'"
  obtains info client rc sent' y md mt where "mst_Artifact (ma_Status (parent s')) \<noteq> None"
    "retrieveArtifactVersion e (stashed s) = Some info" "retrieveHttpClient e (stashed s) = Some client"
    "downloadChecksum e (stashed s) client (ArtifactDownloadURL info) (sent s) = (Ok rc, sent')" "rc = sha1_hex y"
    "fs_get (disk s') (maven_dir e root s @ [ResolvedFileName info @ ''.sha1'']) =
       Some (File (artifactCache_toString \<lparr>ac_source = ArtifactDownloadURL info, ac_checksum = rc\<rparr>) md mt)"
proof (cases rule: download_sync_cases [OF run, of "[]"])
  case 1
  with new show thesis by (simp add: temp_step_def)
next
  case (2 info client rc sent')
  let ?s = "s\<lparr>sent := sent'\<rparr>"
  let ?dir = "temp_name ''maven-artifact.'' (os e) (TempDir (os e)) (disk s)"
  have f: "proper (ResolvedFileName info)" using det 2(1) by (simp add: details_ok_def)
  show thesis
  proof (cases rule: with_temp_dir_cases [OF 2(3)])
    case r: (2 fs1 s2)
    have run': "download_in e root host info client rc ?dir (?s\<lparr>disk := fs1\<rparr>) = (Ok (), s2)" using r(2) by simp
    have "\<not> keeps_resource (?s\<lparr>disk := fs1\<rparr>) s2" using new r(3) by (simp add: keeps_resource_def)
    then obtain md mt y where g: "fs_get (disk s2) (maven_dir e root s @ [ResolvedFileName info @ ''.sha1'']) =
        Some (File (artifactCache_toString \<lparr>ac_source = ArtifactDownloadURL info, ac_checksum = rc\<rparr>) md mt)"
      and y: "rc = sha1_hex y" and "mst_Artifact (ma_Status (parent s2)) \<noteq> None"
      using download_in_cached [OF temp_name_not_Nil f root _ run'] names by auto
    then have a: "mst_Artifact (ma_Status (parent s')) \<noteq> None" using r(3) by auto
    have "fs_get (disk s') q = fs_get (disk s2) q" if "\<not> prefix (maven_temp e (disk s)) q" for q
      using that r(3) by (auto simp: os_RemoveAll_def temp_dir_def split: option.splits)
    with g resource_not_temp [OF par] have "fs_get (disk s') (maven_dir e root s @ [ResolvedFileName info @ ''.sha1'']) =
        Some (File (artifactCache_toString \<lparr>ac_source = ArtifactDownloadURL info, ac_checksum = rc\<rparr>) md mt)"
      by metis
    from that [OF a 2(1,4,5) y this] show thesis .
  qed simp
qed

lemma no_bar_in_sha1: "CHR ''|'' \<notin> set (sha1_hex y)"
  using sha1_hex_range [of y] by auto



section \<open>ImageRepository\<close>

text \<open>
  C25: the second run of the ImageRepository pull. After a run that returned no error and changed
  what the status announces, a run on the same image finds the tarball and only sets conditions:
  the disk, the announced URL and the announced artifact stay as they are.
\<close>

theorem pull_sync_second_run:
  assumes "pull_laws e" "digest_laws e" and "fs_wf (disk s)" and "root \<noteq> []"
    and "names_ok (ir_Meta (parent s))" and "image_temp e (disk s) \<parallel> image_dir e root s"
    and "can_create (os e)" "\<forall>n. fs_get (disk s) (image_dir e root s @ [n @ ''.new'']) \<noteq> Some Dir"
    and "ImageRepositoryPullImageSync e root host s = (Ok (), s')" and "\<not> keeps_image s s'"
    and "\<And>p. io_fault (os e) (disk s') OpStat p = None"
  shows "\<exists>p. ImageRepositoryPullImageSync e root host s' = (Ok (), s'\<lparr>parent := p\<rparr>) \<and>
    keeps_image s' (s'\<lparr>parent := p\<rparr>)"
proof -
  from pull_sync_announced [OF assms(1-9)] assms(10) obtain a d c md mt where
    a: "irst_Artifact (ir_Status (parent s')) = Some a" "irst_URL (ir_Status (parent s')) = a_URL a"
      "a_URL a = ''http://'' @ host @ ''/'' @ image_http_path (parent s) (image_tgz_filename d)"
    and d: "NewDigest e (RetrieveImageRef e (stashed s)) = Inr d" "RetrieveImageRef e (stashed s) \<noteq> []"
    and f: "fs_get (disk s') (image_dir e root s @ [image_tgz_filename d]) = Some (File c md mt)"
    by metis
  have k: "stashed s' = stashed s" "ir_Meta (parent s') = ir_Meta (parent s)"
    using pull_sync_frame [OF assms(1-5,9)] by (auto simp: image_update_def keeps_image_def)
  have p: "image_http_path (parent s') n = image_http_path (parent s) n" for n
    using k(2) by (simp add: image_http_path_def)
  have "is_Ok (os_Stat (os e) (disk s') (Join [root, image_http_path (parent s) (image_tgz_filename d)]))"
    using f assms(11) file_in_resolve [OF image_file_in [OF assms(4,5) digest_filename_proper [OF assms(2) d(1)], of e]]
    by (simp add: os_lookup_def)
  then show ?thesis
    using a d k p
    by (cases "ir_ConditionIsUnknown (cond e) ImageRepositoryConditionImageResolved (parent s')")
      (auto simp: ImageRepositoryPullImageSync_def Let_def keeps_image_def simp del: ir_MarkTrue_def intro!: exI)
qed

theorem pull_sync_second_run_witness:
  "\<exists>s' p. ImageRepositoryPullImageSync image_env ''/artifacts'' ''host'' image_state = (Ok (), s') \<and>
     irst_Artifact (ir_Status (parent s')) \<noteq> None \<and>
     ImageRepositoryPullImageSync image_env ''/artifacts'' ''host'' s' = (Ok (), s'\<lparr>parent := p\<rparr>)"
proof -
  have par: "image_temp image_env (disk image_state) \<parallel> image_dir image_env ''/artifacts'' image_state"
    and new: "\<forall>n. fs_get (disk image_state) (image_dir image_env ''/artifacts'' image_state @ [n @ ''.new'']) \<noteq> Some Dir"
    using image_ready by (simp_all add: disk_ready_def)
  have create: "can_create (os image_env)" using image_free by (simp add: can_create_def)
  obtain s' a where run: "ImageRepositoryPullImageSync image_env ''/artifacts'' ''host'' image_state = (Ok (), s')"
    and a: "irst_Artifact (ir_Status (parent s')) = Some a"
    using pull_sync_total [OF image_free image_pull_laws image_digest_laws artifacts_root(1) image_names
      image_stash(1) artifacts_root(2) image_new_digest image_fresh image_delivers image_ready, of "''host''"] by blast
  have changed: "\<not> keeps_image image_state s'" using a image_fresh(2) by (auto simp: keeps_image_def)
  have faults: "io_fault (os image_env) (disk s') OpStat p = None" for p
    using image_free(1) by (simp add: fault_free_def)
  from pull_sync_second_run [OF image_pull_laws image_digest_laws image_wf artifacts_root(1) image_names par create new
      run changed faults]
  show ?thesis using run a by blast
qed

end
