(* ===== verification/Go_Heap.thy ===== *)
theory Go_Heap
  imports Prelude
begin

text \<open>
  A Go heap, for the code whose contract is about sharing: cells that pointers and slices refer
  to, allocation at the end, and the contract of a deep copy with its laws for pointers, slices and
  structs. \<open>'c\<close> is the type of the cells.
\<close>

section \<open>Cells and slices\<close>

type_synonym addr = nat

text \<open>\<^verbatim>\<open>new\<close> and \<^verbatim>\<open>make\<close> return the address of a cell that did not exist before.\<close>

definition new :: "'c \<Rightarrow> 'c list \<Rightarrow> addr \<times> 'c list" where
  "new c h = (length h, h @ [c])"

text \<open>A slice that is not nil: its array, the first element and the number of elements.\<close>

record slice =
  sl_Array :: addr
  sl_Off :: nat
  sl_Len :: nat

definition elems :: "('c \<Rightarrow> 'a list) \<Rightarrow> 'c list \<Rightarrow> slice \<Rightarrow> 'a list" where
  "elems un h s = take (sl_Len s) (drop (sl_Off s) (un (h ! sl_Array s)))"

text \<open>The cells of \<open>h\<close> at \<open>A\<close> are still there in \<open>h'\<close>.\<close>

definition agree :: "nat set \<Rightarrow> 'c list \<Rightarrow> 'c list \<Rightarrow> bool" where
  "agree A h h' \<longleftrightarrow> (\<forall>a\<in>A. a < length h' \<and> h' ! a = h ! a)"

lemma agree_mono: "agree B h h' \<Longrightarrow> A \<subseteq> B \<Longrightarrow> agree A h h'"
  by (auto simp: agree_def)

lemma agree_prefix: "prefix h h' \<Longrightarrow> A \<subseteq> {..<length h} \<Longrightarrow> agree A h h'"
  by (auto simp: agree_def prefix_def nth_append)

lemma agree_update: "A \<subseteq> {..<length h} \<Longrightarrow> a \<notin> A \<Longrightarrow> agree A h (h[a := c])"
  unfolding agree_def by (auto intro!: nth_list_update_neq)

lemma prefix_update: "prefix h h' \<Longrightarrow> length h \<le> a \<Longrightarrow> prefix h (h'[a := c])"
  by (auto simp: prefix_def list_update_append)

lemma prefix_length: "prefix h h' \<Longrightarrow> length h \<le> length h'"
  by (auto simp: prefix_def)

section \<open>The contract of a deep copy\<close>

text \<open>
  For a Go type: \<open>refs\<close> are the addresses a value of it reaches, \<open>val\<close> is what it stands for,
  with every pointer followed, and \<open>ok\<close> says that every pointer leads to a cell of its type. These
  depend only on the reachable cells. A copy allocates and writes new cells only, stands for the same
  and reaches only new cells.
\<close>

locale go_type =
  fixes refs :: "'c list \<Rightarrow> 'a \<Rightarrow> nat set" and val :: "'c list \<Rightarrow> 'a \<Rightarrow> 'v" and ok :: "'c list \<Rightarrow> 'a \<Rightarrow> bool"
  assumes frame: "ok h x \<Longrightarrow> agree (refs h x) h h' \<Longrightarrow> refs h' x = refs h x \<and> val h' x = val h x \<and> ok h' x"
    and in_heap: "ok h x \<Longrightarrow> refs h x \<subseteq> {..<length h}"
begin

lemma grown: "ok h x \<Longrightarrow> prefix h h' \<Longrightarrow> refs h' x = refs h x \<and> val h' x = val h x \<and> ok h' x"
  using frame agree_prefix in_heap by blast

lemma updated: "ok h x \<Longrightarrow> a \<notin> refs h x \<Longrightarrow>
    refs (h[a := c]) x = refs h x \<and> val (h[a := c]) x = val h x \<and> ok (h[a := c]) x"
  by (rule frame [OF _ agree_update [OF in_heap]])

end

locale deep_copy = go_type refs val ok
  for refs :: "'c list \<Rightarrow> 'a \<Rightarrow> nat set" and val :: "'c list \<Rightarrow> 'a \<Rightarrow> 'v" and ok :: "'c list \<Rightarrow> 'a \<Rightarrow> bool" +
  fixes copy :: "'a \<Rightarrow> 'c list \<Rightarrow> 'a \<times> 'c list"
  assumes grows: "ok h x \<Longrightarrow> copy x h = (y, h') \<Longrightarrow> prefix h h'"
    and copies: "ok h x \<Longrightarrow> copy x h = (y, h') \<Longrightarrow> ok h' y \<and> val h' y = val h x"
    and fresh: "ok h x \<Longrightarrow> copy x h = (y, h') \<Longrightarrow> refs h' y \<subseteq> {length h..}"
begin

lemmas contract = grows copies fresh

text \<open>Whatever is written to the cells of one of the two, the other stays what it is.\<close>

lemma copy_survives:
  assumes "ok h x" and "copy x h = (y, h')" and "agree {length h..<length h'} h' h2"
  shows "ok h2 y \<and> val h2 y = val h x"
proof -
  have c: "ok h' y" "val h' y = val h x" using copies [OF assms(1,2)] by simp_all
  have "refs h' y \<subseteq> {length h..<length h'}" using fresh [OF assms(1,2)] in_heap [OF c(1)] by auto
  then show ?thesis using frame [OF c(1) agree_mono [OF assms(3)]] c(2) by simp
qed

lemma original_survives:
  assumes "ok h x" and "copy x h = (y, h')" and "agree {..<length h} h' h2"
  shows "ok h2 x \<and> val h2 x = val h x"
proof -
  note g = grown [OF assms(1) grows [OF assms(1,2)]]
  then have "agree (refs h' x) h' h2" using agree_mono [OF assms(3)] in_heap [OF assms(1)] by simp
  with g show ?thesis using frame [of h' x h2] by simp
qed

end

lemma deep_copyI:
  assumes "go_type refs val ok"
    and "\<And>h x y h'. ok h x \<Longrightarrow> copy x h = (y, h') \<Longrightarrow>
      prefix h h' \<and> ok h' y \<and> val h' y = val h x \<and> refs h' y \<subseteq> {length h..}"
  shows "deep_copy refs val ok copy"
  using assms(2) by (intro deep_copy.intro [OF assms(1)] deep_copy_axioms.intro) blast+

section \<open>Values without pointers\<close>

definition flat_refs :: "'c list \<Rightarrow> 'a \<Rightarrow> nat set" where
  "flat_refs h x = {}"

definition flat_val :: "'c list \<Rightarrow> 'a \<Rightarrow> 'a" where
  "flat_val h x = x"

definition flat_ok :: "'c list \<Rightarrow> 'a \<Rightarrow> bool" where
  "flat_ok h x \<longleftrightarrow> True"

text \<open>An assignment copies such a value.\<close>

definition assign :: "'a \<Rightarrow> 'c list \<Rightarrow> 'a \<times> 'c list" where
  "assign x h = (x, h)"

interpretation assign: deep_copy flat_refs flat_val flat_ok assign
  by unfold_locales (auto simp: flat_refs_def flat_val_def flat_ok_def assign_def)

section \<open>Pointers\<close>

text \<open>\<open>C\<close>, \<open>is\<close> and \<open>un\<close> are the constructor, test and selector of the cells of a type.\<close>

definition cells :: "('a \<Rightarrow> 'c) \<Rightarrow> ('c \<Rightarrow> bool) \<Rightarrow> ('c \<Rightarrow> 'a) \<Rightarrow> bool" where
  "cells C is un \<longleftrightarrow> (\<forall>x. is (C x) \<and> un (C x) = x)"

definition ptr_refs :: "('c \<Rightarrow> 'a) \<Rightarrow> ('c list \<Rightarrow> 'a \<Rightarrow> nat set) \<Rightarrow> 'c list \<Rightarrow> addr option \<Rightarrow> nat set" where
  "ptr_refs un refs h p = (case p of None \<Rightarrow> {} | Some a \<Rightarrow> insert a (refs h (un (h ! a))))"

definition ptr_val :: "('c \<Rightarrow> 'a) \<Rightarrow> ('c list \<Rightarrow> 'a \<Rightarrow> 'v) \<Rightarrow> 'c list \<Rightarrow> addr option \<Rightarrow> 'v option" where
  "ptr_val un val h p = map_option (\<lambda>a. val h (un (h ! a))) p"

definition ptr_ok :: "('c \<Rightarrow> bool) \<Rightarrow> ('c \<Rightarrow> 'a) \<Rightarrow> ('c list \<Rightarrow> 'a \<Rightarrow> bool) \<Rightarrow> 'c list \<Rightarrow> addr option \<Rightarrow> bool" where
  "ptr_ok is un ok h p \<longleftrightarrow> (case p of None \<Rightarrow> True | Some a \<Rightarrow> a < length h \<and> is (h ! a) \<and> ok h (un (h ! a)))"

text \<open>
  \<^verbatim>\<open>DeepCopy\<close>: nil for nil, and otherwise a new cell with the zero value, into which
  \<^verbatim>\<open>DeepCopyInto\<close> then copies what the pointer points at.
\<close>

definition copy_ptr ::
  "('a \<Rightarrow> 'c) \<Rightarrow> ('c \<Rightarrow> 'a) \<Rightarrow> 'a \<Rightarrow> ('a \<Rightarrow> 'c list \<Rightarrow> 'a \<times> 'c list) \<Rightarrow> addr option \<Rightarrow> 'c list \<Rightarrow> addr option \<times> 'c list" where
  "copy_ptr C un zero into p h =
     (case p of
        None \<Rightarrow> (None, h)
      | Some a \<Rightarrow>
          (case new (C zero) h of
             (out, h1) \<Rightarrow> (case into (un (h1 ! a)) h1 of (y, h2) \<Rightarrow> (Some out, h2[out := C y]))))"

lemma go_type_ptr:
  assumes "go_type refs val ok"
  shows "go_type (ptr_refs un refs) (ptr_val un val) (ptr_ok is un ok)"
proof -
  show ?thesis
  proof
    fix h p h'
    assume "ptr_ok is un ok h p" and ag: "agree (ptr_refs un refs h p) h h'"
    then show "ptr_refs un refs h' p = ptr_refs un refs h p \<and> ptr_val un val h' p = ptr_val un val h p \<and> ptr_ok is un ok h' p"
    proof (cases p)
      case (Some a)
      have "agree (refs h (un (h ! a))) h h'" and "a < length h'" "h' ! a = h ! a"
        using ag Some by (auto simp: ptr_refs_def agree_def)
      with \<open>ptr_ok is un ok h p\<close> Some go_type.frame [OF assms, of h "un (h ! a)" h'] show ?thesis
        by (simp add: ptr_refs_def ptr_val_def ptr_ok_def)
    qed (simp add: ptr_refs_def ptr_val_def ptr_ok_def)
  next
    fix h p
    assume "ptr_ok is un ok h p"
    then show "ptr_refs un refs h p \<subseteq> {..<length h}"
      using go_type.in_heap [OF assms] by (auto simp: ptr_refs_def ptr_ok_def split: option.splits)
  qed
qed

lemma deep_copy_ptr:
  assumes copy: "deep_copy refs val ok into" and cells: "cells C is un"
  shows "deep_copy (ptr_refs un refs) (ptr_val un val) (ptr_ok is un ok) (copy_ptr C un zero into)"
proof -
  note type = go_type_ptr [OF deep_copy.axioms(1) [OF copy]]
  have all: "prefix h h' \<and> ptr_ok is un ok h' q \<and> ptr_val un val h' q = ptr_val un val h p \<and>
      ptr_refs un refs h' q \<subseteq> {length h..}"
    if "ptr_ok is un ok h p" "copy_ptr C un zero into p h = (q, h')" for h p q h'
  proof (cases p)
    case None
    with that show ?thesis by (simp add: copy_ptr_def ptr_refs_def ptr_val_def ptr_ok_def)
  next
    case (Some b)
    let ?h1 = "h @ [C zero]" and ?x = "un (h ! b)"
    obtain y h2 where into: "into ?x ?h1 = (y, h2)" by fastforce
    have b: "b < length h" "ok h ?x" using that(1) Some by (simp_all add: ptr_ok_def)
    with that(2) Some into have q: "q = Some (length h)" "h' = h2[length h := C y]"
      by (simp_all add: copy_ptr_def new_def nth_append)
    have g: "ok ?h1 ?x" "val ?h1 ?x = val h ?x" using go_type.grown [OF deep_copy.axioms(1) [OF copy] b(2), of ?h1] by simp_all
    note c = deep_copy.contract [OF copy g(1) into]
    have new: "length h < length h2" using prefix_length [OF c(1)] by simp
    have "length h \<notin> refs h2 y" using c(3) by auto
    with go_type.updated [OF deep_copy.axioms(1) [OF copy], of h2 y "length h" "C y"] c(2) have
      y: "refs h' y = refs h2 y" "val h' y = val h ?x" "ok h' y" using q(2) g(2) by simp_all
    have cell: "h' ! length h = C y" using new q(2) by simp
    have "prefix h h2" using c(1) by (rule append_prefixD)
    then have "prefix h h'" unfolding q(2) by (rule prefix_update) simp
    moreover have "refs h2 y \<subseteq> {length h..}" using c(3) by auto
    ultimately show ?thesis
      using cells y q new Some cell by (simp add: ptr_ok_def ptr_val_def ptr_refs_def cells_def)
  qed
  show ?thesis using all by (rule deep_copyI [OF type])
qed

section \<open>Structs\<close>

text \<open>Two fields are copied one after the other.\<close>

definition pair_refs :: "('c list \<Rightarrow> 'a \<Rightarrow> nat set) \<Rightarrow> ('c list \<Rightarrow> 'b \<Rightarrow> nat set) \<Rightarrow> 'c list \<Rightarrow> 'a \<times> 'b \<Rightarrow> nat set" where
  "pair_refs r1 r2 h x = r1 h (fst x) \<union> r2 h (snd x)"

definition pair_val :: "('c list \<Rightarrow> 'a \<Rightarrow> 'v) \<Rightarrow> ('c list \<Rightarrow> 'b \<Rightarrow> 'w) \<Rightarrow> 'c list \<Rightarrow> 'a \<times> 'b \<Rightarrow> 'v \<times> 'w" where
  "pair_val v1 v2 h x = (v1 h (fst x), v2 h (snd x))"

definition pair_ok :: "('c list \<Rightarrow> 'a \<Rightarrow> bool) \<Rightarrow> ('c list \<Rightarrow> 'b \<Rightarrow> bool) \<Rightarrow> 'c list \<Rightarrow> 'a \<times> 'b \<Rightarrow> bool" where
  "pair_ok o1 o2 h x \<longleftrightarrow> o1 h (fst x) \<and> o2 h (snd x)"

definition copy_pair ::
  "('a \<Rightarrow> 'c list \<Rightarrow> 'a \<times> 'c list) \<Rightarrow> ('b \<Rightarrow> 'c list \<Rightarrow> 'b \<times> 'c list) \<Rightarrow> 'a \<times> 'b \<Rightarrow> 'c list \<Rightarrow> ('a \<times> 'b) \<times> 'c list" where
  "copy_pair c1 c2 x h =
     (case c1 (fst x) h of (a, h1) \<Rightarrow> (case c2 (snd x) h1 of (b, h2) \<Rightarrow> ((a, b), h2)))"

lemma go_type_pair:
  assumes "go_type r1 v1 o1" and "go_type r2 v2 o2"
  shows "go_type (pair_refs r1 r2) (pair_val v1 v2) (pair_ok o1 o2)"
proof -
  show ?thesis
  proof
    fix h x h'
    assume ok: "pair_ok o1 o2 h x" and "agree (pair_refs r1 r2 h x) h h'"
    then have "agree (r1 h (fst x)) h h'" "agree (r2 h (snd x)) h h'"
      by (auto simp: pair_refs_def agree_def)
    with ok show "pair_refs r1 r2 h' x = pair_refs r1 r2 h x \<and> pair_val v1 v2 h' x = pair_val v1 v2 h x \<and> pair_ok o1 o2 h' x"
      using go_type.frame [OF assms(1), of h "fst x" h'] go_type.frame [OF assms(2), of h "snd x" h'] by (simp add: pair_refs_def pair_val_def pair_ok_def)
  next
    fix h x
    assume "pair_ok o1 o2 h x"
    then show "pair_refs r1 r2 h x \<subseteq> {..<length h}"
      using go_type.in_heap [OF assms(1)] go_type.in_heap [OF assms(2)] by (simp add: pair_refs_def pair_ok_def)
  qed
qed

lemma deep_copy_pair:
  assumes "deep_copy r1 v1 o1 c1" and "deep_copy r2 v2 o2 c2"
  shows "deep_copy (pair_refs r1 r2) (pair_val v1 v2) (pair_ok o1 o2) (copy_pair c1 c2)"
proof -
  note type = go_type_pair [OF deep_copy.axioms(1) [OF assms(1)] deep_copy.axioms(1) [OF assms(2)]]
  have all: "prefix h h' \<and> pair_ok o1 o2 h' y \<and> pair_val v1 v2 h' y = pair_val v1 v2 h x \<and>
      pair_refs r1 r2 h' y \<subseteq> {length h..}"
    if ok: "pair_ok o1 o2 h x" and run: "copy_pair c1 c2 x h = (y, h')" for h x y h'
  proof -
    obtain a h1 b where c1: "c1 (fst x) h = (a, h1)" and c2: "c2 (snd x) h1 = (b, h')" and y: "y = (a, b)"
      using run by (auto simp: copy_pair_def split: prod.splits)
    have o: "o1 h (fst x)" "o2 h (snd x)" using ok by (simp_all add: pair_ok_def)
    note a1 = deep_copy.contract [OF assms(1) o(1) c1]
    note g = go_type.grown [OF deep_copy.axioms(1) [OF assms(2)] o(2) a1(1)]
    then have "o2 h1 (snd x)" by simp
    note b1 = deep_copy.contract [OF assms(2) this c2]
    have "r1 h' a = r1 h1 a \<and> v1 h' a = v1 h1 a \<and> o1 h' a" using go_type.grown [OF deep_copy.axioms(1) [OF assms(1)]] a1(2) b1(1) by blast
    moreover have "prefix h h'" using a1(1) b1(1) by (rule prefix_order.trans)
    ultimately show ?thesis
      using a1 b1 g prefix_length [OF a1(1)] y by (auto simp: pair_ok_def pair_val_def pair_refs_def)
  qed
  show ?thesis using all by (rule deep_copyI [OF type])
qed

text \<open>
  Some fields of a struct, read by \<open>get\<close> and written by \<open>put\<close>, are copied; \<open>rest\<close> are its other
  fields, for which the assignment of the whole struct is enough.
\<close>

locale lens =
  fixes get :: "'s \<Rightarrow> 'a" and put :: "'a \<Rightarrow> 's \<Rightarrow> 's" and rest :: "'s \<Rightarrow> 'r"
  assumes get_put: "get (put a s) = a" and rest_put: "rest (put a s) = rest s"

definition copy_fields ::
  "('s \<Rightarrow> 'a) \<Rightarrow> ('a \<Rightarrow> 's \<Rightarrow> 's) \<Rightarrow> ('a \<Rightarrow> 'c list \<Rightarrow> 'a \<times> 'c list) \<Rightarrow> 's \<Rightarrow> 'c list \<Rightarrow> 's \<times> 'c list" where
  "copy_fields get put c s h = (case c (get s) h of (a, h') \<Rightarrow> (put a s, h'))"

definition field_val :: "('s \<Rightarrow> 'a) \<Rightarrow> ('s \<Rightarrow> 'r) \<Rightarrow> ('c list \<Rightarrow> 'a \<Rightarrow> 'v) \<Rightarrow> 'c list \<Rightarrow> 's \<Rightarrow> 'r \<times> 'v" where
  "field_val get rest v h s = (rest s, v h (get s))"

lemma deep_copy_fields:
  assumes "deep_copy refs val ok c" and "lens get put rest"
  shows "deep_copy (\<lambda>h s. refs h (get s)) (field_val get rest val) (\<lambda>h s. ok h (get s)) (copy_fields get put c)"
proof -
  have all: "prefix h h' \<and> ok h' (get t) \<and> field_val get rest val h' t = field_val get rest val h s \<and>
      refs h' (get t) \<subseteq> {length h..}"
    if ok: "ok h (get s)" and run: "copy_fields get put c s h = (t, h')" for h s t h'
  proof -
    obtain a where "c (get s) h = (a, h')" and t: "t = put a s"
      using run by (auto simp: copy_fields_def split: prod.splits)
    note c = deep_copy.contract [OF assms(1) ok this(1)]
    then show ?thesis by (simp add: t field_val_def lens.get_put [OF assms(2)] lens.rest_put [OF assms(2)])
  qed
  have type: "refs h' (get s) = refs h (get s) \<and> field_val get rest val h' s = field_val get rest val h s \<and> ok h' (get s)"
    if "ok h (get s)" "agree (refs h (get s)) h h'" for h s h'
    using go_type.frame [OF deep_copy.axioms(1) [OF assms(1)] that] by (simp add: field_val_def)
  show ?thesis using all type go_type.in_heap [OF deep_copy.axioms(1) [OF assms(1)]] by unfold_locales blast+
qed

section \<open>Slices\<close>

definition slice_refs :: "('c \<Rightarrow> 'a list) \<Rightarrow> ('c list \<Rightarrow> 'a \<Rightarrow> nat set) \<Rightarrow> 'c list \<Rightarrow> slice option \<Rightarrow> nat set" where
  "slice_refs un refs h p =
     (case p of None \<Rightarrow> {} | Some s \<Rightarrow> insert (sl_Array s) (\<Union>x\<in>set (elems un h s). refs h x))"

definition slice_val :: "('c \<Rightarrow> 'a list) \<Rightarrow> ('c list \<Rightarrow> 'a \<Rightarrow> 'v) \<Rightarrow> 'c list \<Rightarrow> slice option \<Rightarrow> 'v list option" where
  "slice_val un val h p = map_option (\<lambda>s. map (val h) (elems un h s)) p"

definition slice_ok ::
  "('c \<Rightarrow> bool) \<Rightarrow> ('c \<Rightarrow> 'a list) \<Rightarrow> ('c list \<Rightarrow> 'a \<Rightarrow> bool) \<Rightarrow> 'c list \<Rightarrow> slice option \<Rightarrow> bool" where
  "slice_ok is un ok h p \<longleftrightarrow>
     (case p of
        None \<Rightarrow> True
      | Some s \<Rightarrow> sl_Array s < length h \<and> is (h ! sl_Array s) \<and>
          sl_Off s + sl_Len s \<le> length (un (h ! sl_Array s)) \<and> list_all (ok h) (elems un h s))"

text \<open>The loop \<^verbatim>\<open>for i := range *in { (*in)[i].DeepCopyInto(&(*out)[i]) }\<close>, at the indices that are left.\<close>

primrec copy_each ::
  "('a list \<Rightarrow> 'c) \<Rightarrow> ('c \<Rightarrow> 'a list) \<Rightarrow> ('a \<Rightarrow> 'c list \<Rightarrow> 'a \<times> 'c list) \<Rightarrow> slice \<Rightarrow> addr \<Rightarrow> nat list \<Rightarrow> 'c list \<Rightarrow> 'c list" where
  "copy_each C un into s out [] h = h"
| "copy_each C un into s out (i # is) h =
     (case into (un (h ! sl_Array s) ! (sl_Off s + i)) h of
        (y, h') \<Rightarrow> copy_each C un into s out is (h'[out := C ((un (h' ! out))[i := y])]))"

text \<open>nil for nil, and otherwise a new array of the same length that the loop fills.\<close>

definition copy_slice ::
  "('a list \<Rightarrow> 'c) \<Rightarrow> ('c \<Rightarrow> 'a list) \<Rightarrow> 'a \<Rightarrow> ('a \<Rightarrow> 'c list \<Rightarrow> 'a \<times> 'c list) \<Rightarrow>
   slice option \<Rightarrow> 'c list \<Rightarrow> slice option \<times> 'c list" where
  "copy_slice C un zero into p h =
     (case p of
        None \<Rightarrow> (None, h)
      | Some s \<Rightarrow>
          (case new (C (replicate (sl_Len s) zero)) h of
             (out, h1) \<Rightarrow> (Some \<lparr>sl_Array = out, sl_Off = 0, sl_Len = sl_Len s\<rparr>,
                           copy_each C un into s out [0..<sl_Len s] h1)))"

text \<open>The same with the built-in \<^verbatim>\<open>copy\<close> in place of the loop.\<close>

definition copy_array ::
  "('a list \<Rightarrow> 'c) \<Rightarrow> ('c \<Rightarrow> 'a list) \<Rightarrow> 'a \<Rightarrow> slice option \<Rightarrow> 'c list \<Rightarrow> slice option \<times> 'c list" where
  "copy_array C un zero p h =
     (case p of
        None \<Rightarrow> (None, h)
      | Some s \<Rightarrow>
          (case new (C (replicate (sl_Len s) zero)) h of
             (out, h1) \<Rightarrow> (Some \<lparr>sl_Array = out, sl_Off = 0, sl_Len = sl_Len s\<rparr>, h1[out := C (elems un h1 s)])))"

lemma elems_agree: "sl_Array s < length h' \<Longrightarrow> h' ! sl_Array s = h ! sl_Array s \<Longrightarrow> elems un h' s = elems un h s"
  by (simp add: elems_def)

lemma go_type_slice:
  assumes "go_type refs val ok"
  shows "go_type (slice_refs un refs) (slice_val un val) (slice_ok is un ok)"
proof -
  show ?thesis
  proof
    fix h p h'
    assume ok: "slice_ok is un ok h p" and ag: "agree (slice_refs un refs h p) h h'"
    show "slice_refs un refs h' p = slice_refs un refs h p \<and> slice_val un val h' p = slice_val un val h p \<and>
      slice_ok is un ok h' p"
    proof (cases p)
      case (Some s)
      have here: "sl_Array s < length h'" "h' ! sl_Array s = h ! sl_Array s"
        using ag Some by (auto simp: slice_refs_def agree_def)
      note e = elems_agree [OF here, of un]
      have "agree (refs h x) h h'" if "x \<in> set (elems un h s)" for x
        using agree_mono [OF ag] that Some by (auto simp: slice_refs_def)
      moreover have "ok h x" if "x \<in> set (elems un h s)" for x
        using ok that Some by (simp add: slice_ok_def list_all_iff)
      ultimately have "refs h' x = refs h x \<and> val h' x = val h x \<and> ok h' x" if "x \<in> set (elems un h s)" for x
        using go_type.frame [OF assms] that by blast
      with ok here Some e show ?thesis
        by (simp add: slice_refs_def slice_val_def slice_ok_def list_all_iff)
    qed (simp add: slice_refs_def slice_val_def slice_ok_def)
  next
    fix h p
    assume "slice_ok is un ok h p"
    then show "slice_refs un refs h p \<subseteq> {..<length h}"
      using go_type.in_heap [OF assms] by (auto simp: slice_refs_def slice_ok_def list_all_iff split: option.splits)
  qed
qed

text \<open>What is done when the elements before \<open>k\<close> are: the array \<open>out\<close> is the first new cell.\<close>

definition copied ::
  "('c list \<Rightarrow> 'a \<Rightarrow> nat set) \<Rightarrow> ('c list \<Rightarrow> 'a \<Rightarrow> 'v) \<Rightarrow> ('c list \<Rightarrow> 'a \<Rightarrow> bool) \<Rightarrow> ('a list \<Rightarrow> 'c) \<Rightarrow>
   'c list \<Rightarrow> 'a list \<Rightarrow> nat \<Rightarrow> 'c list \<Rightarrow> bool" where
  "copied refs val ok C h xs k h' \<longleftrightarrow>
     prefix h h' \<and> length h < length h' \<and>
     (\<exists>ys. h' ! length h = C ys \<and> length ys = length xs \<and>
       (\<forall>i<k. ok h' (ys ! i) \<and> val h' (ys ! i) = val h (xs ! i) \<and> refs h' (ys ! i) \<subseteq> {Suc (length h)..}))"

lemma copied_step:
  assumes copy: "deep_copy refs val ok into" and cells: "cells C is un"
    and done_: "copied refs val ok C h xs k h'" and k: "k < length xs" and ok: "ok h (xs ! k)"
    and into: "into (xs ! k) h' = (y, h2)"
  shows "copied refs val ok C h xs (Suc k) (h2[length h := C ((un (h2 ! length h))[k := y])])"
proof -
  obtain ys where p: "prefix h h'" "length h < length h'" and ys: "h' ! length h = C ys" "length ys = length xs"
    and old: "\<forall>i<k. ok h' (ys ! i) \<and> val h' (ys ! i) = val h (xs ! i) \<and> refs h' (ys ! i) \<subseteq> {Suc (length h)..}"
    using done_ by (auto simp: copied_def)
  have g: "ok h' (xs ! k)" "val h' (xs ! k) = val h (xs ! k)" using go_type.grown [OF deep_copy.axioms(1) [OF copy] ok p(1)] by simp_all
  note c = deep_copy.contract [OF copy g(1) into]
  have cell: "h2 ! length h = C ys" and len: "length h < length h2"
    using agree_prefix [OF c(1), of "{length h}"] p(2) ys(1) by (simp_all add: agree_def)
  let ?h3 = "h2[length h := C (ys[k := y])]"
  have keep: "ok ?h3 x \<and> val ?h3 x = val h2 x \<and> refs ?h3 x = refs h2 x"
    if "ok h2 x" "refs h2 x \<subseteq> {Suc (length h)..}" for x
  proof -
    have "length h \<notin> refs h2 x" using that(2) by auto
    with go_type.updated [OF deep_copy.axioms(1) [OF copy] that(1)] show ?thesis by simp
  qed
  have "ok ?h3 (ys[k := y] ! i) \<and> val ?h3 (ys[k := y] ! i) = val h (xs ! i) \<and>
      refs ?h3 (ys[k := y] ! i) \<subseteq> {Suc (length h)..}" if "i < Suc k" for i
  proof (cases "i = k")
    case True
    have "refs h2 y \<subseteq> {Suc (length h)..}" using c(3) p(2) by auto
    with keep [of y] c(2) g(2) True k ys(2) show ?thesis by simp
  next
    case False
    with that have "i < k" by simp
    with old go_type.grown [OF deep_copy.axioms(1) [OF copy] _ c(1), of "ys ! i"] have
      "ok h2 (ys ! i) \<and> val h2 (ys ! i) = val h (xs ! i) \<and> refs h2 (ys ! i) \<subseteq> {Suc (length h)..}" by simp
    with keep [of "ys ! i"] False show ?thesis by simp
  qed
  moreover have "prefix h ?h3" using prefix_order.trans [OF p(1) c(1)] by (rule prefix_update) simp
  ultimately have "copied refs val ok C h xs (Suc k) ?h3" using len ys(2)
    by (auto simp: copied_def intro!: exI [of _ "ys[k := y]"])
  with cell cells show ?thesis by (simp add: cells_def)
qed

lemma copied_loop:
  assumes copy: "deep_copy refs val ok into" and cells: "cells C is un"
    and s: "slice_ok is un ok h (Some s)" and xs: "xs = elems un h s"
    and k: "k \<le> length xs" and done_: "copied refs val ok C h xs k h'"
  shows "copied refs val ok C h xs (length xs) (copy_each C un into s (length h) [k..<length xs] h')"
  using k done_
proof (induction "length xs - k" arbitrary: k h')
  case 0
  then show ?case by simp
next
  case (Suc n)
  then have k: "k < length xs" by simp
  have here: "sl_Array s < length h" "sl_Off s + sl_Len s \<le> length (un (h ! sl_Array s))"
    using s by (simp_all add: slice_ok_def)
  have "prefix h h'" using Suc.prems(2) by (simp add: copied_def)
  then have "h' ! sl_Array s = h ! sl_Array s" using here by (auto simp: prefix_def nth_append)
  then have x: "un (h' ! sl_Array s) ! (sl_Off s + k) = xs ! k"
    using k here by (simp add: xs elems_def)
  have ok: "ok h (xs ! k)" using s k by (simp add: slice_ok_def xs list_all_length)
  obtain y h2 where into: "into (xs ! k) h' = (y, h2)" by fastforce
  let ?h3 = "h2[length h := C ((un (h2 ! length h))[k := y])]"
  have "copy_each C un into s (length h) [k..<length xs] h' =
      copy_each C un into s (length h) [Suc k..<length xs] ?h3"
    using k x into by (simp add: upt_conv_Cons)
  moreover have "copied refs val ok C h xs (Suc k) ?h3"
    by (rule copied_step [OF copy cells Suc.prems(2) k ok into])
  then have "copied refs val ok C h xs (length xs) (copy_each C un into s (length h) [Suc k..<length xs] ?h3)"
    using Suc.hyps(2) k by (intro Suc.hyps(1)) simp_all
  ultimately show ?case by simp
qed

lemma copied_slice:
  assumes cells: "cells C is un" and all: "copied refs val ok C h xs (length xs) h'"
  shows "prefix h h' \<and> slice_ok is un ok h' (Some \<lparr>sl_Array = length h, sl_Off = 0, sl_Len = length xs\<rparr>) \<and>
    slice_val un val h' (Some \<lparr>sl_Array = length h, sl_Off = 0, sl_Len = length xs\<rparr>) = Some (map (val h) xs) \<and>
    slice_refs un refs h' (Some \<lparr>sl_Array = length h, sl_Off = 0, sl_Len = length xs\<rparr>) \<subseteq> {length h..}"
proof -
  obtain ys where p: "prefix h h'" "length h < length h'" and ys: "h' ! length h = C ys" "length ys = length xs"
    and e: "\<forall>i<length xs. ok h' (ys ! i) \<and> val h' (ys ! i) = val h (xs ! i) \<and> refs h' (ys ! i) \<subseteq> {Suc (length h)..}"
    using all by (auto simp: copied_def)
  have "elems un h' \<lparr>sl_Array = length h, sl_Off = 0, sl_Len = length xs\<rparr> = ys"
    using ys cells by (simp add: elems_def cells_def)
  moreover have "map (val h') ys = map (val h) xs" using e ys(2) by (simp add: list_eq_iff_nth_eq)
  moreover have "refs h' y \<subseteq> {length h..}" if "y \<in> set ys" for y
    using that e ys(2) by (fastforce simp: in_set_conv_nth)
  moreover have "list_all (ok h') ys" using e ys(2) by (simp add: list_all_length)
  ultimately show ?thesis
    using p ys cells by (auto simp: slice_ok_def slice_val_def slice_refs_def cells_def)
qed

lemma copied_start: "copied refs val ok C h xs 0 (h @ [C (replicate (length xs) zero)])"
  by (auto simp: copied_def intro!: exI [of _ "replicate (length xs) zero"])

lemma slice_contract:
  assumes copy: "deep_copy refs val ok into" and cells: "cells C is un"
    and loop: "\<And>s h xs. slice_ok is un ok h (Some s) \<Longrightarrow> xs = elems un h s \<Longrightarrow>
      \<exists>h'. cp (Some s) h = (Some \<lparr>sl_Array = length h, sl_Off = 0, sl_Len = length xs\<rparr>, h') \<and>
        copied refs val ok C h xs (length xs) h'"
    and nil: "\<And>h. cp None h = (None, h)"
  shows "deep_copy (slice_refs un refs) (slice_val un val) (slice_ok is un ok) cp"
proof -
  note type = go_type_slice [OF deep_copy.axioms(1) [OF copy]]
  have all: "prefix h h' \<and> slice_ok is un ok h' q \<and> slice_val un val h' q = slice_val un val h p \<and>
      slice_refs un refs h' q \<subseteq> {length h..}"
    if ok: "slice_ok is un ok h p" and run: "cp p h = (q, h')" for h p q h'
  proof (cases p)
    case None
    with run nil show ?thesis by (auto simp: slice_ok_def slice_val_def slice_refs_def)
  next
    case (Some s)
    let ?xs = "elems un h s"
    from loop [OF ok [unfolded Some] refl] run Some have
      q: "q = Some \<lparr>sl_Array = length h, sl_Off = 0, sl_Len = length ?xs\<rparr>"
      and "copied refs val ok C h ?xs (length ?xs) h'" by auto
    from copied_slice [OF cells this(2)] show ?thesis unfolding q by (simp add: Some slice_val_def)
  qed
  show ?thesis using all by (rule deep_copyI [OF type])
qed

lemma slice_length: "slice_ok is un ok h (Some s) \<Longrightarrow> length (elems un h s) = sl_Len s"
  by (auto simp: slice_ok_def elems_def min_def)

lemma deep_copy_slice:
  assumes "deep_copy refs val ok into" and "cells C is un"
  shows "deep_copy (slice_refs un refs) (slice_val un val) (slice_ok is un ok) (copy_slice C un zero into)"
proof (rule slice_contract [OF assms])
  fix s h xs
  assume s: "slice_ok is un ok h (Some s)" and xs: "xs = elems un h s"
  have len: "length xs = sl_Len s" using slice_length [OF s] xs by simp
  from copied_loop [OF assms s xs _ copied_start, of zero]
  show "\<exists>h'. copy_slice C un zero into (Some s) h = (Some \<lparr>sl_Array = length h, sl_Off = 0, sl_Len = length xs\<rparr>, h') \<and>
      copied refs val ok C h xs (length xs) h'"
    by (auto simp: copy_slice_def new_def len)
qed (simp add: copy_slice_def)

lemma deep_copy_array:
  assumes "cells C is un"
  shows "deep_copy (slice_refs un flat_refs) (slice_val un flat_val) (slice_ok is un flat_ok) (copy_array C un zero)"
proof (rule slice_contract [OF assign.deep_copy_axioms assms])
  fix s and h :: "'b list" and xs
  assume s: "slice_ok is un flat_ok h (Some s)" and xs: "xs = elems un h s"
  have len: "length xs = sl_Len s" using slice_length [OF s] xs by simp
  have here: "sl_Array s < length h" using s by (simp add: slice_ok_def)
  then have "elems un (h @ [c]) s = xs" for c by (simp add: xs elems_def nth_append)
  then show "\<exists>h'. copy_array C un zero (Some s) h = (Some \<lparr>sl_Array = length h, sl_Off = 0, sl_Len = length xs\<rparr>, h') \<and>
      copied flat_refs flat_val flat_ok C h xs (length xs) h'"
    by (auto simp: copy_array_def new_def len copied_def flat_refs_def flat_val_def flat_ok_def)
qed (simp add: copy_array_def)

section \<open>Shapes\<close>

text \<open>The three functions that describe a Go type, in one value, and how to build them.\<close>

record ('c, 'a, 'v) shape =
  refs_of :: "'c list \<Rightarrow> 'a \<Rightarrow> nat set"
  val_of :: "'c list \<Rightarrow> 'a \<Rightarrow> 'v"
  ok_of :: "'c list \<Rightarrow> 'a \<Rightarrow> bool"

definition Flat :: "('c, 'a, 'a) shape" where
  "Flat = \<lparr>refs_of = flat_refs, val_of = flat_val, ok_of = flat_ok\<rparr>"

definition Ptr :: "('c \<Rightarrow> bool) \<Rightarrow> ('c \<Rightarrow> 'a) \<Rightarrow> ('c, 'a, 'v) shape \<Rightarrow> ('c, addr option, 'v option) shape" where
  "Ptr is un t = \<lparr>refs_of = ptr_refs un (refs_of t), val_of = ptr_val un (val_of t), ok_of = ptr_ok is un (ok_of t)\<rparr>"

definition Slice ::
  "('c \<Rightarrow> bool) \<Rightarrow> ('c \<Rightarrow> 'a list) \<Rightarrow> ('c, 'a, 'v) shape \<Rightarrow> ('c, slice option, 'v list option) shape" where
  "Slice is un t = \<lparr>refs_of = slice_refs un (refs_of t), val_of = slice_val un (val_of t), ok_of = slice_ok is un (ok_of t)\<rparr>"

definition Pair :: "('c, 'a, 'v) shape \<Rightarrow> ('c, 'b, 'w) shape \<Rightarrow> ('c, 'a \<times> 'b, 'v \<times> 'w) shape" where
  "Pair t u = \<lparr>refs_of = pair_refs (refs_of t) (refs_of u), val_of = pair_val (val_of t) (val_of u),
     ok_of = pair_ok (ok_of t) (ok_of u)\<rparr>"

definition Struct :: "('s \<Rightarrow> 'a) \<Rightarrow> ('s \<Rightarrow> 'r) \<Rightarrow> ('c, 'a, 'v) shape \<Rightarrow> ('c, 's, 'r \<times> 'v) shape" where
  "Struct get rest t = \<lparr>refs_of = (\<lambda>h s. refs_of t h (get s)), val_of = field_val get rest (val_of t),
     ok_of = (\<lambda>h s. ok_of t h (get s))\<rparr>"

definition copies :: "('c, 'a, 'v) shape \<Rightarrow> ('a \<Rightarrow> 'c list \<Rightarrow> 'a \<times> 'c list) \<Rightarrow> bool" where
  "copies t c \<longleftrightarrow> deep_copy (refs_of t) (val_of t) (ok_of t) c"

named_theorems copy_intros

lemma copies_assign [copy_intros]: "copies Flat assign"
  using assign.deep_copy_axioms by (simp add: copies_def Flat_def)

lemma copies_ptr [copy_intros]: "copies t c \<Longrightarrow> cells C is un \<Longrightarrow> copies (Ptr is un t) (copy_ptr C un zero c)"
  using deep_copy_ptr by (simp add: copies_def Ptr_def)

lemma copies_slice [copy_intros]:
  "copies t c \<Longrightarrow> cells C is un \<Longrightarrow> copies (Slice is un t) (copy_slice C un zero c)"
  using deep_copy_slice by (simp add: copies_def Slice_def)

lemma copies_array [copy_intros]: "cells C is un \<Longrightarrow> copies (Slice is un Flat) (copy_array C un zero)"
  using deep_copy_array by (simp add: copies_def Slice_def Flat_def)

lemma copies_pair [copy_intros]: "copies t c \<Longrightarrow> copies u d \<Longrightarrow> copies (Pair t u) (copy_pair c d)"
  using deep_copy_pair by (simp add: copies_def Pair_def)

lemma copies_struct [copy_intros]:
  "copies t c \<Longrightarrow> lens get put rest \<Longrightarrow> copies (Struct get rest t) (copy_fields get put c)"
  using deep_copy_fields by (simp add: copies_def Struct_def)

text \<open>
  What a copy is for: it stands for the same, shares no cell with the original, and whatever is
  written to the cells of one of the two leaves the other as it is.
\<close>

definition copies_apart :: "('c, 'a, 'v) shape \<Rightarrow> ('a \<Rightarrow> 'c list \<Rightarrow> 'a \<times> 'c list) \<Rightarrow> bool" where
  "copies_apart t c \<longleftrightarrow>
     (\<forall>h x y h'. ok_of t h x \<longrightarrow> c x h = (y, h') \<longrightarrow>
        prefix h h' \<and> ok_of t h' y \<and> val_of t h' y = val_of t h x \<and> refs_of t h' x \<inter> refs_of t h' y = {} \<and>
        (\<forall>h2. agree {length h..<length h'} h' h2 \<longrightarrow> ok_of t h2 y \<and> val_of t h2 y = val_of t h x) \<and>
        (\<forall>h2. agree {..<length h} h' h2 \<longrightarrow> ok_of t h2 x \<and> val_of t h2 x = val_of t h x))"

lemma copies_apart: "copies t c \<Longrightarrow> copies_apart t c"
proof -
  assume "copies t c"
  then have d: "deep_copy (refs_of t) (val_of t) (ok_of t) c" by (simp add: copies_def)
  show "copies_apart t c"
    unfolding copies_apart_def
  proof (intro allI impI)
    fix h x y h'
    assume x: "ok_of t h x" and run: "c x h = (y, h')"
    note g = deep_copy.contract [OF d x run]
    have "refs_of t h' x \<subseteq> {..<length h}" using go_type.grown [OF deep_copy.axioms(1) [OF d] x g(1)] go_type.in_heap [OF deep_copy.axioms(1) [OF d] x] by simp
    with g(3) have "refs_of t h' x \<inter> refs_of t h' y = {}" by fastforce
    with g deep_copy.copy_survives [OF d x run] deep_copy.original_survives [OF d x run]
    show "prefix h h' \<and> ok_of t h' y \<and> val_of t h' y = val_of t h x \<and> refs_of t h' x \<inter> refs_of t h' y = {} \<and>
        (\<forall>h2. agree {length h..<length h'} h' h2 \<longrightarrow> ok_of t h2 y \<and> val_of t h2 y = val_of t h x) \<and>
        (\<forall>h2. agree {..<length h} h' h2 \<longrightarrow> ok_of t h2 x \<and> val_of t h2 x = val_of t h x)" by simp
  qed
qed

lemma copies_apartD:
  assumes "copies_apart t c" and "ok_of t h x" and "c x h = (y, h')"
  shows "prefix h h'" and "ok_of t h' y" and "val_of t h' y = val_of t h x"
    and "agree {length h..<length h'} h' h2 \<Longrightarrow> val_of t h2 y = val_of t h x"
    and "agree {..<length h} h' h2 \<Longrightarrow> val_of t h2 x = val_of t h x"
  using assms unfolding copies_apart_def by fast+

end
