(* ===== verification/Go_Structs.thy ===== *)
theory Go_Structs
  imports Go_Heap Api_Types
begin

text \<open>
  The API types as Go has them, with pointers and slices, in a heap. The structs of other
  repositories that they embed, \<^verbatim>\<open>metav1.ObjectMeta\<close>, \<^verbatim>\<open>metav1.ListMeta\<close> and \<^verbatim>\<open>apis.Status\<close>, have
  the type \<open>'x\<close>, and the cells they refer to, such as the maps of labels, the type \<open>'l\<close>. Types
  without references are those of \<open>Api_Types\<close>.
\<close>

section \<open>Structs\<close>

record TypeMeta =
  tm_Kind :: string
  tm_APIVersion :: string

record ImageRepositorySpec_s =
  sis_Image :: string
  sis_Interval :: int
  sis_ImagePullSecrets :: "slice option"
  sis_ServiceAccountName :: string

record 'x ImageRepositoryStatus_s =
  sist_Status :: 'x
  sist_URL :: string
  sist_Artifact :: "addr option"

record 'x ImageRepository_s =
  sir_TypeMeta :: TypeMeta
  sir_ObjectMeta :: 'x
  sir_Spec :: ImageRepositorySpec_s
  sir_Status :: "'x ImageRepositoryStatus_s"

record 'x ImageRepositoryList_s =
  sil_TypeMeta :: TypeMeta
  sil_ListMeta :: 'x
  sil_Items :: "slice option"

record MavenArtifactSpec_s =
  sms_Artifact :: MavenArtifactType
  sms_Repository :: Repository
  sms_Interval :: int
  sms_Timeout :: "addr option"

record 'x MavenArtifactStatus_s =
  smst_Status :: 'x
  smst_URL :: string
  smst_Artifact :: "addr option"

record 'x MavenArtifact_s =
  sma_TypeMeta :: TypeMeta
  sma_ObjectMeta :: 'x
  sma_Spec :: MavenArtifactSpec_s
  sma_Status :: "'x MavenArtifactStatus_s"

record 'x MavenArtifactList_s =
  sml_TypeMeta :: TypeMeta
  sml_ListMeta :: 'x
  sml_Items :: "slice option"

text \<open>A die holds a resource and the one it was sealed with; dies of objects also embed frozen metadata.\<close>

record ('r, 'x) die =
  FrozenObjectMeta :: "'x option"
  mutable :: bool
  die_r :: 'r
  die_seal :: 'r

section \<open>Cells\<close>

datatype ('x, 'l) cell =
    CArtifact (un_Artifact: Artifact)
  | CDuration (un_Duration: int)
  | CRefs (un_Refs: "string list")
  | CImages (un_Images: "'x ImageRepository_s list")
  | CMavens (un_Mavens: "'x MavenArtifact_s list")
  | CImageRepository (un_ImageRepository: "'x ImageRepository_s")
  | CImageRepositoryList (un_ImageRepositoryList: "'x ImageRepositoryList_s")
  | CImageRepositorySpec (un_ImageRepositorySpec: ImageRepositorySpec_s)
  | CImageRepositoryStatus (un_ImageRepositoryStatus: "'x ImageRepositoryStatus_s")
  | CMavenArtifact (un_MavenArtifact: "'x MavenArtifact_s")
  | CMavenArtifactList (un_MavenArtifactList: "'x MavenArtifactList_s")
  | CMavenArtifactSpec (un_MavenArtifactSpec: MavenArtifactSpec_s)
  | CMavenArtifactStatus (un_MavenArtifactStatus: "'x MavenArtifactStatus_s")
  | CMavenArtifactType (un_MavenArtifactType: MavenArtifactType)
  | CMavenArtifactDefaulter (un_MavenArtifactDefaulter: unit)
  | CMavenArtifactValidator (un_MavenArtifactValidator: unit)
  | CRepository (un_Repository: Repository)
  | CArtifactDie (un_ArtifactDie: "(Artifact, 'x) die")
  | CImageRepositoryDie (un_ImageRepositoryDie: "('x ImageRepository_s, 'x) die")
  | CImageRepositorySpecDie (un_ImageRepositorySpecDie: "(ImageRepositorySpec_s, 'x) die")
  | CImageRepositoryStatusDie (un_ImageRepositoryStatusDie: "('x ImageRepositoryStatus_s, 'x) die")
  | CMavenArtifactDie (un_MavenArtifactDie: "('x MavenArtifact_s, 'x) die")
  | CMavenArtifactSpecDie (un_MavenArtifactSpecDie: "(MavenArtifactSpec_s, 'x) die")
  | CMavenArtifactStatusDie (un_MavenArtifactStatusDie: "('x MavenArtifactStatus_s, 'x) die")
  | CMavenArtifactTypeDie (un_MavenArtifactTypeDie: "(MavenArtifactType, 'x) die")
  | CRepositoryDie (un_RepositoryDie: "(Repository, 'x) die")
  | CLib (un_Lib: 'l)

type_synonym ('x, 'l) heap = "('x, 'l) cell list"

text \<open>What the code calls of the other repositories, an argument of everything that uses it.\<close>

record ('x, 'l) lib =
  ObjectMeta_DeepCopyInto :: "'x \<Rightarrow> ('x, 'l) heap \<Rightarrow> 'x \<times> ('x, 'l) heap"
  ListMeta_DeepCopyInto :: "'x \<Rightarrow> ('x, 'l) heap \<Rightarrow> 'x \<times> ('x, 'l) heap"
  Status_DeepCopyInto :: "'x \<Rightarrow> ('x, 'l) heap \<Rightarrow> 'x \<times> ('x, 'l) heap"
  zero_ObjectMeta :: 'x
  zero_ListMeta :: 'x
  zero_Status :: 'x
  zero_FrozenObjectMeta :: 'x
  FreezeObjectMeta :: "'x \<Rightarrow> 'x"

section \<open>Zero values\<close>

definition zero_TypeMeta :: TypeMeta where
  "zero_TypeMeta = \<lparr>tm_Kind = [], tm_APIVersion = []\<rparr>"

definition zero_Artifact :: Artifact where
  "zero_Artifact = \<lparr>a_Path = [], a_URL = [], a_Revision = [], a_Checksum = [], a_LastUpdateTime = 0\<rparr>"

definition zero_Repository :: Repository where
  "zero_Repository = \<lparr>repo_URL = [], SecretRef = []\<rparr>"

definition zero_MavenArtifactType :: MavenArtifactType where
  "zero_MavenArtifactType = \<lparr>GroupId = [], at_Version = [], ArtifactId = [], at_Type = [], Classifier = []\<rparr>"

definition zero_ImageRepositorySpec :: ImageRepositorySpec_s where
  "zero_ImageRepositorySpec =
     \<lparr>sis_Image = [], sis_Interval = 0, sis_ImagePullSecrets = None, sis_ServiceAccountName = []\<rparr>"

definition zero_ImageRepositoryStatus :: "('x, 'l) lib \<Rightarrow> 'x ImageRepositoryStatus_s" where
  "zero_ImageRepositoryStatus L = \<lparr>sist_Status = zero_Status L, sist_URL = [], sist_Artifact = None\<rparr>"

definition zero_ImageRepository :: "('x, 'l) lib \<Rightarrow> 'x ImageRepository_s" where
  "zero_ImageRepository L =
     \<lparr>sir_TypeMeta = zero_TypeMeta, sir_ObjectMeta = zero_ObjectMeta L, sir_Spec = zero_ImageRepositorySpec,
      sir_Status = zero_ImageRepositoryStatus L\<rparr>"

definition zero_ImageRepositoryList :: "('x, 'l) lib \<Rightarrow> 'x ImageRepositoryList_s" where
  "zero_ImageRepositoryList L = \<lparr>sil_TypeMeta = zero_TypeMeta, sil_ListMeta = zero_ListMeta L, sil_Items = None\<rparr>"

definition zero_MavenArtifactSpec :: MavenArtifactSpec_s where
  "zero_MavenArtifactSpec =
     \<lparr>sms_Artifact = zero_MavenArtifactType, sms_Repository = zero_Repository, sms_Interval = 0, sms_Timeout = None\<rparr>"

definition zero_MavenArtifactStatus :: "('x, 'l) lib \<Rightarrow> 'x MavenArtifactStatus_s" where
  "zero_MavenArtifactStatus L = \<lparr>smst_Status = zero_Status L, smst_URL = [], smst_Artifact = None\<rparr>"

definition zero_MavenArtifact :: "('x, 'l) lib \<Rightarrow> 'x MavenArtifact_s" where
  "zero_MavenArtifact L =
     \<lparr>sma_TypeMeta = zero_TypeMeta, sma_ObjectMeta = zero_ObjectMeta L, sma_Spec = zero_MavenArtifactSpec,
      sma_Status = zero_MavenArtifactStatus L\<rparr>"

definition zero_MavenArtifactList :: "('x, 'l) lib \<Rightarrow> 'x MavenArtifactList_s" where
  "zero_MavenArtifactList L = \<lparr>sml_TypeMeta = zero_TypeMeta, sml_ListMeta = zero_ListMeta L, sml_Items = None\<rparr>"

end
