(* ===== verification/Deep_Copy.thy ===== *)
theory Deep_Copy
  imports Go_Structs
begin

text \<open>
  The generated deep copies of \<^verbatim>\<open>zz_generated.deepcopy.go\<close>. \<^verbatim>\<open>DeepCopyInto\<close> starts with
  \<^verbatim>\<open>*out = *in\<close>, so it is a function from the struct to the struct that \<^verbatim>\<open>out\<close> points at afterwards;
  the fields it copies on its own are those \<open>copy_fields\<close> names. A struct that \<open>DeepCopyInto\<close> only
  assigns has \<open>assign\<close>.
\<close>

section \<open>The code\<close>

definition Artifact_DeepCopyInto :: "Artifact \<Rightarrow> ('x, 'l) heap \<Rightarrow> Artifact \<times> ('x, 'l) heap" where
  "Artifact_DeepCopyInto = copy_fields a_LastUpdateTime (\<lambda>t s. s\<lparr>a_LastUpdateTime := t\<rparr>) assign"

definition Artifact_DeepCopy :: "addr option \<Rightarrow> ('x, 'l) heap \<Rightarrow> addr option \<times> ('x, 'l) heap" where
  "Artifact_DeepCopy = copy_ptr CArtifact un_Artifact zero_Artifact Artifact_DeepCopyInto"

definition ImageRepositorySpec_DeepCopyInto :: "ImageRepositorySpec_s \<Rightarrow> ('x, 'l) heap \<Rightarrow> ImageRepositorySpec_s \<times> ('x, 'l) heap" where
  "ImageRepositorySpec_DeepCopyInto = copy_fields sis_ImagePullSecrets (\<lambda>p s. s\<lparr>sis_ImagePullSecrets := p\<rparr>)
     (copy_array CRefs un_Refs [])"

definition ImageRepositorySpec_DeepCopy :: "addr option \<Rightarrow> ('x, 'l) heap \<Rightarrow> addr option \<times> ('x, 'l) heap" where
  "ImageRepositorySpec_DeepCopy = copy_ptr CImageRepositorySpec un_ImageRepositorySpec zero_ImageRepositorySpec ImageRepositorySpec_DeepCopyInto"

definition ImageRepositoryStatus_DeepCopyInto :: "('x, 'l) lib \<Rightarrow> 'x ImageRepositoryStatus_s \<Rightarrow> ('x, 'l) heap \<Rightarrow> 'x ImageRepositoryStatus_s \<times> ('x, 'l) heap" where
  "ImageRepositoryStatus_DeepCopyInto L = copy_fields (\<lambda>s. (sist_Status s, sist_Artifact s))
     (\<lambda>(x, p) s. s\<lparr>sist_Status := x, sist_Artifact := p\<rparr>)
     (copy_pair (Status_DeepCopyInto L) (copy_ptr CArtifact un_Artifact zero_Artifact Artifact_DeepCopyInto))"

definition ImageRepositoryStatus_DeepCopy :: "('x, 'l) lib \<Rightarrow> addr option \<Rightarrow> ('x, 'l) heap \<Rightarrow> addr option \<times> ('x, 'l) heap" where
  "ImageRepositoryStatus_DeepCopy L = copy_ptr CImageRepositoryStatus un_ImageRepositoryStatus (zero_ImageRepositoryStatus L) (ImageRepositoryStatus_DeepCopyInto L)"

definition ImageRepository_DeepCopyInto :: "('x, 'l) lib \<Rightarrow> 'x ImageRepository_s \<Rightarrow> ('x, 'l) heap \<Rightarrow> 'x ImageRepository_s \<times> ('x, 'l) heap" where
  "ImageRepository_DeepCopyInto L = copy_fields (\<lambda>s. (sir_ObjectMeta s, sir_Spec s, sir_Status s))
     (\<lambda>(m, sp, st) s. s\<lparr>sir_ObjectMeta := m, sir_Spec := sp, sir_Status := st\<rparr>)
     (copy_pair (ObjectMeta_DeepCopyInto L) (copy_pair ImageRepositorySpec_DeepCopyInto (ImageRepositoryStatus_DeepCopyInto L)))"

definition ImageRepository_DeepCopy :: "('x, 'l) lib \<Rightarrow> addr option \<Rightarrow> ('x, 'l) heap \<Rightarrow> addr option \<times> ('x, 'l) heap" where
  "ImageRepository_DeepCopy L = copy_ptr CImageRepository un_ImageRepository (zero_ImageRepository L) (ImageRepository_DeepCopyInto L)"

definition ImageRepository_DeepCopyObject :: "('x, 'l) lib \<Rightarrow> addr option \<Rightarrow> ('x, 'l) heap \<Rightarrow> addr option \<times> ('x, 'l) heap" where
  "ImageRepository_DeepCopyObject L p h = (case ImageRepository_DeepCopy L p h of (Some c, h') \<Rightarrow> (Some c, h') | (None, h') \<Rightarrow> (None, h'))"

definition ImageRepositoryList_DeepCopyInto :: "('x, 'l) lib \<Rightarrow> 'x ImageRepositoryList_s \<Rightarrow> ('x, 'l) heap \<Rightarrow> 'x ImageRepositoryList_s \<times> ('x, 'l) heap" where
  "ImageRepositoryList_DeepCopyInto L = copy_fields (\<lambda>s. (sil_ListMeta s, sil_Items s))
     (\<lambda>(m, xs) s. s\<lparr>sil_ListMeta := m, sil_Items := xs\<rparr>)
     (copy_pair (ListMeta_DeepCopyInto L)
       (copy_slice CImages un_Images (zero_ImageRepository L) (ImageRepository_DeepCopyInto L)))"

definition ImageRepositoryList_DeepCopy :: "('x, 'l) lib \<Rightarrow> addr option \<Rightarrow> ('x, 'l) heap \<Rightarrow> addr option \<times> ('x, 'l) heap" where
  "ImageRepositoryList_DeepCopy L = copy_ptr CImageRepositoryList un_ImageRepositoryList (zero_ImageRepositoryList L) (ImageRepositoryList_DeepCopyInto L)"

definition ImageRepositoryList_DeepCopyObject :: "('x, 'l) lib \<Rightarrow> addr option \<Rightarrow> ('x, 'l) heap \<Rightarrow> addr option \<times> ('x, 'l) heap" where
  "ImageRepositoryList_DeepCopyObject L p h = (case ImageRepositoryList_DeepCopy L p h of (Some c, h') \<Rightarrow> (Some c, h') | (None, h') \<Rightarrow> (None, h'))"

definition MavenArtifactType_DeepCopyInto :: "MavenArtifactType \<Rightarrow> ('x, 'l) heap \<Rightarrow> MavenArtifactType \<times> ('x, 'l) heap" where
  "MavenArtifactType_DeepCopyInto = assign"

definition MavenArtifactType_DeepCopy :: "addr option \<Rightarrow> ('x, 'l) heap \<Rightarrow> addr option \<times> ('x, 'l) heap" where
  "MavenArtifactType_DeepCopy = copy_ptr CMavenArtifactType un_MavenArtifactType zero_MavenArtifactType MavenArtifactType_DeepCopyInto"

text \<open>The struct \<^verbatim>\<open>SecretRef\<close> is a field of the repository, which the assignment copies.\<close>

definition Repository_DeepCopyInto :: "Repository \<Rightarrow> ('x, 'l) heap \<Rightarrow> Repository \<times> ('x, 'l) heap" where
  "Repository_DeepCopyInto = assign"

definition Repository_DeepCopy :: "addr option \<Rightarrow> ('x, 'l) heap \<Rightarrow> addr option \<times> ('x, 'l) heap" where
  "Repository_DeepCopy = copy_ptr CRepository un_Repository zero_Repository Repository_DeepCopyInto"

definition MavenArtifactSpec_DeepCopyInto :: "MavenArtifactSpec_s \<Rightarrow> ('x, 'l) heap \<Rightarrow> MavenArtifactSpec_s \<times> ('x, 'l) heap" where
  "MavenArtifactSpec_DeepCopyInto = copy_fields sms_Timeout (\<lambda>p s. s\<lparr>sms_Timeout := p\<rparr>)
     (copy_ptr CDuration un_Duration 0 assign)"

definition MavenArtifactSpec_DeepCopy :: "addr option \<Rightarrow> ('x, 'l) heap \<Rightarrow> addr option \<times> ('x, 'l) heap" where
  "MavenArtifactSpec_DeepCopy = copy_ptr CMavenArtifactSpec un_MavenArtifactSpec zero_MavenArtifactSpec MavenArtifactSpec_DeepCopyInto"

definition MavenArtifactStatus_DeepCopyInto :: "('x, 'l) lib \<Rightarrow> 'x MavenArtifactStatus_s \<Rightarrow> ('x, 'l) heap \<Rightarrow> 'x MavenArtifactStatus_s \<times> ('x, 'l) heap" where
  "MavenArtifactStatus_DeepCopyInto L = copy_fields (\<lambda>s. (smst_Status s, smst_Artifact s))
     (\<lambda>(x, p) s. s\<lparr>smst_Status := x, smst_Artifact := p\<rparr>)
     (copy_pair (Status_DeepCopyInto L) (copy_ptr CArtifact un_Artifact zero_Artifact Artifact_DeepCopyInto))"

definition MavenArtifactStatus_DeepCopy :: "('x, 'l) lib \<Rightarrow> addr option \<Rightarrow> ('x, 'l) heap \<Rightarrow> addr option \<times> ('x, 'l) heap" where
  "MavenArtifactStatus_DeepCopy L = copy_ptr CMavenArtifactStatus un_MavenArtifactStatus (zero_MavenArtifactStatus L) (MavenArtifactStatus_DeepCopyInto L)"

definition MavenArtifact_DeepCopyInto :: "('x, 'l) lib \<Rightarrow> 'x MavenArtifact_s \<Rightarrow> ('x, 'l) heap \<Rightarrow> 'x MavenArtifact_s \<times> ('x, 'l) heap" where
  "MavenArtifact_DeepCopyInto L = copy_fields (\<lambda>s. (sma_ObjectMeta s, sma_Spec s, sma_Status s))
     (\<lambda>(m, sp, st) s. s\<lparr>sma_ObjectMeta := m, sma_Spec := sp, sma_Status := st\<rparr>)
     (copy_pair (ObjectMeta_DeepCopyInto L) (copy_pair MavenArtifactSpec_DeepCopyInto (MavenArtifactStatus_DeepCopyInto L)))"

definition MavenArtifact_DeepCopy :: "('x, 'l) lib \<Rightarrow> addr option \<Rightarrow> ('x, 'l) heap \<Rightarrow> addr option \<times> ('x, 'l) heap" where
  "MavenArtifact_DeepCopy L = copy_ptr CMavenArtifact un_MavenArtifact (zero_MavenArtifact L) (MavenArtifact_DeepCopyInto L)"

definition MavenArtifact_DeepCopyObject :: "('x, 'l) lib \<Rightarrow> addr option \<Rightarrow> ('x, 'l) heap \<Rightarrow> addr option \<times> ('x, 'l) heap" where
  "MavenArtifact_DeepCopyObject L p h = (case MavenArtifact_DeepCopy L p h of (Some c, h') \<Rightarrow> (Some c, h') | (None, h') \<Rightarrow> (None, h'))"

definition MavenArtifactList_DeepCopyInto :: "('x, 'l) lib \<Rightarrow> 'x MavenArtifactList_s \<Rightarrow> ('x, 'l) heap \<Rightarrow> 'x MavenArtifactList_s \<times> ('x, 'l) heap" where
  "MavenArtifactList_DeepCopyInto L = copy_fields (\<lambda>s. (sml_ListMeta s, sml_Items s))
     (\<lambda>(m, xs) s. s\<lparr>sml_ListMeta := m, sml_Items := xs\<rparr>)
     (copy_pair (ListMeta_DeepCopyInto L)
       (copy_slice CMavens un_Mavens (zero_MavenArtifact L) (MavenArtifact_DeepCopyInto L)))"

definition MavenArtifactList_DeepCopy :: "('x, 'l) lib \<Rightarrow> addr option \<Rightarrow> ('x, 'l) heap \<Rightarrow> addr option \<times> ('x, 'l) heap" where
  "MavenArtifactList_DeepCopy L = copy_ptr CMavenArtifactList un_MavenArtifactList (zero_MavenArtifactList L) (MavenArtifactList_DeepCopyInto L)"

definition MavenArtifactList_DeepCopyObject :: "('x, 'l) lib \<Rightarrow> addr option \<Rightarrow> ('x, 'l) heap \<Rightarrow> addr option \<times> ('x, 'l) heap" where
  "MavenArtifactList_DeepCopyObject L p h = (case MavenArtifactList_DeepCopy L p h of (Some c, h') \<Rightarrow> (Some c, h') | (None, h') \<Rightarrow> (None, h'))"

definition MavenArtifactDefaulter_DeepCopyInto :: "unit \<Rightarrow> ('x, 'l) heap \<Rightarrow> unit \<times> ('x, 'l) heap" where
  "MavenArtifactDefaulter_DeepCopyInto = assign"

definition MavenArtifactDefaulter_DeepCopy :: "addr option \<Rightarrow> ('x, 'l) heap \<Rightarrow> addr option \<times> ('x, 'l) heap" where
  "MavenArtifactDefaulter_DeepCopy = copy_ptr CMavenArtifactDefaulter un_MavenArtifactDefaulter () MavenArtifactDefaulter_DeepCopyInto"

definition MavenArtifactValidator_DeepCopyInto :: "unit \<Rightarrow> ('x, 'l) heap \<Rightarrow> unit \<times> ('x, 'l) heap" where
  "MavenArtifactValidator_DeepCopyInto = assign"

definition MavenArtifactValidator_DeepCopy :: "addr option \<Rightarrow> ('x, 'l) heap \<Rightarrow> addr option \<times> ('x, 'l) heap" where
  "MavenArtifactValidator_DeepCopy = copy_ptr CMavenArtifactValidator un_MavenArtifactValidator () MavenArtifactValidator_DeepCopyInto"

section \<open>Shapes of the types\<close>

definition Artifact_shape :: "(('x, 'l) cell, Artifact, _) shape" where
  "Artifact_shape = Struct a_LastUpdateTime (\<lambda>a. (a_Path a, a_URL a, a_Revision a, a_Checksum a)) Flat"

definition ArtifactPtr :: "(('x, 'l) cell, addr option, (_ \<times> _) option) shape" where
  "ArtifactPtr = Ptr is_CArtifact un_Artifact Artifact_shape"

definition ImageRepositorySpec_shape :: "(('x, 'l) cell, ImageRepositorySpec_s, _) shape" where
  "ImageRepositorySpec_shape = Struct sis_ImagePullSecrets
     (\<lambda>s. (sis_Image s, sis_Interval s, sis_ServiceAccountName s)) (Slice is_CRefs un_Refs Flat)"

definition ImageRepositoryStatus_shape :: "(('x, 'l) cell, 'x, 'v) shape \<Rightarrow> (('x, 'l) cell, 'x ImageRepositoryStatus_s, _) shape" where
  "ImageRepositoryStatus_shape st = Struct (\<lambda>s. (sist_Status s, sist_Artifact s)) sist_URL (Pair st ArtifactPtr)"

definition ImageRepository_shape ::
  "(('x, 'l) cell, 'x, 'v) shape \<Rightarrow> (('x, 'l) cell, 'x, 'w) shape \<Rightarrow> (('x, 'l) cell, 'x ImageRepository_s, _) shape" where
  "ImageRepository_shape om st = Struct (\<lambda>s. (sir_ObjectMeta s, sir_Spec s, sir_Status s)) sir_TypeMeta
     (Pair om (Pair ImageRepositorySpec_shape (ImageRepositoryStatus_shape st)))"

definition ImageRepositoryList_shape where
  "ImageRepositoryList_shape om lm st = Struct (\<lambda>s. (sil_ListMeta s, sil_Items s)) sil_TypeMeta
     (Pair lm (Slice is_CImages un_Images (ImageRepository_shape om st)))"

definition MavenArtifactSpec_shape :: "(('x, 'l) cell, MavenArtifactSpec_s, _) shape" where
  "MavenArtifactSpec_shape = Struct sms_Timeout
     (\<lambda>s. (sms_Artifact s, sms_Repository s, sms_Interval s)) (Ptr is_CDuration un_Duration Flat)"

definition MavenArtifactStatus_shape :: "(('x, 'l) cell, 'x, 'v) shape \<Rightarrow> (('x, 'l) cell, 'x MavenArtifactStatus_s, _) shape" where
  "MavenArtifactStatus_shape st = Struct (\<lambda>s. (smst_Status s, smst_Artifact s)) smst_URL (Pair st ArtifactPtr)"

definition MavenArtifact_shape ::
  "(('x, 'l) cell, 'x, 'v) shape \<Rightarrow> (('x, 'l) cell, 'x, 'w) shape \<Rightarrow> (('x, 'l) cell, 'x MavenArtifact_s, _) shape" where
  "MavenArtifact_shape om st = Struct (\<lambda>s. (sma_ObjectMeta s, sma_Spec s, sma_Status s)) sma_TypeMeta
     (Pair om (Pair MavenArtifactSpec_shape (MavenArtifactStatus_shape st)))"

definition MavenArtifactList_shape where
  "MavenArtifactList_shape om lm st = Struct (\<lambda>s. (sml_ListMeta s, sml_Items s)) sml_TypeMeta
     (Pair lm (Slice is_CMavens un_Mavens (MavenArtifact_shape om st)))"

section \<open>Every method keeps the contract\<close>

text \<open>
  The laws of the deep copies of the embedded structs: they keep the same contract, for some shapes.
\<close>

definition lib_laws where
  "lib_laws L om lm st \<longleftrightarrow>
     copies om (ObjectMeta_DeepCopyInto L) \<and> copies lm (ListMeta_DeepCopyInto L) \<and> copies st (Status_DeepCopyInto L)"

lemma cells_of [copy_intros]:
  "cells CArtifact is_CArtifact un_Artifact" "cells CDuration is_CDuration un_Duration"
  "cells CRefs is_CRefs un_Refs" "cells CImages is_CImages un_Images" "cells CMavens is_CMavens un_Mavens"
  "cells CImageRepository is_CImageRepository un_ImageRepository"
  "cells CImageRepositoryList is_CImageRepositoryList un_ImageRepositoryList"
  "cells CImageRepositorySpec is_CImageRepositorySpec un_ImageRepositorySpec"
  "cells CImageRepositoryStatus is_CImageRepositoryStatus un_ImageRepositoryStatus"
  "cells CMavenArtifact is_CMavenArtifact un_MavenArtifact"
  "cells CMavenArtifactList is_CMavenArtifactList un_MavenArtifactList"
  "cells CMavenArtifactSpec is_CMavenArtifactSpec un_MavenArtifactSpec"
  "cells CMavenArtifactStatus is_CMavenArtifactStatus un_MavenArtifactStatus"
  "cells CMavenArtifactType is_CMavenArtifactType un_MavenArtifactType"
  "cells CMavenArtifactDefaulter is_CMavenArtifactDefaulter un_MavenArtifactDefaulter"
  "cells CMavenArtifactValidator is_CMavenArtifactValidator un_MavenArtifactValidator"
  "cells CRepository is_CRepository un_Repository"
  by (simp_all add: cells_def)

text \<open>The fields that are copied on their own, and the others.\<close>

interpretation artifact_lens: lens "a_LastUpdateTime"
  "\<lambda>t s. s\<lparr>a_LastUpdateTime := t\<rparr>" "\<lambda>a. (a_Path a, a_URL a, a_Revision a, a_Checksum a)"
  by unfold_locales auto

interpretation image_spec_lens: lens "sis_ImagePullSecrets"
  "\<lambda>p s. s\<lparr>sis_ImagePullSecrets := p\<rparr>" "\<lambda>s. (sis_Image s, sis_Interval s, sis_ServiceAccountName s)"
  by unfold_locales auto

interpretation maven_spec_lens: lens "sms_Timeout"
  "\<lambda>p s. s\<lparr>sms_Timeout := p\<rparr>" "\<lambda>s. (sms_Artifact s, sms_Repository s, sms_Interval s)"
  by unfold_locales auto

interpretation image_status_lens: lens "\<lambda>s. (sist_Status s, sist_Artifact s)"
  "\<lambda>(x, p) s. s\<lparr>sist_Status := x, sist_Artifact := p\<rparr>" "sist_URL"
  by unfold_locales auto

interpretation maven_status_lens: lens "\<lambda>s. (smst_Status s, smst_Artifact s)"
  "\<lambda>(x, p) s. s\<lparr>smst_Status := x, smst_Artifact := p\<rparr>" "smst_URL"
  by unfold_locales auto

interpretation image_lens: lens "\<lambda>s. (sir_ObjectMeta s, sir_Spec s, sir_Status s)"
  "\<lambda>(m, sp, st) s. s\<lparr>sir_ObjectMeta := m, sir_Spec := sp, sir_Status := st\<rparr>" "sir_TypeMeta"
  by unfold_locales auto

interpretation maven_lens: lens "\<lambda>s. (sma_ObjectMeta s, sma_Spec s, sma_Status s)"
  "\<lambda>(m, sp, st) s. s\<lparr>sma_ObjectMeta := m, sma_Spec := sp, sma_Status := st\<rparr>" "sma_TypeMeta"
  by unfold_locales auto

interpretation image_list_lens: lens "\<lambda>s. (sil_ListMeta s, sil_Items s)"
  "\<lambda>(m, xs) s. s\<lparr>sil_ListMeta := m, sil_Items := xs\<rparr>" "sil_TypeMeta"
  by unfold_locales auto

interpretation maven_list_lens: lens "\<lambda>s. (sml_ListMeta s, sml_Items s)"
  "\<lambda>(m, xs) s. s\<lparr>sml_ListMeta := m, sml_Items := xs\<rparr>" "sml_TypeMeta"
  by unfold_locales auto

lemma copies_artifact [copy_intros]:
  "copies Artifact_shape Artifact_DeepCopyInto"
  "copies ArtifactPtr (copy_ptr CArtifact un_Artifact zero_Artifact Artifact_DeepCopyInto)"
proof -
  show "copies Artifact_shape Artifact_DeepCopyInto"
    unfolding Artifact_shape_def Artifact_DeepCopyInto_def
    by (intro copy_intros artifact_lens.lens_axioms)
  then show "copies ArtifactPtr (copy_ptr CArtifact un_Artifact zero_Artifact Artifact_DeepCopyInto)"
    unfolding ArtifactPtr_def by (intro copies_ptr cells_of)
qed

lemma copies_specs [copy_intros]:
  "copies ImageRepositorySpec_shape ImageRepositorySpec_DeepCopyInto"
  "copies MavenArtifactSpec_shape MavenArtifactSpec_DeepCopyInto"
  unfolding ImageRepositorySpec_shape_def ImageRepositorySpec_DeepCopyInto_def
    MavenArtifactSpec_shape_def MavenArtifactSpec_DeepCopyInto_def
  by (intro copy_intros image_spec_lens.lens_axioms maven_spec_lens.lens_axioms)+

lemma copies_statuses [copy_intros]:
  assumes "lib_laws L om lm st"
  shows "copies (ImageRepositoryStatus_shape st) (ImageRepositoryStatus_DeepCopyInto L)"
    and "copies (MavenArtifactStatus_shape st) (MavenArtifactStatus_DeepCopyInto L)"
  unfolding ImageRepositoryStatus_shape_def ImageRepositoryStatus_DeepCopyInto_def
    MavenArtifactStatus_shape_def MavenArtifactStatus_DeepCopyInto_def
  using assms unfolding lib_laws_def
  by (intro copy_intros image_status_lens.lens_axioms maven_status_lens.lens_axioms; blast)+

lemma copies_objects [copy_intros]:
  assumes "lib_laws L om lm st"
  shows "copies (ImageRepository_shape om st) (ImageRepository_DeepCopyInto L)"
    and "copies (MavenArtifact_shape om st) (MavenArtifact_DeepCopyInto L)"
proof -
  have om: "copies om (ObjectMeta_DeepCopyInto L)" using assms by (simp add: lib_laws_def)
  show "copies (ImageRepository_shape om st) (ImageRepository_DeepCopyInto L)"
    "copies (MavenArtifact_shape om st) (MavenArtifact_DeepCopyInto L)"
    unfolding ImageRepository_shape_def ImageRepository_DeepCopyInto_def
      MavenArtifact_shape_def MavenArtifact_DeepCopyInto_def
    by (intro copies_struct copies_pair copies_specs copies_statuses [OF assms] om
      image_lens.lens_axioms maven_lens.lens_axioms)+
qed

lemma copies_lists:
  assumes "lib_laws L om lm st"
  shows "copies (ImageRepositoryList_shape om lm st) (ImageRepositoryList_DeepCopyInto L)"
    and "copies (MavenArtifactList_shape om lm st) (MavenArtifactList_DeepCopyInto L)"
proof -
  have lm: "copies lm (ListMeta_DeepCopyInto L)" using assms by (simp add: lib_laws_def)
  show "copies (ImageRepositoryList_shape om lm st) (ImageRepositoryList_DeepCopyInto L)"
    "copies (MavenArtifactList_shape om lm st) (MavenArtifactList_DeepCopyInto L)"
    unfolding ImageRepositoryList_shape_def ImageRepositoryList_DeepCopyInto_def
      MavenArtifactList_shape_def MavenArtifactList_DeepCopyInto_def
    by (intro copies_struct copies_pair copies_slice cells_of copies_objects [OF assms] lm
      image_list_lens.lens_axioms maven_list_lens.lens_axioms)+
qed

lemma copies_unit: "copies Flat MavenArtifactType_DeepCopyInto" "copies Flat Repository_DeepCopyInto"
  "copies Flat MavenArtifactDefaulter_DeepCopyInto" "copies Flat MavenArtifactValidator_DeepCopyInto"
  unfolding MavenArtifactType_DeepCopyInto_def Repository_DeepCopyInto_def
    MavenArtifactDefaulter_DeepCopyInto_def MavenArtifactValidator_DeepCopyInto_def
  by (rule copies_assign)+

lemma DeepCopyObject_eq [simp]:
  "ImageRepository_DeepCopyObject L = ImageRepository_DeepCopy L"
  "ImageRepositoryList_DeepCopyObject L = ImageRepositoryList_DeepCopy L"
  "MavenArtifact_DeepCopyObject L = MavenArtifact_DeepCopy L"
  "MavenArtifactList_DeepCopyObject L = MavenArtifactList_DeepCopy L"
  by (auto simp: fun_eq_iff ImageRepository_DeepCopyObject_def ImageRepositoryList_DeepCopyObject_def
      MavenArtifact_DeepCopyObject_def MavenArtifactList_DeepCopyObject_def split: prod.splits option.splits)

lemma copies_plain_pointers:
  "copies ArtifactPtr Artifact_DeepCopy"
  "copies (Ptr is_CImageRepositorySpec un_ImageRepositorySpec ImageRepositorySpec_shape) ImageRepositorySpec_DeepCopy"
  "copies (Ptr is_CMavenArtifactSpec un_MavenArtifactSpec MavenArtifactSpec_shape) MavenArtifactSpec_DeepCopy"
  "copies (Ptr is_CMavenArtifactType un_MavenArtifactType Flat) MavenArtifactType_DeepCopy"
  "copies (Ptr is_CRepository un_Repository Flat) Repository_DeepCopy"
  "copies (Ptr is_CMavenArtifactDefaulter un_MavenArtifactDefaulter Flat) MavenArtifactDefaulter_DeepCopy"
  "copies (Ptr is_CMavenArtifactValidator un_MavenArtifactValidator Flat) MavenArtifactValidator_DeepCopy"
  unfolding Artifact_DeepCopy_def ImageRepositorySpec_DeepCopy_def MavenArtifactSpec_DeepCopy_def
    MavenArtifactType_DeepCopy_def Repository_DeepCopy_def MavenArtifactDefaulter_DeepCopy_def
    MavenArtifactValidator_DeepCopy_def
  by (intro copies_artifact copies_ptr copies_specs copies_unit cells_of)+

lemma copies_object_pointers:
  assumes "lib_laws L om lm st"
  shows "copies (Ptr is_CImageRepositoryStatus un_ImageRepositoryStatus (ImageRepositoryStatus_shape st))
      (ImageRepositoryStatus_DeepCopy L)"
    and "copies (Ptr is_CMavenArtifactStatus un_MavenArtifactStatus (MavenArtifactStatus_shape st))
      (MavenArtifactStatus_DeepCopy L)"
    and "copies (Ptr is_CImageRepository un_ImageRepository (ImageRepository_shape om st)) (ImageRepository_DeepCopy L)"
    and "copies (Ptr is_CMavenArtifact un_MavenArtifact (MavenArtifact_shape om st)) (MavenArtifact_DeepCopy L)"
    and "copies (Ptr is_CImageRepositoryList un_ImageRepositoryList (ImageRepositoryList_shape om lm st))
      (ImageRepositoryList_DeepCopy L)"
    and "copies (Ptr is_CMavenArtifactList un_MavenArtifactList (MavenArtifactList_shape om lm st))
      (MavenArtifactList_DeepCopy L)"
  unfolding ImageRepositoryStatus_DeepCopy_def MavenArtifactStatus_DeepCopy_def ImageRepository_DeepCopy_def
    MavenArtifact_DeepCopy_def ImageRepositoryList_DeepCopy_def MavenArtifactList_DeepCopy_def
  by (intro copies_ptr copies_statuses [OF assms] copies_objects [OF assms] copies_lists [OF assms] cells_of)+

text \<open>
  C37: every generated deep copy is deep. For each of the thirteen types \<^verbatim>\<open>DeepCopy\<close> of a pointer
  returns a pointer that stands for the same, nil included, has written no cell that existed, shares
  no cell with the original, and stays what it is whatever is later written to the cells of the
  original, and the other way round. The copies of the embedded library structs have to be deep.
\<close>

theorem deep_copies_apart:
  assumes "lib_laws L om lm st"
  shows "copies_apart (Ptr is_CMavenArtifact un_MavenArtifact (MavenArtifact_shape om st)) (MavenArtifact_DeepCopy L) \<and>
    copies_apart (Ptr is_CMavenArtifact un_MavenArtifact (MavenArtifact_shape om st)) (MavenArtifact_DeepCopyObject L) \<and>
    copies_apart (Ptr is_CMavenArtifactList un_MavenArtifactList (MavenArtifactList_shape om lm st))
      (MavenArtifactList_DeepCopy L) \<and>
    copies_apart (Ptr is_CMavenArtifactList un_MavenArtifactList (MavenArtifactList_shape om lm st))
      (MavenArtifactList_DeepCopyObject L) \<and>
    copies_apart (Ptr is_CMavenArtifactSpec un_MavenArtifactSpec MavenArtifactSpec_shape) MavenArtifactSpec_DeepCopy \<and>
    copies_apart (Ptr is_CMavenArtifactStatus un_MavenArtifactStatus (MavenArtifactStatus_shape st))
      (MavenArtifactStatus_DeepCopy L) \<and>
    copies_apart (Ptr is_CMavenArtifactType un_MavenArtifactType Flat) MavenArtifactType_DeepCopy \<and>
    copies_apart (Ptr is_CRepository un_Repository Flat) Repository_DeepCopy \<and>
    copies_apart (Ptr is_CMavenArtifactDefaulter un_MavenArtifactDefaulter Flat) MavenArtifactDefaulter_DeepCopy \<and>
    copies_apart (Ptr is_CMavenArtifactValidator un_MavenArtifactValidator Flat) MavenArtifactValidator_DeepCopy \<and>
    copies_apart ArtifactPtr Artifact_DeepCopy \<and>
    copies_apart (Ptr is_CImageRepository un_ImageRepository (ImageRepository_shape om st)) (ImageRepository_DeepCopy L) \<and>
    copies_apart (Ptr is_CImageRepository un_ImageRepository (ImageRepository_shape om st)) (ImageRepository_DeepCopyObject L) \<and>
    copies_apart (Ptr is_CImageRepositoryList un_ImageRepositoryList (ImageRepositoryList_shape om lm st))
      (ImageRepositoryList_DeepCopy L) \<and>
    copies_apart (Ptr is_CImageRepositoryList un_ImageRepositoryList (ImageRepositoryList_shape om lm st))
      (ImageRepositoryList_DeepCopyObject L) \<and>
    copies_apart (Ptr is_CImageRepositorySpec un_ImageRepositorySpec ImageRepositorySpec_shape) ImageRepositorySpec_DeepCopy \<and>
    copies_apart (Ptr is_CImageRepositoryStatus un_ImageRepositoryStatus (ImageRepositoryStatus_shape st))
      (ImageRepositoryStatus_DeepCopy L)"
  unfolding DeepCopyObject_eq
  by (intro conjI copies_apart copies_plain_pointers copies_object_pointers [OF assms])

text \<open>
  Metadata with a name and a pointer to a map of labels, a resource with a timeout and an artifact
  in a heap, and its copy.
\<close>

definition meta_lib :: "(string \<times> addr option, (string \<times> string) list) lib" where
  "meta_lib =
     (let c = copy_pair assign (copy_ptr CLib un_Lib [] assign) in
      \<lparr>ObjectMeta_DeepCopyInto = c, ListMeta_DeepCopyInto = c, Status_DeepCopyInto = c,
       zero_ObjectMeta = ([], None), zero_ListMeta = ([], None), zero_Status = ([], None), zero_FrozenObjectMeta = ([], None), FreezeObjectMeta = id\<rparr>)"

definition meta_shape :: "((string \<times> addr option, (string \<times> string) list) cell, string \<times> addr option, _) shape" where
  "meta_shape = Pair Flat (Ptr is_CLib un_Lib Flat)"

lemma meta_lib_laws: "lib_laws meta_lib meta_shape meta_shape meta_shape"
proof -
  have "cells CLib is_CLib un_Lib" by (simp add: cells_def)
  then show ?thesis
    unfolding lib_laws_def meta_lib_def meta_shape_def Let_def by (simp, intro copy_intros)
qed

definition labelled_heap :: "(string \<times> addr option, (string \<times> string) list) heap" where
  "labelled_heap =
     [CLib [(''app'', ''demo'')], CDuration 5, CArtifact zero_Artifact,
      CMavenArtifact ((zero_MavenArtifact meta_lib)
        \<lparr>sma_ObjectMeta := (''app'', Some 0), sma_Spec := zero_MavenArtifactSpec\<lparr>sms_Timeout := Some 1\<rparr>,
         sma_Status := (zero_MavenArtifactStatus meta_lib)\<lparr>smst_Artifact := Some 2\<rparr>\<rparr>)]"

theorem deep_copies_apart_witness:
  "\<exists>b h'. MavenArtifact_DeepCopy meta_lib (Some 3) labelled_heap = (Some b, h') \<and> b = 4 \<and> length h' = 8 \<and>
     val_of (Ptr is_CMavenArtifact un_MavenArtifact (MavenArtifact_shape meta_shape meta_shape)) (h'[1 := CDuration 9]) (Some b) =
     val_of (Ptr is_CMavenArtifact un_MavenArtifact (MavenArtifact_shape meta_shape meta_shape)) labelled_heap (Some 3)"
proof -
  let ?t = "Ptr is_CMavenArtifact un_MavenArtifact (MavenArtifact_shape meta_shape meta_shape)"
  obtain h' where run: "MavenArtifact_DeepCopy meta_lib (Some 3) labelled_heap = (Some 4, h')" and len: "length h' = 8"
    by (simp add: MavenArtifact_DeepCopy_def labelled_heap_def copy_ptr_def new_def copy_fields_def copy_pair_def
        MavenArtifact_DeepCopyInto_def MavenArtifactSpec_DeepCopyInto_def MavenArtifactStatus_DeepCopyInto_def
        Artifact_DeepCopyInto_def meta_lib_def Let_def assign_def zero_MavenArtifact_def
        zero_MavenArtifactSpec_def zero_MavenArtifactStatus_def)
  have ok: "ok_of ?t labelled_heap (Some 3)"
    by (simp add: labelled_heap_def Ptr_def Struct_def Pair_def Flat_def MavenArtifact_shape_def meta_shape_def
        MavenArtifactSpec_shape_def MavenArtifactStatus_shape_def ArtifactPtr_def Artifact_shape_def ptr_ok_def pair_ok_def flat_ok_def
        meta_lib_def Let_def zero_MavenArtifact_def zero_MavenArtifactSpec_def zero_MavenArtifactStatus_def)
  have "agree {length labelled_heap..<length h'} h' (h'[1 := CDuration 9])"
    by (simp add: agree_def labelled_heap_def)
  from copies_apartD(4) [OF conjunct1 [OF deep_copies_apart [OF meta_lib_laws]] ok run this]
  have "val_of ?t (h'[1 := CDuration 9]) (Some 4) = val_of ?t labelled_heap (Some 3)" .
  with run len show ?thesis by blast
qed

end
