(* ===== verification/Die.thy ===== *)
theory Die
  imports Deep_Copy
begin

text \<open>
  Dies, the fluent builders of \<^verbatim>\<open>dies/source/v1alpha1\<close>: what the generator writes for every type,
  with the type as an argument. A die is a cell of the heap and a method takes its address; a method
  of an immutable die returns the address of another die. A callback \<^verbatim>\<open>func(r *T)\<close> is a function
  from the address it gets and the heap to the heap. The cell that \<^verbatim>\<open>*r.DeepCopy()\<close> allocates
  is read at once and reachable by nobody, so the struct that \<open>DeepCopyInto\<close> leaves stands for it.
\<close>

section \<open>What differs from type to type\<close>

text \<open>
  The cells of the resource and of its die, the deep copy, the zero value, and the frozen metadata,
  which only the dies of objects embed.
\<close>

record ('r, 'x, 'l) die_type =
  dt_C :: "'r \<Rightarrow> ('x, 'l) cell"
  dt_un :: "('x, 'l) cell \<Rightarrow> 'r"
  dt_Die :: "('r, 'x) die \<Rightarrow> ('x, 'l) cell"
  dt_unDie :: "('x, 'l) cell \<Rightarrow> ('r, 'x) die"
  dt_DeepCopy :: "'r \<Rightarrow> ('x, 'l) heap \<Rightarrow> 'r \<times> ('x, 'l) heap"
  dt_zero :: 'r
  dt_Freeze :: "'r \<Rightarrow> 'x option"

definition die_at :: "('r, 'x, 'l) die_type \<Rightarrow> addr \<Rightarrow> ('x, 'l) heap \<Rightarrow> ('r, 'x) die" where
  "die_at T d h = dt_unDie T (h ! d)"

text \<open>Assignments to the fields of a struct through a pointer.\<close>

definition store :: "('r \<Rightarrow> 'c) \<Rightarrow> ('c \<Rightarrow> 'r) \<Rightarrow> ('r \<Rightarrow> 'r) \<Rightarrow> addr \<Rightarrow> 'c list \<Rightarrow> 'c list" where
  "store C un f p h = h[p := C (f (un (h ! p)))]"

section \<open>Copying, feeding and releasing\<close>

definition die_DeepCopy :: "('r, 'x, 'l) die_type \<Rightarrow> addr \<Rightarrow> ('x, 'l) heap \<Rightarrow> addr \<times> ('x, 'l) heap" where
  "die_DeepCopy T d h =
     (case dt_DeepCopy T (die_r (die_at T d h)) h of
        (r, h1) \<Rightarrow> new (dt_Die T \<lparr>FrozenObjectMeta = dt_Freeze T r, mutable = mutable (die_at T d h),
                                die_r = r, die_seal = die_seal (die_at T d h)\<rparr>) h1)"

definition die_DieImmutable :: "('r, 'x, 'l) die_type \<Rightarrow> addr \<Rightarrow> bool \<Rightarrow> ('x, 'l) heap \<Rightarrow> addr \<times> ('x, 'l) heap" where
  "die_DieImmutable T d immutable h =
     (if mutable (die_at T d h) = (\<not> immutable) then (d, h)
      else case die_DeepCopy T d h of
        (d', h') \<Rightarrow> (d', store (dt_Die T) (dt_unDie T) (\<lambda>D. D\<lparr>mutable := \<not> immutable\<rparr>) d' h'))"

definition die_DieFeed :: "('r, 'x, 'l) die_type \<Rightarrow> addr \<Rightarrow> 'r \<Rightarrow> ('x, 'l) heap \<Rightarrow> addr \<times> ('x, 'l) heap" where
  "die_DieFeed T d r h =
     (if mutable (die_at T d h)
      then (d, store (dt_Die T) (dt_unDie T) (\<lambda>D. D\<lparr>FrozenObjectMeta := dt_Freeze T r, die_r := r\<rparr>) d h)
      else new (dt_Die T \<lparr>FrozenObjectMeta = dt_Freeze T r, mutable = mutable (die_at T d h),
                       die_r = r, die_seal = die_seal (die_at T d h)\<rparr>) h)"

definition die_DieFeedPtr :: "('r, 'x, 'l) die_type \<Rightarrow> addr \<Rightarrow> addr option \<Rightarrow> ('x, 'l) heap \<Rightarrow> addr \<times> ('x, 'l) heap" where
  "die_DieFeedPtr T d p h = die_DieFeed T d (case p of None \<Rightarrow> dt_zero T | Some a \<Rightarrow> dt_un T (h ! a)) h"

definition die_DieRelease :: "('r, 'x, 'l) die_type \<Rightarrow> addr \<Rightarrow> ('x, 'l) heap \<Rightarrow> 'r \<times> ('x, 'l) heap" where
  "die_DieRelease T d h =
     (if mutable (die_at T d h) then (die_r (die_at T d h), h) else dt_DeepCopy T (die_r (die_at T d h)) h)"

definition die_DieReleasePtr :: "('r, 'x, 'l) die_type \<Rightarrow> addr \<Rightarrow> ('x, 'l) heap \<Rightarrow> addr \<times> ('x, 'l) heap" where
  "die_DieReleasePtr T d h = (case die_DieRelease T d h of (r, h1) \<Rightarrow> new (dt_C T r) h1)"

text \<open>The variable of a blank die: \<^verbatim>\<open>(&TDie{}).DieFeed(T{})\<close>.\<close>

definition die_Blank :: "('r, 'x, 'l) die_type \<Rightarrow> 'x option \<Rightarrow> ('x, 'l) heap \<Rightarrow> addr \<times> ('x, 'l) heap" where
  "die_Blank T frozen h =
     (case new (dt_Die T \<lparr>FrozenObjectMeta = frozen, mutable = False, die_r = dt_zero T, die_seal = dt_zero T\<rparr>) h of
        (d, h1) \<Rightarrow> die_DieFeed T d (dt_zero T) h1)"

section \<open>Stamping\<close>

definition die_DieStamp ::
  "('r, 'x, 'l) die_type \<Rightarrow> addr \<Rightarrow> (addr \<Rightarrow> ('x, 'l) heap \<Rightarrow> ('x, 'l) heap) \<Rightarrow> ('x, 'l) heap \<Rightarrow> addr \<times> ('x, 'l) heap" where
  "die_DieStamp T d fn h =
     (case die_DieReleasePtr T d h of
        (r, h1) \<Rightarrow> (let h2 = fn r h1 in die_DieFeed T d (dt_un T (h2 ! r)) h2))"

text \<open>The callbacks of \<^verbatim>\<open>DieWith\<close> get the mutable die; a nil callback is skipped.\<close>

definition die_DieWith ::
  "('r, 'x, 'l) die_type \<Rightarrow> addr \<Rightarrow> addr \<Rightarrow> (addr \<Rightarrow> ('x, 'l) heap \<Rightarrow> ('x, 'l) heap) option list \<Rightarrow>
   ('x, 'l) heap \<Rightarrow> addr \<times> ('x, 'l) heap" where
  "die_DieWith T blank d fns h =
     (case die_DieRelease T d h of
        (r, h1) \<Rightarrow> (case die_DieFeed T blank r h1 of
        (b, h2) \<Rightarrow> (case die_DieImmutable T b False h2 of
        (nd, h3) \<Rightarrow> (case die_DieRelease T nd (fold (\<lambda>f. case f of None \<Rightarrow> id | Some fn \<Rightarrow> fn nd) fns h3) of
        (r', h5) \<Rightarrow> die_DieFeed T d r' h5))))"

text \<open>
  A field whose type has a die of its own: \<^verbatim>\<open>SpecDie\<close> and \<^verbatim>\<open>StatusDie\<close> feed the current value of
  the field to a mutable copy of the blank die and assign what the callback made of it.
\<close>

definition die_nested ::
  "('q, 'x, 'l) die_type \<Rightarrow> addr \<Rightarrow> ('r \<Rightarrow> ('x, 'l) cell) \<Rightarrow> (('x, 'l) cell \<Rightarrow> 'r) \<Rightarrow> ('r \<Rightarrow> 'q) \<Rightarrow> ('q \<Rightarrow> 'r \<Rightarrow> 'r) \<Rightarrow>
   (addr \<Rightarrow> ('x, 'l) heap \<Rightarrow> ('x, 'l) heap) \<Rightarrow> addr \<Rightarrow> ('x, 'l) heap \<Rightarrow> ('x, 'l) heap" where
  "die_nested N blank C un get put fn r h =
     (case die_DieImmutable N blank False h of
        (b, h1) \<Rightarrow> (case die_DieFeed N b (get (un (h1 ! r))) h1 of
        (d, h2) \<Rightarrow> (case die_DieRelease N d (fn d h2) of
        (q, h3) \<Rightarrow> store C un (put q) r h3)))"

section \<open>Stamping at a path\<close>

text \<open>
  What \<^verbatim>\<open>DieStampAt\<close> asks of the packages \<^verbatim>\<open>reflect\<close> and \<^verbatim>\<open>jsonpath\<close>: the numbers of parameters
  and results of the callback \<open>'f\<close>, the matches \<open>'m\<close> of a path in a resource, whether a match, or
  its address, can be passed to the callback, and the call.
\<close>

record ('f, 'm, 'x, 'l) reflection =
  NumIn :: "'f \<Rightarrow> int"
  NumOut :: "'f \<Rightarrow> int"
  jp_Parse :: "string \<Rightarrow> go_error option"
  FindResults :: "string \<Rightarrow> addr \<Rightarrow> ('x, 'l) heap \<Rightarrow> go_error + 'm list list"
  AssignableTo :: "'m \<Rightarrow> 'f \<Rightarrow> bool"
  AddrAssignableTo :: "'m \<Rightarrow> 'f \<Rightarrow> bool"
  Call :: "'f \<Rightarrow> 'm \<Rightarrow> ('x, 'l) heap \<Rightarrow> ('x, 'l) heap"
  CallAddr :: "'f \<Rightarrow> 'm \<Rightarrow> ('x, 'l) heap \<Rightarrow> ('x, 'l) heap"

text \<open>The loop over the matches; it panics at the first that does not fit.\<close>

primrec call_each ::
  "('f, 'm, 'x, 'l) reflection \<Rightarrow> 'f \<Rightarrow> 'm list \<Rightarrow> ('x, 'l) heap \<Rightarrow> unit outcome \<times> ('x, 'l) heap" where
  "call_each J fn [] h = (Ok (), h)"
| "call_each J fn (cv # cvs) h =
     (if AssignableTo J cv fn then call_each J fn cvs (Call J fn cv h)
      else if AddrAssignableTo J cv fn then call_each J fn cvs (CallAddr J fn cv h)
      else (Panic ''callback function must accept value of type %q, found type %q'', h))"

definition stamp_at ::
  "('f, 'm, 'x, 'l) reflection \<Rightarrow> string \<Rightarrow> 'f \<Rightarrow> addr \<Rightarrow> ('x, 'l) heap \<Rightarrow> unit outcome \<times> ('x, 'l) heap" where
  "stamp_at J jp fn r h =
     (if NumIn J fn \<noteq> 1 then (Panic ''callback function must have 1 input parameters, found %d'', h)
      else if NumOut J fn \<noteq> 0 then (Panic ''callback function must have 0 output parameters, found %d'', h)
      else case jp_Parse J (''{'' @ jp @ ''}'') of
        Some err \<Rightarrow> (Panic ''error'', h)
      | None \<Rightarrow>
          (case FindResults J (''{'' @ jp @ ''}'') r h of
             Inl err \<Rightarrow> (Ok (), h)
           | Inr [] \<Rightarrow> (Panic ''index out of range [0] with length 0'', h)
           | Inr (cvs # _) \<Rightarrow> call_each J fn cvs h))"

definition die_DieStampAt ::
  "('r, 'x, 'l) die_type \<Rightarrow> ('f, 'm, 'x, 'l) reflection \<Rightarrow> addr \<Rightarrow> string \<Rightarrow> 'f \<Rightarrow> ('x, 'l) heap \<Rightarrow> addr outcome \<times> ('x, 'l) heap" where
  "die_DieStampAt T J d jp fn h =
     (case die_DieReleasePtr T d h of
        (r, h1) \<Rightarrow> (case stamp_at J jp fn r h1 of
        (Ok _, h2) \<Rightarrow> (case die_DieFeed T d (dt_un T (h2 ! r)) h2 of (d', h3) \<Rightarrow> (Ok d', h3))
      | (Error err, h2) \<Rightarrow> (Error err, h2)
      | (Panic m, h2) \<Rightarrow> (Panic m, h2)))"

section \<open>Seals\<close>

definition die_DieSealFeed :: "('r, 'x, 'l) die_type \<Rightarrow> addr \<Rightarrow> 'r \<Rightarrow> ('x, 'l) heap \<Rightarrow> addr \<times> ('x, 'l) heap" where
  "die_DieSealFeed T d r h =
     (case (if \<not> mutable (die_at T d h) then die_DeepCopy T d h else (d, h)) of
        (d', h1) \<Rightarrow> (case dt_DeepCopy T r h1 of
        (s, h2) \<Rightarrow> (d', store (dt_Die T) (dt_unDie T) (\<lambda>D. D\<lparr>die_seal := s\<rparr>) d' h2)))"

definition die_DieSeal :: "('r, 'x, 'l) die_type \<Rightarrow> addr \<Rightarrow> ('x, 'l) heap \<Rightarrow> addr \<times> ('x, 'l) heap" where
  "die_DieSeal T d h = die_DieSealFeed T d (die_r (die_at T d h)) h"

definition die_DieSealFeedPtr :: "('r, 'x, 'l) die_type \<Rightarrow> addr \<Rightarrow> addr option \<Rightarrow> ('x, 'l) heap \<Rightarrow> addr \<times> ('x, 'l) heap" where
  "die_DieSealFeedPtr T d p h = die_DieSealFeed T d (case p of None \<Rightarrow> dt_zero T | Some a \<Rightarrow> dt_un T (h ! a)) h"

definition die_DieSealRelease :: "('r, 'x, 'l) die_type \<Rightarrow> addr \<Rightarrow> ('x, 'l) heap \<Rightarrow> 'r \<times> ('x, 'l) heap" where
  "die_DieSealRelease T d h = dt_DeepCopy T (die_seal (die_at T d h)) h"

definition die_DieSealReleasePtr :: "('r, 'x, 'l) die_type \<Rightarrow> addr \<Rightarrow> ('x, 'l) heap \<Rightarrow> addr \<times> ('x, 'l) heap" where
  "die_DieSealReleasePtr T d h = (case die_DieSealRelease T d h of (r, h1) \<Rightarrow> new (dt_C T r) h1)"

text \<open>\<open>diff\<close> is \<^verbatim>\<open>cmp.Diff\<close> with its options, \<open>create\<close> is \<^verbatim>\<open>patch.Create\<close> with the patch type.\<close>

definition die_DieDiff :: "('r, 'x, 'l) die_type \<Rightarrow> ('r \<Rightarrow> 'r \<Rightarrow> ('x, 'l) heap \<Rightarrow> string) \<Rightarrow> addr \<Rightarrow> ('x, 'l) heap \<Rightarrow> string" where
  "die_DieDiff T diff d h = diff (die_seal (die_at T d h)) (die_r (die_at T d h)) h"

definition die_DiePatch ::
  "('r, 'x, 'l) die_type \<Rightarrow> ('r \<Rightarrow> 'r \<Rightarrow> ('x, 'l) heap \<Rightarrow> string outcome) \<Rightarrow> addr \<Rightarrow> ('x, 'l) heap \<Rightarrow> string outcome" where
  "die_DiePatch T create d h = create (die_seal (die_at T d h)) (die_r (die_at T d h)) h"

section \<open>Encodings\<close>

text \<open>
  The packages \<^verbatim>\<open>json\<close> and \<^verbatim>\<open>yaml\<close> for one type. Decoding starts from the zero value and returns
  what was decoded, also next to an error. Raw extensions have the type \<open>'e\<close>.
\<close>

record ('r, 'x, 'l, 'e) codec =
  json_Unmarshal :: "string \<Rightarrow> 'r \<Rightarrow> ('x, 'l) heap \<Rightarrow> go_error option \<times> 'r \<times> ('x, 'l) heap"
  json_Marshal :: "'r \<Rightarrow> ('x, 'l) heap \<Rightarrow> go_error + string"
  yaml_Unmarshal :: "string \<Rightarrow> 'r \<Rightarrow> ('x, 'l) heap \<Rightarrow> go_error option \<times> 'r \<times> ('x, 'l) heap"
  yaml_Marshal :: "'r \<Rightarrow> ('x, 'l) heap \<Rightarrow> go_error + string"
  raw_Marshal :: "'e \<Rightarrow> go_error + string"
  raw_Unmarshal :: "string \<Rightarrow> go_error + 'e"
  ReadFile :: "string \<Rightarrow> go_error + string"

text \<open>\<^verbatim>\<open>panic(err)\<close>: the message of a panic is left open.\<close>

definition panic_err :: "go_error \<Rightarrow> 'a outcome" where
  "panic_err err = Panic ''error''"

definition die_feed_decoded ::
  "('r, 'x, 'l) die_type \<Rightarrow> addr \<Rightarrow> go_error option \<times> 'r \<times> ('x, 'l) heap \<Rightarrow> addr outcome \<times> ('x, 'l) heap" where
  "die_feed_decoded T d decoded =
     (case decoded of
        (Some err, r, h1) \<Rightarrow> (panic_err err, h1)
      | (None, r, h1) \<Rightarrow> (case die_DieFeed T d r h1 of (d', h2) \<Rightarrow> (Ok d', h2)))"

definition die_DieFeedJSON ::
  "('r, 'x, 'l) die_type \<Rightarrow> ('r, 'x, 'l, 'e) codec \<Rightarrow> addr \<Rightarrow> string \<Rightarrow> ('x, 'l) heap \<Rightarrow> addr outcome \<times> ('x, 'l) heap" where
  "die_DieFeedJSON T c d j h = die_feed_decoded T d (json_Unmarshal c j (dt_zero T) h)"

definition die_DieFeedYAML ::
  "('r, 'x, 'l) die_type \<Rightarrow> ('r, 'x, 'l, 'e) codec \<Rightarrow> addr \<Rightarrow> string \<Rightarrow> ('x, 'l) heap \<Rightarrow> addr outcome \<times> ('x, 'l) heap" where
  "die_DieFeedYAML T c d y h = die_feed_decoded T d (yaml_Unmarshal c y (dt_zero T) h)"

definition die_DieFeedYAMLFile ::
  "('r, 'x, 'l) die_type \<Rightarrow> ('r, 'x, 'l, 'e) codec \<Rightarrow> addr \<Rightarrow> string \<Rightarrow> ('x, 'l) heap \<Rightarrow> addr outcome \<times> ('x, 'l) heap" where
  "die_DieFeedYAMLFile T c d nm h =
     (case ReadFile c nm of Inl err \<Rightarrow> (panic_err err, h) | Inr y \<Rightarrow> die_DieFeedYAML T c d y h)"

definition die_DieFeedRawExtension ::
  "('r, 'x, 'l) die_type \<Rightarrow> ('r, 'x, 'l, 'e) codec \<Rightarrow> addr \<Rightarrow> 'e \<Rightarrow> ('x, 'l) heap \<Rightarrow> addr outcome \<times> ('x, 'l) heap" where
  "die_DieFeedRawExtension T c d raw h =
     (case raw_Marshal c raw of Inl err \<Rightarrow> (panic_err err, h) | Inr j \<Rightarrow> die_DieFeedJSON T c d j h)"

definition die_encoded ::
  "('r, 'x, 'l) die_type \<Rightarrow> ('r \<Rightarrow> ('x, 'l) heap \<Rightarrow> go_error + 'b) \<Rightarrow> addr \<Rightarrow> ('x, 'l) heap \<Rightarrow> 'b outcome \<times> ('x, 'l) heap" where
  "die_encoded T marshal d h =
     (case die_DieReleasePtr T d h of
        (r, h1) \<Rightarrow> (case marshal (dt_un T (h1 ! r)) h1 of Inl err \<Rightarrow> (panic_err err, h1) | Inr j \<Rightarrow> (Ok j, h1)))"

definition die_DieReleaseJSON ::
  "('r, 'x, 'l) die_type \<Rightarrow> ('r, 'x, 'l, 'e) codec \<Rightarrow> addr \<Rightarrow> ('x, 'l) heap \<Rightarrow> string outcome \<times> ('x, 'l) heap" where
  "die_DieReleaseJSON T c d h = die_encoded T (json_Marshal c) d h"

definition die_DieReleaseYAML ::
  "('r, 'x, 'l) die_type \<Rightarrow> ('r, 'x, 'l, 'e) codec \<Rightarrow> addr \<Rightarrow> ('x, 'l) heap \<Rightarrow> string outcome \<times> ('x, 'l) heap" where
  "die_DieReleaseYAML T c d h = die_encoded T (yaml_Marshal c) d h"

definition die_DieReleaseRawExtension ::
  "('r, 'x, 'l) die_type \<Rightarrow> ('r, 'x, 'l, 'e) codec \<Rightarrow> addr \<Rightarrow> ('x, 'l) heap \<Rightarrow> 'e outcome \<times> ('x, 'l) heap" where
  "die_DieReleaseRawExtension T c d h =
     (case die_DieReleaseJSON T c d h of
        (Ok j, h1) \<Rightarrow> ((case raw_Unmarshal c j of Inl err \<Rightarrow> panic_err err | Inr raw \<Rightarrow> Ok raw), h1)
      | (Error err, h1) \<Rightarrow> (Error err, h1)
      | (Panic m, h1) \<Rightarrow> (Panic m, h1))"

section \<open>Dies of objects\<close>

text \<open>\<open>ToUnstructured\<close> is the converter to maps of \<^verbatim>\<open>runtime\<close>.\<close>

definition die_DieReleaseUnstructured ::
  "('r, 'x, 'l) die_type \<Rightarrow> ('r \<Rightarrow> ('x, 'l) heap \<Rightarrow> go_error + 'u) \<Rightarrow> addr \<Rightarrow> ('x, 'l) heap \<Rightarrow> 'u outcome \<times> ('x, 'l) heap" where
  "die_DieReleaseUnstructured T ToUnstructured d h = die_encoded T ToUnstructured d h"

text \<open>\<^verbatim>\<open>DeepCopyObject\<close> of a die returns a copy of its resource, not a die.\<close>

definition die_DeepCopyObject :: "('r, 'x, 'l) die_type \<Rightarrow> addr \<Rightarrow> ('x, 'l) heap \<Rightarrow> addr \<times> ('x, 'l) heap" where
  "die_DeepCopyObject T d h = (case dt_DeepCopy T (die_r (die_at T d h)) h of (r, h1) \<Rightarrow> new (dt_C T r) h1)"

definition die_GetObjectKind :: "('r, 'x, 'l) die_type \<Rightarrow> ('r \<Rightarrow> 'k) \<Rightarrow> addr \<Rightarrow> ('x, 'l) heap \<Rightarrow> 'k \<times> ('x, 'l) heap" where
  "die_GetObjectKind T GetObjectKind d h = (case die_DieRelease T d h of (r, h1) \<Rightarrow> (GetObjectKind r, h1))"

definition die_MarshalJSON ::
  "('r, 'x, 'l) die_type \<Rightarrow> ('r, 'x, 'l, 'e) codec \<Rightarrow> addr \<Rightarrow> ('x, 'l) heap \<Rightarrow> go_error + string" where
  "die_MarshalJSON T c d h = json_Marshal c (die_r (die_at T d h)) h"

definition die_UnmarshalJSON ::
  "('r, 'x, 'l) die_type \<Rightarrow> ('r, 'x, 'l, 'e) codec \<Rightarrow> addr \<Rightarrow> string \<Rightarrow> ('x, 'l) heap \<Rightarrow> go_error option \<times> ('x, 'l) heap" where
  "die_UnmarshalJSON T c d b h =
     (if \<not> mutable (die_at T d h)
      then (Some (Errorf ''cannot unmarshal into immutable dies, create a mutable version first'' []), h)
      else case json_Unmarshal c b (dt_zero T) h of
        (err, resource, h1) \<Rightarrow> (case die_DieFeed T d resource h1 of
          (d', h2) \<Rightarrow> (err, h2[d := h2 ! d'])))"

end
