(* ===== verification/Die_Laws.thy ===== *)
theory Die_Laws
  imports Die
begin

text \<open>
  What the methods of a die keep: an immutable die is never written, and what a method returns is a
  new die. The locale \<open>dies\<close> has this for every type with a deep copy.
\<close>

section \<open>States of dies\<close>

definition die_ok ::
  "('r, 'x, 'l) die_type \<Rightarrow> (('x, 'l) cell \<Rightarrow> bool) \<Rightarrow> (('x, 'l) cell, 'r, 'v) shape \<Rightarrow> addr \<Rightarrow> ('x, 'l) heap \<Rightarrow> bool" where
  "die_ok T isD sh d h \<longleftrightarrow>
     d < length h \<and> isD (h ! d) \<and> ok_of sh h (die_r (die_at T d h)) \<and> ok_of sh h (die_seal (die_at T d h))"

text \<open>What a die stands for: whether it is mutable, its resource and its seal.\<close>

definition die_state ::
  "('r, 'x, 'l) die_type \<Rightarrow> (('x, 'l) cell, 'r, 'v) shape \<Rightarrow> addr \<Rightarrow> ('x, 'l) heap \<Rightarrow> bool \<times> 'v \<times> 'v" where
  "die_state T sh d h =
     (mutable (die_at T d h), val_of sh h (die_r (die_at T d h)), val_of sh h (die_seal (die_at T d h)))"

text \<open>
  A callback that plays by the rules from \<open>h\<close> on: when everything it is given has been allocated
  after \<open>h\<close>, it writes no cell of \<open>h\<close>, and leaves a resource whose pointers lead somewhere.
\<close>

definition fair_stamp ::
  "('r, 'x, 'l) die_type \<Rightarrow> (('x, 'l) cell \<Rightarrow> bool) \<Rightarrow> (('x, 'l) cell, 'r, 'v) shape \<Rightarrow> ('x, 'l) heap \<Rightarrow>
   (addr \<Rightarrow> ('x, 'l) heap \<Rightarrow> ('x, 'l) heap) \<Rightarrow> bool" where
  "fair_stamp T isR sh h fn \<longleftrightarrow>
     (\<forall>p h1. prefix h h1 \<longrightarrow> length h \<le> p \<longrightarrow> p < length h1 \<longrightarrow> isR (h1 ! p) \<longrightarrow> ok_of sh h1 (dt_un T (h1 ! p)) \<longrightarrow>
        refs_of sh h1 (dt_un T (h1 ! p)) \<subseteq> {length h..} - {p} \<longrightarrow>
        prefix h (fn p h1) \<and> p < length (fn p h1) \<and> isR (fn p h1 ! p) \<and> ok_of sh (fn p h1) (dt_un T (fn p h1 ! p)))"

definition fair_callback ::
  "('r, 'x, 'l) die_type \<Rightarrow> (('x, 'l) cell \<Rightarrow> bool) \<Rightarrow> (('x, 'l) cell, 'r, 'v) shape \<Rightarrow> ('x, 'l) heap \<Rightarrow>
   (addr \<Rightarrow> ('x, 'l) heap \<Rightarrow> ('x, 'l) heap) \<Rightarrow> bool" where
  "fair_callback T isD sh h fn \<longleftrightarrow>
     (\<forall>d h1. prefix h h1 \<longrightarrow> length h \<le> d \<longrightarrow> die_ok T isD sh d h1 \<longrightarrow> mutable (die_at T d h1) \<longrightarrow>
        refs_of sh h1 (die_r (die_at T d h1)) \<subseteq> {length h..} \<longrightarrow>
        prefix h (fn d h1) \<and> die_ok T isD sh d (fn d h1) \<and> mutable (die_at T d (fn d h1)) \<and>
        refs_of sh (fn d h1) (die_r (die_at T d (fn d h1))) \<subseteq> {length h..})"

text \<open>
  The contract of the methods that make a die of a die. For an immutable die, none of them writes a
  cell that existed, so every die that was there before is what it was, and what they return is well
  formed and stands for what the name of the method says; only \<^verbatim>\<open>DieImmutable(true)\<close> returns the die
  itself.
\<close>

definition persistent where
  "persistent T isD sh DieImmutable DieFeed DieRelease DeepCopy \<longleftrightarrow>
     (\<forall>h d. die_ok T isD sh d h \<longrightarrow> \<not> mutable (die_at T d h) \<longrightarrow>
        (\<forall>b d' h'. DieImmutable d b h = (d', h') \<longrightarrow>
           prefix h h' \<and> die_ok T isD sh d' h' \<and> die_state T sh d' h' = (\<not> b, snd (die_state T sh d h)) \<and>
           (if b then d' = d else length h \<le> d')) \<and>
        (\<forall>r d' h'. ok_of sh h r \<longrightarrow> DieFeed d r h = (d', h') \<longrightarrow>
           prefix h h' \<and> die_ok T isD sh d' h' \<and> length h \<le> d' \<and>
           die_state T sh d' h' = (False, val_of sh h r, snd (snd (die_state T sh d h)))) \<and>
        (\<forall>r h'. DieRelease d h = (r, h') \<longrightarrow>
           prefix h h' \<and> ok_of sh h' r \<and> val_of sh h' r = fst (snd (die_state T sh d h)) \<and> refs_of sh h' r \<subseteq> {length h..}) \<and>
        (\<forall>d' h'. DeepCopy d h = (d', h') \<longrightarrow>
           prefix h h' \<and> die_ok T isD sh d' h' \<and> length h \<le> d' \<and> die_state T sh d' h' = die_state T sh d h))"

text \<open>The contract of the methods with callbacks, for callbacks that play by the rules.\<close>

definition stamps where
  "stamps T isR isD sh DieStamp DieWith \<longleftrightarrow>
     (\<forall>h d. die_ok T isD sh d h \<longrightarrow> \<not> mutable (die_at T d h) \<longrightarrow>
        (\<forall>fn d' h'. fair_stamp T isR sh h fn \<longrightarrow> DieStamp d fn h = (d', h') \<longrightarrow>
           prefix h h' \<and> die_ok T isD sh d' h' \<and> length h \<le> d' \<and>
           (\<exists>p h1. prefix h h1 \<and> val_of sh h1 (dt_un T (h1 ! p)) = fst (snd (die_state T sh d h)) \<and>
              die_state T sh d' h' =
                (False, val_of sh (fn p h1) (dt_un T (fn p h1 ! p)), snd (snd (die_state T sh d h))))) \<and>
        (\<forall>blank fns d' h'. die_ok T isD sh blank h \<longrightarrow> \<not> mutable (die_at T blank h) \<longrightarrow>
           list_all (\<lambda>f. case f of None \<Rightarrow> True | Some fn \<Rightarrow> fair_callback T isD sh h fn) fns \<longrightarrow>
           DieWith blank d fns h = (d', h') \<longrightarrow>
           prefix h h' \<and> die_ok T isD sh d' h' \<and> length h \<le> d' \<and>
           (\<exists>nd h1 h2. prefix h h1 \<and> h2 = fold (\<lambda>f. case f of None \<Rightarrow> id | Some fn \<Rightarrow> fn nd) fns h1 \<and>
              fst (snd (die_state T sh nd h1)) = fst (snd (die_state T sh d h)) \<and>
              die_state T sh d' h' = (False, fst (snd (die_state T sh nd h2)), snd (snd (die_state T sh d h))))))"

text \<open>The contract of a setter: a new die whose resource differs from a copy in what \<open>f\<close> does.\<close>

definition sets where
  "sets T isD sh h setter f \<longleftrightarrow>
     (\<forall>d d' h'. die_ok T isD sh d h \<longrightarrow> \<not> mutable (die_at T d h) \<longrightarrow> setter d h = (d', h') \<longrightarrow>
        prefix h h' \<and> die_ok T isD sh d' h' \<and> length h \<le> d' \<and> \<not> mutable (die_at T d' h') \<and>
        snd (snd (die_state T sh d' h')) = snd (snd (die_state T sh d h)) \<and>
        (\<exists>x. val_of sh h' x = fst (snd (die_state T sh d h)) \<and> die_r (die_at T d' h') = f x))"

text \<open>
  The contract of the seals: \<^verbatim>\<open>DieSealRelease\<close> returns the resource the die was sealed with, however
  the die was stamped since.
\<close>

definition seals where
  "seals T isR isD sh DieSeal DieStamp DieSealRelease \<longleftrightarrow>
     (\<forall>h d d1 h1 fn d2 h2 r h3. die_ok T isD sh d h \<longrightarrow> \<not> mutable (die_at T d h) \<longrightarrow> DieSeal d h = (d1, h1) \<longrightarrow>
        fair_stamp T isR sh h1 fn \<longrightarrow> DieStamp d1 fn h1 = (d2, h2) \<longrightarrow> DieSealRelease d2 h2 = (r, h3) \<longrightarrow>
        prefix h h3 \<and> val_of sh h3 r = fst (snd (die_state T sh d h)) \<and> refs_of sh h3 r \<subseteq> {length h2..})"

section \<open>Methods that only allocate\<close>

locale dies =
  fixes T :: "('r, 'x, 'l) die_type" and sh :: "(('x, 'l) cell, 'r, 'v) shape"
    and isR isD :: "('x, 'l) cell \<Rightarrow> bool"
  assumes copy_law: "copies sh (dt_DeepCopy T)" and cellR: "cells (dt_C T) isR (dt_un T)"
    and cellD: "cells (dt_Die T) isD (dt_unDie T)" and zero_ok: "ok_of sh h (dt_zero T)"

sublocale dies \<subseteq> deep_copy "refs_of sh" "val_of sh" "ok_of sh" "dt_DeepCopy T"
  using copy_law unfolding copies_def .

context dies
begin

abbreviation "ok_die \<equiv> die_ok T isD sh"
abbreviation "state \<equiv> die_state T sh"

lemma die_grown:
  assumes "ok_die d h" and "prefix h h'"
  shows "ok_die d h'" and "state d h' = state d h" and "die_at T d h' = die_at T d h"
    and "refs_of sh h' (die_r (die_at T d h)) = refs_of sh h (die_r (die_at T d h))"
proof -
  have d: "d < length h'" "h' ! d = h ! d"
    using assms by (auto simp: die_ok_def prefix_def nth_append)
  then show "die_at T d h' = die_at T d h" by (simp add: die_at_def)
  with d assms(1) grown [OF _ assms(2)] show "ok_die d h'" "state d h' = state d h"
    "refs_of sh h' (die_r (die_at T d h)) = refs_of sh h (die_r (die_at T d h))"
    by (simp_all add: die_ok_def die_state_def)
qed

lemma new_die:
  assumes "prefix h h1" and "ok_of sh h1 (die_r D)" and "ok_of sh h1 (die_seal D)" and "new (dt_Die T D) h1 = (d', h')"
  shows "prefix h h'" and "length h \<le> d'" and "ok_die d' h'" and "die_at T d' h' = D"
    and "state d' h' = (mutable D, val_of sh h1 (die_r D), val_of sh h1 (die_seal D))"
    and "refs_of sh h' (die_r D) = refs_of sh h1 (die_r D)"
proof -
  have n: "d' = length h1" "h' = h1 @ [dt_Die T D]" using assms(4) by (simp_all add: new_def)
  then have p: "prefix h1 h'" by simp
  show at: "die_at T d' h' = D" using cellD by (simp add: die_at_def n cells_def)
  show "prefix h h'" using assms(1) p by (rule prefix_order.trans)
  show "length h \<le> d'" using prefix_length [OF assms(1)] n by simp
  note g = grown [OF assms(2) p] grown [OF assms(3) p]
  then show "ok_die d' h'" "state d' h' = (mutable D, val_of sh h1 (die_r D), val_of sh h1 (die_seal D))"
    "refs_of sh h' (die_r D) = refs_of sh h1 (die_r D)"
    using at n cellD by (simp_all add: die_ok_def die_state_def cells_def)
qed

lemma DeepCopy_law:
  assumes ok: "ok_die d h" and run: "die_DeepCopy T d h = (d', h')"
  shows "prefix h h'" and "length h \<le> d'" and "ok_die d' h'" and "state d' h' = state d h"
    and "refs_of sh h' (die_r (die_at T d' h')) \<subseteq> {length h..}" and "mutable (die_at T d' h') = mutable (die_at T d h)"
proof -
  let ?D = "die_at T d h"
  obtain r h1 where c: "dt_DeepCopy T (die_r ?D) h = (r, h1)" by fastforce
  let ?N = "\<lparr>FrozenObjectMeta = dt_Freeze T r, mutable = mutable ?D, die_r = r, die_seal = die_seal ?D\<rparr>"
  have o: "ok_of sh h (die_r ?D)" "ok_of sh h (die_seal ?D)" using ok by (simp_all add: die_ok_def)
  note g = grows [OF o(1) c] copies [OF o(1) c] fresh [OF o(1) c]
  have s: "ok_of sh h1 (die_seal ?D)" "val_of sh h1 (die_seal ?D) = val_of sh h (die_seal ?D)"
    using grown [OF o(2) g(1)] by simp_all
  have "new (dt_Die T ?N) h1 = (d', h')" using run c by (simp add: die_DeepCopy_def)
  note n = new_die [of h h1 ?N, OF g(1) _ _ this]
  show "prefix h h'" "length h \<le> d'" "ok_die d' h'" "state d' h' = state d h"
    "refs_of sh h' (die_r (die_at T d' h')) \<subseteq> {length h..}" "mutable (die_at T d' h') = mutable ?D"
    using n g s by (simp_all add: die_state_def)
qed

lemma Release_law:
  assumes ok: "ok_die d h" and imm: "\<not> mutable (die_at T d h)" and run: "die_DieRelease T d h = (r, h')"
  shows "prefix h h'" and "ok_of sh h' r" and "val_of sh h' r = val_of sh h (die_r (die_at T d h))"
    and "refs_of sh h' r \<subseteq> {length h..}"
proof -
  have c: "dt_DeepCopy T (die_r (die_at T d h)) h = (r, h')" using run imm by (simp add: die_DieRelease_def)
  have o: "ok_of sh h (die_r (die_at T d h))" using ok by (simp add: die_ok_def)
  show "prefix h h'" "ok_of sh h' r" "val_of sh h' r = val_of sh h (die_r (die_at T d h))" "refs_of sh h' r \<subseteq> {length h..}"
    using grows [OF o c] copies [OF o c] fresh [OF o c] by simp_all
qed

lemma Feed_law:
  assumes ok: "ok_die d h" and imm: "\<not> mutable (die_at T d h)" and p: "prefix h h1" and r: "ok_of sh h1 r"
    and run: "die_DieFeed T d r h1 = (d', h')"
  shows "prefix h h'" and "length h \<le> d'" and "ok_die d' h'" and "\<not> mutable (die_at T d' h')"
    and "state d' h' = (False, val_of sh h1 r, val_of sh h (die_seal (die_at T d h)))"
    and "die_r (die_at T d' h') = r" and "refs_of sh h' r = refs_of sh h1 r"
proof -
  let ?D = "die_at T d h"
  let ?N = "\<lparr>FrozenObjectMeta = dt_Freeze T r, mutable = mutable ?D, die_r = r, die_seal = die_seal ?D\<rparr>"
  note g = die_grown [OF ok p]
  have s: "ok_of sh h (die_seal ?D)" using ok by (simp add: die_ok_def)
  have "new (dt_Die T ?N) h1 = (d', h')" using run imm g(3) by (simp add: die_DieFeed_def)
  note n = new_die [of h h1 ?N, OF p _ _ this]
  show "prefix h h'" "length h \<le> d'" "ok_die d' h'" "\<not> mutable (die_at T d' h')"
    "state d' h' = (False, val_of sh h1 r, val_of sh h (die_seal ?D))" "die_r (die_at T d' h') = r"
    "refs_of sh h' r = refs_of sh h1 r"
    using n grown [OF s p] r imm by simp_all
qed

lemma store_die:
  assumes ok: "ok_die d h" and p: "prefix h0 h" "length h0 \<le> d"
    and r: "die_r (f (die_at T d h)) = x" "ok_of sh h x" "d \<notin> refs_of sh h x"
    and s: "die_seal (f (die_at T d h)) = y" "ok_of sh h y" "d \<notin> refs_of sh h y"
    and h': "h' = store (dt_Die T) (dt_unDie T) f d h"
  shows "prefix h0 h'" and "ok_die d h'" and "die_at T d h' = f (die_at T d h)"
    and "state d h' = (mutable (f (die_at T d h)), val_of sh h x, val_of sh h y)"
    and "refs_of sh h' x = refs_of sh h x"
proof -
  have h'_eq: "h' = h[d := dt_Die T (f (die_at T d h))]" by (simp add: h' store_def die_at_def)
  have d: "d < length h" using ok by (simp add: die_ok_def)
  show "prefix h0 h'" unfolding h'_eq by (rule prefix_update [OF p])
  show at: "die_at T d h' = f (die_at T d h)" using d cellD by (simp add: h'_eq die_at_def cells_def)
  note u = updated [OF r(2,3)] updated [OF s(2,3)]
  show "ok_die d h'" "state d h' = (mutable (f (die_at T d h)), val_of sh h x, val_of sh h y)"
    "refs_of sh h' x = refs_of sh h x"
    using at u d cellD r(1) s(1) by (simp_all add: die_ok_def die_state_def h'_eq cells_def)
qed

lemma not_own_seal:
  assumes "ok_die d h" and "prefix h h1" and "length h \<le> d'"
  shows "d' \<notin> refs_of sh h1 (die_seal (die_at T d h))"
proof -
  have "ok_of sh h (die_seal (die_at T d h))" using assms(1) by (simp add: die_ok_def)
  from grown [OF this assms(2)] in_heap [OF this] show ?thesis using assms(3) by auto
qed

lemma copied_die:
  assumes ok: "ok_die d h" and run: "die_DeepCopy T d h = (d', h')"
  shows "die_seal (die_at T d' h') = die_seal (die_at T d h)" and "d' \<notin> refs_of sh h' (die_r (die_at T d' h'))"
proof -
  let ?D = "die_at T d h"
  obtain r h1 where c: "dt_DeepCopy T (die_r ?D) h = (r, h1)" by fastforce
  let ?N = "\<lparr>FrozenObjectMeta = dt_Freeze T r, mutable = mutable ?D, die_r = r, die_seal = die_seal ?D\<rparr>"
  have n: "new (dt_Die T ?N) h1 = (d', h')" using run c by (simp add: die_DeepCopy_def)
  then have at: "die_at T d' h' = ?N" using cellD by (auto simp: new_def die_at_def cells_def)
  show "die_seal (die_at T d' h') = die_seal ?D" by (simp add: at)
  have "ok_of sh h (die_r ?D)" using ok by (simp add: die_ok_def)
  from copies [OF this c] have "ok_of sh h1 r" by simp
  from grown [OF this, of h'] in_heap [OF this] n show "d' \<notin> refs_of sh h' (die_r (die_at T d' h'))"
    unfolding at by (auto simp: new_def)
qed

lemma Immutable_law:
  assumes ok: "ok_die d h" and imm: "\<not> mutable (die_at T d h)" and run: "die_DieImmutable T d b h = (d', h')"
  shows "prefix h h'" and "ok_die d' h'" and "state d' h' = (\<not> b, snd (state d h))" and "mutable (die_at T d' h') = (\<not> b)"
    and "\<not> b \<Longrightarrow> length h \<le> d' \<and> refs_of sh h' (die_r (die_at T d' h')) \<subseteq> {length h..}"
    and "die_seal (die_at T d' h') = die_seal (die_at T d h)"
proof -
  have "prefix h h' \<and> ok_die d' h' \<and> state d' h' = (\<not> b, snd (state d h)) \<and> mutable (die_at T d' h') = (\<not> b) \<and>
      (\<not> b \<longrightarrow> length h \<le> d' \<and> refs_of sh h' (die_r (die_at T d' h')) \<subseteq> {length h..}) \<and>
      die_seal (die_at T d' h') = die_seal (die_at T d h)"
  proof (cases b)
    case True
    with ok imm run show ?thesis by (simp add: die_DieImmutable_def die_state_def)
  next
    case False
    obtain h1 where c: "die_DeepCopy T d h = (d', h1)"
      and h': "h' = store (dt_Die T) (dt_unDie T) (\<lambda>D. D\<lparr>mutable := \<not> b\<rparr>) d' h1"
      using run imm False by (auto simp: die_DieImmutable_def split: prod.splits)
    note g = DeepCopy_law [OF ok c] and e = copied_die [OF ok c]
    have o: "ok_of sh h1 (die_r (die_at T d' h1))" "ok_of sh h1 (die_seal (die_at T d' h1))"
      using g(3) by (simp_all add: die_ok_def)
    have ns: "d' \<notin> refs_of sh h1 (die_seal (die_at T d' h1))" unfolding e(1) by (rule not_own_seal [OF ok g(1,2)])
    note st = store_die [where f = "\<lambda>D. D\<lparr>mutable := \<not> b\<rparr>", OF g(3) g(1,2) _ o(1) e(2) _ o(2) ns h']
    show ?thesis using st g e(1) False by (simp add: die_state_def)
  qed
  then show "prefix h h'" "ok_die d' h'" "state d' h' = (\<not> b, snd (state d h))" "mutable (die_at T d' h') = (\<not> b)"
    "\<not> b \<Longrightarrow> length h \<le> d' \<and> refs_of sh h' (die_r (die_at T d' h')) \<subseteq> {length h..}"
    "die_seal (die_at T d' h') = die_seal (die_at T d h)"
    by simp_all
qed

lemma Stamp_law:
  assumes ok: "ok_die d h" and imm: "\<not> mutable (die_at T d h)" and fair: "fair_stamp T isR sh h fn"
    and run: "die_DieStamp T d fn h = (d', h')"
  shows "prefix h h'" and "length h \<le> d'" and "ok_die d' h'"
    and "\<exists>p h1. prefix h h1 \<and> isR (h1 ! p) \<and> val_of sh h1 (dt_un T (h1 ! p)) = val_of sh h (die_r (die_at T d h)) \<and>
      state d' h' = (False, val_of sh (fn p h1) (dt_un T (fn p h1 ! p)), val_of sh h (die_seal (die_at T d h)))"
proof -
  obtain r h0 where rel: "die_DieRelease T d h = (r, h0)" by fastforce
  note g = Release_law [OF ok imm rel]
  let ?h1 = "h0 @ [dt_C T r]" and ?p = "length h0"
  have p1: "prefix h ?h1" using g(1) by simp
  have cell: "?h1 ! ?p = dt_C T r" "isR (?h1 ! ?p)" "dt_un T (?h1 ! ?p) = r" using cellR by (simp_all add: cells_def)
  note r1 = grown [OF g(2), of ?h1, simplified]
  have refs: "refs_of sh ?h1 r \<subseteq> {length h..} - {?p}"
    using r1 g(4) in_heap [OF g(2)] by auto
  have "prefix h (fn ?p ?h1) \<and> isR (fn ?p ?h1 ! ?p) \<and> ok_of sh (fn ?p ?h1) (dt_un T (fn ?p ?h1 ! ?p))"
    using fair [unfolded fair_stamp_def, rule_format, of ?h1 ?p] p1 prefix_length [OF g(1)] cell refs r1 by simp
  moreover have "die_DieFeed T d (dt_un T (fn ?p ?h1 ! ?p)) (fn ?p ?h1) = (d', h')"
    using run rel by (simp add: die_DieStamp_def die_DieReleasePtr_def new_def Let_def)
  ultimately have f: "prefix h (fn ?p ?h1)" "ok_of sh (fn ?p ?h1) (dt_un T (fn ?p ?h1 ! ?p))"
    "die_DieFeed T d (dt_un T (fn ?p ?h1 ! ?p)) (fn ?p ?h1) = (d', h')" by simp_all
  note fd = Feed_law [OF ok imm f]
  show "prefix h h'" "length h \<le> d'" "ok_die d' h'" using fd by simp_all
  have "prefix h ?h1 \<and> isR (?h1 ! ?p) \<and> val_of sh ?h1 (dt_un T (?h1 ! ?p)) = val_of sh h (die_r (die_at T d h))"
    using p1 cell r1 g(3) by simp
  with fd(5) show "\<exists>p h1. prefix h h1 \<and> isR (h1 ! p) \<and> val_of sh h1 (dt_un T (h1 ! p)) = val_of sh h (die_r (die_at T d h)) \<and>
      state d' h' = (False, val_of sh (fn p h1) (dt_un T (fn p h1 ! p)), val_of sh h (die_seal (die_at T d h)))" by blast
qed

lemma SealFeed_law:
  assumes ok: "ok_die d h" and imm: "\<not> mutable (die_at T d h)" and r: "ok_of sh h r"
    and run: "die_DieSealFeed T d r h = (d', h')"
  shows "prefix h h'" and "length h \<le> d'" and "ok_die d' h'"
    and "state d' h' = (False, val_of sh h (die_r (die_at T d h)), val_of sh h r)"
    and "refs_of sh h' (die_seal (die_at T d' h')) \<subseteq> {length h..}"
proof -
  obtain h1 where c: "die_DeepCopy T d h = (d', h1)" and
    "(case dt_DeepCopy T r h1 of (s, h2) \<Rightarrow> (d', store (dt_Die T) (dt_unDie T) (\<lambda>D. D\<lparr>die_seal := s\<rparr>) d' h2)) = (d', h')"
    using run imm by (auto simp: die_DieSealFeed_def split: prod.splits)
  then obtain t h2 where t: "dt_DeepCopy T r h1 = (t, h2)"
    and h': "h' = store (dt_Die T) (dt_unDie T) (\<lambda>D. D\<lparr>die_seal := t\<rparr>) d' h2" by (auto split: prod.splits)
  note g = DeepCopy_law [OF ok c] and e = copied_die [OF ok c]
  note r1 = grown [OF r g(1)]
  then have "ok_of sh h1 r" by simp
  note k = grows [OF this t] copies [OF this t] fresh [OF this t]
  note d2 = die_grown [OF g(3) k(1)]
  have p: "prefix h h2" using g(1) k(1) by (rule prefix_order.trans)
  have o: "ok_of sh h2 (die_r (die_at T d' h1))" using d2(1,3) by (simp add: die_ok_def)
  have nr: "d' \<notin> refs_of sh h2 (die_r (die_at T d' h1))" using d2(4) e(2) by simp
  have "d' < length h1" using g(3) by (simp add: die_ok_def)
  with k(3) have ns: "d' \<notin> refs_of sh h2 t" by auto
  have ot: "ok_of sh h2 t" using k(2) by simp
  note st = store_die [where f = "\<lambda>D. D\<lparr>die_seal := t\<rparr>", OF d2(1) p g(2) _ o nr _ ot ns h', simplified d2(3), simplified]
  have "refs_of sh h' t = refs_of sh h2 t" unfolding h' store_def using updated [OF ot ns] by simp
  moreover have "refs_of sh h2 t \<subseteq> {length h..}" using k(3) prefix_length [OF g(1)] by auto
  ultimately show "refs_of sh h' (die_seal (die_at T d' h')) \<subseteq> {length h..}" using st(3) by simp
  have "val_of sh h2 (die_r (die_at T d' h1)) = val_of sh h (die_r (die_at T d h))"
    using d2(2,3) g(4) by (simp add: die_state_def)
  moreover have "mutable (die_at T d' h1) = False" using g(6) imm by simp
  ultimately show "prefix h h'" "length h \<le> d'" "ok_die d' h'"
    "state d' h' = (False, val_of sh h (die_r (die_at T d h)), val_of sh h r)"
    using st g(2) k(2) r1 by simp_all
qed

text \<open>The callbacks of \<^verbatim>\<open>DieWith\<close>, one after the other.\<close>

lemma callbacks_law:
  assumes "list_all (\<lambda>f. case f of None \<Rightarrow> True | Some fn \<Rightarrow> fair_callback T isD sh h fn) fns"
    and "prefix h h1" and "length h \<le> d" and "ok_die d h1" and "mutable (die_at T d h1)"
    and "refs_of sh h1 (die_r (die_at T d h1)) \<subseteq> {length h..}"
    and "h2 = fold (\<lambda>f. case f of None \<Rightarrow> id | Some fn \<Rightarrow> fn d) fns h1"
  shows "prefix h h2 \<and> ok_die d h2 \<and> mutable (die_at T d h2)"
  using assms
proof (induction fns arbitrary: h1)
  case (Cons f fns)
  show ?case
  proof (cases f)
    case None
    with Cons show ?thesis by simp
  next
    case (Some fn)
    then have "fair_callback T isD sh h fn" using Cons.prems(1) by simp
    then have "prefix h (fn d h1) \<and> ok_die d (fn d h1) \<and> mutable (die_at T d (fn d h1)) \<and>
        refs_of sh (fn d h1) (die_r (die_at T d (fn d h1))) \<subseteq> {length h..}"
      using Cons.prems(2-6) unfolding fair_callback_def by blast
    with Cons.IH [of "fn d h1"] Cons.prems Some show ?thesis by simp
  qed
qed simp

lemma With_law:
  assumes ok: "ok_die d h" and imm: "\<not> mutable (die_at T d h)"
    and blank: "ok_die blank h" "\<not> mutable (die_at T blank h)"
    and fair: "list_all (\<lambda>f. case f of None \<Rightarrow> True | Some fn \<Rightarrow> fair_callback T isD sh h fn) fns"
    and run: "die_DieWith T blank d fns h = (d', h')"
  shows "prefix h h'" and "length h \<le> d'" and "ok_die d' h'"
    and "\<exists>nd h1 h2. prefix h h1 \<and> h2 = fold (\<lambda>f. case f of None \<Rightarrow> id | Some fn \<Rightarrow> fn nd) fns h1 \<and>
      fst (snd (state nd h1)) = fst (snd (state d h)) \<and>
      state d' h' = (False, fst (snd (state nd h2)), snd (snd (state d h)))"
proof -
  obtain r h1 where rel: "die_DieRelease T d h = (r, h1)" by fastforce
  obtain b h2 where feed: "die_DieFeed T blank r h1 = (b, h2)" by fastforce
  obtain nd h3 where im: "die_DieImmutable T b False h2 = (nd, h3)" by fastforce
  define h4 where "h4 = fold (\<lambda>f. case f of None \<Rightarrow> id | Some fn \<Rightarrow> fn nd) fns h3"
  note g1 = Release_law [OF ok imm rel]
  note g2 = Feed_law [OF blank g1(1,2) feed]
  note g3 = Immutable_law [OF g2(3,4) im, simplified]
  have p3: "prefix h h3" using g2(1) g3(1) by (rule prefix_order.trans)
  have l3: "length h \<le> nd" and r3: "refs_of sh h3 (die_r (die_at T nd h3)) \<subseteq> {length h..}"
    using g3(5) prefix_length [OF g2(1)] by auto
  have g4: "prefix h h4 \<and> ok_die nd h4 \<and> mutable (die_at T nd h4)"
    using callbacks_law [OF fair p3 l3 g3(2) _ r3 h4_def] g3(4) by simp
  then have o4: "ok_of sh h4 (die_r (die_at T nd h4))" by (simp add: die_ok_def)
  have "die_DieFeed T d (die_r (die_at T nd h4)) h4 = (d', h')"
    using run rel feed im g4 by (simp add: die_DieWith_def h4_def die_DieRelease_def)
  note g5 = Feed_law [OF ok imm conjunct1 [OF g4] o4 this]
  show "prefix h h'" "length h \<le> d'" "ok_die d' h'" using g5 by simp_all
  have "fst (snd (state nd h3)) = fst (snd (state d h))" using g3(3) g2(5) g1(3) by (simp add: die_state_def)
  moreover have "state d' h' = (False, fst (snd (state nd h4)), snd (snd (state d h)))"
    using g5(5) by (simp add: die_state_def)
  ultimately show "\<exists>nd h1 h2. prefix h h1 \<and> h2 = fold (\<lambda>f. case f of None \<Rightarrow> id | Some fn \<Rightarrow> fn nd) fns h1 \<and>
      fst (snd (state nd h1)) = fst (snd (state d h)) \<and>
      state d' h' = (False, fst (snd (state nd h2)), snd (snd (state d h)))"
    using p3 h4_def by blast
qed

lemma persistent_law:
  "persistent T isD sh (die_DieImmutable T) (die_DieFeed T) (die_DieRelease T) (die_DeepCopy T)"
  unfolding persistent_def
proof (intro allI impI conjI)
  fix h d
  assume d: "ok_die d h" "\<not> mutable (die_at T d h)"
  { fix b d' h'
    assume run: "die_DieImmutable T d b h = (d', h')"
    note Immutable_law [OF d run]
    then show "prefix h h'" "ok_die d' h'" "state d' h' = (\<not> b, snd (state d h))" by simp_all
    show "if b then d' = d else length h \<le> d'"
      using Immutable_law(5) [OF d run] d(2) run by (auto simp: die_DieImmutable_def) }
  { fix r d' h'
    assume "ok_of sh h r" "die_DieFeed T d r h = (d', h')"
    from Feed_law [OF d _ this] show "prefix h h'" "ok_die d' h'" "length h \<le> d'"
      "state d' h' = (False, val_of sh h r, snd (snd (state d h)))"
      by (simp_all add: die_state_def) }
  { fix r h'
    assume "die_DieRelease T d h = (r, h')"
    from Release_law [OF d this] show "prefix h h'" "ok_of sh h' r" "val_of sh h' r = fst (snd (state d h))"
      "refs_of sh h' r \<subseteq> {length h..}"
      by (simp_all add: die_state_def) }
  { fix d' h'
    assume "die_DeepCopy T d h = (d', h')"
    from DeepCopy_law [OF d(1) this] show "prefix h h'" "ok_die d' h'" "length h \<le> d'" "state d' h' = state d h"
      by simp_all }
qed

lemma stamps_law: "stamps T isR isD sh (die_DieStamp T) (die_DieWith T)"
  unfolding stamps_def
proof (intro allI impI conjI)
  fix h d
  assume d: "ok_die d h" "\<not> mutable (die_at T d h)"
  { fix fn d' h'
    assume "fair_stamp T isR sh h fn" "die_DieStamp T d fn h = (d', h')"
    from Stamp_law [OF d this] show "prefix h h'" "ok_die d' h'" "length h \<le> d'"
      "\<exists>p h1. prefix h h1 \<and> val_of sh h1 (dt_un T (h1 ! p)) = fst (snd (state d h)) \<and>
         state d' h' = (False, val_of sh (fn p h1) (dt_un T (fn p h1 ! p)), snd (snd (state d h)))"
      by (auto simp: die_state_def) }
  { fix blank fns d' h'
    assume "ok_die blank h" "\<not> mutable (die_at T blank h)"
      "list_all (\<lambda>f. case f of None \<Rightarrow> True | Some fn \<Rightarrow> fair_callback T isD sh h fn) fns"
      "die_DieWith T blank d fns h = (d', h')"
    from With_law [OF d this] show "prefix h h'" "ok_die d' h'" "length h \<le> d'"
      "\<exists>nd h1 h2. prefix h h1 \<and> h2 = fold (\<lambda>f. case f of None \<Rightarrow> id | Some fn \<Rightarrow> fn nd) fns h1 \<and>
         fst (snd (state nd h1)) = fst (snd (state d h)) \<and>
         state d' h' = (False, fst (snd (state nd h2)), snd (snd (state d h)))"
      by simp_all }
qed

lemma seals_law: "seals T isR isD sh (die_DieSeal T) (die_DieStamp T) (die_DieSealRelease T)"
  unfolding seals_def
proof (intro allI impI)
  fix h d d1 h1 fn d2 h2 r h3
  assume d: "ok_die d h" "\<not> mutable (die_at T d h)" and seal: "die_DieSeal T d h = (d1, h1)"
    and fair: "fair_stamp T isR sh h1 fn" and stamp: "die_DieStamp T d1 fn h1 = (d2, h2)"
    and rel: "die_DieSealRelease T d2 h2 = (r, h3)"
  have r: "ok_of sh h (die_r (die_at T d h))" using d(1) by (simp add: die_ok_def)
  note s1 = SealFeed_law [OF d r seal [unfolded die_DieSeal_def]]
  have imm: "\<not> mutable (die_at T d1 h1)" using s1(4) by (simp add: die_state_def)
  note s2 = Stamp_law [OF s1(3) imm fair stamp]
  have o: "ok_of sh h2 (die_seal (die_at T d2 h2))" using s2(3) by (simp add: die_ok_def)
  note c = rel [unfolded die_DieSealRelease_def]
  have v: "val_of sh h2 (die_seal (die_at T d2 h2)) = val_of sh h (die_r (die_at T d h))"
    using s2(4) s1(4) by (auto simp: die_state_def)
  have "prefix h h3" using s1(1) s2(1) grows [OF o c] by (meson prefix_order.trans)
  with v copies [OF o c] fresh [OF o c]
  show "prefix h h3 \<and> val_of sh h3 r = fst (snd (state d h)) \<and> refs_of sh h3 r \<subseteq> {length h2..}"
    by (simp add: die_state_def)
qed

text \<open>An assignment plays by the rules when it keeps pointers, or takes pointers that lead somewhere.\<close>

lemma sets_law:
  assumes f: "\<And>h1 x. prefix h h1 \<Longrightarrow> ok_of sh h1 x \<Longrightarrow>
      ok_of sh h1 (f x) \<and> refs_of sh h1 (f x) \<subseteq> refs_of sh h1 x \<union> {..<length h}"
  shows "sets T isD sh h (\<lambda>d. die_DieStamp T d (store (dt_C T) (dt_un T) f)) f"
  unfolding sets_def
proof (intro allI impI)
  fix d d' h'
  assume ok: "ok_die d h" and imm: "\<not> mutable (die_at T d h)"
    and run: "die_DieStamp T d (store (dt_C T) (dt_un T) f) h = (d', h')"
  obtain r h0 where rel: "die_DieRelease T d h = (r, h0)" by fastforce
  note g = Release_law [OF ok imm rel]
  let ?h2 = "h0 @ [dt_C T (f r)]" and ?p = "length h0"
  have p: "prefix h ?h2" using g(1) by simp
  have fr: "ok_of sh h0 (f r)" using f [OF g(1,2)] by simp
  note r2 = grown [OF g(2), of ?h2, simplified] and f2 = grown [OF fr, of ?h2, simplified]
  have "die_DieFeed T d (f r) ?h2 = (d', h')"
    using run rel cellR by (simp add: die_DieStamp_def die_DieReleasePtr_def new_def store_def cells_def)
  note fd = Feed_law [OF ok imm p conjunct2 [OF conjunct2 [OF f2]] this]
  have "prefix ?h2 h'" using \<open>die_DieFeed T d (f r) ?h2 = (d', h')\<close> imm die_grown(3) [OF ok p]
    by (auto simp: die_DieFeed_def new_def)
  then have "val_of sh h' r = val_of sh h (die_r (die_at T d h))"
    using grown [of ?h2 r h'] r2 g(3) by simp
  with fd show "prefix h h' \<and> ok_die d' h' \<and> length h \<le> d' \<and> \<not> mutable (die_at T d' h') \<and>
      snd (snd (state d' h')) = snd (snd (state d h)) \<and>
      (\<exists>x. val_of sh h' x = fst (snd (state d h)) \<and> die_r (die_at T d' h') = f x)"
    by (auto simp: die_state_def)
qed

lemma Blank_law:
  assumes "die_Blank T frozen h = (d, h')"
  shows "prefix h h'" and "ok_die d h'" and "\<not> mutable (die_at T d h')"
    and "die_r (die_at T d h') = dt_zero T" and "die_seal (die_at T d h') = dt_zero T"
proof -
  let ?N = "\<lparr>FrozenObjectMeta = frozen, mutable = False, die_r = dt_zero T, die_seal = dt_zero T\<rparr>"
  have at: "die_at T (length h) (h @ [dt_Die T ?N]) = ?N" using cellD by (simp add: die_at_def cells_def)
  have ok: "ok_die (length h) (h @ [dt_Die T ?N])"
    using at cellD zero_ok by (simp add: die_ok_def cells_def)
  have run: "die_DieFeed T (length h) (dt_zero T) (h @ [dt_Die T ?N]) = (d, h')"
    using assms by (simp add: die_Blank_def new_def)
  note f = Feed_law [OF ok _ prefix_order.refl zero_ok run]
  show "prefix h h'" "ok_die d h'" "\<not> mutable (die_at T d h')" "die_r (die_at T d h') = dt_zero T"
    using f at by (auto dest: append_prefixD)
  show "die_seal (die_at T d h') = dt_zero T"
    using run at cellD by (auto simp: die_DieFeed_def new_def die_at_def cells_def nth_append)
qed

end

end
