(* ===== verification/Dies_Image.thy ===== *)
theory Dies_Image
  imports Die_Laws
begin

text \<open>
  The dies of \<^verbatim>\<open>Artifact\<close> and of the types of \<^verbatim>\<open>ImageRepository\<close>: every method that the generator and
  \<^verbatim>\<open>imagerepository.go\<close> write, on the methods of \<open>Die\<close>. What \<open>Die\<close> takes from other packages, the
  encodings, the comparison and reflection, stays an argument.
\<close>

section \<open>ArtifactDie\<close>

definition ArtifactDie :: "(Artifact, 'x, 'l) die_type" where
  "ArtifactDie =
     \<lparr>dt_C = CArtifact, dt_un = un_Artifact, dt_Die = CArtifactDie, dt_unDie = un_ArtifactDie,
      dt_DeepCopy = Artifact_DeepCopyInto, dt_zero = zero_Artifact,
      dt_Freeze = (\<lambda>r. None)\<rparr>"

definition ArtifactBlank where
  "ArtifactBlank = die_Blank ArtifactDie None"

definition ArtifactDie_DieImmutable where
  "ArtifactDie_DieImmutable = die_DieImmutable ArtifactDie"

definition ArtifactDie_DieFeed where
  "ArtifactDie_DieFeed = die_DieFeed ArtifactDie"

definition ArtifactDie_DieFeedPtr where
  "ArtifactDie_DieFeedPtr = die_DieFeedPtr ArtifactDie"

definition ArtifactDie_DieRelease where
  "ArtifactDie_DieRelease = die_DieRelease ArtifactDie"

definition ArtifactDie_DieReleasePtr where
  "ArtifactDie_DieReleasePtr = die_DieReleasePtr ArtifactDie"

definition ArtifactDie_DieStamp where
  "ArtifactDie_DieStamp = die_DieStamp ArtifactDie"

definition ArtifactDie_DieWith where
  "ArtifactDie_DieWith = die_DieWith ArtifactDie"

definition ArtifactDie_DeepCopy where
  "ArtifactDie_DeepCopy = die_DeepCopy ArtifactDie"

definition ArtifactDie_DieSeal where
  "ArtifactDie_DieSeal = die_DieSeal ArtifactDie"

definition ArtifactDie_DieSealFeed where
  "ArtifactDie_DieSealFeed = die_DieSealFeed ArtifactDie"

definition ArtifactDie_DieSealFeedPtr where
  "ArtifactDie_DieSealFeedPtr = die_DieSealFeedPtr ArtifactDie"

definition ArtifactDie_DieSealRelease where
  "ArtifactDie_DieSealRelease = die_DieSealRelease ArtifactDie"

definition ArtifactDie_DieSealReleasePtr where
  "ArtifactDie_DieSealReleasePtr = die_DieSealReleasePtr ArtifactDie"

definition ArtifactDie_DieDiff where
  "ArtifactDie_DieDiff = die_DieDiff ArtifactDie"

definition ArtifactDie_DiePatch where
  "ArtifactDie_DiePatch = die_DiePatch ArtifactDie"

definition ArtifactDie_DieStampAt where
  "ArtifactDie_DieStampAt = die_DieStampAt ArtifactDie"

definition ArtifactDie_DieFeedJSON where
  "ArtifactDie_DieFeedJSON = die_DieFeedJSON ArtifactDie"

definition ArtifactDie_DieFeedYAML where
  "ArtifactDie_DieFeedYAML = die_DieFeedYAML ArtifactDie"

definition ArtifactDie_DieFeedYAMLFile where
  "ArtifactDie_DieFeedYAMLFile = die_DieFeedYAMLFile ArtifactDie"

definition ArtifactDie_DieFeedRawExtension where
  "ArtifactDie_DieFeedRawExtension = die_DieFeedRawExtension ArtifactDie"

definition ArtifactDie_DieReleaseJSON where
  "ArtifactDie_DieReleaseJSON = die_DieReleaseJSON ArtifactDie"

definition ArtifactDie_DieReleaseYAML where
  "ArtifactDie_DieReleaseYAML = die_DieReleaseYAML ArtifactDie"

definition ArtifactDie_DieReleaseRawExtension where
  "ArtifactDie_DieReleaseRawExtension = die_DieReleaseRawExtension ArtifactDie"

definition ArtifactDie_Path where
  "ArtifactDie_Path d (v :: string) = ArtifactDie_DieStamp d (store CArtifact un_Artifact (\<lambda>r. r\<lparr>a_Path := v\<rparr>))"

definition ArtifactDie_URL where
  "ArtifactDie_URL d (v :: string) = ArtifactDie_DieStamp d (store CArtifact un_Artifact (\<lambda>r. r\<lparr>a_URL := v\<rparr>))"

definition ArtifactDie_Revision where
  "ArtifactDie_Revision d (v :: string) = ArtifactDie_DieStamp d (store CArtifact un_Artifact (\<lambda>r. r\<lparr>a_Revision := v\<rparr>))"

definition ArtifactDie_Checksum where
  "ArtifactDie_Checksum d (v :: string) = ArtifactDie_DieStamp d (store CArtifact un_Artifact (\<lambda>r. r\<lparr>a_Checksum := v\<rparr>))"

definition ArtifactDie_LastUpdateTime where
  "ArtifactDie_LastUpdateTime d (v :: int) = ArtifactDie_DieStamp d (store CArtifact un_Artifact (\<lambda>r. r\<lparr>a_LastUpdateTime := v\<rparr>))"

section \<open>ImageRepositorySpecDie\<close>

definition ImageRepositorySpecDie :: "(ImageRepositorySpec_s, 'x, 'l) die_type" where
  "ImageRepositorySpecDie =
     \<lparr>dt_C = CImageRepositorySpec, dt_un = un_ImageRepositorySpec, dt_Die = CImageRepositorySpecDie, dt_unDie = un_ImageRepositorySpecDie,
      dt_DeepCopy = ImageRepositorySpec_DeepCopyInto, dt_zero = zero_ImageRepositorySpec,
      dt_Freeze = (\<lambda>r. None)\<rparr>"

definition ImageRepositorySpecBlank where
  "ImageRepositorySpecBlank = die_Blank ImageRepositorySpecDie None"

definition ImageRepositorySpecDie_DieImmutable where
  "ImageRepositorySpecDie_DieImmutable = die_DieImmutable ImageRepositorySpecDie"

definition ImageRepositorySpecDie_DieFeed where
  "ImageRepositorySpecDie_DieFeed = die_DieFeed ImageRepositorySpecDie"

definition ImageRepositorySpecDie_DieFeedPtr where
  "ImageRepositorySpecDie_DieFeedPtr = die_DieFeedPtr ImageRepositorySpecDie"

definition ImageRepositorySpecDie_DieRelease where
  "ImageRepositorySpecDie_DieRelease = die_DieRelease ImageRepositorySpecDie"

definition ImageRepositorySpecDie_DieReleasePtr where
  "ImageRepositorySpecDie_DieReleasePtr = die_DieReleasePtr ImageRepositorySpecDie"

definition ImageRepositorySpecDie_DieStamp where
  "ImageRepositorySpecDie_DieStamp = die_DieStamp ImageRepositorySpecDie"

definition ImageRepositorySpecDie_DieWith where
  "ImageRepositorySpecDie_DieWith = die_DieWith ImageRepositorySpecDie"

definition ImageRepositorySpecDie_DeepCopy where
  "ImageRepositorySpecDie_DeepCopy = die_DeepCopy ImageRepositorySpecDie"

definition ImageRepositorySpecDie_DieSeal where
  "ImageRepositorySpecDie_DieSeal = die_DieSeal ImageRepositorySpecDie"

definition ImageRepositorySpecDie_DieSealFeed where
  "ImageRepositorySpecDie_DieSealFeed = die_DieSealFeed ImageRepositorySpecDie"

definition ImageRepositorySpecDie_DieSealFeedPtr where
  "ImageRepositorySpecDie_DieSealFeedPtr = die_DieSealFeedPtr ImageRepositorySpecDie"

definition ImageRepositorySpecDie_DieSealRelease where
  "ImageRepositorySpecDie_DieSealRelease = die_DieSealRelease ImageRepositorySpecDie"

definition ImageRepositorySpecDie_DieSealReleasePtr where
  "ImageRepositorySpecDie_DieSealReleasePtr = die_DieSealReleasePtr ImageRepositorySpecDie"

definition ImageRepositorySpecDie_DieDiff where
  "ImageRepositorySpecDie_DieDiff = die_DieDiff ImageRepositorySpecDie"

definition ImageRepositorySpecDie_DiePatch where
  "ImageRepositorySpecDie_DiePatch = die_DiePatch ImageRepositorySpecDie"

definition ImageRepositorySpecDie_DieStampAt where
  "ImageRepositorySpecDie_DieStampAt = die_DieStampAt ImageRepositorySpecDie"

definition ImageRepositorySpecDie_DieFeedJSON where
  "ImageRepositorySpecDie_DieFeedJSON = die_DieFeedJSON ImageRepositorySpecDie"

definition ImageRepositorySpecDie_DieFeedYAML where
  "ImageRepositorySpecDie_DieFeedYAML = die_DieFeedYAML ImageRepositorySpecDie"

definition ImageRepositorySpecDie_DieFeedYAMLFile where
  "ImageRepositorySpecDie_DieFeedYAMLFile = die_DieFeedYAMLFile ImageRepositorySpecDie"

definition ImageRepositorySpecDie_DieFeedRawExtension where
  "ImageRepositorySpecDie_DieFeedRawExtension = die_DieFeedRawExtension ImageRepositorySpecDie"

definition ImageRepositorySpecDie_DieReleaseJSON where
  "ImageRepositorySpecDie_DieReleaseJSON = die_DieReleaseJSON ImageRepositorySpecDie"

definition ImageRepositorySpecDie_DieReleaseYAML where
  "ImageRepositorySpecDie_DieReleaseYAML = die_DieReleaseYAML ImageRepositorySpecDie"

definition ImageRepositorySpecDie_DieReleaseRawExtension where
  "ImageRepositorySpecDie_DieReleaseRawExtension = die_DieReleaseRawExtension ImageRepositorySpecDie"

definition ImageRepositorySpecDie_Image where
  "ImageRepositorySpecDie_Image d (v :: string) = ImageRepositorySpecDie_DieStamp d (store CImageRepositorySpec un_ImageRepositorySpec (\<lambda>r. r\<lparr>sis_Image := v\<rparr>))"

definition ImageRepositorySpecDie_Interval where
  "ImageRepositorySpecDie_Interval d (v :: int) = ImageRepositorySpecDie_DieStamp d (store CImageRepositorySpec un_ImageRepositorySpec (\<lambda>r. r\<lparr>sis_Interval := v\<rparr>))"

definition ImageRepositorySpecDie_ImagePullSecrets where
  "ImageRepositorySpecDie_ImagePullSecrets d (v :: slice option) = ImageRepositorySpecDie_DieStamp d (store CImageRepositorySpec un_ImageRepositorySpec (\<lambda>r. r\<lparr>sis_ImagePullSecrets := v\<rparr>))"

definition ImageRepositorySpecDie_ServiceAccountName where
  "ImageRepositorySpecDie_ServiceAccountName d (v :: string) = ImageRepositorySpecDie_DieStamp d (store CImageRepositorySpec un_ImageRepositorySpec (\<lambda>r. r\<lparr>sis_ServiceAccountName := v\<rparr>))"

section \<open>ImageRepositoryStatusDie\<close>

definition ImageRepositoryStatusDie :: "('x, 'l) lib \<Rightarrow> ('x ImageRepositoryStatus_s, 'x, 'l) die_type" where
  "ImageRepositoryStatusDie L =
     \<lparr>dt_C = CImageRepositoryStatus, dt_un = un_ImageRepositoryStatus, dt_Die = CImageRepositoryStatusDie, dt_unDie = un_ImageRepositoryStatusDie,
      dt_DeepCopy = ImageRepositoryStatus_DeepCopyInto L, dt_zero = zero_ImageRepositoryStatus L,
      dt_Freeze = (\<lambda>r. None)\<rparr>"

definition ImageRepositoryStatusBlank where
  "ImageRepositoryStatusBlank L = die_Blank (ImageRepositoryStatusDie L) None"

definition ImageRepositoryStatusDie_DieImmutable where
  "ImageRepositoryStatusDie_DieImmutable L = die_DieImmutable (ImageRepositoryStatusDie L)"

definition ImageRepositoryStatusDie_DieFeed where
  "ImageRepositoryStatusDie_DieFeed L = die_DieFeed (ImageRepositoryStatusDie L)"

definition ImageRepositoryStatusDie_DieFeedPtr where
  "ImageRepositoryStatusDie_DieFeedPtr L = die_DieFeedPtr (ImageRepositoryStatusDie L)"

definition ImageRepositoryStatusDie_DieRelease where
  "ImageRepositoryStatusDie_DieRelease L = die_DieRelease (ImageRepositoryStatusDie L)"

definition ImageRepositoryStatusDie_DieReleasePtr where
  "ImageRepositoryStatusDie_DieReleasePtr L = die_DieReleasePtr (ImageRepositoryStatusDie L)"

definition ImageRepositoryStatusDie_DieStamp where
  "ImageRepositoryStatusDie_DieStamp L = die_DieStamp (ImageRepositoryStatusDie L)"

definition ImageRepositoryStatusDie_DieWith where
  "ImageRepositoryStatusDie_DieWith L = die_DieWith (ImageRepositoryStatusDie L)"

definition ImageRepositoryStatusDie_DeepCopy where
  "ImageRepositoryStatusDie_DeepCopy L = die_DeepCopy (ImageRepositoryStatusDie L)"

definition ImageRepositoryStatusDie_DieSeal where
  "ImageRepositoryStatusDie_DieSeal L = die_DieSeal (ImageRepositoryStatusDie L)"

definition ImageRepositoryStatusDie_DieSealFeed where
  "ImageRepositoryStatusDie_DieSealFeed L = die_DieSealFeed (ImageRepositoryStatusDie L)"

definition ImageRepositoryStatusDie_DieSealFeedPtr where
  "ImageRepositoryStatusDie_DieSealFeedPtr L = die_DieSealFeedPtr (ImageRepositoryStatusDie L)"

definition ImageRepositoryStatusDie_DieSealRelease where
  "ImageRepositoryStatusDie_DieSealRelease L = die_DieSealRelease (ImageRepositoryStatusDie L)"

definition ImageRepositoryStatusDie_DieSealReleasePtr where
  "ImageRepositoryStatusDie_DieSealReleasePtr L = die_DieSealReleasePtr (ImageRepositoryStatusDie L)"

definition ImageRepositoryStatusDie_DieDiff where
  "ImageRepositoryStatusDie_DieDiff L = die_DieDiff (ImageRepositoryStatusDie L)"

definition ImageRepositoryStatusDie_DiePatch where
  "ImageRepositoryStatusDie_DiePatch L = die_DiePatch (ImageRepositoryStatusDie L)"

definition ImageRepositoryStatusDie_DieStampAt where
  "ImageRepositoryStatusDie_DieStampAt L = die_DieStampAt (ImageRepositoryStatusDie L)"

definition ImageRepositoryStatusDie_DieFeedJSON where
  "ImageRepositoryStatusDie_DieFeedJSON L = die_DieFeedJSON (ImageRepositoryStatusDie L)"

definition ImageRepositoryStatusDie_DieFeedYAML where
  "ImageRepositoryStatusDie_DieFeedYAML L = die_DieFeedYAML (ImageRepositoryStatusDie L)"

definition ImageRepositoryStatusDie_DieFeedYAMLFile where
  "ImageRepositoryStatusDie_DieFeedYAMLFile L = die_DieFeedYAMLFile (ImageRepositoryStatusDie L)"

definition ImageRepositoryStatusDie_DieFeedRawExtension where
  "ImageRepositoryStatusDie_DieFeedRawExtension L = die_DieFeedRawExtension (ImageRepositoryStatusDie L)"

definition ImageRepositoryStatusDie_DieReleaseJSON where
  "ImageRepositoryStatusDie_DieReleaseJSON L = die_DieReleaseJSON (ImageRepositoryStatusDie L)"

definition ImageRepositoryStatusDie_DieReleaseYAML where
  "ImageRepositoryStatusDie_DieReleaseYAML L = die_DieReleaseYAML (ImageRepositoryStatusDie L)"

definition ImageRepositoryStatusDie_DieReleaseRawExtension where
  "ImageRepositoryStatusDie_DieReleaseRawExtension L = die_DieReleaseRawExtension (ImageRepositoryStatusDie L)"

definition ImageRepositoryStatusDie_Status where
  "ImageRepositoryStatusDie_Status L d (v :: 'x) = ImageRepositoryStatusDie_DieStamp L d (store CImageRepositoryStatus un_ImageRepositoryStatus (\<lambda>r. r\<lparr>sist_Status := v\<rparr>))"

definition ImageRepositoryStatusDie_URL where
  "ImageRepositoryStatusDie_URL L d (v :: string) = ImageRepositoryStatusDie_DieStamp L d (store CImageRepositoryStatus un_ImageRepositoryStatus (\<lambda>r. r\<lparr>sist_URL := v\<rparr>))"

definition ImageRepositoryStatusDie_Artifact where
  "ImageRepositoryStatusDie_Artifact L d (v :: addr option) = ImageRepositoryStatusDie_DieStamp L d (store CImageRepositoryStatus un_ImageRepositoryStatus (\<lambda>r. r\<lparr>sist_Artifact := v\<rparr>))"

definition ImageRepositoryStatusDie_ArtifactDie where
  "ImageRepositoryStatusDie_ArtifactDie L blank d fn =
     ImageRepositoryStatusDie_DieStamp L d (\<lambda>r h.
       case ArtifactDie_DieImmutable blank False h of
         (b, h1) \<Rightarrow> (case ArtifactDie_DieFeedPtr b (sist_Artifact (un_ImageRepositoryStatus (h1 ! r))) h1 of
         (a, h2) \<Rightarrow> (case ArtifactDie_DieReleasePtr a (fn a h2) of
         (q, h3) \<Rightarrow> store CImageRepositoryStatus un_ImageRepositoryStatus (\<lambda>s. s\<lparr>sist_Artifact := Some q\<rparr>) r h3)))"

text \<open>\<open>assign_generation\<close> is the assignment to the field of the embedded \<^verbatim>\<open>apis.Status\<close>.\<close>

definition ImageRepositoryStatusDie_ObservedGeneration where
  "ImageRepositoryStatusDie_ObservedGeneration L assign_generation d (v :: int) =
     ImageRepositoryStatusDie_DieStamp L d (store CImageRepositoryStatus un_ImageRepositoryStatus (\<lambda>r. r\<lparr>sist_Status := assign_generation v (sist_Status r)\<rparr>))"

section \<open>ImageRepositoryDie\<close>

definition ImageRepositoryDie :: "('x, 'l) lib \<Rightarrow> ('x ImageRepository_s, 'x, 'l) die_type" where
  "ImageRepositoryDie L =
     \<lparr>dt_C = CImageRepository, dt_un = un_ImageRepository, dt_Die = CImageRepositoryDie, dt_unDie = un_ImageRepositoryDie,
      dt_DeepCopy = ImageRepository_DeepCopyInto L, dt_zero = zero_ImageRepository L,
      dt_Freeze = (\<lambda>r. Some (FreezeObjectMeta L (sir_ObjectMeta r)))\<rparr>"

definition ImageRepositoryBlank where
  "ImageRepositoryBlank L = die_Blank (ImageRepositoryDie L) (Some (zero_FrozenObjectMeta L))"

definition ImageRepositoryDie_DieImmutable where
  "ImageRepositoryDie_DieImmutable L = die_DieImmutable (ImageRepositoryDie L)"

definition ImageRepositoryDie_DieFeed where
  "ImageRepositoryDie_DieFeed L = die_DieFeed (ImageRepositoryDie L)"

definition ImageRepositoryDie_DieFeedPtr where
  "ImageRepositoryDie_DieFeedPtr L = die_DieFeedPtr (ImageRepositoryDie L)"

definition ImageRepositoryDie_DieRelease where
  "ImageRepositoryDie_DieRelease L = die_DieRelease (ImageRepositoryDie L)"

definition ImageRepositoryDie_DieReleasePtr where
  "ImageRepositoryDie_DieReleasePtr L = die_DieReleasePtr (ImageRepositoryDie L)"

definition ImageRepositoryDie_DieStamp where
  "ImageRepositoryDie_DieStamp L = die_DieStamp (ImageRepositoryDie L)"

definition ImageRepositoryDie_DieWith where
  "ImageRepositoryDie_DieWith L = die_DieWith (ImageRepositoryDie L)"

definition ImageRepositoryDie_DeepCopy where
  "ImageRepositoryDie_DeepCopy L = die_DeepCopy (ImageRepositoryDie L)"

definition ImageRepositoryDie_DieSeal where
  "ImageRepositoryDie_DieSeal L = die_DieSeal (ImageRepositoryDie L)"

definition ImageRepositoryDie_DieSealFeed where
  "ImageRepositoryDie_DieSealFeed L = die_DieSealFeed (ImageRepositoryDie L)"

definition ImageRepositoryDie_DieSealFeedPtr where
  "ImageRepositoryDie_DieSealFeedPtr L = die_DieSealFeedPtr (ImageRepositoryDie L)"

definition ImageRepositoryDie_DieSealRelease where
  "ImageRepositoryDie_DieSealRelease L = die_DieSealRelease (ImageRepositoryDie L)"

definition ImageRepositoryDie_DieSealReleasePtr where
  "ImageRepositoryDie_DieSealReleasePtr L = die_DieSealReleasePtr (ImageRepositoryDie L)"

definition ImageRepositoryDie_DieDiff where
  "ImageRepositoryDie_DieDiff L = die_DieDiff (ImageRepositoryDie L)"

definition ImageRepositoryDie_DiePatch where
  "ImageRepositoryDie_DiePatch L = die_DiePatch (ImageRepositoryDie L)"

definition ImageRepositoryDie_DieStampAt where
  "ImageRepositoryDie_DieStampAt L = die_DieStampAt (ImageRepositoryDie L)"

definition ImageRepositoryDie_DieFeedJSON where
  "ImageRepositoryDie_DieFeedJSON L = die_DieFeedJSON (ImageRepositoryDie L)"

definition ImageRepositoryDie_DieFeedYAML where
  "ImageRepositoryDie_DieFeedYAML L = die_DieFeedYAML (ImageRepositoryDie L)"

definition ImageRepositoryDie_DieFeedYAMLFile where
  "ImageRepositoryDie_DieFeedYAMLFile L = die_DieFeedYAMLFile (ImageRepositoryDie L)"

definition ImageRepositoryDie_DieFeedRawExtension where
  "ImageRepositoryDie_DieFeedRawExtension L = die_DieFeedRawExtension (ImageRepositoryDie L)"

definition ImageRepositoryDie_DieReleaseJSON where
  "ImageRepositoryDie_DieReleaseJSON L = die_DieReleaseJSON (ImageRepositoryDie L)"

definition ImageRepositoryDie_DieReleaseYAML where
  "ImageRepositoryDie_DieReleaseYAML L = die_DieReleaseYAML (ImageRepositoryDie L)"

definition ImageRepositoryDie_DieReleaseRawExtension where
  "ImageRepositoryDie_DieReleaseRawExtension L = die_DieReleaseRawExtension (ImageRepositoryDie L)"

definition ImageRepositoryDie_DieReleaseUnstructured where
  "ImageRepositoryDie_DieReleaseUnstructured L = die_DieReleaseUnstructured (ImageRepositoryDie L)"

definition ImageRepositoryDie_DeepCopyObject where
  "ImageRepositoryDie_DeepCopyObject L = die_DeepCopyObject (ImageRepositoryDie L)"

definition ImageRepositoryDie_GetObjectKind where
  "ImageRepositoryDie_GetObjectKind L = die_GetObjectKind (ImageRepositoryDie L)"

definition ImageRepositoryDie_MarshalJSON where
  "ImageRepositoryDie_MarshalJSON L = die_MarshalJSON (ImageRepositoryDie L)"

definition ImageRepositoryDie_UnmarshalJSON where
  "ImageRepositoryDie_UnmarshalJSON L = die_UnmarshalJSON (ImageRepositoryDie L)"

definition ImageRepositoryDie_APIVersion where
  "ImageRepositoryDie_APIVersion L d (v :: string) = ImageRepositoryDie_DieStamp L d (store CImageRepository un_ImageRepository (\<lambda>r. r\<lparr>sir_TypeMeta := (sir_TypeMeta r)\<lparr>tm_APIVersion := v\<rparr>\<rparr>))"

definition ImageRepositoryDie_Kind where
  "ImageRepositoryDie_Kind L d (v :: string) = ImageRepositoryDie_DieStamp L d (store CImageRepository un_ImageRepository (\<lambda>r. r\<lparr>sir_TypeMeta := (sir_TypeMeta r)\<lparr>tm_Kind := v\<rparr>\<rparr>))"

definition ImageRepositoryDie_TypeMetadata where
  "ImageRepositoryDie_TypeMetadata L d (v :: TypeMeta) = ImageRepositoryDie_DieStamp L d (store CImageRepository un_ImageRepository (\<lambda>r. r\<lparr>sir_TypeMeta := v\<rparr>))"

definition ImageRepositoryDie_Metadata where
  "ImageRepositoryDie_Metadata L d (v :: 'x) = ImageRepositoryDie_DieStamp L d (store CImageRepository un_ImageRepository (\<lambda>r. r\<lparr>sir_ObjectMeta := v\<rparr>))"

definition ImageRepositoryDie_Spec where
  "ImageRepositoryDie_Spec L d (v :: ImageRepositorySpec_s) = ImageRepositoryDie_DieStamp L d (store CImageRepository un_ImageRepository (\<lambda>r. r\<lparr>sir_Spec := v\<rparr>))"

definition ImageRepositoryDie_Status where
  "ImageRepositoryDie_Status L d (v :: 'x ImageRepositoryStatus_s) = ImageRepositoryDie_DieStamp L d (store CImageRepository un_ImageRepository (\<lambda>r. r\<lparr>sir_Status := v\<rparr>))"

definition ImageRepositoryDie_SpecDie where
  "ImageRepositoryDie_SpecDie L blank d fn =
     ImageRepositoryDie_DieStamp L d (die_nested ImageRepositorySpecDie blank CImageRepository un_ImageRepository sir_Spec (\<lambda>q r. r\<lparr>sir_Spec := q\<rparr>) fn)"

definition ImageRepositoryDie_StatusDie where
  "ImageRepositoryDie_StatusDie L blank d fn =
     ImageRepositoryDie_DieStamp L d (die_nested (ImageRepositoryStatusDie L) blank CImageRepository un_ImageRepository sir_Status (\<lambda>q r. r\<lparr>sir_Status := q\<rparr>) fn)"

text \<open>\<open>edit\<close> is a mutable die of the library fed with the field, passed to the callback and released.\<close>

definition ImageRepositoryDie_TypeMetadataDie where
  "ImageRepositoryDie_TypeMetadataDie L d edit =
     ImageRepositoryDie_DieStamp L d (\<lambda>r h.
       case edit (sir_TypeMeta (un_ImageRepository (h ! r))) h of (v, h1) \<Rightarrow> store CImageRepository un_ImageRepository (\<lambda>s. s\<lparr>sir_TypeMeta := v\<rparr>) r h1)"

definition ImageRepositoryDie_MetadataDie where
  "ImageRepositoryDie_MetadataDie L d edit =
     ImageRepositoryDie_DieStamp L d (\<lambda>r h.
       case edit (sir_ObjectMeta (un_ImageRepository (h ! r))) h of (v, h1) \<Rightarrow> store CImageRepository un_ImageRepository (\<lambda>s. s\<lparr>sir_ObjectMeta := v\<rparr>) r h1)"

end
