(* ===== verification/Dies_Maven.thy ===== *)
theory Dies_Maven
  imports Dies_Image
begin

text \<open>
  The dies of the types of \<^verbatim>\<open>MavenArtifact\<close>. \<^verbatim>\<open>RepositoryDie\<close> and \<^verbatim>\<open>MavenArtifactDie\<close> of
  \<^verbatim>\<open>mavenartifact.go\<close> start from an empty struct, where \<^verbatim>\<open>ArtifactDie\<close>, \<^verbatim>\<open>SpecDie\<close> and
  \<^verbatim>\<open>StatusDie\<close> start from the current value of the field.
\<close>

section \<open>MavenArtifactTypeDie\<close>

definition MavenArtifactTypeDie :: "(MavenArtifactType, 'x, 'l) die_type" where
  "MavenArtifactTypeDie =
     \<lparr>dt_C = CMavenArtifactType, dt_un = un_MavenArtifactType, dt_Die = CMavenArtifactTypeDie, dt_unDie = un_MavenArtifactTypeDie,
      dt_DeepCopy = MavenArtifactType_DeepCopyInto, dt_zero = zero_MavenArtifactType,
      dt_Freeze = (\<lambda>r. None)\<rparr>"

definition MavenArtifactTypeBlank where
  "MavenArtifactTypeBlank = die_Blank MavenArtifactTypeDie None"

definition MavenArtifactTypeDie_DieImmutable where
  "MavenArtifactTypeDie_DieImmutable = die_DieImmutable MavenArtifactTypeDie"

definition MavenArtifactTypeDie_DieFeed where
  "MavenArtifactTypeDie_DieFeed = die_DieFeed MavenArtifactTypeDie"

definition MavenArtifactTypeDie_DieFeedPtr where
  "MavenArtifactTypeDie_DieFeedPtr = die_DieFeedPtr MavenArtifactTypeDie"

definition MavenArtifactTypeDie_DieRelease where
  "MavenArtifactTypeDie_DieRelease = die_DieRelease MavenArtifactTypeDie"

definition MavenArtifactTypeDie_DieReleasePtr where
  "MavenArtifactTypeDie_DieReleasePtr = die_DieReleasePtr MavenArtifactTypeDie"

definition MavenArtifactTypeDie_DieStamp where
  "MavenArtifactTypeDie_DieStamp = die_DieStamp MavenArtifactTypeDie"

definition MavenArtifactTypeDie_DieWith where
  "MavenArtifactTypeDie_DieWith = die_DieWith MavenArtifactTypeDie"

definition MavenArtifactTypeDie_DeepCopy where
  "MavenArtifactTypeDie_DeepCopy = die_DeepCopy MavenArtifactTypeDie"

definition MavenArtifactTypeDie_DieSeal where
  "MavenArtifactTypeDie_DieSeal = die_DieSeal MavenArtifactTypeDie"

definition MavenArtifactTypeDie_DieSealFeed where
  "MavenArtifactTypeDie_DieSealFeed = die_DieSealFeed MavenArtifactTypeDie"

definition MavenArtifactTypeDie_DieSealFeedPtr where
  "MavenArtifactTypeDie_DieSealFeedPtr = die_DieSealFeedPtr MavenArtifactTypeDie"

definition MavenArtifactTypeDie_DieSealRelease where
  "MavenArtifactTypeDie_DieSealRelease = die_DieSealRelease MavenArtifactTypeDie"

definition MavenArtifactTypeDie_DieSealReleasePtr where
  "MavenArtifactTypeDie_DieSealReleasePtr = die_DieSealReleasePtr MavenArtifactTypeDie"

definition MavenArtifactTypeDie_DieDiff where
  "MavenArtifactTypeDie_DieDiff = die_DieDiff MavenArtifactTypeDie"

definition MavenArtifactTypeDie_DiePatch where
  "MavenArtifactTypeDie_DiePatch = die_DiePatch MavenArtifactTypeDie"

definition MavenArtifactTypeDie_DieStampAt where
  "MavenArtifactTypeDie_DieStampAt = die_DieStampAt MavenArtifactTypeDie"

definition MavenArtifactTypeDie_DieFeedJSON where
  "MavenArtifactTypeDie_DieFeedJSON = die_DieFeedJSON MavenArtifactTypeDie"

definition MavenArtifactTypeDie_DieFeedYAML where
  "MavenArtifactTypeDie_DieFeedYAML = die_DieFeedYAML MavenArtifactTypeDie"

definition MavenArtifactTypeDie_DieFeedYAMLFile where
  "MavenArtifactTypeDie_DieFeedYAMLFile = die_DieFeedYAMLFile MavenArtifactTypeDie"

definition MavenArtifactTypeDie_DieFeedRawExtension where
  "MavenArtifactTypeDie_DieFeedRawExtension = die_DieFeedRawExtension MavenArtifactTypeDie"

definition MavenArtifactTypeDie_DieReleaseJSON where
  "MavenArtifactTypeDie_DieReleaseJSON = die_DieReleaseJSON MavenArtifactTypeDie"

definition MavenArtifactTypeDie_DieReleaseYAML where
  "MavenArtifactTypeDie_DieReleaseYAML = die_DieReleaseYAML MavenArtifactTypeDie"

definition MavenArtifactTypeDie_DieReleaseRawExtension where
  "MavenArtifactTypeDie_DieReleaseRawExtension = die_DieReleaseRawExtension MavenArtifactTypeDie"

definition MavenArtifactTypeDie_GroupId where
  "MavenArtifactTypeDie_GroupId d (v :: string) = MavenArtifactTypeDie_DieStamp d (store CMavenArtifactType un_MavenArtifactType (\<lambda>r. r\<lparr>GroupId := v\<rparr>))"

definition MavenArtifactTypeDie_Version where
  "MavenArtifactTypeDie_Version d (v :: string) = MavenArtifactTypeDie_DieStamp d (store CMavenArtifactType un_MavenArtifactType (\<lambda>r. r\<lparr>at_Version := v\<rparr>))"

definition MavenArtifactTypeDie_ArtifactId where
  "MavenArtifactTypeDie_ArtifactId d (v :: string) = MavenArtifactTypeDie_DieStamp d (store CMavenArtifactType un_MavenArtifactType (\<lambda>r. r\<lparr>ArtifactId := v\<rparr>))"

definition MavenArtifactTypeDie_Type where
  "MavenArtifactTypeDie_Type d (v :: string) = MavenArtifactTypeDie_DieStamp d (store CMavenArtifactType un_MavenArtifactType (\<lambda>r. r\<lparr>at_Type := v\<rparr>))"

definition MavenArtifactTypeDie_Classifier where
  "MavenArtifactTypeDie_Classifier d (v :: string) = MavenArtifactTypeDie_DieStamp d (store CMavenArtifactType un_MavenArtifactType (\<lambda>r. r\<lparr>Classifier := v\<rparr>))"

section \<open>RepositoryDie\<close>

definition RepositoryDie :: "(Repository, 'x, 'l) die_type" where
  "RepositoryDie =
     \<lparr>dt_C = CRepository, dt_un = un_Repository, dt_Die = CRepositoryDie, dt_unDie = un_RepositoryDie,
      dt_DeepCopy = Repository_DeepCopyInto, dt_zero = zero_Repository,
      dt_Freeze = (\<lambda>r. None)\<rparr>"

definition RepositoryBlank where
  "RepositoryBlank = die_Blank RepositoryDie None"

definition RepositoryDie_DieImmutable where
  "RepositoryDie_DieImmutable = die_DieImmutable RepositoryDie"

definition RepositoryDie_DieFeed where
  "RepositoryDie_DieFeed = die_DieFeed RepositoryDie"

definition RepositoryDie_DieFeedPtr where
  "RepositoryDie_DieFeedPtr = die_DieFeedPtr RepositoryDie"

definition RepositoryDie_DieRelease where
  "RepositoryDie_DieRelease = die_DieRelease RepositoryDie"

definition RepositoryDie_DieReleasePtr where
  "RepositoryDie_DieReleasePtr = die_DieReleasePtr RepositoryDie"

definition RepositoryDie_DieStamp where
  "RepositoryDie_DieStamp = die_DieStamp RepositoryDie"

definition RepositoryDie_DieWith where
  "RepositoryDie_DieWith = die_DieWith RepositoryDie"

definition RepositoryDie_DeepCopy where
  "RepositoryDie_DeepCopy = die_DeepCopy RepositoryDie"

definition RepositoryDie_DieSeal where
  "RepositoryDie_DieSeal = die_DieSeal RepositoryDie"

definition RepositoryDie_DieSealFeed where
  "RepositoryDie_DieSealFeed = die_DieSealFeed RepositoryDie"

definition RepositoryDie_DieSealFeedPtr where
  "RepositoryDie_DieSealFeedPtr = die_DieSealFeedPtr RepositoryDie"

definition RepositoryDie_DieSealRelease where
  "RepositoryDie_DieSealRelease = die_DieSealRelease RepositoryDie"

definition RepositoryDie_DieSealReleasePtr where
  "RepositoryDie_DieSealReleasePtr = die_DieSealReleasePtr RepositoryDie"

definition RepositoryDie_DieDiff where
  "RepositoryDie_DieDiff = die_DieDiff RepositoryDie"

definition RepositoryDie_DiePatch where
  "RepositoryDie_DiePatch = die_DiePatch RepositoryDie"

definition RepositoryDie_DieStampAt where
  "RepositoryDie_DieStampAt = die_DieStampAt RepositoryDie"

definition RepositoryDie_DieFeedJSON where
  "RepositoryDie_DieFeedJSON = die_DieFeedJSON RepositoryDie"

definition RepositoryDie_DieFeedYAML where
  "RepositoryDie_DieFeedYAML = die_DieFeedYAML RepositoryDie"

definition RepositoryDie_DieFeedYAMLFile where
  "RepositoryDie_DieFeedYAMLFile = die_DieFeedYAMLFile RepositoryDie"

definition RepositoryDie_DieFeedRawExtension where
  "RepositoryDie_DieFeedRawExtension = die_DieFeedRawExtension RepositoryDie"

definition RepositoryDie_DieReleaseJSON where
  "RepositoryDie_DieReleaseJSON = die_DieReleaseJSON RepositoryDie"

definition RepositoryDie_DieReleaseYAML where
  "RepositoryDie_DieReleaseYAML = die_DieReleaseYAML RepositoryDie"

definition RepositoryDie_DieReleaseRawExtension where
  "RepositoryDie_DieReleaseRawExtension = die_DieReleaseRawExtension RepositoryDie"

definition RepositoryDie_URL where
  "RepositoryDie_URL d (v :: string) = RepositoryDie_DieStamp d (store CRepository un_Repository (\<lambda>r. r\<lparr>repo_URL := v\<rparr>))"

definition RepositoryDie_SecretRef where
  "RepositoryDie_SecretRef d (v :: string) = RepositoryDie_DieStamp d (store CRepository un_Repository (\<lambda>r. r\<lparr>SecretRef := v\<rparr>))"

section \<open>MavenArtifactSpecDie\<close>

definition MavenArtifactSpecDie :: "(MavenArtifactSpec_s, 'x, 'l) die_type" where
  "MavenArtifactSpecDie =
     \<lparr>dt_C = CMavenArtifactSpec, dt_un = un_MavenArtifactSpec, dt_Die = CMavenArtifactSpecDie, dt_unDie = un_MavenArtifactSpecDie,
      dt_DeepCopy = MavenArtifactSpec_DeepCopyInto, dt_zero = zero_MavenArtifactSpec,
      dt_Freeze = (\<lambda>r. None)\<rparr>"

definition MavenArtifactSpecBlank where
  "MavenArtifactSpecBlank = die_Blank MavenArtifactSpecDie None"

definition MavenArtifactSpecDie_DieImmutable where
  "MavenArtifactSpecDie_DieImmutable = die_DieImmutable MavenArtifactSpecDie"

definition MavenArtifactSpecDie_DieFeed where
  "MavenArtifactSpecDie_DieFeed = die_DieFeed MavenArtifactSpecDie"

definition MavenArtifactSpecDie_DieFeedPtr where
  "MavenArtifactSpecDie_DieFeedPtr = die_DieFeedPtr MavenArtifactSpecDie"

definition MavenArtifactSpecDie_DieRelease where
  "MavenArtifactSpecDie_DieRelease = die_DieRelease MavenArtifactSpecDie"

definition MavenArtifactSpecDie_DieReleasePtr where
  "MavenArtifactSpecDie_DieReleasePtr = die_DieReleasePtr MavenArtifactSpecDie"

definition MavenArtifactSpecDie_DieStamp where
  "MavenArtifactSpecDie_DieStamp = die_DieStamp MavenArtifactSpecDie"

definition MavenArtifactSpecDie_DieWith where
  "MavenArtifactSpecDie_DieWith = die_DieWith MavenArtifactSpecDie"

definition MavenArtifactSpecDie_DeepCopy where
  "MavenArtifactSpecDie_DeepCopy = die_DeepCopy MavenArtifactSpecDie"

definition MavenArtifactSpecDie_DieSeal where
  "MavenArtifactSpecDie_DieSeal = die_DieSeal MavenArtifactSpecDie"

definition MavenArtifactSpecDie_DieSealFeed where
  "MavenArtifactSpecDie_DieSealFeed = die_DieSealFeed MavenArtifactSpecDie"

definition MavenArtifactSpecDie_DieSealFeedPtr where
  "MavenArtifactSpecDie_DieSealFeedPtr = die_DieSealFeedPtr MavenArtifactSpecDie"

definition MavenArtifactSpecDie_DieSealRelease where
  "MavenArtifactSpecDie_DieSealRelease = die_DieSealRelease MavenArtifactSpecDie"

definition MavenArtifactSpecDie_DieSealReleasePtr where
  "MavenArtifactSpecDie_DieSealReleasePtr = die_DieSealReleasePtr MavenArtifactSpecDie"

definition MavenArtifactSpecDie_DieDiff where
  "MavenArtifactSpecDie_DieDiff = die_DieDiff MavenArtifactSpecDie"

definition MavenArtifactSpecDie_DiePatch where
  "MavenArtifactSpecDie_DiePatch = die_DiePatch MavenArtifactSpecDie"

definition MavenArtifactSpecDie_DieStampAt where
  "MavenArtifactSpecDie_DieStampAt = die_DieStampAt MavenArtifactSpecDie"

definition MavenArtifactSpecDie_DieFeedJSON where
  "MavenArtifactSpecDie_DieFeedJSON = die_DieFeedJSON MavenArtifactSpecDie"

definition MavenArtifactSpecDie_DieFeedYAML where
  "MavenArtifactSpecDie_DieFeedYAML = die_DieFeedYAML MavenArtifactSpecDie"

definition MavenArtifactSpecDie_DieFeedYAMLFile where
  "MavenArtifactSpecDie_DieFeedYAMLFile = die_DieFeedYAMLFile MavenArtifactSpecDie"

definition MavenArtifactSpecDie_DieFeedRawExtension where
  "MavenArtifactSpecDie_DieFeedRawExtension = die_DieFeedRawExtension MavenArtifactSpecDie"

definition MavenArtifactSpecDie_DieReleaseJSON where
  "MavenArtifactSpecDie_DieReleaseJSON = die_DieReleaseJSON MavenArtifactSpecDie"

definition MavenArtifactSpecDie_DieReleaseYAML where
  "MavenArtifactSpecDie_DieReleaseYAML = die_DieReleaseYAML MavenArtifactSpecDie"

definition MavenArtifactSpecDie_DieReleaseRawExtension where
  "MavenArtifactSpecDie_DieReleaseRawExtension = die_DieReleaseRawExtension MavenArtifactSpecDie"

definition MavenArtifactSpecDie_Artifact where
  "MavenArtifactSpecDie_Artifact d (v :: MavenArtifactType) = MavenArtifactSpecDie_DieStamp d (store CMavenArtifactSpec un_MavenArtifactSpec (\<lambda>r. r\<lparr>sms_Artifact := v\<rparr>))"

definition MavenArtifactSpecDie_Repository where
  "MavenArtifactSpecDie_Repository d (v :: Repository) = MavenArtifactSpecDie_DieStamp d (store CMavenArtifactSpec un_MavenArtifactSpec (\<lambda>r. r\<lparr>sms_Repository := v\<rparr>))"

definition MavenArtifactSpecDie_Interval where
  "MavenArtifactSpecDie_Interval d (v :: int) = MavenArtifactSpecDie_DieStamp d (store CMavenArtifactSpec un_MavenArtifactSpec (\<lambda>r. r\<lparr>sms_Interval := v\<rparr>))"

definition MavenArtifactSpecDie_Timeout where
  "MavenArtifactSpecDie_Timeout d (v :: addr option) = MavenArtifactSpecDie_DieStamp d (store CMavenArtifactSpec un_MavenArtifactSpec (\<lambda>r. r\<lparr>sms_Timeout := v\<rparr>))"

definition MavenArtifactSpecDie_RepositoryDie where
  "MavenArtifactSpecDie_RepositoryDie blank d fn h =
     (case new (CRepository zero_Repository) h of
        (fresh, h0) \<Rightarrow> MavenArtifactSpecDie_DieStamp d (\<lambda>r h.
          case RepositoryDie_DieImmutable blank False h of
            (b, h1) \<Rightarrow> (case RepositoryDie_DieFeedPtr b (Some fresh) h1 of
            (n, h2) \<Rightarrow> (case RepositoryDie_DieReleasePtr n (fn n h2) of
            (q, h3) \<Rightarrow> store CMavenArtifactSpec un_MavenArtifactSpec
                        (\<lambda>s. s\<lparr>sms_Repository := un_Repository (h3 ! q)\<rparr>) r h3))) h0)"

definition MavenArtifactSpecDie_MavenArtifactDie where
  "MavenArtifactSpecDie_MavenArtifactDie blank d fn h =
     (case new (CMavenArtifactType zero_MavenArtifactType) h of
        (fresh, h0) \<Rightarrow> MavenArtifactSpecDie_DieStamp d (\<lambda>r h.
          case MavenArtifactTypeDie_DieImmutable blank False h of
            (b, h1) \<Rightarrow> (case MavenArtifactTypeDie_DieFeedPtr b (Some fresh) h1 of
            (n, h2) \<Rightarrow> (case MavenArtifactTypeDie_DieReleasePtr n (fn n h2) of
            (q, h3) \<Rightarrow> store CMavenArtifactSpec un_MavenArtifactSpec
                        (\<lambda>s. s\<lparr>sms_Artifact := un_MavenArtifactType (h3 ! q)\<rparr>) r h3))) h0)"

section \<open>MavenArtifactStatusDie\<close>

definition MavenArtifactStatusDie :: "('x, 'l) lib \<Rightarrow> ('x MavenArtifactStatus_s, 'x, 'l) die_type" where
  "MavenArtifactStatusDie L =
     \<lparr>dt_C = CMavenArtifactStatus, dt_un = un_MavenArtifactStatus, dt_Die = CMavenArtifactStatusDie, dt_unDie = un_MavenArtifactStatusDie,
      dt_DeepCopy = MavenArtifactStatus_DeepCopyInto L, dt_zero = zero_MavenArtifactStatus L,
      dt_Freeze = (\<lambda>r. None)\<rparr>"

definition MavenArtifactStatusBlank where
  "MavenArtifactStatusBlank L = die_Blank (MavenArtifactStatusDie L) None"

definition MavenArtifactStatusDie_DieImmutable where
  "MavenArtifactStatusDie_DieImmutable L = die_DieImmutable (MavenArtifactStatusDie L)"

definition MavenArtifactStatusDie_DieFeed where
  "MavenArtifactStatusDie_DieFeed L = die_DieFeed (MavenArtifactStatusDie L)"

definition MavenArtifactStatusDie_DieFeedPtr where
  "MavenArtifactStatusDie_DieFeedPtr L = die_DieFeedPtr (MavenArtifactStatusDie L)"

definition MavenArtifactStatusDie_DieRelease where
  "MavenArtifactStatusDie_DieRelease L = die_DieRelease (MavenArtifactStatusDie L)"

definition MavenArtifactStatusDie_DieReleasePtr where
  "MavenArtifactStatusDie_DieReleasePtr L = die_DieReleasePtr (MavenArtifactStatusDie L)"

definition MavenArtifactStatusDie_DieStamp where
  "MavenArtifactStatusDie_DieStamp L = die_DieStamp (MavenArtifactStatusDie L)"

definition MavenArtifactStatusDie_DieWith where
  "MavenArtifactStatusDie_DieWith L = die_DieWith (MavenArtifactStatusDie L)"

definition MavenArtifactStatusDie_DeepCopy where
  "MavenArtifactStatusDie_DeepCopy L = die_DeepCopy (MavenArtifactStatusDie L)"

definition MavenArtifactStatusDie_DieSeal where
  "MavenArtifactStatusDie_DieSeal L = die_DieSeal (MavenArtifactStatusDie L)"

definition MavenArtifactStatusDie_DieSealFeed where
  "MavenArtifactStatusDie_DieSealFeed L = die_DieSealFeed (MavenArtifactStatusDie L)"

definition MavenArtifactStatusDie_DieSealFeedPtr where
  "MavenArtifactStatusDie_DieSealFeedPtr L = die_DieSealFeedPtr (MavenArtifactStatusDie L)"

definition MavenArtifactStatusDie_DieSealRelease where
  "MavenArtifactStatusDie_DieSealRelease L = die_DieSealRelease (MavenArtifactStatusDie L)"

definition MavenArtifactStatusDie_DieSealReleasePtr where
  "MavenArtifactStatusDie_DieSealReleasePtr L = die_DieSealReleasePtr (MavenArtifactStatusDie L)"

definition MavenArtifactStatusDie_DieDiff where
  "MavenArtifactStatusDie_DieDiff L = die_DieDiff (MavenArtifactStatusDie L)"

definition MavenArtifactStatusDie_DiePatch where
  "MavenArtifactStatusDie_DiePatch L = die_DiePatch (MavenArtifactStatusDie L)"

definition MavenArtifactStatusDie_DieStampAt where
  "MavenArtifactStatusDie_DieStampAt L = die_DieStampAt (MavenArtifactStatusDie L)"

definition MavenArtifactStatusDie_DieFeedJSON where
  "MavenArtifactStatusDie_DieFeedJSON L = die_DieFeedJSON (MavenArtifactStatusDie L)"

definition MavenArtifactStatusDie_DieFeedYAML where
  "MavenArtifactStatusDie_DieFeedYAML L = die_DieFeedYAML (MavenArtifactStatusDie L)"

definition MavenArtifactStatusDie_DieFeedYAMLFile where
  "MavenArtifactStatusDie_DieFeedYAMLFile L = die_DieFeedYAMLFile (MavenArtifactStatusDie L)"

definition MavenArtifactStatusDie_DieFeedRawExtension where
  "MavenArtifactStatusDie_DieFeedRawExtension L = die_DieFeedRawExtension (MavenArtifactStatusDie L)"

definition MavenArtifactStatusDie_DieReleaseJSON where
  "MavenArtifactStatusDie_DieReleaseJSON L = die_DieReleaseJSON (MavenArtifactStatusDie L)"

definition MavenArtifactStatusDie_DieReleaseYAML where
  "MavenArtifactStatusDie_DieReleaseYAML L = die_DieReleaseYAML (MavenArtifactStatusDie L)"

definition MavenArtifactStatusDie_DieReleaseRawExtension where
  "MavenArtifactStatusDie_DieReleaseRawExtension L = die_DieReleaseRawExtension (MavenArtifactStatusDie L)"

definition MavenArtifactStatusDie_Status where
  "MavenArtifactStatusDie_Status L d (v :: 'x) = MavenArtifactStatusDie_DieStamp L d (store CMavenArtifactStatus un_MavenArtifactStatus (\<lambda>r. r\<lparr>smst_Status := v\<rparr>))"

definition MavenArtifactStatusDie_URL where
  "MavenArtifactStatusDie_URL L d (v :: string) = MavenArtifactStatusDie_DieStamp L d (store CMavenArtifactStatus un_MavenArtifactStatus (\<lambda>r. r\<lparr>smst_URL := v\<rparr>))"

definition MavenArtifactStatusDie_Artifact where
  "MavenArtifactStatusDie_Artifact L d (v :: addr option) = MavenArtifactStatusDie_DieStamp L d (store CMavenArtifactStatus un_MavenArtifactStatus (\<lambda>r. r\<lparr>smst_Artifact := v\<rparr>))"

definition MavenArtifactStatusDie_ArtifactDie where
  "MavenArtifactStatusDie_ArtifactDie L blank d fn =
     MavenArtifactStatusDie_DieStamp L d (\<lambda>r h.
       case ArtifactDie_DieImmutable blank False h of
         (b, h1) \<Rightarrow> (case ArtifactDie_DieFeedPtr b (smst_Artifact (un_MavenArtifactStatus (h1 ! r))) h1 of
         (a, h2) \<Rightarrow> (case ArtifactDie_DieReleasePtr a (fn a h2) of
         (q, h3) \<Rightarrow> store CMavenArtifactStatus un_MavenArtifactStatus (\<lambda>s. s\<lparr>smst_Artifact := Some q\<rparr>) r h3)))"

text \<open>\<open>assign_generation\<close> is the assignment to the field of the embedded \<^verbatim>\<open>apis.Status\<close>.\<close>

definition MavenArtifactStatusDie_ObservedGeneration where
  "MavenArtifactStatusDie_ObservedGeneration L assign_generation d (v :: int) =
     MavenArtifactStatusDie_DieStamp L d (store CMavenArtifactStatus un_MavenArtifactStatus (\<lambda>r. r\<lparr>smst_Status := assign_generation v (smst_Status r)\<rparr>))"

section \<open>MavenArtifactDie\<close>

definition MavenArtifactDie :: "('x, 'l) lib \<Rightarrow> ('x MavenArtifact_s, 'x, 'l) die_type" where
  "MavenArtifactDie L =
     \<lparr>dt_C = CMavenArtifact, dt_un = un_MavenArtifact, dt_Die = CMavenArtifactDie, dt_unDie = un_MavenArtifactDie,
      dt_DeepCopy = MavenArtifact_DeepCopyInto L, dt_zero = zero_MavenArtifact L,
      dt_Freeze = (\<lambda>r. Some (FreezeObjectMeta L (sma_ObjectMeta r)))\<rparr>"

definition MavenArtifactBlank where
  "MavenArtifactBlank L = die_Blank (MavenArtifactDie L) (Some (zero_FrozenObjectMeta L))"

definition MavenArtifactDie_DieImmutable where
  "MavenArtifactDie_DieImmutable L = die_DieImmutable (MavenArtifactDie L)"

definition MavenArtifactDie_DieFeed where
  "MavenArtifactDie_DieFeed L = die_DieFeed (MavenArtifactDie L)"

definition MavenArtifactDie_DieFeedPtr where
  "MavenArtifactDie_DieFeedPtr L = die_DieFeedPtr (MavenArtifactDie L)"

definition MavenArtifactDie_DieRelease where
  "MavenArtifactDie_DieRelease L = die_DieRelease (MavenArtifactDie L)"

definition MavenArtifactDie_DieReleasePtr where
  "MavenArtifactDie_DieReleasePtr L = die_DieReleasePtr (MavenArtifactDie L)"

definition MavenArtifactDie_DieStamp where
  "MavenArtifactDie_DieStamp L = die_DieStamp (MavenArtifactDie L)"

definition MavenArtifactDie_DieWith where
  "MavenArtifactDie_DieWith L = die_DieWith (MavenArtifactDie L)"

definition MavenArtifactDie_DeepCopy where
  "MavenArtifactDie_DeepCopy L = die_DeepCopy (MavenArtifactDie L)"

definition MavenArtifactDie_DieSeal where
  "MavenArtifactDie_DieSeal L = die_DieSeal (MavenArtifactDie L)"

definition MavenArtifactDie_DieSealFeed where
  "MavenArtifactDie_DieSealFeed L = die_DieSealFeed (MavenArtifactDie L)"

definition MavenArtifactDie_DieSealFeedPtr where
  "MavenArtifactDie_DieSealFeedPtr L = die_DieSealFeedPtr (MavenArtifactDie L)"

definition MavenArtifactDie_DieSealRelease where
  "MavenArtifactDie_DieSealRelease L = die_DieSealRelease (MavenArtifactDie L)"

definition MavenArtifactDie_DieSealReleasePtr where
  "MavenArtifactDie_DieSealReleasePtr L = die_DieSealReleasePtr (MavenArtifactDie L)"

definition MavenArtifactDie_DieDiff where
  "MavenArtifactDie_DieDiff L = die_DieDiff (MavenArtifactDie L)"

definition MavenArtifactDie_DiePatch where
  "MavenArtifactDie_DiePatch L = die_DiePatch (MavenArtifactDie L)"

definition MavenArtifactDie_DieStampAt where
  "MavenArtifactDie_DieStampAt L = die_DieStampAt (MavenArtifactDie L)"

definition MavenArtifactDie_DieFeedJSON where
  "MavenArtifactDie_DieFeedJSON L = die_DieFeedJSON (MavenArtifactDie L)"

definition MavenArtifactDie_DieFeedYAML where
  "MavenArtifactDie_DieFeedYAML L = die_DieFeedYAML (MavenArtifactDie L)"

definition MavenArtifactDie_DieFeedYAMLFile where
  "MavenArtifactDie_DieFeedYAMLFile L = die_DieFeedYAMLFile (MavenArtifactDie L)"

definition MavenArtifactDie_DieFeedRawExtension where
  "MavenArtifactDie_DieFeedRawExtension L = die_DieFeedRawExtension (MavenArtifactDie L)"

definition MavenArtifactDie_DieReleaseJSON where
  "MavenArtifactDie_DieReleaseJSON L = die_DieReleaseJSON (MavenArtifactDie L)"

definition MavenArtifactDie_DieReleaseYAML where
  "MavenArtifactDie_DieReleaseYAML L = die_DieReleaseYAML (MavenArtifactDie L)"

definition MavenArtifactDie_DieReleaseRawExtension where
  "MavenArtifactDie_DieReleaseRawExtension L = die_DieReleaseRawExtension (MavenArtifactDie L)"

definition MavenArtifactDie_DieReleaseUnstructured where
  "MavenArtifactDie_DieReleaseUnstructured L = die_DieReleaseUnstructured (MavenArtifactDie L)"

definition MavenArtifactDie_DeepCopyObject where
  "MavenArtifactDie_DeepCopyObject L = die_DeepCopyObject (MavenArtifactDie L)"

definition MavenArtifactDie_GetObjectKind where
  "MavenArtifactDie_GetObjectKind L = die_GetObjectKind (MavenArtifactDie L)"

definition MavenArtifactDie_MarshalJSON where
  "MavenArtifactDie_MarshalJSON L = die_MarshalJSON (MavenArtifactDie L)"

definition MavenArtifactDie_UnmarshalJSON where
  "MavenArtifactDie_UnmarshalJSON L = die_UnmarshalJSON (MavenArtifactDie L)"

definition MavenArtifactDie_APIVersion where
  "MavenArtifactDie_APIVersion L d (v :: string) = MavenArtifactDie_DieStamp L d (store CMavenArtifact un_MavenArtifact (\<lambda>r. r\<lparr>sma_TypeMeta := (sma_TypeMeta r)\<lparr>tm_APIVersion := v\<rparr>\<rparr>))"

definition MavenArtifactDie_Kind where
  "MavenArtifactDie_Kind L d (v :: string) = MavenArtifactDie_DieStamp L d (store CMavenArtifact un_MavenArtifact (\<lambda>r. r\<lparr>sma_TypeMeta := (sma_TypeMeta r)\<lparr>tm_Kind := v\<rparr>\<rparr>))"

definition MavenArtifactDie_TypeMetadata where
  "MavenArtifactDie_TypeMetadata L d (v :: TypeMeta) = MavenArtifactDie_DieStamp L d (store CMavenArtifact un_MavenArtifact (\<lambda>r. r\<lparr>sma_TypeMeta := v\<rparr>))"

definition MavenArtifactDie_Metadata where
  "MavenArtifactDie_Metadata L d (v :: 'x) = MavenArtifactDie_DieStamp L d (store CMavenArtifact un_MavenArtifact (\<lambda>r. r\<lparr>sma_ObjectMeta := v\<rparr>))"

definition MavenArtifactDie_Spec where
  "MavenArtifactDie_Spec L d (v :: MavenArtifactSpec_s) = MavenArtifactDie_DieStamp L d (store CMavenArtifact un_MavenArtifact (\<lambda>r. r\<lparr>sma_Spec := v\<rparr>))"

definition MavenArtifactDie_Status where
  "MavenArtifactDie_Status L d (v :: 'x MavenArtifactStatus_s) = MavenArtifactDie_DieStamp L d (store CMavenArtifact un_MavenArtifact (\<lambda>r. r\<lparr>sma_Status := v\<rparr>))"

definition MavenArtifactDie_SpecDie where
  "MavenArtifactDie_SpecDie L blank d fn =
     MavenArtifactDie_DieStamp L d (die_nested MavenArtifactSpecDie blank CMavenArtifact un_MavenArtifact sma_Spec (\<lambda>q r. r\<lparr>sma_Spec := q\<rparr>) fn)"

definition MavenArtifactDie_StatusDie where
  "MavenArtifactDie_StatusDie L blank d fn =
     MavenArtifactDie_DieStamp L d (die_nested (MavenArtifactStatusDie L) blank CMavenArtifact un_MavenArtifact sma_Status (\<lambda>q r. r\<lparr>sma_Status := q\<rparr>) fn)"

text \<open>\<open>edit\<close> is a mutable die of the library fed with the field, passed to the callback and released.\<close>

definition MavenArtifactDie_TypeMetadataDie where
  "MavenArtifactDie_TypeMetadataDie L d edit =
     MavenArtifactDie_DieStamp L d (\<lambda>r h.
       case edit (sma_TypeMeta (un_MavenArtifact (h ! r))) h of (v, h1) \<Rightarrow> store CMavenArtifact un_MavenArtifact (\<lambda>s. s\<lparr>sma_TypeMeta := v\<rparr>) r h1)"

definition MavenArtifactDie_MetadataDie where
  "MavenArtifactDie_MetadataDie L d edit =
     MavenArtifactDie_DieStamp L d (\<lambda>r h.
       case edit (sma_ObjectMeta (un_MavenArtifact (h ! r))) h of (v, h1) \<Rightarrow> store CMavenArtifact un_MavenArtifact (\<lambda>s. s\<lparr>sma_ObjectMeta := v\<rparr>) r h1)"

end
