(* ===== verification/Dies.thy ===== *)
theory Dies
  imports Dies_Maven
begin

text \<open>
  What the dies promise, for every type: immutable dies are persistent values. The locale \<open>dies\<close> is
  interpreted on the die of each type; those that embed library structs need the deep copies of these
  to keep their contract.
\<close>

section \<open>Every die keeps the laws\<close>

definition zero_laws where
  "zero_laws L om st \<longleftrightarrow> (\<forall>h. ok_of om h (zero_ObjectMeta L) \<and> ok_of st h (zero_Status L))"

lemma zero_structs_ok:
  "ok_of Flat h v" "ok_of Artifact_shape h zero_Artifact" "ok_of ImageRepositorySpec_shape h zero_ImageRepositorySpec"
  "ok_of MavenArtifactSpec_shape h zero_MavenArtifactSpec"
  by (simp_all add: Flat_def flat_ok_def Artifact_shape_def Struct_def ImageRepositorySpec_shape_def Slice_def
      zero_ImageRepositorySpec_def slice_ok_def MavenArtifactSpec_shape_def zero_MavenArtifactSpec_def Ptr_def ptr_ok_def)

lemma zero_objects_ok:
  assumes "zero_laws L om st"
  shows "ok_of (ImageRepositoryStatus_shape st) h (zero_ImageRepositoryStatus L)"
    and "ok_of (MavenArtifactStatus_shape st) h (zero_MavenArtifactStatus L)"
    and "ok_of (ImageRepository_shape om st) h (zero_ImageRepository L)"
    and "ok_of (MavenArtifact_shape om st) h (zero_MavenArtifact L)"
  using assms zero_structs_ok
  by (simp_all add: zero_laws_def Struct_def Pair_def pair_ok_def ArtifactPtr_def Ptr_def ptr_ok_def
      ImageRepositoryStatus_shape_def MavenArtifactStatus_shape_def ImageRepository_shape_def MavenArtifact_shape_def
      zero_ImageRepositoryStatus_def zero_MavenArtifactStatus_def zero_ImageRepository_def zero_MavenArtifact_def)

interpretation artifact_die: dies ArtifactDie Artifact_shape is_CArtifact is_CArtifactDie
  by unfold_locales (simp_all add: ArtifactDie_def cells_def zero_structs_ok copies_artifact copies_specs copies_unit)

interpretation image_spec_die: dies ImageRepositorySpecDie ImageRepositorySpec_shape is_CImageRepositorySpec is_CImageRepositorySpecDie
  by unfold_locales (simp_all add: ImageRepositorySpecDie_def cells_def zero_structs_ok copies_artifact copies_specs copies_unit)

interpretation maven_type_die: dies MavenArtifactTypeDie Flat is_CMavenArtifactType is_CMavenArtifactTypeDie
  by unfold_locales (simp_all add: MavenArtifactTypeDie_def cells_def zero_structs_ok copies_artifact copies_specs copies_unit)

interpretation repository_die: dies RepositoryDie Flat is_CRepository is_CRepositoryDie
  by unfold_locales (simp_all add: RepositoryDie_def cells_def zero_structs_ok copies_artifact copies_specs copies_unit)

interpretation maven_spec_die: dies MavenArtifactSpecDie MavenArtifactSpec_shape is_CMavenArtifactSpec is_CMavenArtifactSpecDie
  by unfold_locales (simp_all add: MavenArtifactSpecDie_def cells_def zero_structs_ok copies_artifact copies_specs copies_unit)

lemma object_dies:
  assumes "lib_laws L om lm st" and "zero_laws L om st"
  shows "dies (ImageRepositoryStatusDie L) (ImageRepositoryStatus_shape st) is_CImageRepositoryStatus is_CImageRepositoryStatusDie"
    and "dies (ImageRepositoryDie L) (ImageRepository_shape om st) is_CImageRepository is_CImageRepositoryDie"
    and "dies (MavenArtifactStatusDie L) (MavenArtifactStatus_shape st) is_CMavenArtifactStatus is_CMavenArtifactStatusDie"
    and "dies (MavenArtifactDie L) (MavenArtifact_shape om st) is_CMavenArtifact is_CMavenArtifactDie"
  by unfold_locales (simp_all add: ImageRepositoryStatusDie_def ImageRepositoryDie_def MavenArtifactStatusDie_def MavenArtifactDie_def
      cells_def zero_objects_ok [OF assms(2)] copies_statuses [OF assms(1)] copies_objects [OF assms(1)])

section \<open>Setters\<close>

lemma shape_simps:
  "ok_of (Struct get rest t) h s = ok_of t h (get s)" "refs_of (Struct get rest t) h s = refs_of t h (get s)"
  "ok_of (Pair t u) h (x, y) \<longleftrightarrow> ok_of t h x \<and> ok_of u h y" "refs_of (Pair t u) h (x, y) = refs_of t h x \<union> refs_of u h y"
  "ok_of Flat h z" "refs_of Flat h z = {}"
  by (simp_all add: Struct_def Pair_def pair_ok_def pair_refs_def Flat_def flat_ok_def flat_refs_def)

lemma grown_value:
  assumes "copies t c" and "ok_of t h v" and "prefix h h1"
  shows "ok_of t h1 v \<and> refs_of t h1 v \<subseteq> {..<length h}"
proof -
  from assms(1) have "deep_copy (refs_of t) (val_of t) (ok_of t) c" by (simp add: copies_def)
  then have g: "go_type (refs_of t) (val_of t) (ok_of t)" by (rule deep_copy.axioms(1))
  show ?thesis using go_type.grown [OF g assms(2,3)] go_type.in_heap [OF g assms(2)] by simp
qed

text \<open>The contract of setters, for each type of die.\<close>

abbreviation sets_image where
  "sets_image L om st \<equiv> sets (ImageRepositoryDie L) is_CImageRepositoryDie (ImageRepository_shape om st)"

abbreviation sets_image_spec where
  "sets_image_spec \<equiv> sets ImageRepositorySpecDie is_CImageRepositorySpecDie ImageRepositorySpec_shape"

abbreviation sets_image_status where
  "sets_image_status L st \<equiv> sets (ImageRepositoryStatusDie L) is_CImageRepositoryStatusDie (ImageRepositoryStatus_shape st)"

abbreviation sets_artifact where
  "sets_artifact \<equiv> sets ArtifactDie is_CArtifactDie Artifact_shape"

abbreviation sets_maven where
  "sets_maven L om st \<equiv> sets (MavenArtifactDie L) is_CMavenArtifactDie (MavenArtifact_shape om st)"

abbreviation sets_maven_spec where
  "sets_maven_spec \<equiv> sets MavenArtifactSpecDie is_CMavenArtifactSpecDie MavenArtifactSpec_shape"

abbreviation sets_maven_status where
  "sets_maven_status L st \<equiv> sets (MavenArtifactStatusDie L) is_CMavenArtifactStatusDie (MavenArtifactStatus_shape st)"

abbreviation sets_maven_type where
  "sets_maven_type \<equiv> sets MavenArtifactTypeDie is_CMavenArtifactTypeDie Flat"

abbreviation sets_repository where
  "sets_repository \<equiv> sets RepositoryDie is_CRepositoryDie Flat"

lemma image_die_cells: "CImageRepository = dt_C (ImageRepositoryDie L)" "un_ImageRepository = dt_un (ImageRepositoryDie L)"
  by (simp_all add: ImageRepositoryDie_def)

lemma image_spec_die_cells: "CImageRepositorySpec = dt_C ImageRepositorySpecDie" "un_ImageRepositorySpec = dt_un ImageRepositorySpecDie"
  by (simp_all add: ImageRepositorySpecDie_def)

lemma image_status_die_cells: "CImageRepositoryStatus = dt_C (ImageRepositoryStatusDie L)" "un_ImageRepositoryStatus = dt_un (ImageRepositoryStatusDie L)"
  by (simp_all add: ImageRepositoryStatusDie_def)

lemma artifact_die_cells: "CArtifact = dt_C ArtifactDie" "un_Artifact = dt_un ArtifactDie"
  by (simp_all add: ArtifactDie_def)

lemma maven_die_cells: "CMavenArtifact = dt_C (MavenArtifactDie L)" "un_MavenArtifact = dt_un (MavenArtifactDie L)"
  by (simp_all add: MavenArtifactDie_def)

lemma maven_spec_die_cells: "CMavenArtifactSpec = dt_C MavenArtifactSpecDie" "un_MavenArtifactSpec = dt_un MavenArtifactSpecDie"
  by (simp_all add: MavenArtifactSpecDie_def)

lemma maven_status_die_cells: "CMavenArtifactStatus = dt_C (MavenArtifactStatusDie L)" "un_MavenArtifactStatus = dt_un (MavenArtifactStatusDie L)"
  by (simp_all add: MavenArtifactStatusDie_def)

lemma maven_type_die_cells: "CMavenArtifactType = dt_C MavenArtifactTypeDie" "un_MavenArtifactType = dt_un MavenArtifactTypeDie"
  by (simp_all add: MavenArtifactTypeDie_def)

lemma repository_die_cells: "CRepository = dt_C RepositoryDie" "un_Repository = dt_un RepositoryDie"
  by (simp_all add: RepositoryDie_def)

lemma image_setters:
  assumes "lib_laws L om lm st" and "zero_laws L om st"
  shows "sets_image L om st h (\<lambda>d. ImageRepositoryDie_APIVersion L d a) (\<lambda>r. r\<lparr>sir_TypeMeta := (sir_TypeMeta r)\<lparr>tm_APIVersion := a\<rparr>\<rparr>)"
    and "sets_image L om st h (\<lambda>d. ImageRepositoryDie_Kind L d a) (\<lambda>r. r\<lparr>sir_TypeMeta := (sir_TypeMeta r)\<lparr>tm_Kind := a\<rparr>\<rparr>)"
    and "sets_image L om st h (\<lambda>d. ImageRepositoryDie_TypeMetadata L d tm) (\<lambda>r. r\<lparr>sir_TypeMeta := tm\<rparr>)"
    and "ok_of om h x \<longrightarrow> sets_image L om st h (\<lambda>d. ImageRepositoryDie_Metadata L d x) (\<lambda>r. r\<lparr>sir_ObjectMeta := x\<rparr>)"
    and "ok_of ImageRepositorySpec_shape h isp \<longrightarrow> sets_image L om st h (\<lambda>d. ImageRepositoryDie_Spec L d isp) (\<lambda>r. r\<lparr>sir_Spec := isp\<rparr>)"
    and "ok_of (ImageRepositoryStatus_shape st) h ist \<longrightarrow> sets_image L om st h (\<lambda>d. ImageRepositoryDie_Status L d ist) (\<lambda>r. r\<lparr>sir_Status := ist\<rparr>)"
proof -
  have lib: "copies om (ObjectMeta_DeepCopyInto L)" "copies st (Status_DeepCopyInto L)"
    using assms(1) by (simp_all add: lib_laws_def)
  note g = grown_value [OF lib(1)]
    grown_value [OF copies_specs(1)]
    grown_value [OF copies_statuses(1) [OF assms(1)]]
  show "sets_image L om st h (\<lambda>d. ImageRepositoryDie_APIVersion L d a) (\<lambda>r. r\<lparr>sir_TypeMeta := (sir_TypeMeta r)\<lparr>tm_APIVersion := a\<rparr>\<rparr>)"
    "sets_image L om st h (\<lambda>d. ImageRepositoryDie_Kind L d a) (\<lambda>r. r\<lparr>sir_TypeMeta := (sir_TypeMeta r)\<lparr>tm_Kind := a\<rparr>\<rparr>)"
    "sets_image L om st h (\<lambda>d. ImageRepositoryDie_TypeMetadata L d tm) (\<lambda>r. r\<lparr>sir_TypeMeta := tm\<rparr>)"
    "ok_of om h x \<longrightarrow> sets_image L om st h (\<lambda>d. ImageRepositoryDie_Metadata L d x) (\<lambda>r. r\<lparr>sir_ObjectMeta := x\<rparr>)"
    "ok_of ImageRepositorySpec_shape h isp \<longrightarrow> sets_image L om st h (\<lambda>d. ImageRepositoryDie_Spec L d isp) (\<lambda>r. r\<lparr>sir_Spec := isp\<rparr>)"
    "ok_of (ImageRepositoryStatus_shape st) h ist \<longrightarrow> sets_image L om st h (\<lambda>d. ImageRepositoryDie_Status L d ist) (\<lambda>r. r\<lparr>sir_Status := ist\<rparr>)"
    unfolding ImageRepositoryDie_APIVersion_def ImageRepositoryDie_Kind_def ImageRepositoryDie_TypeMetadata_def ImageRepositoryDie_Metadata_def ImageRepositoryDie_Spec_def ImageRepositoryDie_Status_def ImageRepositoryDie_DieStamp_def
      image_die_cells [of L]
    by ((rule impI)?, rule dies.sets_law [OF object_dies(2) [OF assms]], (auto simp: shape_simps ImageRepository_shape_def dest: g)[1])+
qed

lemma image_spec_setters:
  shows "sets_image_spec h (\<lambda>d. ImageRepositorySpecDie_Image d a) (\<lambda>r. r\<lparr>sis_Image := a\<rparr>)"
    and "sets_image_spec h (\<lambda>d. ImageRepositorySpecDie_Interval d i) (\<lambda>r. r\<lparr>sis_Interval := i\<rparr>)"
    and "ok_of (Slice is_CRefs un_Refs Flat) h sl \<longrightarrow> sets_image_spec h (\<lambda>d. ImageRepositorySpecDie_ImagePullSecrets d sl) (\<lambda>r. r\<lparr>sis_ImagePullSecrets := sl\<rparr>)"
    and "sets_image_spec h (\<lambda>d. ImageRepositorySpecDie_ServiceAccountName d a) (\<lambda>r. r\<lparr>sis_ServiceAccountName := a\<rparr>)"
  unfolding ImageRepositorySpecDie_Image_def ImageRepositorySpecDie_Interval_def ImageRepositorySpecDie_ImagePullSecrets_def ImageRepositorySpecDie_ServiceAccountName_def ImageRepositorySpecDie_DieStamp_def
    image_spec_die_cells
  by ((rule impI)?, rule image_spec_die.sets_law, (auto simp: shape_simps ImageRepositorySpec_shape_def dest: grown_value [OF copies_array [OF cells_of(3)]])[1])+

lemma image_status_setters:
  assumes "lib_laws L om lm st" and "zero_laws L om st"
  shows "ok_of st h x \<longrightarrow> sets_image_status L st h (\<lambda>d. ImageRepositoryStatusDie_Status L d x) (\<lambda>r. r\<lparr>sist_Status := x\<rparr>)"
    and "sets_image_status L st h (\<lambda>d. ImageRepositoryStatusDie_URL L d a) (\<lambda>r. r\<lparr>sist_URL := a\<rparr>)"
    and "ok_of ArtifactPtr h q \<longrightarrow> sets_image_status L st h (\<lambda>d. ImageRepositoryStatusDie_Artifact L d q) (\<lambda>r. r\<lparr>sist_Artifact := q\<rparr>)"
proof -
  have lib: "copies om (ObjectMeta_DeepCopyInto L)" "copies st (Status_DeepCopyInto L)"
    using assms(1) by (simp_all add: lib_laws_def)
  note g = grown_value [OF lib(2)]
    grown_value [OF copies_artifact(2)]
  show "ok_of st h x \<longrightarrow> sets_image_status L st h (\<lambda>d. ImageRepositoryStatusDie_Status L d x) (\<lambda>r. r\<lparr>sist_Status := x\<rparr>)"
    "sets_image_status L st h (\<lambda>d. ImageRepositoryStatusDie_URL L d a) (\<lambda>r. r\<lparr>sist_URL := a\<rparr>)"
    "ok_of ArtifactPtr h q \<longrightarrow> sets_image_status L st h (\<lambda>d. ImageRepositoryStatusDie_Artifact L d q) (\<lambda>r. r\<lparr>sist_Artifact := q\<rparr>)"
    unfolding ImageRepositoryStatusDie_Status_def ImageRepositoryStatusDie_URL_def ImageRepositoryStatusDie_Artifact_def ImageRepositoryStatusDie_DieStamp_def
      image_status_die_cells [of L]
    by ((rule impI)?, rule dies.sets_law [OF object_dies(1) [OF assms]], (auto simp: shape_simps ImageRepositoryStatus_shape_def dest: g)[1])+
qed

lemma artifact_setters:
  shows "sets_artifact h (\<lambda>d. ArtifactDie_Path d a) (\<lambda>r. r\<lparr>a_Path := a\<rparr>)"
    and "sets_artifact h (\<lambda>d. ArtifactDie_URL d a) (\<lambda>r. r\<lparr>a_URL := a\<rparr>)"
    and "sets_artifact h (\<lambda>d. ArtifactDie_Revision d a) (\<lambda>r. r\<lparr>a_Revision := a\<rparr>)"
    and "sets_artifact h (\<lambda>d. ArtifactDie_Checksum d a) (\<lambda>r. r\<lparr>a_Checksum := a\<rparr>)"
    and "sets_artifact h (\<lambda>d. ArtifactDie_LastUpdateTime d i) (\<lambda>r. r\<lparr>a_LastUpdateTime := i\<rparr>)"
  unfolding ArtifactDie_Path_def ArtifactDie_URL_def ArtifactDie_Revision_def ArtifactDie_Checksum_def ArtifactDie_LastUpdateTime_def ArtifactDie_DieStamp_def
    artifact_die_cells
  by ((rule impI)?, rule artifact_die.sets_law, (auto simp: shape_simps Artifact_shape_def)[1])+

lemma maven_setters:
  assumes "lib_laws L om lm st" and "zero_laws L om st"
  shows "sets_maven L om st h (\<lambda>d. MavenArtifactDie_APIVersion L d a) (\<lambda>r. r\<lparr>sma_TypeMeta := (sma_TypeMeta r)\<lparr>tm_APIVersion := a\<rparr>\<rparr>)"
    and "sets_maven L om st h (\<lambda>d. MavenArtifactDie_Kind L d a) (\<lambda>r. r\<lparr>sma_TypeMeta := (sma_TypeMeta r)\<lparr>tm_Kind := a\<rparr>\<rparr>)"
    and "sets_maven L om st h (\<lambda>d. MavenArtifactDie_TypeMetadata L d tm) (\<lambda>r. r\<lparr>sma_TypeMeta := tm\<rparr>)"
    and "ok_of om h x \<longrightarrow> sets_maven L om st h (\<lambda>d. MavenArtifactDie_Metadata L d x) (\<lambda>r. r\<lparr>sma_ObjectMeta := x\<rparr>)"
    and "ok_of MavenArtifactSpec_shape h msp \<longrightarrow> sets_maven L om st h (\<lambda>d. MavenArtifactDie_Spec L d msp) (\<lambda>r. r\<lparr>sma_Spec := msp\<rparr>)"
    and "ok_of (MavenArtifactStatus_shape st) h mst \<longrightarrow> sets_maven L om st h (\<lambda>d. MavenArtifactDie_Status L d mst) (\<lambda>r. r\<lparr>sma_Status := mst\<rparr>)"
proof -
  have lib: "copies om (ObjectMeta_DeepCopyInto L)" "copies st (Status_DeepCopyInto L)"
    using assms(1) by (simp_all add: lib_laws_def)
  note g = grown_value [OF lib(1)]
    grown_value [OF copies_specs(2)]
    grown_value [OF copies_statuses(2) [OF assms(1)]]
  show "sets_maven L om st h (\<lambda>d. MavenArtifactDie_APIVersion L d a) (\<lambda>r. r\<lparr>sma_TypeMeta := (sma_TypeMeta r)\<lparr>tm_APIVersion := a\<rparr>\<rparr>)"
    "sets_maven L om st h (\<lambda>d. MavenArtifactDie_Kind L d a) (\<lambda>r. r\<lparr>sma_TypeMeta := (sma_TypeMeta r)\<lparr>tm_Kind := a\<rparr>\<rparr>)"
    "sets_maven L om st h (\<lambda>d. MavenArtifactDie_TypeMetadata L d tm) (\<lambda>r. r\<lparr>sma_TypeMeta := tm\<rparr>)"
    "ok_of om h x \<longrightarrow> sets_maven L om st h (\<lambda>d. MavenArtifactDie_Metadata L d x) (\<lambda>r. r\<lparr>sma_ObjectMeta := x\<rparr>)"
    "ok_of MavenArtifactSpec_shape h msp \<longrightarrow> sets_maven L om st h (\<lambda>d. MavenArtifactDie_Spec L d msp) (\<lambda>r. r\<lparr>sma_Spec := msp\<rparr>)"
    "ok_of (MavenArtifactStatus_shape st) h mst \<longrightarrow> sets_maven L om st h (\<lambda>d. MavenArtifactDie_Status L d mst) (\<lambda>r. r\<lparr>sma_Status := mst\<rparr>)"
    unfolding MavenArtifactDie_APIVersion_def MavenArtifactDie_Kind_def MavenArtifactDie_TypeMetadata_def MavenArtifactDie_Metadata_def MavenArtifactDie_Spec_def MavenArtifactDie_Status_def MavenArtifactDie_DieStamp_def
      maven_die_cells [of L]
    by ((rule impI)?, rule dies.sets_law [OF object_dies(4) [OF assms]], (auto simp: shape_simps MavenArtifact_shape_def dest: g)[1])+
qed

lemma maven_spec_setters:
  shows "sets_maven_spec h (\<lambda>d. MavenArtifactSpecDie_Artifact d t) (\<lambda>r. r\<lparr>sms_Artifact := t\<rparr>)"
    and "sets_maven_spec h (\<lambda>d. MavenArtifactSpecDie_Repository d rp) (\<lambda>r. r\<lparr>sms_Repository := rp\<rparr>)"
    and "sets_maven_spec h (\<lambda>d. MavenArtifactSpecDie_Interval d i) (\<lambda>r. r\<lparr>sms_Interval := i\<rparr>)"
    and "ok_of (Ptr is_CDuration un_Duration Flat) h q \<longrightarrow> sets_maven_spec h (\<lambda>d. MavenArtifactSpecDie_Timeout d q) (\<lambda>r. r\<lparr>sms_Timeout := q\<rparr>)"
  unfolding MavenArtifactSpecDie_Artifact_def MavenArtifactSpecDie_Repository_def MavenArtifactSpecDie_Interval_def MavenArtifactSpecDie_Timeout_def MavenArtifactSpecDie_DieStamp_def
    maven_spec_die_cells
  by ((rule impI)?, rule maven_spec_die.sets_law, (auto simp: shape_simps MavenArtifactSpec_shape_def dest: grown_value [OF copies_ptr [OF copies_assign cells_of(2)]])[1])+

lemma maven_status_setters:
  assumes "lib_laws L om lm st" and "zero_laws L om st"
  shows "ok_of st h x \<longrightarrow> sets_maven_status L st h (\<lambda>d. MavenArtifactStatusDie_Status L d x) (\<lambda>r. r\<lparr>smst_Status := x\<rparr>)"
    and "sets_maven_status L st h (\<lambda>d. MavenArtifactStatusDie_URL L d a) (\<lambda>r. r\<lparr>smst_URL := a\<rparr>)"
    and "ok_of ArtifactPtr h q \<longrightarrow> sets_maven_status L st h (\<lambda>d. MavenArtifactStatusDie_Artifact L d q) (\<lambda>r. r\<lparr>smst_Artifact := q\<rparr>)"
proof -
  have lib: "copies om (ObjectMeta_DeepCopyInto L)" "copies st (Status_DeepCopyInto L)"
    using assms(1) by (simp_all add: lib_laws_def)
  note g = grown_value [OF lib(2)]
    grown_value [OF copies_artifact(2)]
  show "ok_of st h x \<longrightarrow> sets_maven_status L st h (\<lambda>d. MavenArtifactStatusDie_Status L d x) (\<lambda>r. r\<lparr>smst_Status := x\<rparr>)"
    "sets_maven_status L st h (\<lambda>d. MavenArtifactStatusDie_URL L d a) (\<lambda>r. r\<lparr>smst_URL := a\<rparr>)"
    "ok_of ArtifactPtr h q \<longrightarrow> sets_maven_status L st h (\<lambda>d. MavenArtifactStatusDie_Artifact L d q) (\<lambda>r. r\<lparr>smst_Artifact := q\<rparr>)"
    unfolding MavenArtifactStatusDie_Status_def MavenArtifactStatusDie_URL_def MavenArtifactStatusDie_Artifact_def MavenArtifactStatusDie_DieStamp_def
      maven_status_die_cells [of L]
    by ((rule impI)?, rule dies.sets_law [OF object_dies(3) [OF assms]], (auto simp: shape_simps MavenArtifactStatus_shape_def dest: g)[1])+
qed

lemma maven_type_setters:
  shows "sets_maven_type h (\<lambda>d. MavenArtifactTypeDie_GroupId d a) (\<lambda>r. r\<lparr>GroupId := a\<rparr>)"
    and "sets_maven_type h (\<lambda>d. MavenArtifactTypeDie_Version d a) (\<lambda>r. r\<lparr>at_Version := a\<rparr>)"
    and "sets_maven_type h (\<lambda>d. MavenArtifactTypeDie_ArtifactId d a) (\<lambda>r. r\<lparr>ArtifactId := a\<rparr>)"
    and "sets_maven_type h (\<lambda>d. MavenArtifactTypeDie_Type d a) (\<lambda>r. r\<lparr>at_Type := a\<rparr>)"
    and "sets_maven_type h (\<lambda>d. MavenArtifactTypeDie_Classifier d a) (\<lambda>r. r\<lparr>Classifier := a\<rparr>)"
  unfolding MavenArtifactTypeDie_GroupId_def MavenArtifactTypeDie_Version_def MavenArtifactTypeDie_ArtifactId_def MavenArtifactTypeDie_Type_def MavenArtifactTypeDie_Classifier_def MavenArtifactTypeDie_DieStamp_def
    maven_type_die_cells
  by ((rule impI)?, rule maven_type_die.sets_law, (auto simp: shape_simps)[1])+

lemma repository_setters:
  shows "sets_repository h (\<lambda>d. RepositoryDie_URL d a) (\<lambda>r. r\<lparr>repo_URL := a\<rparr>)"
    and "sets_repository h (\<lambda>d. RepositoryDie_SecretRef d a) (\<lambda>r. r\<lparr>SecretRef := a\<rparr>)"
  unfolding RepositoryDie_URL_def RepositoryDie_SecretRef_def RepositoryDie_DieStamp_def
    repository_die_cells
  by ((rule impI)?, rule repository_die.sets_law, (auto simp: shape_simps)[1])+

section \<open>Properties\<close>

text \<open>
  C38: immutable dies are persistent. For each of the nine types no method that feeds, releases, copies
  or seals an immutable die writes a cell that existed, so all dies, resources and seals made before
  stay what they are; the result is a new die with the state the method names; a released resource
  shares no cell with any die; and the seal is the resource the die was sealed with, however the die
  is stamped afterwards.
\<close>

theorem dies_persistent:
  assumes "lib_laws L om lm st" and "zero_laws L om st"
  shows "persistent (ImageRepositoryDie L) is_CImageRepositoryDie (ImageRepository_shape om st) (ImageRepositoryDie_DieImmutable L) (ImageRepositoryDie_DieFeed L)
      (ImageRepositoryDie_DieRelease L) (ImageRepositoryDie_DeepCopy L) \<and>
    seals (ImageRepositoryDie L) is_CImageRepository is_CImageRepositoryDie (ImageRepository_shape om st) (ImageRepositoryDie_DieSeal L) (ImageRepositoryDie_DieStamp L)
      (ImageRepositoryDie_DieSealRelease L) \<and>
    persistent ImageRepositorySpecDie is_CImageRepositorySpecDie ImageRepositorySpec_shape ImageRepositorySpecDie_DieImmutable ImageRepositorySpecDie_DieFeed
      ImageRepositorySpecDie_DieRelease ImageRepositorySpecDie_DeepCopy \<and>
    seals ImageRepositorySpecDie is_CImageRepositorySpec is_CImageRepositorySpecDie ImageRepositorySpec_shape ImageRepositorySpecDie_DieSeal ImageRepositorySpecDie_DieStamp
      ImageRepositorySpecDie_DieSealRelease \<and>
    persistent (ImageRepositoryStatusDie L) is_CImageRepositoryStatusDie (ImageRepositoryStatus_shape st) (ImageRepositoryStatusDie_DieImmutable L) (ImageRepositoryStatusDie_DieFeed L)
      (ImageRepositoryStatusDie_DieRelease L) (ImageRepositoryStatusDie_DeepCopy L) \<and>
    seals (ImageRepositoryStatusDie L) is_CImageRepositoryStatus is_CImageRepositoryStatusDie (ImageRepositoryStatus_shape st) (ImageRepositoryStatusDie_DieSeal L) (ImageRepositoryStatusDie_DieStamp L)
      (ImageRepositoryStatusDie_DieSealRelease L) \<and>
    persistent ArtifactDie is_CArtifactDie Artifact_shape ArtifactDie_DieImmutable ArtifactDie_DieFeed
      ArtifactDie_DieRelease ArtifactDie_DeepCopy \<and>
    seals ArtifactDie is_CArtifact is_CArtifactDie Artifact_shape ArtifactDie_DieSeal ArtifactDie_DieStamp
      ArtifactDie_DieSealRelease \<and>
    persistent (MavenArtifactDie L) is_CMavenArtifactDie (MavenArtifact_shape om st) (MavenArtifactDie_DieImmutable L) (MavenArtifactDie_DieFeed L)
      (MavenArtifactDie_DieRelease L) (MavenArtifactDie_DeepCopy L) \<and>
    seals (MavenArtifactDie L) is_CMavenArtifact is_CMavenArtifactDie (MavenArtifact_shape om st) (MavenArtifactDie_DieSeal L) (MavenArtifactDie_DieStamp L)
      (MavenArtifactDie_DieSealRelease L) \<and>
    persistent MavenArtifactSpecDie is_CMavenArtifactSpecDie MavenArtifactSpec_shape MavenArtifactSpecDie_DieImmutable MavenArtifactSpecDie_DieFeed
      MavenArtifactSpecDie_DieRelease MavenArtifactSpecDie_DeepCopy \<and>
    seals MavenArtifactSpecDie is_CMavenArtifactSpec is_CMavenArtifactSpecDie MavenArtifactSpec_shape MavenArtifactSpecDie_DieSeal MavenArtifactSpecDie_DieStamp
      MavenArtifactSpecDie_DieSealRelease \<and>
    persistent (MavenArtifactStatusDie L) is_CMavenArtifactStatusDie (MavenArtifactStatus_shape st) (MavenArtifactStatusDie_DieImmutable L) (MavenArtifactStatusDie_DieFeed L)
      (MavenArtifactStatusDie_DieRelease L) (MavenArtifactStatusDie_DeepCopy L) \<and>
    seals (MavenArtifactStatusDie L) is_CMavenArtifactStatus is_CMavenArtifactStatusDie (MavenArtifactStatus_shape st) (MavenArtifactStatusDie_DieSeal L) (MavenArtifactStatusDie_DieStamp L)
      (MavenArtifactStatusDie_DieSealRelease L) \<and>
    persistent MavenArtifactTypeDie is_CMavenArtifactTypeDie Flat MavenArtifactTypeDie_DieImmutable MavenArtifactTypeDie_DieFeed
      MavenArtifactTypeDie_DieRelease MavenArtifactTypeDie_DeepCopy \<and>
    seals MavenArtifactTypeDie is_CMavenArtifactType is_CMavenArtifactTypeDie Flat MavenArtifactTypeDie_DieSeal MavenArtifactTypeDie_DieStamp
      MavenArtifactTypeDie_DieSealRelease \<and>
    persistent RepositoryDie is_CRepositoryDie Flat RepositoryDie_DieImmutable RepositoryDie_DieFeed
      RepositoryDie_DieRelease RepositoryDie_DeepCopy \<and>
    seals RepositoryDie is_CRepository is_CRepositoryDie Flat RepositoryDie_DieSeal RepositoryDie_DieStamp
      RepositoryDie_DieSealRelease"
  unfolding ImageRepositoryDie_DieImmutable_def ImageRepositoryDie_DieFeed_def ImageRepositoryDie_DieRelease_def ImageRepositoryDie_DeepCopy_def ImageRepositoryDie_DieSeal_def ImageRepositoryDie_DieStamp_def ImageRepositoryDie_DieSealRelease_def
    ImageRepositorySpecDie_DieImmutable_def ImageRepositorySpecDie_DieFeed_def ImageRepositorySpecDie_DieRelease_def ImageRepositorySpecDie_DeepCopy_def ImageRepositorySpecDie_DieSeal_def ImageRepositorySpecDie_DieStamp_def ImageRepositorySpecDie_DieSealRelease_def
    ImageRepositoryStatusDie_DieImmutable_def ImageRepositoryStatusDie_DieFeed_def ImageRepositoryStatusDie_DieRelease_def ImageRepositoryStatusDie_DeepCopy_def ImageRepositoryStatusDie_DieSeal_def ImageRepositoryStatusDie_DieStamp_def ImageRepositoryStatusDie_DieSealRelease_def
    ArtifactDie_DieImmutable_def ArtifactDie_DieFeed_def ArtifactDie_DieRelease_def ArtifactDie_DeepCopy_def ArtifactDie_DieSeal_def ArtifactDie_DieStamp_def ArtifactDie_DieSealRelease_def
    MavenArtifactDie_DieImmutable_def MavenArtifactDie_DieFeed_def MavenArtifactDie_DieRelease_def MavenArtifactDie_DeepCopy_def MavenArtifactDie_DieSeal_def MavenArtifactDie_DieStamp_def MavenArtifactDie_DieSealRelease_def
    MavenArtifactSpecDie_DieImmutable_def MavenArtifactSpecDie_DieFeed_def MavenArtifactSpecDie_DieRelease_def MavenArtifactSpecDie_DeepCopy_def MavenArtifactSpecDie_DieSeal_def MavenArtifactSpecDie_DieStamp_def MavenArtifactSpecDie_DieSealRelease_def
    MavenArtifactStatusDie_DieImmutable_def MavenArtifactStatusDie_DieFeed_def MavenArtifactStatusDie_DieRelease_def MavenArtifactStatusDie_DeepCopy_def MavenArtifactStatusDie_DieSeal_def MavenArtifactStatusDie_DieStamp_def MavenArtifactStatusDie_DieSealRelease_def
    MavenArtifactTypeDie_DieImmutable_def MavenArtifactTypeDie_DieFeed_def MavenArtifactTypeDie_DieRelease_def MavenArtifactTypeDie_DeepCopy_def MavenArtifactTypeDie_DieSeal_def MavenArtifactTypeDie_DieStamp_def MavenArtifactTypeDie_DieSealRelease_def
    RepositoryDie_DieImmutable_def RepositoryDie_DieFeed_def RepositoryDie_DieRelease_def RepositoryDie_DeepCopy_def RepositoryDie_DieSeal_def RepositoryDie_DieStamp_def RepositoryDie_DieSealRelease_def
  by (intro conjI dies.persistent_law [OF object_dies(2) [OF assms]] dies.seals_law [OF object_dies(2) [OF assms]]
      image_spec_die.persistent_law image_spec_die.seals_law
      dies.persistent_law [OF object_dies(1) [OF assms]] dies.seals_law [OF object_dies(1) [OF assms]]
      artifact_die.persistent_law artifact_die.seals_law
      dies.persistent_law [OF object_dies(4) [OF assms]] dies.seals_law [OF object_dies(4) [OF assms]]
      maven_spec_die.persistent_law maven_spec_die.seals_law
      dies.persistent_law [OF object_dies(3) [OF assms]] dies.seals_law [OF object_dies(3) [OF assms]]
      maven_type_die.persistent_law maven_type_die.seals_law
      repository_die.persistent_law repository_die.seals_law)

text \<open>
  C39: stamping is safe. The callback of \<^verbatim>\<open>DieStamp\<close> or \<^verbatim>\<open>DieWith\<close> gets only new cells, so a callback
  that writes what it was given, and follows pointers from there, cannot change the immutable die nor
  anything older; the result is a new immutable die whose resource is what the callback made of a
  copy, and whose seal is the old one.
\<close>

theorem dies_stamp:
  assumes "lib_laws L om lm st" and "zero_laws L om st"
  shows "stamps (ImageRepositoryDie L) is_CImageRepository is_CImageRepositoryDie (ImageRepository_shape om st) (ImageRepositoryDie_DieStamp L) (ImageRepositoryDie_DieWith L) \<and>
    stamps ImageRepositorySpecDie is_CImageRepositorySpec is_CImageRepositorySpecDie ImageRepositorySpec_shape ImageRepositorySpecDie_DieStamp ImageRepositorySpecDie_DieWith \<and>
    stamps (ImageRepositoryStatusDie L) is_CImageRepositoryStatus is_CImageRepositoryStatusDie (ImageRepositoryStatus_shape st) (ImageRepositoryStatusDie_DieStamp L) (ImageRepositoryStatusDie_DieWith L) \<and>
    stamps ArtifactDie is_CArtifact is_CArtifactDie Artifact_shape ArtifactDie_DieStamp ArtifactDie_DieWith \<and>
    stamps (MavenArtifactDie L) is_CMavenArtifact is_CMavenArtifactDie (MavenArtifact_shape om st) (MavenArtifactDie_DieStamp L) (MavenArtifactDie_DieWith L) \<and>
    stamps MavenArtifactSpecDie is_CMavenArtifactSpec is_CMavenArtifactSpecDie MavenArtifactSpec_shape MavenArtifactSpecDie_DieStamp MavenArtifactSpecDie_DieWith \<and>
    stamps (MavenArtifactStatusDie L) is_CMavenArtifactStatus is_CMavenArtifactStatusDie (MavenArtifactStatus_shape st) (MavenArtifactStatusDie_DieStamp L) (MavenArtifactStatusDie_DieWith L) \<and>
    stamps MavenArtifactTypeDie is_CMavenArtifactType is_CMavenArtifactTypeDie Flat MavenArtifactTypeDie_DieStamp MavenArtifactTypeDie_DieWith \<and>
    stamps RepositoryDie is_CRepository is_CRepositoryDie Flat RepositoryDie_DieStamp RepositoryDie_DieWith"
  unfolding ImageRepositoryDie_DieStamp_def ImageRepositoryDie_DieWith_def
    ImageRepositorySpecDie_DieStamp_def ImageRepositorySpecDie_DieWith_def
    ImageRepositoryStatusDie_DieStamp_def ImageRepositoryStatusDie_DieWith_def
    ArtifactDie_DieStamp_def ArtifactDie_DieWith_def
    MavenArtifactDie_DieStamp_def MavenArtifactDie_DieWith_def
    MavenArtifactSpecDie_DieStamp_def MavenArtifactSpecDie_DieWith_def
    MavenArtifactStatusDie_DieStamp_def MavenArtifactStatusDie_DieWith_def
    MavenArtifactTypeDie_DieStamp_def MavenArtifactTypeDie_DieWith_def
    RepositoryDie_DieStamp_def RepositoryDie_DieWith_def
  by (intro conjI dies.stamps_law [OF object_dies(2) [OF assms]]
      image_spec_die.stamps_law
      dies.stamps_law [OF object_dies(1) [OF assms]]
      artifact_die.stamps_law
      dies.stamps_law [OF object_dies(4) [OF assms]]
      maven_spec_die.stamps_law
      dies.stamps_law [OF object_dies(3) [OF assms]]
      maven_type_die.stamps_law
      repository_die.stamps_law)


end
