(* ===== verification/Dies_Nested.thy ===== *)
theory Dies_Nested
  imports Dies
begin

text \<open>
  Dies in dies: what \<^verbatim>\<open>RepositoryDie\<close> of \<^verbatim>\<open>mavenartifact.go\<close> does to a spec that already has a
  repository, and a concrete heap for the laws of \<open>Dies\<close>.
\<close>

section \<open>A mutable die is written in place\<close>

context dies
begin

lemma mutable_stamp:
  assumes ok: "d < length h" and mut: "mutable (die_at T d h)"
    and run: "die_DieStamp T d (store (dt_C T) (dt_un T) f) h = (d', h')"
  shows "d' = d" and "die_r (die_at T d h') = f (die_r (die_at T d h))" and "mutable (die_at T d h')"
    and "length h \<le> length h'" and "a < length h \<Longrightarrow> a \<noteq> d \<Longrightarrow> h' ! a = h ! a"
proof -
  let ?D = "die_at T d h"
  let ?h2 = "h @ [dt_C T (f (die_r ?D))]"
  have D: "die_at T d ?h2 = ?D" using ok by (simp add: die_at_def nth_append)
  have "die_DieFeed T d (f (die_r ?D)) ?h2 = (d', h')"
    using run mut cellR
    by (simp add: die_DieStamp_def die_DieReleasePtr_def die_DieRelease_def new_def store_def cells_def)
  then have h': "d' = d" "h' = ?h2[d := dt_Die T (?D\<lparr>FrozenObjectMeta := dt_Freeze T (f (die_r ?D)), die_r := f (die_r ?D)\<rparr>)]"
    using mut D by (auto simp: die_DieFeed_def store_def die_at_def)
  then show "d' = d" "length h \<le> length h'" "a < length h \<Longrightarrow> a \<noteq> d \<Longrightarrow> h' ! a = h ! a"
    by (simp_all add: nth_append)
  have "die_at T d h' = ?D\<lparr>FrozenObjectMeta := dt_Freeze T (f (die_r ?D)), die_r := f (die_r ?D)\<rparr>"
    using ok cellD by (simp add: h' die_at_def cells_def)
  then show "die_r (die_at T d h') = f (die_r ?D)" "mutable (die_at T d h')" using mut by simp_all
qed

lemma mutable_feed:
  assumes ok: "d < length h" and mut: "mutable (die_at T d h)" and run: "die_DieFeed T d r h = (d', h')"
  shows "d' = d" and "die_r (die_at T d h') = r" and "mutable (die_at T d h')" and "length h' = length h"
    and "a \<noteq> d \<Longrightarrow> h' ! a = h ! a"
  using run mut ok cellD by (auto simp: die_DieFeed_def store_def die_at_def cells_def)

lemma fed:
  assumes "d < length h" and "die_DieFeed T d r h = (d', h')"
  shows "die_r (die_at T d' h') = r"
  using assms cellD by (auto simp: die_DieFeed_def new_def store_def die_at_def cells_def split: if_splits)

end

section \<open>RepositoryDie\<close>

text \<open>
  Setting the URL of the repository of a spec with \<^verbatim>\<open>RepositoryDie\<close> forgets its secret: the callback
  gets the die of an empty repository.
\<close>

lemma RepositoryDie_forgets:
  assumes d: "die_ok MavenArtifactSpecDie is_CMavenArtifactSpecDie MavenArtifactSpec_shape d h"
      "\<not> mutable (die_at MavenArtifactSpecDie d h)"
    and blank: "die_ok RepositoryDie is_CRepositoryDie Flat blank h" "\<not> mutable (die_at RepositoryDie blank h)"
    and run: "MavenArtifactSpecDie_RepositoryDie blank d (\<lambda>n h. snd (RepositoryDie_URL n u h)) h = (d', h')"
  shows "sms_Repository (die_r (die_at MavenArtifactSpecDie d' h')) = \<lparr>repo_URL = u, SecretRef = []\<rparr>"
proof -
  let ?S = MavenArtifactSpecDie and ?R = RepositoryDie
  let ?h0 = "h @ [CRepository zero_Repository]"
  have p0: "prefix h ?h0" by simp
  note d0 = maven_spec_die.die_grown [OF d(1) p0] and b0 = repository_die.die_grown [OF blank(1) p0]
  obtain r h1 where rel: "die_DieRelease ?S d ?h0 = (r, h1)" by fastforce
  note g1 = maven_spec_die.Release_law [OF d0(1) _ rel, unfolded d0(3), OF d(2)]
  let ?h2 = "h1 @ [CMavenArtifactSpec r]" and ?p = "length h1"
  have p2: "prefix ?h0 ?h2" using g1(1) by simp
  note b2 = repository_die.die_grown [OF b0(1) p2]
  obtain b h3 where im: "die_DieImmutable ?R blank False ?h2 = (b, h3)" by fastforce
  have imm2: "\<not> mutable (die_at ?R blank ?h2)" using b2(3) b0(3) blank(2) by simp
  note g3 = repository_die.Immutable_law [OF b2(1) imm2 im]
  have b: "b < length h3" "length ?h2 \<le> b" "mutable (die_at ?R b h3)"
    using g3(2,4,5) by (simp_all add: die_ok_def)
  have cells3: "h3 ! length h = CRepository zero_Repository" "h3 ! ?p = CMavenArtifactSpec r"
    using g1(1) g3(1) by (auto simp: prefix_def nth_append)
  obtain n h4 where fp: "die_DieFeedPtr ?R b (Some (length h)) h3 = (n, h4)" by fastforce
  then have feed: "die_DieFeed ?R b zero_Repository h3 = (n, h4)"
    using cells3(1) by (simp add: die_DieFeedPtr_def RepositoryDie_def)
  note g4 = repository_die.mutable_feed [OF b(1,3) feed]
  obtain n' h5 where st: "RepositoryDie_URL b u h4 = (n', h5)" by fastforce
  have b4: "b < length h4" using g4(4) b(1) by simp
  note g5 = repository_die.mutable_stamp [OF b4 g4(3) st [unfolded RepositoryDie_URL_def RepositoryDie_DieStamp_def
    repository_die_cells]]
  let ?u = "\<lparr>repo_URL = u, SecretRef = []\<rparr>"
  have r5: "die_r (die_at ?R b h5) = ?u" using g5(2) g4(2) by (simp add: zero_Repository_def)
  have ne: "?p \<noteq> b" "?p < length h3" using b(2) g3(1) prefix_length [OF g3(1)] by auto
  have p5: "h5 ! ?p = CMavenArtifactSpec r" using g5(5) [of ?p] g4(4,5) ne cells3(2) by simp
  have len5: "?p < length h5" using g5(4) g4(4) ne(2) by simp
  let ?h6 = "h5 @ [CRepository ?u]"
  have cb: "(case RepositoryDie_DieImmutable blank False ?h2 of
          (b, h1) \<Rightarrow> (case RepositoryDie_DieFeedPtr b (Some (length h)) h1 of
          (n, h2) \<Rightarrow> (case RepositoryDie_DieReleasePtr n (snd (RepositoryDie_URL n u h2)) of
          (q, h3) \<Rightarrow> store CMavenArtifactSpec un_MavenArtifactSpec
                      (\<lambda>s. s\<lparr>sms_Repository := un_Repository (h3 ! q)\<rparr>) ?p h3))) =
      ?h6[?p := CMavenArtifactSpec (r\<lparr>sms_Repository := ?u\<rparr>)]"
    using im fp g4(1) st g5(3) r5 p5 len5
    by (simp add: RepositoryDie_DieImmutable_def RepositoryDie_DieFeedPtr_def RepositoryDie_DieReleasePtr_def
        die_DieReleasePtr_def die_DieRelease_def new_def store_def nth_append RepositoryDie_def die_at_def)
  have "die_DieFeed ?S d (r\<lparr>sms_Repository := ?u\<rparr>) (?h6[?p := CMavenArtifactSpec (r\<lparr>sms_Repository := ?u\<rparr>)]) = (d', h')"
    using run rel cb len5
    by (simp add: MavenArtifactSpecDie_RepositoryDie_def new_def MavenArtifactSpecDie_DieStamp_def die_DieStamp_def
        die_DieReleasePtr_def MavenArtifactSpecDie_def Let_def)
  moreover have "d < length (?h6[?p := CMavenArtifactSpec (r\<lparr>sms_Repository := ?u\<rparr>)])"
    using d(1) g5(4) g4(4) prefix_length [OF g3(1)] prefix_length [OF g1(1)] by (simp add: die_ok_def)
  ultimately have "die_r (die_at ?S d' h') = r\<lparr>sms_Repository := ?u\<rparr>" using maven_spec_die.fed by blast
  then show ?thesis by simp
qed

section \<open>The laws at work\<close>

text \<open>A heap with an immutable die of a spec that has a timeout.\<close>

definition timeout_spec :: MavenArtifactSpec_s where
  "timeout_spec = zero_MavenArtifactSpec\<lparr>sms_Timeout := Some 0\<rparr>"

definition die_heap :: "(string \<times> addr option, (string \<times> string) list) heap" where
  "die_heap =
     [CDuration 5, CMavenArtifactSpecDie
        \<lparr>FrozenObjectMeta = None, mutable = False, die_r = timeout_spec, die_seal = zero_MavenArtifactSpec\<rparr>]"

lemma die_heap_ok:
  "die_ok MavenArtifactSpecDie is_CMavenArtifactSpecDie MavenArtifactSpec_shape 1 die_heap"
  "\<not> mutable (die_at MavenArtifactSpecDie 1 die_heap)"
  "die_state MavenArtifactSpecDie MavenArtifactSpec_shape 1 die_heap =
     (False, ((zero_MavenArtifactType, zero_Repository, 0), Some 5), ((zero_MavenArtifactType, zero_Repository, 0), None))"
  by (simp_all add: die_heap_def timeout_spec_def zero_MavenArtifactSpec_def die_ok_def die_at_def die_state_def
      MavenArtifactSpecDie_def MavenArtifactSpec_shape_def Struct_def Ptr_def Flat_def ptr_ok_def flat_ok_def
      field_val_def ptr_val_def flat_val_def)

lemma meta_zero_laws: "zero_laws meta_lib meta_shape meta_shape"
  by (simp add: zero_laws_def meta_lib_def meta_shape_def Let_def Pair_def pair_ok_def Flat_def flat_ok_def Ptr_def ptr_ok_def)

lemmas meta_laws = meta_lib_laws meta_zero_laws

theorem dies_persistent_witness:
  "\<exists>r h' a. MavenArtifactSpecDie_DieRelease 1 die_heap = (r, h') \<and> prefix die_heap h' \<and>
     sms_Timeout r = Some a \<and> 2 \<le> a \<and> h' ! a = CDuration 5"
proof -
  let ?sh = "MavenArtifactSpec_shape :: ((string \<times> addr option, (string \<times> string) list) cell, _, _) shape"
  obtain r h' where run: "MavenArtifactSpecDie_DieRelease 1 die_heap = (r, h')" by fastforce
  have "persistent MavenArtifactSpecDie is_CMavenArtifactSpecDie ?sh MavenArtifactSpecDie_DieImmutable
      MavenArtifactSpecDie_DieFeed MavenArtifactSpecDie_DieRelease MavenArtifactSpecDie_DeepCopy"
    using dies_persistent [OF meta_laws] by (elim conjE)
  with die_heap_ok(1,2) run have
    p: "prefix die_heap h'" and ok: "ok_of ?sh h' r" and v: "val_of ?sh h' r = fst (snd (die_state MavenArtifactSpecDie ?sh 1 die_heap))"
    and f: "refs_of ?sh h' r \<subseteq> {length die_heap..}"
    unfolding persistent_def by blast+
  have "ptr_val un_Duration flat_val h' (sms_Timeout r) = Some 5"
    using v die_heap_ok(3) by (simp add: MavenArtifactSpec_shape_def Struct_def Ptr_def Flat_def field_val_def)
  then obtain a where a: "sms_Timeout r = Some a" "un_Duration (h' ! a) = 5"
    by (auto simp: ptr_val_def flat_val_def)
  moreover have "is_CDuration (h' ! a)" "a \<in> refs_of ?sh h' r"
    using ok a(1) by (simp_all add: MavenArtifactSpec_shape_def Struct_def Ptr_def ptr_ok_def ptr_refs_def)
  ultimately have "h' ! a = CDuration 5" "2 \<le> a" using f by (auto simp: die_heap_def is_CDuration_def)
  with run p a(1) show ?thesis by blast
qed

text \<open>A callback that writes through the pointer to the timeout.\<close>

definition write_timeout :: "addr \<Rightarrow> ('x, 'l) heap \<Rightarrow> ('x, 'l) heap" where
  "write_timeout p h = (case sms_Timeout (un_MavenArtifactSpec (h ! p)) of None \<Rightarrow> h | Some a \<Rightarrow> h[a := CDuration 9])"

lemma write_timeout_fair: "fair_stamp MavenArtifactSpecDie is_CMavenArtifactSpec MavenArtifactSpec_shape (h :: ('x, 'l) heap) write_timeout"
  unfolding fair_stamp_def
proof (intro allI impI)
  fix p and h1 :: "('x, 'l) heap"
  assume h: "prefix h h1" "length h \<le> p" "p < length h1" "is_CMavenArtifactSpec (h1 ! p)"
    and ok: "ok_of MavenArtifactSpec_shape h1 (dt_un MavenArtifactSpecDie (h1 ! p))"
    and refs: "refs_of MavenArtifactSpec_shape h1 (dt_un MavenArtifactSpecDie (h1 ! p)) \<subseteq> {length h..} - {p}"
  let ?s = "un_MavenArtifactSpec (h1 ! p)"
  show "prefix h (write_timeout p h1) \<and> p < length (write_timeout p h1) \<and> is_CMavenArtifactSpec (write_timeout p h1 ! p) \<and>
      ok_of MavenArtifactSpec_shape (write_timeout p h1) (dt_un MavenArtifactSpecDie (write_timeout p h1 ! p))"
  proof (cases "sms_Timeout ?s")
    case None
    then show ?thesis using h ok by (simp add: write_timeout_def)
  next
    case (Some a)
    then have a: "length h \<le> a" "a \<noteq> p" "a < length h1"
      using refs ok by (auto simp: MavenArtifactSpecDie_def MavenArtifactSpec_shape_def Struct_def Ptr_def ptr_refs_def ptr_ok_def)
    then show ?thesis
      using h Some prefix_update [OF h(1) a(1)]
      by (simp add: write_timeout_def MavenArtifactSpecDie_def MavenArtifactSpec_shape_def Struct_def Ptr_def ptr_ok_def
          Flat_def flat_ok_def)
  qed
qed

theorem dies_stamp_witness:
  "\<exists>d' h'. MavenArtifactSpecDie_DieStamp 1 write_timeout die_heap = (d', h') \<and> h' ! 0 = CDuration 5 \<and> 2 \<le> d'"
proof -
  let ?sh = "MavenArtifactSpec_shape :: ((string \<times> addr option, (string \<times> string) list) cell, _, _) shape"
  obtain d' h' where run: "MavenArtifactSpecDie_DieStamp 1 write_timeout die_heap = (d', h')" by fastforce
  have "stamps MavenArtifactSpecDie is_CMavenArtifactSpec is_CMavenArtifactSpecDie ?sh
      MavenArtifactSpecDie_DieStamp MavenArtifactSpecDie_DieWith"
    using dies_stamp [OF meta_laws] by (elim conjE)
  with die_heap_ok(1,2) write_timeout_fair run have "prefix die_heap h'" "length die_heap \<le> d'"
    unfolding stamps_def by blast+
  with run show ?thesis by (auto simp: die_heap_def prefix_def)
qed


end
