(* ===== verification/Dies_Conditions.thy ===== *)
theory Dies_Conditions
  imports Dies_Nested
begin

text \<open>
  Conditions in the dies of a status: \<^verbatim>\<open>ConditionsDie\<close> of \<^verbatim>\<open>imagerepository.go\<close> and
  \<^verbatim>\<open>mavenartifact.go\<close>, and the blank dies of the conditions. A condition and its die belong to
  other repositories: the types \<open>'v\<close> and \<open>'d\<close>.
\<close>

section \<open>ConditionsDie\<close>

text \<open>
  The die of a condition, the backing array of a slice of conditions, and the field \<^verbatim>\<open>Conditions\<close>
  of the embedded \<^verbatim>\<open>apis.Status\<close>.
\<close>

record ('d, 'v, 'x, 'l) condition_dies =
  ConditionBlank :: 'd
  Condition_Type :: "'d \<Rightarrow> string \<Rightarrow> ('x, 'l) heap \<Rightarrow> 'd \<times> ('x, 'l) heap"
  Condition_DieRelease :: "'d \<Rightarrow> ('x, 'l) heap \<Rightarrow> 'v \<times> ('x, 'l) heap"
  zero_Condition :: 'v
  to_array :: "'v list \<Rightarrow> 'l"
  of_array :: "'l \<Rightarrow> 'v list"
  assign_Conditions :: "slice option \<Rightarrow> 'x \<Rightarrow> 'x"

text \<open>The loop \<^verbatim>\<open>for i := range conditions { r.Conditions[i] = conditions[i].DieRelease() }\<close>.\<close>

primrec release_each ::
  "('d, 'v, 'x, 'l) condition_dies \<Rightarrow> addr \<Rightarrow> 'd list \<Rightarrow> nat \<Rightarrow> ('x, 'l) heap \<Rightarrow> ('x, 'l) heap" where
  "release_each P out [] i h = h"
| "release_each P out (c # cs) i h =
     (case Condition_DieRelease P c h of
        (v, h1) \<Rightarrow> release_each P out cs (Suc i) (store CLib un_Lib (\<lambda>l. to_array P ((of_array P l)[i := v])) out h1))"

definition stamp_conditions ::
  "('d, 'v, 'x, 'l) condition_dies \<Rightarrow> ('r \<Rightarrow> ('x, 'l) cell) \<Rightarrow> (('x, 'l) cell \<Rightarrow> 'r) \<Rightarrow> (('x \<Rightarrow> 'x) \<Rightarrow> 'r \<Rightarrow> 'r) \<Rightarrow>
   'd list \<Rightarrow> addr \<Rightarrow> ('x, 'l) heap \<Rightarrow> ('x, 'l) heap" where
  "stamp_conditions P C un put conditions r h =
     (case new (CLib (to_array P (replicate (length conditions) (zero_Condition P)))) h of
        (out, h1) \<Rightarrow> release_each P out conditions 0
          (store C un (put (assign_Conditions P (Some \<lparr>sl_Array = out, sl_Off = 0, sl_Len = length conditions\<rparr>))) r h1))"

definition ImageRepositoryStatusDie_ConditionsDie where
  "ImageRepositoryStatusDie_ConditionsDie L P d conditions =
     ImageRepositoryStatusDie_DieStamp L d
       (stamp_conditions P CImageRepositoryStatus un_ImageRepositoryStatus sist_Status_update conditions)"

definition MavenArtifactStatusDie_ConditionsDie where
  "MavenArtifactStatusDie_ConditionsDie L P d conditions =
     MavenArtifactStatusDie_DieStamp L d
       (stamp_conditions P CMavenArtifactStatus un_MavenArtifactStatus smst_Status_update conditions)"

section \<open>The blank dies of the conditions\<close>

text \<open>\<open>ready\<close> is \<^verbatim>\<open>apis.ConditionReady\<close>.\<close>

definition ImageRepositoryConditionArtifactAvailableBlank where
  "ImageRepositoryConditionArtifactAvailableBlank P =
     Condition_Type P (ConditionBlank P) ImageRepositoryConditionArtifactAvailable"

definition ImageRepositoryConditionImageResolvedBlank where
  "ImageRepositoryConditionImageResolvedBlank P =
     Condition_Type P (ConditionBlank P) ImageRepositoryConditionImageResolved"

definition ImageRepositoryConditionReadyBlank where
  "ImageRepositoryConditionReadyBlank P ready = Condition_Type P (ConditionBlank P) (ready :: string)"

definition MavenArtifactConditionAvailableBlank where
  "MavenArtifactConditionAvailableBlank P =
     Condition_Type P (ConditionBlank P) MavenArtifactConditionArtifactAvailable"

definition MavenArtifactConditionVersionResolvedBlank where
  "MavenArtifactConditionVersionResolvedBlank P =
     Condition_Type P (ConditionBlank P) MavenArtifactConditionArtifactResolved"

definition MavenArtifactConditionReadyBlank where
  "MavenArtifactConditionReadyBlank P ready = Condition_Type P (ConditionBlank P) (ready :: string)"

section \<open>What is stamped\<close>

text \<open>
  The contract of the parameters: the die of a condition allocates and writes nothing older, an
  array holds its elements, conditions have no pointers, and a status may refer to any slice of
  conditions.
\<close>

definition condition_die_laws :: "('d, 'v, 'x, 'l) condition_dies \<Rightarrow> (('x, 'l) cell, 'x, 'w) shape \<Rightarrow> bool" where
  "condition_die_laws P st \<longleftrightarrow>
     (\<forall>c h v h'. Condition_DieRelease P c h = (v, h') \<longrightarrow> prefix h h') \<and>
     (\<forall>vs. of_array P (to_array P vs) = vs) \<and>
     (\<forall>h x a vs n. ok_of st h x \<longrightarrow> a < length h \<longrightarrow> h ! a = CLib (to_array P vs) \<longrightarrow> n \<le> length vs \<longrightarrow>
        ok_of st h (assign_Conditions P (Some \<lparr>sl_Array = a, sl_Off = 0, sl_Len = n\<rparr>) x))"

text \<open>The loop fills the array, at every index with what the die there releases.\<close>

lemma release_each_fills:
  assumes laws: "condition_die_laws P st"
  shows "out < length h \<Longrightarrow> h ! out = CLib (to_array P vs) \<Longrightarrow> i + length cs = length vs \<Longrightarrow>
    \<exists>ws. release_each P out cs i h ! out = CLib (to_array P ws) \<and> length ws = length vs \<and> take i ws = take i vs \<and>
      (\<forall>j < length cs. \<exists>g. ws ! (i + j) = fst (Condition_DieRelease P (cs ! j) g)) \<and>
      length h \<le> length (release_each P out cs i h) \<and>
      (\<forall>a < length h. a \<noteq> out \<longrightarrow> release_each P out cs i h ! a = h ! a)"
proof (induction cs arbitrary: i h vs)
  case (Cons c cs)
  obtain v h1 where run: "Condition_DieRelease P c h = (v, h1)" by fastforce
  then have p: "prefix h h1" using laws by (auto simp: condition_die_laws_def)
  then have h1: "out < length h1" "\<And>a. a < length h \<Longrightarrow> h1 ! a = h ! a" "length h \<le> length h1"
    using Cons.prems(1) by (auto simp: prefix_def nth_append)
  have inv: "of_array P (to_array P vs) = vs" using laws by (simp add: condition_die_laws_def)
  let ?h2 = "h1[out := CLib (to_array P (vs[i := v]))]"
  have step: "release_each P out (c # cs) i h = release_each P out cs (Suc i) ?h2"
    using run h1(2) Cons.prems(1,2) inv by (simp add: store_def)
  obtain ws where ws: "release_each P out cs (Suc i) ?h2 ! out = CLib (to_array P ws)" "length ws = length vs"
      "take (Suc i) ws = take (Suc i) (vs[i := v])"
      "\<forall>j < length cs. \<exists>g. ws ! (Suc i + j) = fst (Condition_DieRelease P (cs ! j) g)"
      "length h1 \<le> length (release_each P out cs (Suc i) ?h2)"
      "\<forall>a < length h1. a \<noteq> out \<longrightarrow> release_each P out cs (Suc i) ?h2 ! a = h1 ! a"
    using Cons.IH [of ?h2 "vs[i := v]" "Suc i"] h1(1) Cons.prems(3) by auto
  have i: "i < length vs" using Cons.prems(3) by simp
  have "ws ! i = v" using arg_cong [OF ws(3), of "\<lambda>xs. xs ! i"] ws(2) i by simp
  moreover have "take i ws = take i vs" using arg_cong [OF ws(3), of "take i"] by simp
  moreover have "\<exists>g. ws ! (i + j) = fst (Condition_DieRelease P ((c # cs) ! j) g)" if "j < length (c # cs)" for j
  proof (cases j)
    case 0
    with \<open>ws ! i = v\<close> run show ?thesis by (intro exI [of _ h]) simp
  next
    case (Suc k)
    with ws(4) that show ?thesis by simp
  qed
  ultimately show ?case unfolding step using ws(1,2,5,6) h1(2,3) by (intro exI [of _ ws]) auto
qed auto

lemma stamp_conditions_frame:
  fixes h1 :: "('x, 'l) heap"
  assumes laws: "condition_die_laws P st" and h: "prefix h h1" "length h \<le> p" "p < length h1"
    and h'_def: "h' = stamp_conditions P C un put cs p h1"
  defines "sl \<equiv> Some \<lparr>sl_Array = length h1, sl_Off = 0, sl_Len = length cs\<rparr>"
  obtains ws where "h' ! length h1 = CLib (to_array P ws)" and "length ws = length cs"
    and "\<And>j. j < length cs \<Longrightarrow> \<exists>g. ws ! j = fst (Condition_DieRelease P (cs ! j) g)"
    and "h' ! p = C (put (assign_Conditions P sl) (un (h1 ! p)))" and "prefix h h'" and "length h1 < length h'"
    and "\<And>a. a < length h1 \<Longrightarrow> a \<noteq> p \<Longrightarrow> h' ! a = h1 ! a"
proof -
  let ?z = "to_array P (replicate (length cs) (zero_Condition P))"
  let ?h2 = "store C un (put (assign_Conditions P sl)) p (h1 @ [CLib ?z])"
  have h': "h' = release_each P (length h1) cs 0 ?h2"
    by (simp add: h'_def stamp_conditions_def new_def sl_def)
  have h2: "length h1 < length ?h2" "?h2 ! length h1 = CLib ?z" using h(3) by (simp_all add: store_def)
  obtain ws where ws: "h' ! length h1 = CLib (to_array P ws)" "length ws = length cs"
      "\<forall>j < length cs. \<exists>g. ws ! j = fst (Condition_DieRelease P (cs ! j) g)"
      "length ?h2 \<le> length h'" "\<forall>a < length ?h2. a \<noteq> length h1 \<longrightarrow> h' ! a = ?h2 ! a"
    using release_each_fills [OF laws h2, of 0 cs] unfolding h' by auto
  have old: "h' ! a = h1 ! a" if "a < length h1" "a \<noteq> p" for a
    using ws(5) that by (simp add: store_def nth_append)
  moreover have "h' ! p = C (put (assign_Conditions P sl) (un (h1 ! p)))"
    using ws(5) h(3) by (simp add: store_def nth_append)
  moreover have "length h1 < length h'" using ws(4) by (simp add: store_def)
  moreover have "prefix h h'"
  proof -
    have "take (length h) h' = h"
    proof (rule nth_equalityI)
      show "length (take (length h) h') = length h" using \<open>length h1 < length h'\<close> prefix_length [OF h(1)] by simp
      show "take (length h) h' ! a = h ! a" if "a < length (take (length h) h')" for a
        using that old [of a] h by (auto simp: prefix_def nth_append)
    qed
    then show ?thesis by (metis take_is_prefix)
  qed
  ultimately show ?thesis using that ws(1-3) by blast
qed

lemma status_survives:
  assumes "copies st c" and "condition_die_laws P st" and "ok_of st h1 x" and "p \<notin> refs_of st h1 x"
    and "\<And>a. a < length h1 \<Longrightarrow> a \<noteq> p \<Longrightarrow> h' ! a = h1 ! a" and "length h1 < length h'"
    and "h' ! length h1 = CLib (to_array P ws)" and "length ws = n"
  shows "ok_of st h' (assign_Conditions P (Some \<lparr>sl_Array = length h1, sl_Off = 0, sl_Len = n\<rparr>) x)"
proof -
  have "go_type (refs_of st) (val_of st) (ok_of st)"
    using assms(1) by (auto simp: copies_def intro: deep_copy.axioms(1))
  note frame = go_type.frame [OF this assms(3)] and here = go_type.in_heap [OF this assms(3)]
  have "agree (refs_of st h1 x) h1 h'" using assms(4-6) here by (fastforce simp: agree_def)
  then show ?thesis using frame assms(2,6-8) by (simp add: condition_die_laws_def)
qed

lemma artifact_survives:
  assumes "ok_of ArtifactPtr h1 q" and "p \<notin> refs_of ArtifactPtr h1 q" and "length h1 < length h'"
    and "\<And>a. a < length h1 \<Longrightarrow> a \<noteq> p \<Longrightarrow> h' ! a = h1 ! a"
  shows "ok_of ArtifactPtr h' q"
  using assms
  by (auto simp: ArtifactPtr_def Ptr_def ptr_ok_def ptr_refs_def Artifact_shape_def shape_simps split: option.splits)

text \<open>Hence \<^verbatim>\<open>ConditionsDie\<close> is a stamp that plays by the rules, for both kinds of status.\<close>

lemma conditions_fair_at:
  assumes st: "copies st c" and laws: "condition_die_laws P st" and cell: "cells (dt_C T) isR (dt_un T)"
    and ok: "\<And>h r. ok_of sh h r \<longleftrightarrow> ok_of st h (status r) \<and> ok_of ArtifactPtr h (artifact r)"
    and refs: "\<And>h r. refs_of sh h r = refs_of st h (status r) \<union> refs_of ArtifactPtr h (artifact r)"
    and put: "\<And>f r. status (put f r) = f (status r)" "\<And>f r. artifact (put f r) = artifact r"
  shows "fair_stamp T isR sh h (stamp_conditions P (dt_C T) (dt_un T) put cs)"
  unfolding fair_stamp_def
proof (intro allI impI, goal_cases)
  case (1 p h1)
  define h' where "h' = stamp_conditions P (dt_C T) (dt_un T) put cs p h1"
  obtain ws where w: "h' ! length h1 = CLib (to_array P ws)" "length ws = length cs"
    and f: "prefix h h'" "length h1 < length h'"
    and p: "h' ! p = dt_C T (put (assign_Conditions P (Some \<lparr>sl_Array = length h1, sl_Off = 0, sl_Len = length cs\<rparr>)) (dt_un T (h1 ! p)))"
    and old: "\<And>a. a < length h1 \<Longrightarrow> a \<noteq> p \<Longrightarrow> h' ! a = h1 ! a"
    by (rule stamp_conditions_frame [OF laws 1(1-3) h'_def]) blast
  let ?r = "dt_un T (h1 ! p)"
  have r: "ok_of st h1 (status ?r)" "p \<notin> refs_of st h1 (status ?r)"
    "ok_of ArtifactPtr h1 (artifact ?r)" "p \<notin> refs_of ArtifactPtr h1 (artifact ?r)"
    using 1(5,6) ok refs by auto
  then have "ok_of sh h' (dt_un T (h' ! p))"
    using p cell status_survives [OF st laws r(1,2) old f(2) w] artifact_survives [OF r(3,4) f(2) old]
    by (simp add: ok put cells_def)
  then show ?case unfolding h'_def [symmetric] using f 1(3) p cell by (simp add: cells_def)
qed

lemma conditions_fair:
  assumes "lib_laws L om lm st" and "condition_die_laws P st"
  shows "fair_stamp (ImageRepositoryStatusDie L) is_CImageRepositoryStatus (ImageRepositoryStatus_shape st) h
      (stamp_conditions P CImageRepositoryStatus un_ImageRepositoryStatus sist_Status_update cs)"
    and "fair_stamp (MavenArtifactStatusDie L) is_CMavenArtifactStatus (MavenArtifactStatus_shape st) h
      (stamp_conditions P CMavenArtifactStatus un_MavenArtifactStatus smst_Status_update cs)"
proof -
  have st: "copies st (Status_DeepCopyInto L)" using assms(1) by (simp add: lib_laws_def)
  show "fair_stamp (ImageRepositoryStatusDie L) is_CImageRepositoryStatus (ImageRepositoryStatus_shape st) h
      (stamp_conditions P CImageRepositoryStatus un_ImageRepositoryStatus sist_Status_update cs)"
    using conditions_fair_at [OF st assms(2), of "ImageRepositoryStatusDie L" is_CImageRepositoryStatus
        "ImageRepositoryStatus_shape st" sist_Status sist_Artifact sist_Status_update h cs]
    by (simp add: ImageRepositoryStatusDie_def ImageRepositoryStatus_shape_def shape_simps cells_def)
  show "fair_stamp (MavenArtifactStatusDie L) is_CMavenArtifactStatus (MavenArtifactStatus_shape st) h
      (stamp_conditions P CMavenArtifactStatus un_MavenArtifactStatus smst_Status_update cs)"
    using conditions_fair_at [OF st assms(2), of "MavenArtifactStatusDie L" is_CMavenArtifactStatus
        "MavenArtifactStatus_shape st" smst_Status smst_Artifact smst_Status_update h cs]
    by (simp add: MavenArtifactStatusDie_def MavenArtifactStatus_shape_def shape_simps cells_def)
qed

text \<open>An immutable die keeps its conditions; the die that is returned is another.\<close>

lemma ConditionsDie_persistent:
  assumes "lib_laws L om lm st" and "zero_laws L om st" and "condition_die_laws P st"
  shows "die_ok (ImageRepositoryStatusDie L) is_CImageRepositoryStatusDie (ImageRepositoryStatus_shape st) d h \<Longrightarrow>
      \<not> mutable (die_at (ImageRepositoryStatusDie L) d h) \<Longrightarrow>
      ImageRepositoryStatusDie_ConditionsDie L P d cs h = (d', h') \<Longrightarrow> prefix h h' \<and> length h \<le> d'"
    and "die_ok (MavenArtifactStatusDie L) is_CMavenArtifactStatusDie (MavenArtifactStatus_shape st) d h \<Longrightarrow>
      \<not> mutable (die_at (MavenArtifactStatusDie L) d h) \<Longrightarrow>
      MavenArtifactStatusDie_ConditionsDie L P d cs h = (d', h') \<Longrightarrow> prefix h h' \<and> length h \<le> d'"
proof -
  note s = dies.stamps_law [OF object_dies(1) [OF assms(1,2)]] dies.stamps_law [OF object_dies(3) [OF assms(1,2)]]
  note fair = conditions_fair [OF assms(1,3)]
  show "prefix h h' \<and> length h \<le> d'"
    if "die_ok (ImageRepositoryStatusDie L) is_CImageRepositoryStatusDie (ImageRepositoryStatus_shape st) d h"
      "\<not> mutable (die_at (ImageRepositoryStatusDie L) d h)"
      "ImageRepositoryStatusDie_ConditionsDie L P d cs h = (d', h')"
    using s(1) that fair(1) [of h cs]
    unfolding stamps_def ImageRepositoryStatusDie_ConditionsDie_def ImageRepositoryStatusDie_DieStamp_def by blast
  show "prefix h h' \<and> length h \<le> d'"
    if "die_ok (MavenArtifactStatusDie L) is_CMavenArtifactStatusDie (MavenArtifactStatus_shape st) d h"
      "\<not> mutable (die_at (MavenArtifactStatusDie L) d h)"
      "MavenArtifactStatusDie_ConditionsDie L P d cs h = (d', h')"
    using s(2) that fair(2) [of h cs]
    unfolding stamps_def MavenArtifactStatusDie_ConditionsDie_def MavenArtifactStatusDie_DieStamp_def by blast
qed

end
