(* ===== verification/Spec2Isabelle.thy ===== *)
theory Spec2Isabelle
  imports Scenario Startup Requests Second_Run Dies_Conditions
begin

text \<open>
  Verification of the Tanzu source controller: a Kubernetes controller that fetches Maven artifacts
  and container images, packs them into tarballs below an artifact root directory, announces them in
  the status of the resource, and serves the directory over HTTP. The Go code is under
  \<^verbatim>\<open>src\<close>; the paths below are relative to it.

  \<^bold>\<open>The program.\<close> \<^verbatim>\<open>main.go\<close> parses flags, builds a
  manager with one reconciler per kind of resource and an artifact server on the same root
  directory, puts the admission webhook of MavenArtifact in front, and starts it. A reconciler is a
  sequence of sub-reconcilers that pass values through a stash: for a MavenArtifact the secrets (an
  HTTP client), the version (the file name and the URL, \<^verbatim>\<open>MavenResolver\<close>),
  and the download; for an ImageRepository the transport, the pull secrets, the digest and the pull.
  The last step of both packs and publishes: it copies the tarball to a
  \<^verbatim>\<open>.new\<close> file beside its place in the root and renames it. The server
  answers with the files of the root. Nothing else is shared: controllers and server meet on the
  disk.

  \<^bold>\<open>Go and its library.\<close> \<^verbatim>\<open>Prelude\<close>: errors as values
  with what they unwrap to, results (\<^verbatim>\<open>Ok\<close>,
  \<^verbatim>\<open>Error\<close>, \<^verbatim>\<open>Panic\<close>), the functions of
  \<^verbatim>\<open>strings\<close> and \<^verbatim>\<open>strconv\<close>.
  \<^verbatim>\<open>Go_Path\<close>: \<^verbatim>\<open>path\<close> and
  \<^verbatim>\<open>path/filepath\<close>. \<^verbatim>\<open>Go_OS\<close>: files and directories
  in a finite map from paths, the calls of \<^verbatim>\<open>os\<close> with a fault parameter for
  every call, and the locales \<^verbatim>\<open>confined\<close>, \<^verbatim>\<open>inside\<close>
  and \<^verbatim>\<open>publishing\<close>, which say where an operation writes.
  \<^verbatim>\<open>Go_Http\<close>: URLs, requests, and \<^verbatim>\<open>http.Client.Do\<close>
  on a parameter that answers one request. \<^verbatim>\<open>Sha1\<close>:
  \<^verbatim>\<open>crypto/sha1\<close> on words of 32 bits. \<^verbatim>\<open>Go_Heap\<close>:
  pointers and slices in a heap, the locales \<^verbatim>\<open>go_type\<close>,
  \<^verbatim>\<open>deep_copy\<close> and \<^verbatim>\<open>lens\<close>, and combinators for deep
  copies.

  \<^bold>\<open>The parts of the program.\<close> \<^verbatim>\<open>Maven_Metadata\<close>:
  \<^verbatim>\<open>pkg/mavenmetadata/mavenmetadata.go\<close>.
  \<^verbatim>\<open>Api_Types\<close>: the resources, conditions and artifact paths of
  \<^verbatim>\<open>apis/source/v1alpha1\<close>, as values.
  \<^verbatim>\<open>Api_Webhook\<close>: \<^verbatim>\<open>mavenartifact_defaults.go\<close> and
  \<^verbatim>\<open>mavenartifact_validation.go\<close>. \<^verbatim>\<open>Environment\<close>:
  the record \<^verbatim>\<open>env\<close> of everything the code calls that is not in this
  repository. \<^verbatim>\<open>Reconciler\<close>: the state of one reconcile (resource, stash,
  disk, requests sent) and sequences. \<^verbatim>\<open>Transport\<close>:
  \<^verbatim>\<open>controllers/transport.go\<close>. \<^verbatim>\<open>Maven_Resolver\<close>:
  \<^verbatim>\<open>MavenResolver\<close> and the downloads of
  \<^verbatim>\<open>controllers/internal.go\<close> and
  \<^verbatim>\<open>controllers/mavenartifact_controller.go\<close>.
  \<^verbatim>\<open>Artifact_Files\<close>: checksum, tarball, copies, archives, cache file, of
  both controllers. \<^verbatim>\<open>Maven_Controller\<close> and
  \<^verbatim>\<open>Image_Controller\<close>: the sub-reconcilers and finalizers of
  \<^verbatim>\<open>controllers/mavenartifact_controller.go\<close> and
  \<^verbatim>\<open>controllers/imagerepository_controller.go\<close>.
  \<^verbatim>\<open>Artifact_Server\<close>: \<^verbatim>\<open>server/artifact.go\<close>, with
  \<^verbatim>\<open>net/http.FileServer\<close> as its documentation has it.
  \<^verbatim>\<open>Manager\<close> and \<^verbatim>\<open>Startup\<close>: what
  \<^verbatim>\<open>main\<close> builds from the flags, and its calls to the runtime with every
  exit. \<^verbatim>\<open>System\<close>: the running program, a step relation on the resources of
  the cluster and the disk, whose steps are what users do, whole reconciles and finalizers.
  \<^verbatim>\<open>Go_Structs\<close> and \<^verbatim>\<open>Deep_Copy\<close>: the structs as Go
  has them, with pointers and slices, and \<^verbatim>\<open>zz_generated.deepcopy.go\<close>.
  \<^verbatim>\<open>Die\<close>, \<^verbatim>\<open>Dies_Image\<close>,
  \<^verbatim>\<open>Dies_Maven\<close> and \<^verbatim>\<open>Dies_Conditions\<close>:
  \<^verbatim>\<open>dies/source/v1alpha1\<close>, the generated builders and those written by hand.

  \<^bold>\<open>What is proved.\<close> Confinement: \<^verbatim>\<open>Go_OS\<close>,
  \<^verbatim>\<open>Artifact_Files\<close>, \<^verbatim>\<open>Maven_Sync\<close>,
  \<^verbatim>\<open>Image_Sync\<close> show for every operation where it writes, under all faults
  and all input: archives do not escape, a reconcile stays in its temporary directory and in the
  directory of its resource, publication is atomic. Integrity:
  \<^verbatim>\<open>Maven_Sync\<close>, \<^verbatim>\<open>Image_Sync\<close>,
  \<^verbatim>\<open>Publishing\<close> show that what a run announces is on disk with the checksum
  announced. \<^verbatim>\<open>Store\<close>, \<^verbatim>\<open>Maven_Store\<close>,
  \<^verbatim>\<open>Image_Store\<close> put this as a refinement: on an abstract map from resource
  and file name to bytes a run is one update or none. \<^verbatim>\<open>System\<close> lifts it to
  all reachable states: what any status announces the server serves, reconciles do not panic, and
  nothing is left of resources that are gone; \<^verbatim>\<open>Scenario\<close> runs it. Liveness:
  \<^verbatim>\<open>Maven_Live\<close> and \<^verbatim>\<open>Image_Live\<close> compute the run
  without faults, and \<^verbatim>\<open>Second_Run\<close> the run after it, which does not
  download again. Requests go to the origin with the credentials of the resource
  (\<^verbatim>\<open>Go_Http\<close>, \<^verbatim>\<open>Maven_Resolver\<close>), and are few
  (\<^verbatim>\<open>Requests\<close>). Outcomes: \<^verbatim>\<open>Maven_Steps\<close>,
  \<^verbatim>\<open>Maven_Runs\<close>, \<^verbatim>\<open>Image_Runs\<close> give every
  sub-reconciler's result, condition and stash, and when the download panics.
  \<^verbatim>\<open>Transport\<close>, \<^verbatim>\<open>Maven_Metadata\<close>,
  \<^verbatim>\<open>Api_Webhook\<close> and \<^verbatim>\<open>Artifact_Server\<close> have the
  functional behaviour of these parts. Heap: deep copies share nothing with the original
  (\<^verbatim>\<open>Deep_Copy\<close>); immutable dies are persistent values, and each setter
  replaces one field of a copy (\<^verbatim>\<open>Die_Laws\<close>,
  \<^verbatim>\<open>Dies\<close>, \<^verbatim>\<open>Dies_Nested\<close>,
  \<^verbatim>\<open>Dies_Conditions\<close>).

  \<^bold>\<open>Bounds.\<close> There is no fuel. The loop of redirects ends because
  \<^verbatim>\<open>sameHostRedirectPolicy\<close> stops at
  \<^verbatim>\<open>maxRedirects\<close>, ten requests; its measure is the number left. A reconcile
  of a MavenArtifact sends at most forty requests. The other loops recurse on a list. Durations and
  status codes are unbounded integers: the code only compares and copies them.

  \<^bold>\<open>What is a parameter.\<close> \<^verbatim>\<open>env\<close>: conditions, stash and
  API client of the runtime, the registry client, the encodings of XML, tar, gzip and zip, X.509,
  URLs, the clock, the faults of the disk. Laws that a theorem needs are premises
  (\<^verbatim>\<open>stash_laws\<close>, \<^verbatim>\<open>condition_laws\<close>,
  \<^verbatim>\<open>set_laws\<close>, \<^verbatim>\<open>pull_laws\<close>,
  \<^verbatim>\<open>digest_laws\<close>, \<^verbatim>\<open>sequence_laws\<close>), which concrete
  environments of the witnesses satisfy (\<^verbatim>\<open>Environment\<close>,
  \<^verbatim>\<open>Maven_Live\<close>, \<^verbatim>\<open>Image_Live\<close>).
  \<^verbatim>\<open>lib\<close>: the deep copies of \<^verbatim>\<open>metav1.ObjectMeta\<close>,
  \<^verbatim>\<open>metav1.ListMeta\<close> and \<^verbatim>\<open>apis.Status\<close>, and
  encodings, reflection and comparison for the dies; \<^verbatim>\<open>condition_dies\<close>: the
  dies of conditions. The calls to the controller runtime in \<^verbatim>\<open>Startup\<close>.

  \<^bold>\<open>Assumptions on runs.\<close> One reconcile is one step: the runtime does not run
  two reconciles of one resource at a time, and different resources write to different directories.
  A client of the server sees a state between steps; that the path it reads never holds a partial
  file in between is the theorem on atomic publication.

  \<^bold>\<open>Not modelled.\<close> The watches and trackers that
  \<^verbatim>\<open>SetupWithManager\<close> sets up, scheme registration and the parsing of flags:
  calls of libraries with no logic of their own. Listening and closing of the server. The no-op
  logger of \<^verbatim>\<open>internal.go\<close> and constants that nothing reads.
  \<^verbatim>\<open>testing/\<close>: helpers of tests around a registry of a third party.
  Concurrency inside one reconcile: the code has none.
\<close>

end
